(* ===== verification/Prelude.thy ===== *)
theory Prelude
  imports Complex_Main "HOL-Library.Word" "HOL-Library.Product_Lexorder"
begin

text \<open>
  Shared material of the development: Rust's \<^verbatim>\<open>Result\<close> as a sum with its \<^verbatim>\<open>?\<close>
  operator, tables as lists of rows with the SQL statements the repositories issue on
  them (\<^verbatim>\<open>select ... limit 1\<close>, \<^verbatim>\<open>update ... where\<close>, \<^verbatim>\<open>delete ... where\<close>,
  \<^verbatim>\<open>order by\<close>), the conversions between Rust's integer widths, and two interfaces
  that several components provide: an operation deduplicated by an idempotency key,
  and a status machine with absorbing states.
\<close>

named_theorems table_simps \<open>rewriting of table selections and updates\<close>

section \<open>Results\<close>

text \<open>\<open>Inl\<close> is \<^verbatim>\<open>Err\<close>, \<open>Inr\<close> is \<^verbatim>\<open>Ok\<close>; \<open>bind_r\<close> is Rust's \<^verbatim>\<open>?\<close>.\<close>

definition bind_r :: "'e + 'a \<Rightarrow> ('a \<Rightarrow> 'e + 'b) \<Rightarrow> 'e + 'b" where
  "bind_r r f = (case r of Inl e \<Rightarrow> Inl e | Inr a \<Rightarrow> f a)"

lemma bind_r_simps [simp]:
  "bind_r (Inl e) f = Inl e"
  "bind_r (Inr a) f = f a"
  by (simp_all add: bind_r_def)

lemma bind_r_eq_Inr [simp]: "bind_r r f = Inr b \<longleftrightarrow> (\<exists>a. r = Inr a \<and> f a = Inr b)"
  by (cases r) auto

lemma bind_r_eq_Inl: "bind_r r f = Inl e \<longleftrightarrow> r = Inl e \<or> (\<exists>a. r = Inr a \<and> f a = Inl e)"
  by (cases r) auto

lemma bind_r_split:
  "P (bind_r r f) \<longleftrightarrow> (\<forall>e. r = Inl e \<longrightarrow> P (Inl e)) \<and> (\<forall>a. r = Inr a \<longrightarrow> P (f a))"
  by (cases r) auto

definition ok_or :: "'a option \<Rightarrow> 'e \<Rightarrow> 'e + 'a" where
  "ok_or x e = (case x of None \<Rightarrow> Inl e | Some a \<Rightarrow> Inr a)"

lemma ok_or_simps [simp]:
  "ok_or None e = Inl e"
  "ok_or (Some a) e = Inr a"
  "ok_or x e = Inr a \<longleftrightarrow> x = Some a"
  by (auto simp: ok_or_def split: option.splits)

definition unwrap_or :: "'a option \<Rightarrow> 'a \<Rightarrow> 'a" where
  "unwrap_or x d = (case x of None \<Rightarrow> d | Some a \<Rightarrow> a)"

lemma unwrap_or_simps [simp]: "unwrap_or None d = d" "unwrap_or (Some a) d = a"
  by (simp_all add: unwrap_or_def)

text \<open>SQL's \<^verbatim>\<open>coalesce\<close> on a nullable new value and a nullable old one.\<close>

definition coalesce :: "'a option \<Rightarrow> 'a option \<Rightarrow> 'a option" where
  "coalesce x y = (case x of None \<Rightarrow> y | Some a \<Rightarrow> Some a)"

lemma coalesce_simps [simp]: "coalesce None y = y" "coalesce (Some a) y = Some a"
  by (simp_all add: coalesce_def)

section \<open>Tables\<close>

text \<open>
  A table is the list of its rows in insertion order. \<open>find\<close> of the library is
  \<^verbatim>\<open>select ... where P limit 1\<close>; \<open>upd P f\<close> is \<^verbatim>\<open>update ... set f where P\<close>;
  \<open>filter\<close> is a \<^verbatim>\<open>select ... where P\<close>.
\<close>

definition upd :: "('r \<Rightarrow> bool) \<Rightarrow> ('r \<Rightarrow> 'r) \<Rightarrow> 'r list \<Rightarrow> 'r list" where
  "upd P f rs = map (\<lambda>r. if P r then f r else r) rs"

definition rows_affected :: "('r \<Rightarrow> bool) \<Rightarrow> 'r list \<Rightarrow> nat" where
  "rows_affected P rs = length (filter P rs)"

text \<open>\<^verbatim>\<open>order by k limit 1\<close>; ties keep the table's order, which SQL leaves open.\<close>

definition first_by :: "('r \<Rightarrow> 'k::linorder) \<Rightarrow> 'r list \<Rightarrow> 'r option" where
  "first_by k rs = (case sort_key k rs of [] \<Rightarrow> None | r # _ \<Rightarrow> Some r)"

definition order_by :: "('r \<Rightarrow> 'k::linorder) \<Rightarrow> 'r list \<Rightarrow> 'r list" where
  "order_by k rs = sort_key k rs"

lemma upd_Nil [simp]: "upd P f [] = []"
  by (simp add: upd_def)

lemma upd_Cons [simp]: "upd P f (r # rs) = (if P r then f r else r) # upd P f rs"
  by (simp add: upd_def)

lemma upd_append [simp]: "upd P f (rs @ ss) = upd P f rs @ upd P f ss"
  by (simp add: upd_def)

lemma length_upd [simp]: "length (upd P f rs) = length rs"
  by (simp add: upd_def)

lemma map_upd_key [table_simps]: "(\<And>r. P r \<Longrightarrow> k (f r) = k r) \<Longrightarrow> map k (upd P f rs) = map k rs"
  by (induction rs) auto

lemma set_upd: "set (upd P f rs) = (\<lambda>r. if P r then f r else r) ` set rs"
  by (simp add: upd_def)

lemma upd_idle [table_simps]: "(\<And>r. r \<in> set rs \<Longrightarrow> \<not> P r) \<Longrightarrow> upd P f rs = rs"
  by (induction rs) auto

lemma upd_False [simp]: "upd (\<lambda>_. False) f rs = rs"
  by (simp add: upd_def)

lemma in_set_upd:
  "r \<in> set (upd P f rs) \<Longrightarrow> (r \<in> set rs \<and> \<not> P r) \<or> (\<exists>s \<in> set rs. P s \<and> r = f s)"
  by (auto simp: set_upd split: if_splits)

lemma find_append: "find P (rs @ ss) = (case find P rs of None \<Rightarrow> find P ss | Some r \<Rightarrow> Some r)"
  by (induction rs) auto

lemma find_upd_Q:
  "(\<And>r. P r \<Longrightarrow> Q (f r) = Q r) \<Longrightarrow>
   find Q (upd P f rs) = map_option (\<lambda>r. if P r then f r else r) (find Q rs)"
  by (induction rs) auto

lemma find_SomeD: "find P rs = Some r \<Longrightarrow> r \<in> set rs \<and> P r"
  by (auto simp: find_Some_iff)

lemma find_NoneD: "find P rs = None \<Longrightarrow> r \<in> set rs \<Longrightarrow> \<not> P r"
  by (auto simp: find_None_iff)

lemma first_by_SomeD:
  assumes "first_by k rs = Some r"
  shows "r \<in> set rs" and "\<And>s. s \<in> set rs \<Longrightarrow> k r \<le> k s"
proof -
  from assms obtain ss where s: "sort_key k rs = r # ss"
    by (auto simp: first_by_def split: list.splits)
  show "r \<in> set rs"
    using set_sort [of k rs] s by auto
  fix s assume "s \<in> set rs"
  then have "s \<in> set (r # ss)" using set_sort [of k rs] s by simp
  moreover have "sorted (map k (r # ss))" using sorted_sort_key [of k rs] s by simp
  ultimately show "k r \<le> k s" by auto
qed

lemma first_by_None [simp]: "first_by k rs = None \<longleftrightarrow> rs = []"
proof -
  have "sort_key k rs = [] \<longleftrightarrow> rs = []"
    by (metis length_0_conv length_sort)
  then show ?thesis by (auto simp: first_by_def split: list.splits)
qed

lemma set_order_by [simp]: "set (order_by k rs) = set rs"
  by (simp add: order_by_def)

text \<open>Rows with pairwise distinct keys are determined by their key.\<close>

lemma distinct_key_eq:
  "distinct (map k rs) \<Longrightarrow> r \<in> set rs \<Longrightarrow> s \<in> set rs \<Longrightarrow> k r = k s \<Longrightarrow> r = s"
  by (induction rs) (auto simp: rev_image_eqI)

lemma find_key:
  "distinct (map k rs) \<Longrightarrow> r \<in> set rs \<Longrightarrow> find (\<lambda>s. k s = k r) rs = Some r"
  by (induction rs) (auto simp: rev_image_eqI)

lemma filter_upd_length:
  "(\<And>r. P r \<Longrightarrow> Q (f r) = Q r) \<Longrightarrow> length (filter Q (upd P f rs)) = length (filter Q rs)"
  by (induction rs) auto

text \<open>A unique key stays unique when a row is inserted only if its key is not taken.\<close>

lemma distinct_insert_new:
  assumes "distinct (map k rs)" and "\<And>r. r \<in> set rs \<Longrightarrow> k r \<noteq> k x"
  shows "distinct (map k (rs @ [x]))"
proof -
  have "k x \<notin> k ` set rs" using assms(2) by (metis imageE)
  then show ?thesis using assms(1) by simp
qed

lemma find_eq_None: "find P rs = None \<longleftrightarrow> (\<forall>r \<in> set rs. \<not> P r)"
  by (auto simp: find_None_iff)

text \<open>An update that moves rows out of a selection leaves the selection a part of the old one.\<close>

lemma filter_upd_sub:
  assumes "\<And>r. P r \<Longrightarrow> \<not> Q (f r)"
  shows "filter Q (upd P f rs) = filter (\<lambda>r. Q r \<and> \<not> P r) rs"
  using assms by (induction rs) auto

lemma distinct_map_filter_sub:
  "distinct (map k (filter Q rs)) \<Longrightarrow> distinct (map k (filter (\<lambda>r. Q r \<and> R r) rs))"
  by (induction rs) (auto split: if_splits)

section \<open>Integer widths\<close>

text \<open>Rust's \<^verbatim>\<open>i32\<close>, \<^verbatim>\<open>u32\<close>, \<^verbatim>\<open>i64\<close> and \<^verbatim>\<open>u64\<close> as the integers in range; \<^verbatim>\<open>try_from\<close> fails
  outside the range.\<close>

definition i32_max :: int where "i32_max = 2147483647"
definition u32_max :: int where "u32_max = 4294967295"
definition i64_max :: int where "i64_max = 9223372036854775807"
definition u64_max :: int where "u64_max = 18446744073709551615"

definition in_i32 :: "int \<Rightarrow> bool" where "in_i32 n \<longleftrightarrow> - i32_max - 1 \<le> n \<and> n \<le> i32_max"
definition in_i64 :: "int \<Rightarrow> bool" where "in_i64 n \<longleftrightarrow> - i64_max - 1 \<le> n \<and> n \<le> i64_max"

definition i32_try_from :: "int \<Rightarrow> int option" where
  "i32_try_from n = (if in_i32 n then Some n else None)"

definition u32_try_from :: "int \<Rightarrow> int option" where
  "u32_try_from n = (if 0 \<le> n \<and> n \<le> u32_max then Some n else None)"

definition clamp :: "int \<Rightarrow> int \<Rightarrow> int \<Rightarrow> int" where
  "clamp n lo hi = (if n < lo then lo else if hi < n then hi else n)"

lemma clamp_bounds: "lo \<le> hi \<Longrightarrow> lo \<le> clamp n lo hi \<and> clamp n lo hi \<le> hi"
  by (auto simp: clamp_def)

text \<open>The two idioms the licensing code clamps device limits with never take their fallback.\<close>

lemma i32_clamped: "unwrap_or (i32_try_from (clamp n 0 i32_max)) d = clamp n 0 i32_max"
  by (auto simp: i32_try_from_def in_i32_def clamp_def i32_max_def)

lemma u32_nonneg: "n \<le> i32_max \<Longrightarrow> unwrap_or (u32_try_from (max n 0)) d = max n 0"
  by (auto simp: u32_try_from_def i32_max_def u32_max_def)

section \<open>Instants\<close>

text \<open>\<^verbatim>\<open>DateTime<Utc>\<close> and \<^verbatim>\<open>chrono::Duration\<close>: nanoseconds since the epoch.\<close>

type_synonym time = int

definition secs :: "int \<Rightarrow> time" where "secs n = n * 1000000000"

lemma secs_simps [simp]: "secs 0 = 0" "secs m < secs n \<longleftrightarrow> m < n" "secs m \<le> secs n \<longleftrightarrow> m \<le> n"
  by (simp_all add: secs_def)

text \<open>
  One reading of \<^verbatim>\<open>Utc::now()\<close> with what the sources derive from it through chrono: the
  calendar year and the \<^verbatim>\<open>%Y-%m\<close> and \<^verbatim>\<open>%Y-%m-%d\<close> texts.
\<close>

record utc_now =
  un_time :: time
  un_year :: int
  un_month_key :: string
  un_day_key :: string

section \<open>Operations deduplicated by a key\<close>

text \<open>
  The contract of an idempotent operation: \<open>lookup k s\<close> finds what an earlier call with
  key \<open>k\<close> recorded, \<open>op k a s\<close> runs the operation with argument \<open>a\<close>. A recorded key is
  answered with the record and changes nothing; a call that records leaves its record to be
  found. \<open>replayed r\<close> is the answer that only repeats the record \<open>r\<close>.
\<close>

locale idempotent_op =
  fixes lookup :: "'k \<Rightarrow> 's \<Rightarrow> 'r option"
    and op :: "'k \<Rightarrow> 'a \<Rightarrow> 's \<Rightarrow> 'res \<times> 's"
    and replayed :: "'r \<Rightarrow> 'res"
    and recorded :: "'res \<Rightarrow> 'r option"
  assumes replays: "lookup k s = Some r \<Longrightarrow> op k a s = (replayed r, s)"
    and records: "op k a s = (res, s') \<Longrightarrow> recorded res = Some r \<Longrightarrow> lookup k s' = Some r"
begin

text \<open>A retry after a call that recorded something repeats the record and changes nothing.\<close>

lemma retry: "op k a s = (res, s') \<Longrightarrow> recorded res = Some r \<Longrightarrow> op k b s' = (replayed r, s')"
  by (rule replays) (rule records)

lemma retries_recorded: "lookup k s = Some r \<Longrightarrow> fold (\<lambda>a t. snd (op k a t)) as s = s"
  by (induction as) (simp_all add: replays)

text \<open>However often a recorded call is retried, with whatever argument, the state stays.\<close>

lemma retries_idle:
  "op k a s = (res, s') \<Longrightarrow> recorded res = Some r \<Longrightarrow> fold (\<lambda>a t. snd (op k a t)) as s' = s'"
  by (rule retries_recorded) (rule records)

end

section \<open>Status machines\<close>

text \<open>
  A step function on statuses with a set of absorbing ones, and its runs over the inputs.
\<close>

locale status_machine =
  fixes step :: "'i \<Rightarrow> 's \<Rightarrow> 's"
    and final :: "'s \<Rightarrow> bool"
  assumes absorbing: "final s \<Longrightarrow> step i s = s"
begin

text \<open>A run over a list of inputs is the library's \<open>fold step\<close>.\<close>

lemma run_final: "final s \<Longrightarrow> fold step is s = s"
  by (induction "is") (simp_all add: absorbing)

lemma run_final_append: "final (fold step is s) \<Longrightarrow> fold step (is @ js) s = fold step is s"
  by (simp add: run_final)

lemma run_invariant:
  assumes "\<And>i s. I s \<Longrightarrow> I (step i s)" and "I s"
  shows "I (fold step is s)"
  using assms(2) by (induction "is" arbitrary: s) (auto intro: assms(1))

end

section \<open>Runs of a step relation\<close>

text \<open>What every step keeps, every run keeps. A run may also be related to its start.\<close>

locale preserved =
  fixes step :: "'s \<Rightarrow> 's \<Rightarrow> bool"
    and kept :: "'s \<Rightarrow> bool"
  assumes step_keeps: "step x y \<Longrightarrow> kept x \<Longrightarrow> kept y"
begin

lemma run_keeps: "step\<^sup>*\<^sup>* x y \<Longrightarrow> kept x \<Longrightarrow> kept y"
  by (induction rule: rtranclp_induct) (auto intro: step_keeps)

lemma run_relates:
  assumes run: "step\<^sup>*\<^sup>* x y" and x: "kept x" and start: "R x x"
    and next': "\<And>y z. R x y \<Longrightarrow> kept y \<Longrightarrow> step y z \<Longrightarrow> R x z"
  shows "R x y"
  using run
proof (induction rule: rtranclp_induct)
  case (step y z)
  then show ?case using next' run_keeps [OF step(1) x] by blast
qed (rule start)

end

text \<open>A property that is kept where another one holds.\<close>

locale preserved_beside = preserved +
  fixes extra :: "'a \<Rightarrow> bool"
  assumes step_keeps_extra: "step x y \<Longrightarrow> kept x \<Longrightarrow> extra x \<Longrightarrow> extra y"

sublocale preserved_beside \<subseteq> both: preserved step "\<lambda>x. kept x \<and> extra x"
  by unfold_locales (blast intro: step_keeps step_keeps_extra)

text \<open>A concrete relation whose steps are steps of an abstract machine.\<close>

locale simulated =
  fixes abs :: "'c \<Rightarrow> 'a"
    and step :: "'c \<Rightarrow> 'c \<Rightarrow> bool"
    and abs_step :: "'a \<Rightarrow> 'a \<Rightarrow> bool"
  assumes simulates: "step x y \<Longrightarrow> abs_step (abs x) (abs y)"
begin

lemma run_simulates: "step\<^sup>*\<^sup>* x y \<Longrightarrow> abs_step\<^sup>*\<^sup>* (abs x) (abs y)"
  by (induction rule: rtranclp_induct) (auto intro: rtranclp.rtrancl_into_rtrancl simulates)

end

text \<open>What the machine keeps of its states, the concrete runs keep of their abstractions.\<close>

locale simulated_keeping = simulated + machine: preserved abs_step abs_kept for abs_kept
begin

lemma concrete_run_keeps: "step\<^sup>*\<^sup>* x y \<Longrightarrow> abs_kept (abs x) \<Longrightarrow> abs_kept (abs y)"
  by (rule machine.run_keeps [OF run_simulates])

end

end
