(* ===== verification/F64.thy ===== *)
theory F64
  imports Prelude "HOL-Library.Log_Nat"
begin

text \<open>
  Rust's \<^verbatim>\<open>f64\<close>: an IEEE 754 binary64 value as an exact rational, an infinity or a NaN,
  with every arithmetic result rounded to nearest, ties to even. The two zeros are one
  value here: the sources compare, add, subtract and multiply amounts but never divide by
  an amount, so the sign of a zero is not observable in a decision. The last part states
  what the code relies on when PostgreSQL keeps an amount in a \<^verbatim>\<open>numeric\<close> column and hands
  it back as \<^verbatim>\<open>float8\<close>, and shows that rounding to fifteen significant decimal digits, the
  cast's documented behaviour, satisfies it.
\<close>

datatype f64 = Fin rat | Inf bool | NaN

section \<open>Rounding to a number of significant digits\<close>

text \<open>\<open>ilog b x\<close> is the exponent \<open>e\<close> with \<open>b ^ e \<le> x < b ^ (e + 1)\<close>, for \<open>x > 0\<close>.\<close>

definition ilog :: "nat \<Rightarrow> rat \<Rightarrow> int" where
  "ilog b x = (let (p, q) = quotient_of x;
                   k = int (floorlog b (nat p)) - int (floorlog b (nat q))
               in if x < of_nat b powi k then k - 1 else k)"

text \<open>Round to the nearest integer, ties to even.\<close>

definition rne :: "rat \<Rightarrow> int" where
  "rne y = (let m = \<lfloor>y\<rfloor>; d = y - of_int m
            in if d < 1/2 then m else if 1/2 < d then m + 1 else if even m then m else m + 1)"

definition round_sig :: "nat \<Rightarrow> int \<Rightarrow> int \<Rightarrow> rat \<Rightarrow> rat" where
  "round_sig b p emin x =
     (if x = 0 then 0
      else let e = max emin (ilog b \<bar>x\<bar> - (p - 1))
           in of_int (rne (x / of_nat b powi e)) * of_nat b powi e)"

lemma rne_of_int [simp]: "rne (of_int n) = n"
  by (simp add: rne_def)

lemma quotient_of_of_int [simp]: "quotient_of (of_int n) = (n, 1)"
  by (simp add: quotient_of_int)

lemma ilog_of_int:
  assumes "2 \<le> b" and "0 < n"
  shows "of_nat b powi (ilog b (of_int n)) \<le> (of_int n :: rat)"
    and "(of_int n :: rat) < of_nat b powi (ilog b (of_int n) + 1)"
proof -
  let ?k = "floorlog b (nat n)"
  have b1: "1 < b" using assms by simp
  have n0: "0 < nat n" using assms by simp
  have fl: "b ^ (?k - 1) \<le> nat n \<and> nat n < b ^ ?k"
    using floorlog_bounds [OF n0 b1] .
  have one: "floorlog b 1 = 1"
    using b1 by (simp add: floorlog_def)
  have k1: "1 \<le> ?k"
    using b1 n0 by (simp add: floorlog_def)
  have rn: "(of_int n :: rat) = of_nat (nat n)"
    using assms by simp
  have lo: "(of_nat b :: rat) powi (int ?k - 1) \<le> of_int n"
  proof -
    have "(of_nat b :: rat) powi (int ?k - 1) = of_nat (b ^ (?k - 1))"
      using k1 by (simp add: power_int_def nat_diff_distrib')
    also have "\<dots> \<le> of_nat (nat n)" using fl by (simp only: of_nat_le_iff)
    finally show ?thesis by (simp only: rn)
  qed
  have hi: "(of_int n :: rat) < of_nat b powi (int ?k)"
  proof -
    have "of_nat (nat n) < (of_nat (b ^ ?k) :: rat)" using fl by (simp only: of_nat_less_iff)
    then show ?thesis by (simp only: rn) simp
  qed
  have e: "ilog b (of_int n) = int ?k - 1"
    using lo one by (simp add: ilog_def Let_def not_less)
  show "of_nat b powi (ilog b (of_int n)) \<le> (of_int n :: rat)"
    using lo by (simp only: e)
  show "(of_int n :: rat) < of_nat b powi (ilog b (of_int n) + 1)"
    using hi by (simp add: e)
qed


text \<open>Whole numbers of at most \<open>p\<close> digits are kept as they are.\<close>

lemma powi_neg_cancel:
  assumes "e \<le> 0" and "(0::rat) < c"
  shows "of_int n / c powi e = of_int n * c ^ nat (- e)"
proof -
  have "c powi e = inverse (c ^ nat (- e))"
    using assms by (simp add: power_int_def power_inverse)
  then show ?thesis by (simp add: divide_inverse)
qed

lemma round_sig_whole:
  assumes b: "2 \<le> b" and p: "1 \<le> p" and emin: "emin \<le> 0" and n: "\<bar>n\<bar> \<le> int b ^ nat p"
  shows "round_sig b p emin (of_int n) = of_int n"
proof (cases "n = 0")
  case True
  then show ?thesis by (simp add: round_sig_def)
next
  case False
  define c :: rat where "c = of_nat b"
  define L where "L = ilog b (of_int \<bar>n\<bar>)"
  define e where "e = max emin (L - (p - 1))"
  have c: "1 < c" "0 < c" using b by (simp_all add: c_def)
  have m: "0 < \<bar>n\<bar>" using False by simp
  have lo: "c powi L \<le> of_int \<bar>n\<bar>"
    using ilog_of_int(1) [OF b m] by (simp add: c_def L_def)
  have hi: "(of_int \<bar>n\<bar> :: rat) \<le> c powi p"
  proof -
    have "(of_int \<bar>n\<bar> :: rat) \<le> of_int (int b ^ nat p)" using n by (simp only: of_int_le_iff)
    then show ?thesis using p by (simp add: c_def power_int_def)
  qed
  have "L \<le> p"
    using lo hi c power_int_strict_increasing [of p L c] by fastforce
  then have e1: "e \<le> 1" using emin by (simp add: e_def)
  have "\<exists>z. of_int n / c powi e = (of_int z :: rat)"
  proof (cases "e \<le> 0")
    case True
    have "of_int n / c powi e = (of_int (n * int b ^ nat (- e)) :: rat)"
      using powi_neg_cancel [OF True c(2), of n] by (simp add: c_def)
    then show ?thesis by blast
  next
    case F: False
    then have e_eq: "e = 1" and "L = p" using e1 \<open>L \<le> p\<close> emin by (auto simp: e_def max_def split: if_splits)
    then have "(of_int \<bar>n\<bar> :: rat) = c powi p" using lo hi by simp
    also have "\<dots> = of_int (int b ^ nat p)" using p by (simp add: c_def power_int_def)
    finally have "\<bar>n\<bar> = int b ^ nat p" by (simp only: of_int_eq_iff)
    moreover have "int b ^ nat p = int b * int b ^ (nat p - 1)"
      using p by (simp flip: power_Suc)
    ultimately have "int b dvd \<bar>n\<bar>" by simp
    then have "int b dvd n" by (simp only: dvd_abs_iff)
    then obtain z where "n = z * int b" by (auto simp: dvd_def mult.commute)
    then have "of_int n / c powi e = (of_int z :: rat)"
      using b by (simp add: e_eq c_def)
    then show ?thesis by blast
  qed
  then obtain z where z: "of_int n / c powi e = (of_int z :: rat)" by blast
  then have "rne (of_int n / c powi e) = z" by simp
  moreover have "of_int z * c powi e = (of_int n :: rat)"
    using z c by (simp add: field_simps)
  ultimately show ?thesis
    using False by (simp add: round_sig_def e_def L_def c_def Let_def)
qed

section \<open>binary64\<close>

definition f64_round :: "rat \<Rightarrow> f64" where
  "f64_round x =
     (let v = round_sig 2 53 (- 1074) x
      in if 2 ^ 1024 \<le> \<bar>v\<bar> then Inf (v < 0) else Fin v)"

lemma f64_round_whole:
  assumes "\<bar>n\<bar> \<le> 2 ^ 53"
  shows "f64_round (of_int n) = Fin (of_int n)"
proof -
  have "\<bar>of_int n :: rat\<bar> = of_int \<bar>n\<bar>" by simp
  also have "\<dots> \<le> of_int (2 ^ 53)" using assms by (simp only: of_int_le_iff)
  also have "\<dots> < 2 ^ 1024" by simp
  finally have "\<not> 2 ^ 1024 \<le> \<bar>of_int n :: rat\<bar>" by simp
  moreover have "round_sig 2 53 (- 1074) (of_int n) = of_int n"
    using assms by (intro round_sig_whole) auto
  ultimately show ?thesis
    by (simp add: f64_round_def)
qed


text \<open>Whole values are evaluated without the rounding.\<close>

lemma quotient_of_whole: "quotient_of x = (p, 1) \<Longrightarrow> x = of_int p"
  using quotient_of_div [of x p 1] by simp

lemma f64_round_exec [code]:
  "f64_round x = (case quotient_of x of (p, q) \<Rightarrow>
     if q = 1 \<and> \<bar>p\<bar> \<le> 2 ^ 53 then Fin x
     else (let v = round_sig 2 53 (- 1074) x
           in if 2 ^ 1024 \<le> \<bar>v\<bar> then Inf (v < 0) else Fin v))"
proof (cases "quotient_of x")
  case (Pair p q)
  show ?thesis
  proof (cases "q = 1 \<and> \<bar>p\<bar> \<le> 2 ^ 53")
    case True
    then have "x = of_int p" using quotient_of_whole Pair by blast
    then show ?thesis using f64_round_whole [of p] True by simp
  next
    case False
    then show ?thesis by (simp only: Pair prod.case False if_False f64_round_def)
  qed
qed


fun f64_neg :: "f64 \<Rightarrow> f64" where
  "f64_neg (Fin a) = Fin (- a)"
| "f64_neg (Inf s) = Inf (\<not> s)"
| "f64_neg NaN = NaN"

fun f64_add :: "f64 \<Rightarrow> f64 \<Rightarrow> f64" where
  "f64_add (Fin a) (Fin b) = f64_round (a + b)"
| "f64_add (Inf s) (Inf t) = (if s = t then Inf s else NaN)"
| "f64_add (Inf s) (Fin _) = Inf s"
| "f64_add (Fin _) (Inf t) = Inf t"
| "f64_add NaN _ = NaN"
| "f64_add _ NaN = NaN"

definition f64_sub :: "f64 \<Rightarrow> f64 \<Rightarrow> f64" where
  "f64_sub a b = f64_add a (f64_neg b)"

lemma f64_NaN_arith [simp]: "f64_add a NaN = NaN" "f64_sub NaN a = NaN" "f64_sub a NaN = NaN"
proof -
  show add: "f64_add a NaN = NaN" for a by (cases a) auto
  show "f64_sub NaN a = NaN" "f64_sub a NaN = NaN" by (simp_all add: f64_sub_def add)
qed

fun f64_mul :: "f64 \<Rightarrow> f64 \<Rightarrow> f64" where
  "f64_mul (Fin a) (Fin b) = f64_round (a * b)"
| "f64_mul (Inf s) (Inf t) = Inf (s \<noteq> t)"
| "f64_mul (Inf s) (Fin b) = (if b = 0 then NaN else Inf (s \<noteq> (b < 0)))"
| "f64_mul (Fin a) (Inf t) = (if a = 0 then NaN else Inf (t \<noteq> (a < 0)))"
| "f64_mul NaN _ = NaN"
| "f64_mul _ NaN = NaN"

text \<open>Division by a non-zero constant, the only division the sources perform.\<close>

fun f64_div_const :: "f64 \<Rightarrow> rat \<Rightarrow> f64" where
  "f64_div_const (Fin a) c = f64_round (a / c)"
| "f64_div_const (Inf s) c = Inf (s \<noteq> (c < 0))"
| "f64_div_const NaN c = NaN"

fun f64_lt :: "f64 \<Rightarrow> f64 \<Rightarrow> bool" where
  "f64_lt (Fin a) (Fin b) = (a < b)"
| "f64_lt (Inf s) (Inf t) = (s \<and> \<not> t)"
| "f64_lt (Inf s) (Fin _) = s"
| "f64_lt (Fin _) (Inf t) = (\<not> t)"
| "f64_lt NaN _ = False"
| "f64_lt _ NaN = False"

fun f64_eq :: "f64 \<Rightarrow> f64 \<Rightarrow> bool" where
  "f64_eq NaN _ = False"
| "f64_eq _ NaN = False"
| "f64_eq a b = (a = b)"

definition f64_le :: "f64 \<Rightarrow> f64 \<Rightarrow> bool" where
  "f64_le a b \<longleftrightarrow> f64_lt a b \<or> f64_eq a b"

fun f64_is_finite :: "f64 \<Rightarrow> bool" where
  "f64_is_finite (Fin _) = True"
| "f64_is_finite _ = False"

fun f64_abs :: "f64 \<Rightarrow> f64" where
  "f64_abs (Fin a) = Fin \<bar>a\<bar>"
| "f64_abs (Inf _) = Inf False"
| "f64_abs NaN = NaN"

text \<open>Rust's \<^verbatim>\<open>as f64\<close> on an integer rounds to nearest.\<close>

definition f64_of_int :: "int \<Rightarrow> f64" where
  "f64_of_int n = f64_round (of_int n)"

text \<open>Away from NaN the comparisons are those of a linear order.\<close>

lemma f64_le_iff_not_lt: "a \<noteq> NaN \<Longrightarrow> b \<noteq> NaN \<Longrightarrow> f64_le a b \<longleftrightarrow> \<not> f64_lt b a"
  by (cases a; cases b) (auto simp: f64_le_def)

lemma f64_le_trans: "f64_le a b \<Longrightarrow> f64_le b c \<Longrightarrow> f64_le a c"
  by (cases a; cases b; cases c) (auto simp: f64_le_def)

lemma f64_lt_le_trans: "f64_lt a b \<Longrightarrow> f64_le b c \<Longrightarrow> f64_lt a c"
  by (cases a; cases b; cases c) (auto simp: f64_le_def)

lemma f64_le_lt_trans: "f64_le a b \<Longrightarrow> f64_lt b c \<Longrightarrow> f64_lt a c"
  by (cases a; cases b; cases c) (auto simp: f64_le_def)

lemma f64_lt_irrefl [simp]: "\<not> f64_lt a a"
  by (cases a) auto

lemma f64_not_NaN: "f64_le a b \<Longrightarrow> a \<noteq> NaN \<and> b \<noteq> NaN" "f64_lt a b \<Longrightarrow> a \<noteq> NaN \<and> b \<noteq> NaN"
  by (cases a; cases b; auto simp: f64_le_def)+

section \<open>Whole amounts\<close>

text \<open>A whole amount: exact as long as results stay within 53 bits.\<close>

definition wh :: "int \<Rightarrow> f64" where "wh n = Fin (of_int n)"

lemma wh_inject [simp]: "wh m = wh n \<longleftrightarrow> m = n"
  by (simp add: wh_def)

lemma f64_le_Fin [simp]: "f64_le (Fin a) (Fin b) \<longleftrightarrow> a \<le> b"
  by (auto simp: f64_le_def)

lemma f64_le_NaN [simp]: "\<not> f64_le NaN a" "\<not> f64_le a NaN" "\<not> f64_lt NaN a" "\<not> f64_lt a NaN"
  by (cases a; simp add: f64_le_def)+

lemma wh_cmp [simp]:
  "f64_lt (wh m) (wh n) \<longleftrightarrow> m < n"
  "f64_le (wh m) (wh n) \<longleftrightarrow> m \<le> n"
  "f64_eq (wh m) (wh n) \<longleftrightarrow> m = n"
  "f64_is_finite (wh n)"
  "f64_abs (wh n) = wh \<bar>n\<bar>"
  "f64_neg (wh n) = wh (- n)"
  by (simp_all add: wh_def)

lemma wh_zero: "Fin 0 = wh 0"
  by (simp add: wh_def)

lemma wh_arith:
  "\<bar>m + n\<bar> \<le> 2 ^ 53 \<Longrightarrow> f64_add (wh m) (wh n) = wh (m + n)"
  "\<bar>m - n\<bar> \<le> 2 ^ 53 \<Longrightarrow> f64_sub (wh m) (wh n) = wh (m - n)"
  "\<bar>m * n\<bar> \<le> 2 ^ 53 \<Longrightarrow> f64_mul (wh m) (wh n) = wh (m * n)"
  "\<bar>n\<bar> \<le> 2 ^ 53 \<Longrightarrow> f64_of_int n = wh n"
  using f64_round_whole [of "m + n"] f64_round_whole [of "m - n"] f64_round_whole [of "m * n"]
    f64_round_whole [of n]
  by (simp_all add: wh_def f64_sub_def f64_of_int_def)

section \<open>The numeric columns behind the amounts\<close>

text \<open>
  The usage tables keep amounts in \<^verbatim>\<open>numeric\<close> columns, and every query of the repositories
  reads them \<^verbatim>\<open>::float8\<close> and writes a \<^verbatim>\<open>float8\<close>. \<open>col\<close> is that round trip,
  \<open>sum8\<close> is \<^verbatim>\<open>sum(amount)::float8\<close>. PostgreSQL is not part of the repository: both are
  parameters of the model, and what the usage code relies on is that whole amounts below
  \<open>10 ^ 15\<close> survive.
\<close>

definition whole_ok :: "int \<Rightarrow> bool" where
  "whole_ok n \<longleftrightarrow> \<bar>n\<bar> < 10 ^ 15"

locale numeric_column =
  fixes col :: "f64 \<Rightarrow> f64"
    and sum8 :: "f64 list \<Rightarrow> f64"
  assumes col_whole: "whole_ok n \<Longrightarrow> col (wh n) = wh n"
    and sum8_whole: "whole_ok (sum_list ns) \<Longrightarrow> sum8 (map wh ns) = wh (sum_list ns)"
begin

lemma col_add: "whole_ok (m + n) \<Longrightarrow> col (f64_add (wh m) (wh n)) = wh (m + n)"
  by (simp add: wh_arith col_whole whole_ok_def)

lemma col_sub: "whole_ok (m - n) \<Longrightarrow> col (f64_sub (wh m) (wh n)) = wh (m - n)"
  by (simp add: wh_arith col_whole whole_ok_def)

end

text \<open>The documented cast: fifteen significant decimal digits, read back to the nearest binary64.\<close>

fun pg_col :: "f64 \<Rightarrow> f64" where
  "pg_col (Fin x) = f64_round (round_sig 10 15 (- 16383) x)"
| "pg_col x = x"

text \<open>\<^verbatim>\<open>sum\<close> adds exactly and is cast once.\<close>

fun exact_sum :: "f64 list \<Rightarrow> f64" where
  "exact_sum [] = Fin 0"
| "exact_sum (Fin a # xs) = (case exact_sum xs of Fin b \<Rightarrow> Fin (a + b) | y \<Rightarrow> y)"
| "exact_sum (x # xs) = f64_add x (exact_sum xs)"

definition pg_sum :: "f64 list \<Rightarrow> f64" where
  "pg_sum xs = (case exact_sum xs of Fin a \<Rightarrow> f64_round a | y \<Rightarrow> y)"

lemma exact_sum_whole: "exact_sum (map wh ns) = wh (sum_list ns)"
  by (induction ns) (simp_all add: wh_def)

interpretation pg: numeric_column pg_col pg_sum
proof unfold_locales
  fix n :: int assume n: "whole_ok n"
  have "round_sig 10 15 (- 16383) (of_int n) = of_int n"
    using n by (intro round_sig_whole) (auto simp: whole_ok_def)
  moreover have "f64_round (of_int n) = Fin (of_int n)"
    using n by (intro f64_round_whole) (simp add: whole_ok_def)
  ultimately show "pg_col (wh n) = wh n" by (simp add: wh_def)
next
  fix ns :: "int list" assume "whole_ok (sum_list ns)"
  then have "f64_round (of_int (sum_list ns)) = Fin (of_int (sum_list ns))"
    by (intro f64_round_whole) (simp add: whole_ok_def)
  then show "pg_sum (map wh ns) = wh (sum_list ns)"
    by (simp add: pg_sum_def exact_sum_whole) (simp add: wh_def)
qed

lemma pg_col_exec [code]:
  "pg_col (Fin x) = (case quotient_of x of (p, q) \<Rightarrow>
     if q = 1 \<and> \<bar>p\<bar> < 10 ^ 15 then Fin x else f64_round (round_sig 10 15 (- 16383) x))"
  "pg_col (Inf b) = Inf b" "pg_col NaN = NaN"
proof -
  show "pg_col (Fin x) = (case quotient_of x of (p, q) \<Rightarrow>
     if q = 1 \<and> \<bar>p\<bar> < 10 ^ 15 then Fin x else f64_round (round_sig 10 15 (- 16383) x))"
  proof (cases "quotient_of x")
    case (Pair p q)
    show ?thesis
    proof (cases "q = 1 \<and> \<bar>p\<bar> < 10 ^ 15")
      case True
      then have "x = of_int p" using quotient_of_whole Pair by blast
      then show ?thesis using pg.col_whole [of p] True by (simp add: whole_ok_def wh_def)
    next
      case False
      then show ?thesis by (simp only: Pair prod.case False if_False pg_col.simps)
    qed
  qed
qed simp_all

end
