(* ===== verification/Rust_Str.thy ===== *)
theory Rust_Str
  imports Prelude "HOL-Library.Char_ord"
begin

text \<open>
  Rust strings as the sources use them. A \<^verbatim>\<open>&str\<close> is its sequence of UTF-8 bytes, a
  \<open>string\<close> whose characters are bytes, so \<open>length\<close> is Rust's \<^verbatim>\<open>len()\<close>. A test on the
  characters that only ASCII characters can pass is the same test on the bytes, because
  every byte of a longer encoding is at least 128; the tests that look at other characters
  (white space in \<^verbatim>\<open>trim\<close>, \<^verbatim>\<open>char::is_control\<close>) spell out the encodings. Slicing off a
  character boundary panics in Rust and is \<open>None\<close> here.
\<close>

text \<open>A \<^verbatim>\<open>Uuid\<close> is its hyphenated text.\<close>

type_synonym uuid = string

definition byte :: "char \<Rightarrow> int" where "byte c = of_char c"

section \<open>ASCII classes\<close>

definition is_digit :: "char \<Rightarrow> bool" where "is_digit c \<longleftrightarrow> 48 \<le> byte c \<and> byte c \<le> 57"
definition is_lower :: "char \<Rightarrow> bool" where "is_lower c \<longleftrightarrow> 97 \<le> byte c \<and> byte c \<le> 122"
definition is_upper :: "char \<Rightarrow> bool" where "is_upper c \<longleftrightarrow> 65 \<le> byte c \<and> byte c \<le> 90"

definition is_alnum :: "char \<Rightarrow> bool" where
  "is_alnum c \<longleftrightarrow> is_digit c \<or> is_lower c \<or> is_upper c"

definition is_hexdigit :: "char \<Rightarrow> bool" where
  "is_hexdigit c \<longleftrightarrow> is_digit c \<or> (97 \<le> byte c \<and> byte c \<le> 102) \<or> (65 \<le> byte c \<and> byte c \<le> 70)"

definition lower_char :: "char \<Rightarrow> char" where
  "lower_char c = (if is_upper c then char_of (byte c + 32) else c)"

definition upper_char :: "char \<Rightarrow> char" where
  "upper_char c = (if is_lower c then char_of (byte c - 32) else c)"

definition to_lower :: "string \<Rightarrow> string" where "to_lower s = map lower_char s"
definition to_upper :: "string \<Rightarrow> string" where "to_upper s = map upper_char s"

lemma length_to_lower [simp]: "length (to_lower s) = length s"
  by (simp add: to_lower_def)

lemma length_to_upper [simp]: "length (to_upper s) = length s"
  by (simp add: to_upper_def)

lemma byte_char_of: "0 \<le> n \<Longrightarrow> n < 256 \<Longrightarrow> byte (char_of n) = n"
  by (simp add: byte_def)

lemma byte_bounds [simp]: "0 \<le> byte c" "byte c < 256"
proof -
  have "byte c = int (of_char c)"
    by (simp only: byte_def of_nat_of_char)
  moreover have "of_char c < (256 :: nat)"
    by (rule nat_of_char_less_256)
  ultimately show "0 \<le> byte c" and "byte c < 256"
    by simp_all
qed

lemma not_upper_lower_char: "\<not> is_upper (lower_char c)"
  by (auto simp: lower_char_def is_upper_def byte_char_of)

lemma not_lower_upper_char: "\<not> is_lower (upper_char c)"
  by (auto simp: upper_char_def is_lower_def byte_char_of)

lemma to_lower_idem [simp]: "to_lower (to_lower s) = to_lower s"
  by (simp add: to_lower_def comp_def lower_char_def [of "lower_char _"] not_upper_lower_char)

lemma to_upper_idem [simp]: "to_upper (to_upper s) = to_upper s"
  by (simp add: to_upper_def comp_def upper_char_def [of "upper_char _"] not_lower_upper_char)

section \<open>trim\<close>

text \<open>
  The length of the white-space character at the head, 0 if there is none: U+0009 to
  U+000D and U+0020 in one byte, U+0085 and U+00A0 in two, U+1680, U+2000 to U+200A,
  U+2028, U+2029, U+202F, U+205F and U+3000 in three.
\<close>

definition ws1 :: "char \<Rightarrow> bool" where
  "ws1 c \<longleftrightarrow> (9 \<le> byte c \<and> byte c \<le> 13) \<or> byte c = 32"

definition ws2 :: "char \<Rightarrow> char \<Rightarrow> bool" where
  "ws2 c d \<longleftrightarrow> byte c = 194 \<and> (byte d = 133 \<or> byte d = 160)"

definition ws3 :: "char \<Rightarrow> char \<Rightarrow> char \<Rightarrow> bool" where
  "ws3 c d e \<longleftrightarrow>
     (byte c = 225 \<and> byte d = 154 \<and> byte e = 128)
     \<or> (byte c = 226 \<and> byte d = 128
        \<and> ((128 \<le> byte e \<and> byte e \<le> 138) \<or> byte e = 168 \<or> byte e = 169 \<or> byte e = 175))
     \<or> (byte c = 226 \<and> byte d = 129 \<and> byte e = 159)
     \<or> (byte c = 227 \<and> byte d = 128 \<and> byte e = 128)"

fun ws_len :: "string \<Rightarrow> nat" where
  "ws_len [] = 0"
| "ws_len [c] = (if ws1 c then 1 else 0)"
| "ws_len [c, d] = (if ws1 c then 1 else if ws2 c d then 2 else 0)"
| "ws_len (c # d # e # r) =
     (if ws1 c then 1 else if ws2 c d then 2 else if ws3 c d e then 3 else 0)"

definition last_n :: "nat \<Rightarrow> string \<Rightarrow> string" where
  "last_n k s = drop (length s - k) s"

text \<open>The length of the white-space character at the end, 0 if there is none.\<close>

definition ws_end :: "string \<Rightarrow> nat" where
  "ws_end s = (if ws_len (last_n 1 s) = 1 then 1
               else if ws_len (last_n 2 s) = 2 then 2
               else if ws_len (last_n 3 s) = 3 then 3 else 0)"

lemma ws_len_le: "ws_len s \<le> length s"
  by (cases s rule: ws_len.cases) auto

lemma ws_len_1: "ws_len (c # s) = 1 \<longleftrightarrow> ws1 c"
  by (cases "c # s" rule: ws_len.cases) auto

lemma ws_len_2: "ws_len (c # d # s) = 2 \<longleftrightarrow> \<not> ws1 c \<and> ws2 c d"
  by (cases "c # d # s" rule: ws_len.cases) auto

lemma ws_len_append: "0 < ws_len s \<Longrightarrow> ws_len (s @ t) = ws_len s"
  using ws_len_1 [of "hd s" "tl s @ t"] ws_len_2 [of "hd s" "hd (tl s)" "tl (tl s) @ t"]
  by (cases s rule: ws_len.cases) (auto split: if_splits)

lemma ws_end_le: "ws_end s \<le> length s"
  using ws_len_le [of "last_n 1 s"] ws_len_le [of "last_n 2 s"] ws_len_le [of "last_n 3 s"]
  by (auto simp: ws_end_def last_n_def split: if_splits)

function trim_start :: "string \<Rightarrow> string" where
  "trim_start s = (if ws_len s = 0 then s else trim_start (drop (ws_len s) s))"
  by pat_completeness auto
termination
proof (relation "measure length")
  fix s assume "ws_len s \<noteq> 0"
  then show "(drop (ws_len s) s, s) \<in> measure length"
    using ws_len_le [of s] by simp
qed simp

function trim_end :: "string \<Rightarrow> string" where
  "trim_end s = (if ws_end s = 0 then s else trim_end (take (length s - ws_end s) s))"
  by pat_completeness auto
termination
proof (relation "measure length")
  fix s assume "ws_end s \<noteq> 0"
  then show "(take (length s - ws_end s) s, s) \<in> measure length"
    using ws_end_le [of s] by simp
qed simp

declare trim_start.simps [simp del] trim_end.simps [simp del]

definition trim :: "string \<Rightarrow> string" where "trim s = trim_end (trim_start s)"

lemma ws_len_trim_start: "ws_len (trim_start s) = 0"
  by (induction s rule: trim_start.induct) (subst trim_start.simps, simp)

lemma ws_end_trim_end: "ws_end (trim_end s) = 0"
  by (induction s rule: trim_end.induct) (subst trim_end.simps, simp)

lemma trim_end_prefix: "\<exists>t. s = trim_end s @ t"
proof (induction s rule: trim_end.induct)
  case (1 s)
  show ?case
  proof (cases "ws_end s = 0")
    case True
    then show ?thesis by (subst trim_end.simps) simp
  next
    case False
    with 1 obtain t where "take (length s - ws_end s) s = trim_end s @ t"
      by (auto simp: trim_end.simps [of s])
    then have "s = trim_end s @ t @ drop (length s - ws_end s) s"
      using append_take_drop_id [of "length s - ws_end s" s] by simp
    then show ?thesis by blast
  qed
qed

lemma trim_fixed: "ws_len s = 0 \<Longrightarrow> ws_end s = 0 \<Longrightarrow> trim s = s"
  by (simp add: trim_def trim_start.simps [of s] trim_end.simps [of s])

lemma ws_len_trim: "ws_len (trim s) = 0"
proof (rule ccontr)
  obtain t where "trim_start s = trim s @ t"
    using trim_end_prefix [of "trim_start s"] by (auto simp: trim_def)
  moreover assume "ws_len (trim s) \<noteq> 0"
  ultimately have "ws_len (trim_start s) \<noteq> 0"
    using ws_len_append [of "trim s" t] by simp
  then show False by (simp add: ws_len_trim_start)
qed

lemma trim_idem [simp]: "trim (trim s) = trim s"
  by (rule trim_fixed) (simp_all add: ws_len_trim, simp add: trim_def ws_end_trim_end)

lemma trim_Nil [simp]: "trim [] = []"
  by (rule trim_fixed) (simp_all add: ws_end_def last_n_def)

text \<open>Case conversion moves no white space, and a string of letters and digits has none.\<close>

lemma byte_lower_char: "byte (lower_char c) = (if is_upper c then byte c + 32 else byte c)"
  by (auto simp: lower_char_def is_upper_def byte_char_of)

lemma ws_lower [simp]:
  "ws1 (lower_char c) = ws1 c"
  "ws2 (lower_char c) (lower_char d) = ws2 c d"
  "ws3 (lower_char c) (lower_char d) (lower_char e) = ws3 c d e"
  by (auto simp: ws1_def ws2_def ws3_def byte_lower_char is_upper_def)

lemma ws_len_lower: "ws_len (to_lower s) = ws_len s"
  by (cases s rule: ws_len.cases) (auto simp: to_lower_def)

lemma last_n_lower: "last_n k (to_lower s) = to_lower (last_n k s)"
  by (simp add: last_n_def to_lower_def drop_map)

lemma trim_to_lower: "trim s = s \<Longrightarrow> trim (to_lower s) = to_lower s"
proof (rule trim_fixed)
  assume "trim s = s"
  then show "ws_len (to_lower s) = 0" using ws_len_trim [of s] by (simp add: ws_len_lower)
  have "ws_end s = 0" using ws_end_trim_end [of "trim_start s"] \<open>trim s = s\<close> by (simp add: trim_def)
  then show "ws_end (to_lower s) = 0"
    by (auto simp: ws_end_def last_n_lower ws_len_lower split: if_splits)
qed

lemma ws_head_byte: "0 < ws_len s \<Longrightarrow> \<exists>c r. s = c # r \<and> (ws1 c \<or> 194 \<le> byte c)"
  by (cases s rule: ws_len.cases) (auto simp: ws2_def ws3_def split: if_splits)

definition plain :: "char \<Rightarrow> bool" where "plain c \<longleftrightarrow> 33 \<le> byte c \<and> byte c \<le> 126"

lemma ws_len_plain: "list_all plain s \<Longrightarrow> ws_len s = 0"
  using ws_head_byte [of s] by (cases "0 < ws_len s") (auto simp: plain_def ws1_def)

lemma trim_plain: "list_all plain s \<Longrightarrow> trim s = s"
proof (rule trim_fixed)
  assume s: "list_all plain s"
  then show "ws_len s = 0" by (rule ws_len_plain)
  have "ws_len (last_n k s) = 0" for k
    using s by (intro ws_len_plain) (auto simp: last_n_def list_all_iff dest: in_set_dropD)
  then show "ws_end s = 0" by (simp add: ws_end_def)
qed

lemma is_alnum_plain: "is_alnum c \<Longrightarrow> plain c"
  by (auto simp: is_alnum_def is_digit_def is_lower_def is_upper_def plain_def)

text \<open>\<^verbatim>\<open>value.map(str::trim).filter(|v| !v.is_empty())\<close>, the opening of every optional field.\<close>

definition trim_opt :: "string option \<Rightarrow> string option" where
  "trim_opt v = (case v of None \<Rightarrow> None | Some s \<Rightarrow> if trim s = [] then None else Some (trim s))"

lemma trim_opt_Some: "trim_opt v = Some s \<Longrightarrow> trim s = s \<and> s \<noteq> []"
  by (auto simp: trim_opt_def split: option.splits if_splits)

lemma trim_opt_idem: "trim_opt v = Some s \<Longrightarrow> trim_opt (Some s) = Some s"
  using trim_opt_Some [of v s] by (simp add: trim_opt_def)

lemma trim_opt_simps [simp]: "trim_opt None = None"
  by (simp add: trim_opt_def)

section \<open>Substrings and slices\<close>

definition starts_with :: "string \<Rightarrow> string \<Rightarrow> bool" where
  "starts_with p s \<longleftrightarrow> take (length p) s = p"

definition ends_with :: "string \<Rightarrow> string \<Rightarrow> bool" where
  "ends_with p s \<longleftrightarrow> length p \<le> length s \<and> drop (length s - length p) s = p"

definition strip_prefix :: "string \<Rightarrow> string \<Rightarrow> string option" where
  "strip_prefix p s = (if starts_with p s then Some (drop (length p) s) else None)"

definition strip_suffix :: "string \<Rightarrow> string \<Rightarrow> string option" where
  "strip_suffix p s = (if ends_with p s then Some (take (length s - length p) s) else None)"

fun contains_str :: "string \<Rightarrow> string \<Rightarrow> bool" where
  "contains_str p [] = (p = [])"
| "contains_str p (c # s) = (starts_with p (c # s) \<or> contains_str p s)"

lemma starts_with_append [simp]: "starts_with p (p @ s)"
  by (simp add: starts_with_def)

lemma ends_with_append [simp]: "ends_with p (s @ p)"
  by (simp add: ends_with_def)

lemma strip_suffix_append [simp]: "strip_suffix p (s @ p) = Some s"
  by (simp add: strip_suffix_def)

text \<open>A byte index is a character boundary unless the byte there continues a character.\<close>

definition is_char_boundary :: "nat \<Rightarrow> string \<Rightarrow> bool" where
  "is_char_boundary n s \<longleftrightarrow>
     n = 0 \<or> n = length s \<or> (n < length s \<and> \<not> (128 \<le> byte (s ! n) \<and> byte (s ! n) \<le> 191))"

text \<open>\<^verbatim>\<open>&s[..n]\<close>: \<open>None\<close> is the panic.\<close>

definition slice_to :: "nat \<Rightarrow> string \<Rightarrow> string option" where
  "slice_to n s = (if is_char_boundary n s then Some (take n s) else None)"

fun split_on :: "char \<Rightarrow> string \<Rightarrow> string list" where
  "split_on c [] = [[]]"
| "split_on c (x # s) =
     (if x = c then [] # split_on c s
      else case split_on c s of [] \<Rightarrow> [[x]] | p # ps \<Rightarrow> (x # p) # ps)"

lemma split_on_nonempty [simp]: "split_on c s \<noteq> []"
  by (cases s) (auto split: list.splits)

text \<open>\<^verbatim>\<open>split_once(c)\<close>.\<close>

fun split_once :: "char \<Rightarrow> string \<Rightarrow> (string \<times> string) option" where
  "split_once c [] = None"
| "split_once c (x # s) =
     (if x = c then Some ([], s) else map_option (\<lambda>(k, v). (x # k, v)) (split_once c s))"

section \<open>Control characters\<close>

text \<open>
  \<^verbatim>\<open>char::is_control\<close>: U+0000 to U+001F and U+007F, and U+0080 to U+009F as the two bytes
  194, 128..159. \<open>ctl allow s\<close> is \<^verbatim>\<open>any(|c| c.is_control() && !allow(c))\<close>.
\<close>

fun ctl :: "char list \<Rightarrow> string \<Rightarrow> bool" where
  "ctl allow [] = False"
| "ctl allow (c # s) =
     (((byte c < 32 \<or> byte c = 127) \<and> c \<notin> set allow)
      \<or> (byte c = 194 \<and> (case s of [] \<Rightarrow> False | d # _ \<Rightarrow> 128 \<le> byte d \<and> byte d \<le> 159))
      \<or> ctl allow s)"

abbreviation has_control :: "string \<Rightarrow> bool" where
  "has_control \<equiv> ctl []"

section \<open>Numbers\<close>

definition digits_val :: "string \<Rightarrow> int" where
  "digits_val s = foldl (\<lambda>a c. 10 * a + (byte c - 48)) 0 s"

text \<open>\<^verbatim>\<open>str::parse::<u64>()\<close>: an optional plus sign, digits, and no overflow.\<close>

definition unsigned_digits :: "string \<Rightarrow> string" where
  "unsigned_digits s =
     (case s of [] \<Rightarrow> [] | c # r \<Rightarrow> if c = CHR ''+'' \<and> r \<noteq> [] then r else s)"

definition parse_u64 :: "string \<Rightarrow> int option" where
  "parse_u64 s =
     (let d = unsigned_digits s
      in if d = [] \<or> \<not> list_all is_digit d \<or> u64_max < digits_val d then None
         else Some (digits_val d))"

text \<open>\<^verbatim>\<open>str::parse::<i64>()\<close>.\<close>

definition parse_i64 :: "string \<Rightarrow> int option" where
  "parse_i64 s =
     (let neg = (case s of c # r \<Rightarrow> c = CHR ''-'' \<and> r \<noteq> [] | [] \<Rightarrow> False);
          d = (if neg then tl s else unsigned_digits s);
          n = (if neg then - digits_val d else digits_val d)
      in if d = [] \<or> \<not> list_all is_digit d \<or> \<not> in_i64 n then None else Some n)"

text \<open>\<^verbatim>\<open>to_string()\<close> of an integer.\<close>

fun show_nat :: "nat \<Rightarrow> string" where
  "show_nat n = (if n < 10 then [char_of (48 + int n)]
                 else show_nat (n div 10) @ [char_of (48 + int (n mod 10))])"

declare show_nat.simps [simp del]

definition show_int :: "int \<Rightarrow> string" where
  "show_int n = (if n < 0 then CHR ''-'' # show_nat (nat (- n)) else show_nat (nat n))"

lemma is_digit_char_of: "k < 10 \<Longrightarrow> is_digit (char_of (48 + int k))"
  by (simp add: is_digit_def byte_char_of)

lemma show_nat_digits: "show_nat n \<noteq> [] \<and> list_all is_digit (show_nat n)"
  by (induction n rule: show_nat.induct)
    (subst (1 2) show_nat.simps, auto simp: is_digit_char_of)

lemma digits_val_snoc [simp]: "digits_val (s @ [c]) = 10 * digits_val s + (byte c - 48)"
  by (simp add: digits_val_def)

lemma digits_val_show_nat [simp]: "digits_val (show_nat n) = int n"
proof (induction n rule: show_nat.induct)
  case (1 n)
  show ?case
  proof (cases "n < 10")
    case True
    then show ?thesis by (subst show_nat.simps) (simp add: digits_val_def byte_char_of)
  next
    case False
    have "10 * int (n div 10) + int (n mod 10) = int n"
      by (simp add: zdiv_int zmod_int)
    with False 1 show ?thesis by (subst show_nat.simps) (simp add: byte_char_of)
  qed
qed

lemma show_nat_no_sign: "hd (show_nat n) \<noteq> CHR ''+'' \<and> hd (show_nat n) \<noteq> CHR ''-''"
proof -
  have "is_digit (hd (show_nat n))"
    using show_nat_digits [of n] by (cases "show_nat n") auto
  then show ?thesis by (auto simp: is_digit_def byte_def)
qed

lemma parse_u64_show [simp]: "int n \<le> u64_max \<Longrightarrow> parse_u64 (show_nat n) = Some (int n)"
  using show_nat_digits [of n] show_nat_no_sign [of n]
  by (cases "show_nat n") (auto simp: parse_u64_def unsigned_digits_def Let_def
      dest: arg_cong [where f = digits_val])

lemma unsigned_digits_show [simp]: "unsigned_digits (show_nat n) = show_nat n"
  using show_nat_no_sign [of n] by (auto simp: unsigned_digits_def split: list.splits)

lemma parse_i64_show [simp]:
  assumes "in_i64 n"
  shows "parse_i64 (show_int n) = Some n"
proof (cases "n < 0")
  case True
  with assms show_nat_digits [of "nat (- n)"] show ?thesis
    by (simp add: parse_i64_def show_int_def Let_def)
next
  case False
  have "\<not> (case show_nat (nat n) of c # r \<Rightarrow> c = CHR ''-'' \<and> r \<noteq> [] | [] \<Rightarrow> False)"
    using show_nat_no_sign [of "nat n"] by (auto split: list.splits)
  with False assms show_nat_digits [of "nat n"] show ?thesis
    by (simp add: parse_i64_def show_int_def Let_def)
qed

lemma show_nat_inject [simp]: "show_nat m = show_nat n \<longleftrightarrow> m = n"
  by (metis digits_val_show_nat of_nat_eq_iff)

section \<open>Hexadecimal text\<close>

definition hex_digit :: "int \<Rightarrow> char" where
  "hex_digit n = char_of (if n < 10 then 48 + n else 87 + n)"

definition hex_val :: "char \<Rightarrow> int" where
  "hex_val c = (if is_digit c then byte c - 48
                else if 97 \<le> byte c then byte c - 87 else byte c - 55)"

definition hex_encode :: "string \<Rightarrow> string" where
  "hex_encode s = concat (map (\<lambda>c. [hex_digit (byte c div 16), hex_digit (byte c mod 16)]) s)"

fun hex_decode :: "string \<Rightarrow> string option" where
  "hex_decode [] = Some []"
| "hex_decode [c] = None"
| "hex_decode (c # d # s) =
     (if is_hexdigit c \<and> is_hexdigit d
      then map_option ((#) (char_of (16 * hex_val c + hex_val d))) (hex_decode s) else None)"

lemma byte_hex_digit: "0 \<le> n \<Longrightarrow> n < 16 \<Longrightarrow> byte (hex_digit n) = (if n < 10 then 48 + n else 87 + n)"
  by (simp add: hex_digit_def byte_char_of)

lemma hex_digit_ok:
  assumes "0 \<le> n" "n < 16"
  shows "is_hexdigit (hex_digit n)" "hex_val (hex_digit n) = n" "is_alnum (hex_digit n)"
  using byte_hex_digit [OF assms] assms
  by (auto simp: is_hexdigit_def is_digit_def hex_val_def is_alnum_def is_lower_def)

lemma char_of_byte [simp]: "char_of (byte c) = c"
  by (simp add: byte_def)

lemma nibbles: "0 \<le> byte c div 16 \<and> byte c div 16 < 16 \<and> 0 \<le> byte c mod 16 \<and> byte c mod 16 < 16"
proof -
  have "0 \<le> byte c" and "byte c < 256" by simp_all
  then show ?thesis by presburger
qed

lemma hex_decode_encode [simp]: "hex_decode (hex_encode s) = Some s"
proof (induction s)
  case Nil
  then show ?case by (simp add: hex_encode_def)
next
  case (Cons c s)
  have "hex_decode (hex_digit (byte c div 16) # hex_digit (byte c mod 16) # hex_encode s) = Some (c # s)"
    using Cons nibbles [of c] by (simp add: hex_digit_ok)
  then show ?case by (simp add: hex_encode_def)
qed

lemma length_hex_encode [simp]: "length (hex_encode s) = 2 * length s"
  by (induction s) (simp_all add: hex_encode_def)

lemma hex_encode_alnum: "list_all is_alnum (hex_encode s)"
  using nibbles by (induction s) (simp_all add: hex_encode_def hex_digit_ok)

lemma trim_hex_encode [simp]: "trim (hex_encode s) = hex_encode s"
  using hex_encode_alnum [of s] by (intro trim_plain) (auto simp: list_all_iff is_alnum_plain)

end
