(* ===== verification/Json.thy ===== *)
theory Json
  imports F64 Rust_Str
begin

text \<open>
  \<^verbatim>\<open>serde_json::Value\<close> as the sources build and read it: the constructors, the accessors
  that return \<^verbatim>\<open>Option\<close>, and a small notion of the scalar leaves of a value with the path
  that leads to each. A \<^verbatim>\<open>Map\<close> is the list of its entries (its keys are distinct). A number
  is an integer (\<^verbatim>\<open>u64\<close> or \<^verbatim>\<open>i64\<close>) or a float.
\<close>

datatype json =
    JNull
  | JBool bool
  | JInt int
  | JFloat f64
  | JStr string
  | JArr "json list"
  | JObj "(string \<times> json) list"

fun jget :: "string \<Rightarrow> json \<Rightarrow> json option" where
  "jget k (JObj m) = map_of m k"
| "jget _ _ = None"

fun as_str :: "json \<Rightarrow> string option" where
  "as_str (JStr s) = Some s"
| "as_str _ = None"

fun as_bool :: "json \<Rightarrow> bool option" where
  "as_bool (JBool b) = Some b"
| "as_bool _ = None"

fun as_i64 :: "json \<Rightarrow> int option" where
  "as_i64 (JInt n) = (if in_i64 n then Some n else None)"
| "as_i64 _ = None"

fun as_f64 :: "json \<Rightarrow> f64 option" where
  "as_f64 (JInt n) = Some (f64_of_int n)"
| "as_f64 (JFloat x) = Some x"
| "as_f64 _ = None"

fun as_array :: "json \<Rightarrow> json list option" where
  "as_array (JArr xs) = Some xs"
| "as_array _ = None"

text \<open>\<^verbatim>\<open>json!\<close> of an \<^verbatim>\<open>Option\<close>.\<close>

definition jopt :: "('a \<Rightarrow> json) \<Rightarrow> 'a option \<Rightarrow> json" where
  "jopt f x = (case x of None \<Rightarrow> JNull | Some a \<Rightarrow> f a)"

lemma jopt_simps [simp]: "jopt f None = JNull" "jopt f (Some a) = f a"
  by (simp_all add: jopt_def)

lemma size_json_obj: "(k, v) \<in> set m \<Longrightarrow> size v < Suc (size_list (size_prod (\<lambda>_. 0) size) m)"
  by (induction m) auto

lemma size_json_arr: "v \<in> set xs \<Longrightarrow> size v < Suc (size_list size xs)"
  by (induction xs) auto

section \<open>Leaves and paths\<close>

datatype step = Key string | Elem

function leaves :: "json \<Rightarrow> (step list \<times> json) list" where
  "leaves (JObj m) = concat (map (\<lambda>(k, v). map (\<lambda>(p, x). (Key k # p, x)) (leaves v)) m)"
| "leaves (JArr xs) = concat (map (\<lambda>v. map (\<lambda>(p, x). (Elem # p, x)) (leaves v)) xs)"
| "leaves JNull = [([], JNull)]"
| "leaves (JBool b) = [([], JBool b)]"
| "leaves (JInt n) = [([], JInt n)]"
| "leaves (JFloat x) = [([], JFloat x)]"
| "leaves (JStr s) = [([], JStr s)]"
  by pat_completeness auto
termination
  by (relation "measure size") (auto dest: size_json_obj size_json_arr)

end
