(* ===== verification/Redaction.thy ===== *)
theory Redaction
  imports Json
begin

text \<open>
  \<^verbatim>\<open>api/src/domain/redaction.rs\<close>: the sanitizer that every outbox payload and audit state
  goes through, and the guard \<^verbatim>\<open>api/src/integrations/dataforge.rs\<close> applies before delivery.
\<close>

definition PROHIBITED_KEYS :: "string list" where
  "PROHIBITED_KEYS =
     [''email'', ''full_name'', ''name'', ''display_name'', ''stripe_customer_id'',
      ''payment_method'', ''card'', ''raw_payload'', ''password'', ''session'',
      ''refresh_token'', ''access_token'', ''manuscript'', ''prompt'', ''content'']"

function sanitize :: "json \<Rightarrow> json" where
  "sanitize (JObj m) =
     JObj (map (\<lambda>(k, v). (k, sanitize v)) (filter (\<lambda>(k, v). k \<notin> set PROHIBITED_KEYS) m))"
| "sanitize (JArr items) = JArr (map sanitize items)"
| "sanitize JNull = JNull"
| "sanitize (JBool b) = JBool b"
| "sanitize (JInt n) = JInt n"
| "sanitize (JFloat x) = JFloat x"
| "sanitize (JStr s) = JStr s"
  by pat_completeness auto
termination
  by (relation "measure size") (auto dest: size_json_obj size_json_arr)

function contains_prohibited :: "json \<Rightarrow> bool" where
  "contains_prohibited (JObj m) =
     (\<exists>(k, v) \<in> set m. k \<in> set PROHIBITED_KEYS \<or> contains_prohibited v)"
| "contains_prohibited (JArr items) = (\<exists>v \<in> set items. contains_prohibited v)"
| "contains_prohibited JNull = False"
| "contains_prohibited (JBool b) = False"
| "contains_prohibited (JInt n) = False"
| "contains_prohibited (JFloat x) = False"
| "contains_prohibited (JStr s) = False"
  by pat_completeness auto
termination
  by (relation "measure size") (auto dest: size_json_obj size_json_arr)

text \<open>What the guard refuses never survives the sanitizer.\<close>

lemma sanitize_clean [simp]: "\<not> contains_prohibited (sanitize v)"
  by (induction v rule: sanitize.induct) auto

text \<open>A value without prohibited keys is returned unchanged.\<close>

lemma sanitize_id: "\<not> contains_prohibited v \<Longrightarrow> sanitize v = v"
proof (induction v rule: sanitize.induct)
  case (1 m)
  then have "filter (\<lambda>(k, v). k \<notin> set PROHIBITED_KEYS) m = m"
    by (auto intro!: filter_True)
  moreover have "sanitize v = v" if "(k, v) \<in> set m" for k v
    using 1(1) [of "(k, v)" k v] 1(2) that by fastforce
  then have "map (\<lambda>(k, v). (k, sanitize v)) m = m"
    by (intro map_idI) auto
  ultimately show ?case by simp
next
  case (2 items)
  then show ?case by (auto intro!: map_idI)
qed simp_all

lemma sanitize_idem [simp]: "sanitize (sanitize v) = sanitize v"
  by (rule sanitize_id) simp

lemma jget_sanitize:
  "jget k (sanitize v) = (if k \<in> set PROHIBITED_KEYS then None else map_option sanitize (jget k v))"
proof (cases v)
  case (JObj m)
  have "map_of (map (\<lambda>(k, v). (k, sanitize v)) (filter (\<lambda>(k, v). k \<notin> set PROHIBITED_KEYS) m)) k
    = (if k \<in> set PROHIBITED_KEYS then None else map_option sanitize (map_of m k))"
    by (induction m) auto
  then show ?thesis by (simp add: JObj)
qed simp_all

text \<open>
  The exact specification: the leaves of the result are the leaves of the input whose path
  goes through no prohibited key, in the same order and unchanged.
\<close>

definition path_allowed :: "step list \<Rightarrow> bool" where
  "path_allowed p \<longleftrightarrow> list_all (\<lambda>s. case s of Key k \<Rightarrow> k \<notin> set PROHIBITED_KEYS | Elem \<Rightarrow> True) p"

lemma path_allowed_Cons [simp]:
  "path_allowed (Key k # p) \<longleftrightarrow> k \<notin> set PROHIBITED_KEYS \<and> path_allowed p"
  "path_allowed (Elem # p) \<longleftrightarrow> path_allowed p"
  "path_allowed []"
  by (simp_all add: path_allowed_def)

lemma filter_allowed_map:
  "filter (\<lambda>l. path_allowed (fst l)) (map (\<lambda>(p, x). (Key k # p, x)) xs) =
     (if k \<in> set PROHIBITED_KEYS then [] else map (\<lambda>(p, x). (Key k # p, x)) (filter (\<lambda>l. path_allowed (fst l)) xs))"
  "filter (\<lambda>l. path_allowed (fst l)) (map (\<lambda>(p, x). (Elem # p, x)) xs) =
     map (\<lambda>(p, x). (Elem # p, x)) (filter (\<lambda>l. path_allowed (fst l)) xs)"
  by (induction xs) auto

lemma leaves_sanitize: "leaves (sanitize v) = filter (\<lambda>l. path_allowed (fst l)) (leaves v)"
proof (induction v rule: sanitize.induct)
  case (1 m)
  have "leaves (sanitize v) = filter (\<lambda>l. path_allowed (fst l)) (leaves v)"
    if "(k, v) \<in> set m" "k \<notin> set PROHIBITED_KEYS" for k v
    using 1 [of "(k, v)" k v] that by simp
  then show ?case
  proof (induction m)
    case Nil
    then show ?case by simp
  next
    case (Cons e m)
    obtain k v where e: "e = (k, v)" by (cases e)
    have "leaves (sanitize (JObj m)) = filter (\<lambda>l. path_allowed (fst l)) (leaves (JObj m))"
      by (rule Cons.IH) (rule Cons.prems, auto)
    with Cons.prems [of k v] show ?case by (simp add: e filter_allowed_map)
  qed
next
  case (2 items)
  then show ?case
    by (induction items) (auto simp: filter_allowed_map)
qed simp_all

section \<open>Delivery guard\<close>

datatype dataforge_error = ProhibitedPayload | Transport string | NotConfigured

text \<open>
  \<^verbatim>\<open>DataforgeClient::publish\<close>. The HTTP exchange is outside the repository: \<open>post\<close> maps
  the request body to \<open>None\<close> for a success response and to the transport or status error
  otherwise.
\<close>

definition publish ::
    "(json \<Rightarrow> string option) \<Rightarrow> string \<Rightarrow> string \<Rightarrow> string \<Rightarrow> json \<Rightarrow> dataforge_error + unit" where
  "publish post url event_type delivery_key payload =
     (if url = [] then Inl NotConfigured
      else if contains_prohibited payload then Inl ProhibitedPayload
      else case post (JObj [(''event_type'', JStr event_type),
                            (''delivery_key'', JStr delivery_key),
                            (''payload'', payload)]) of
             None \<Rightarrow> Inr ()
           | Some e \<Rightarrow> Inl (Transport e))"

lemma publish_sanitized: "publish post url t k (sanitize p) \<noteq> Inl ProhibitedPayload"
  by (auto simp: publish_def split: option.splits)

end
