(* ===== verification/Usage_Rules.thy ===== *)
theory Usage_Rules
  imports F64 Rust_Str
begin

text \<open>
  \<^verbatim>\<open>api/src/domain/usage.rs\<close>: the quota decision, amounts, period keys and thresholds.
  The reason text of a denial is kept as the values it prints.
\<close>

datatype decision = Allow | Deny

datatype quota_reason =
    NegativeRequest
  | UnlimitedMeter
  | WithinQuota
  | Exceeds f64 f64 f64 f64 f64 \<comment> \<open>requested, remaining, limit, used, reserved\<close>

record quota_decision =
  qd_decision :: decision
  qd_reason :: quota_reason
  qd_remaining_before :: f64

definition decide :: "f64 \<Rightarrow> f64 \<Rightarrow> f64 \<Rightarrow> f64 option \<Rightarrow> quota_decision" where
  "decide requested used reserved limit =
     (if f64_lt requested (Fin 0)
      then \<lparr>qd_decision = Deny, qd_reason = NegativeRequest, qd_remaining_before = Fin 0\<rparr>
      else case limit of
        None \<Rightarrow>
          \<lparr>qd_decision = Allow, qd_reason = UnlimitedMeter, qd_remaining_before = Inf False\<rparr>
      | Some l \<Rightarrow>
          (let remaining = f64_sub (f64_sub l used) reserved
           in if f64_le requested remaining
              then \<lparr>qd_decision = Allow, qd_reason = WithinQuota, qd_remaining_before = remaining\<rparr>
              else \<lparr>qd_decision = Deny, qd_reason = Exceeds requested remaining l used reserved,
                    qd_remaining_before = remaining\<rparr>))"

definition rebuild_total :: "f64 list \<Rightarrow> f64" where
  "rebuild_total amounts = foldl f64_add (Fin 0) amounts"

definition clean_usage_amount :: "f64 \<Rightarrow> string + f64" where
  "clean_usage_amount value =
     (if \<not> f64_is_finite value then Inl ''must be a finite number''
      else if f64_le value (Fin 0) then Inl ''must be greater than zero''
      else if f64_lt (Fin (10 ^ 12)) value then Inl ''must be at most 1e12''
      else Inr value)"

definition period_key_for :: "string \<Rightarrow> utc_now \<Rightarrow> string" where
  "period_key_for cadence now =
     (if cadence = ''monthly'' then un_month_key now
      else if cadence = ''daily'' then un_day_key now
      else ''all'')"

definition quota_key_candidates :: "string \<Rightarrow> string \<Rightarrow> string list" where
  "quota_key_candidates meter_key cadence = [meter_key @ ''.'' @ cadence, meter_key]"

definition threshold_mark :: "f64 \<Rightarrow> int \<Rightarrow> f64" where
  "threshold_mark limit pct = f64_div_const (f64_mul limit (f64_of_int pct)) 100"

definition crossed_thresholds :: "f64 \<Rightarrow> f64 \<Rightarrow> f64 option \<Rightarrow> int list \<Rightarrow> int list" where
  "crossed_thresholds used_before used_after limit percents =
     (case limit of
        None \<Rightarrow> []
      | Some l \<Rightarrow>
          (if \<not> f64_lt (Fin 0) l then []
           else filter (\<lambda>pct. f64_lt used_before (threshold_mark l pct)
                             \<and> f64_le (threshold_mark l pct) used_after) percents))"

section \<open>Decisions\<close>

text \<open>Nothing that is negative or not a number passes a limit.\<close>

lemma decide_limited_allow:
  "qd_decision (decide r u s (Some l)) = Allow \<Longrightarrow> f64_le (Fin 0) r \<and> u \<noteq> NaN \<and> s \<noteq> NaN \<and> l \<noteq> NaN"
  using f64_le_iff_not_lt [of "Fin 0" r]
  by (cases "l = NaN \<or> u = NaN \<or> s = NaN"; cases "r = NaN")
    (auto simp: decide_def Let_def split: if_splits)

text \<open>On whole amounts the decision is exact.\<close>

lemma decide_whole:
  assumes "whole_ok l" "whole_ok u" "whole_ok (l - u - s)"
  shows "qd_decision (decide (wh r) (wh u) (wh s) (Some (wh l))) = Allow \<longleftrightarrow> 0 \<le> r \<and> u + s + r \<le> l"
proof -
  have "\<bar>l - u\<bar> \<le> 2 ^ 53" "\<bar>l - u - s\<bar> \<le> 2 ^ 53"
    using assms by (auto simp: whole_ok_def)
  then have rem: "f64_sub (f64_sub (wh l) (wh u)) (wh s) = wh (l - u - s)"
    by (simp add: wh_arith)
  show ?thesis by (auto simp: decide_def Let_def rem wh_zero)
qed

lemma rebuild_total_snoc: "rebuild_total (xs @ [x]) = f64_add (rebuild_total xs) x"
  by (simp add: rebuild_total_def)

lemma rebuild_total_whole:
  assumes "\<And>k. k \<le> length ns \<Longrightarrow> \<bar>sum_list (take k ns)\<bar> \<le> 2 ^ 53"
  shows "rebuild_total (map wh ns) = wh (sum_list ns)"
  using assms
proof (induction ns rule: rev_induct)
  case Nil
  then show ?case by (simp add: rebuild_total_def wh_zero)
next
  case (snoc n ns)
  have "\<bar>sum_list (take k ns)\<bar> \<le> 2 ^ 53" if "k \<le> length ns" for k
    using snoc.prems [of k] that by simp
  moreover have "\<bar>sum_list ns + n\<bar> \<le> 2 ^ 53"
    using snoc.prems [of "Suc (length ns)"] by simp
  ultimately show ?case
    using snoc.IH by (simp add: rebuild_total_snoc wh_arith)
qed

lemma clean_usage_amount_iff:
  "clean_usage_amount x = Inr y \<longleftrightarrow> y = x \<and> (\<exists>r. x = Fin r \<and> 0 < r \<and> r \<le> 10 ^ 12)"
  by (cases x) (auto simp: clean_usage_amount_def not_less not_le)

section \<open>Thresholds\<close>

lemma in_crossed:
  "pct \<in> set (crossed_thresholds a b limit ps) \<longleftrightarrow>
     pct \<in> set ps \<and> (\<exists>l. limit = Some l \<and> f64_lt (Fin 0) l
       \<and> f64_lt a (threshold_mark l pct) \<and> f64_le (threshold_mark l pct) b)"
  by (cases limit) (auto simp: crossed_thresholds_def)

lemma mark_split:
  assumes "f64_le a b" and "f64_le b c"
  shows "f64_lt a m \<and> f64_le m c \<longleftrightarrow> (f64_lt a m \<and> f64_le m b) \<or> (f64_lt b m \<and> f64_le m c)"
proof (cases "m = NaN")
  case False
  then have "f64_le m b \<longleftrightarrow> \<not> f64_lt b m"
    using f64_not_NaN(1) [OF assms(1)] by (simp add: f64_le_iff_not_lt)
  then show ?thesis
    using assms f64_le_lt_trans [of a b m] f64_le_trans [of m b c] by blast
qed simp

lemma crossed_split:
  assumes "f64_le a b" and "f64_le b c"
  shows "pct \<in> set (crossed_thresholds a c limit ps) \<longleftrightarrow>
     pct \<in> set (crossed_thresholds a b limit ps) \<or> pct \<in> set (crossed_thresholds b c limit ps)"
  using mark_split [OF assms] by (auto simp: in_crossed)

lemma crossed_once:
  assumes "pct \<in> set (crossed_thresholds a b limit ps)" and "f64_le b c"
  shows "pct \<notin> set (crossed_thresholds c d limit ps)"
proof
  assume "pct \<in> set (crossed_thresholds c d limit ps)"
  with assms(1) obtain m where "f64_le m b" "f64_lt c m" by (auto simp: in_crossed)
  with assms(2) have "f64_lt c c" by (blast intro: f64_lt_le_trans f64_le_trans)
  then show False by simp
qed

text \<open>
  Along a sequence of totals that never decreases, the crossings of the single steps.
\<close>

fun crossings :: "f64 option \<Rightarrow> int list \<Rightarrow> f64 \<Rightarrow> f64 list \<Rightarrow> int list" where
  "crossings limit ps u [] = []"
| "crossings limit ps u (v # vs) = crossed_thresholds u v limit ps @ crossings limit ps v vs"

fun rising :: "f64 \<Rightarrow> f64 list \<Rightarrow> bool" where
  "rising u [] = True"
| "rising u (v # vs) = (f64_le u v \<and> rising v vs)"

lemma rising_le_all: "rising u vs \<Longrightarrow> v \<in> set vs \<Longrightarrow> f64_le u v"
  by (induction vs arbitrary: u) (auto intro: f64_le_trans)

lemma crossings_later:
  assumes "pct \<in> set (crossed_thresholds a b limit ps)" "f64_le b u" "rising u vs"
  shows "pct \<notin> set (crossings limit ps u vs)"
  using assms
proof (induction vs arbitrary: u)
  case Nil
  then show ?case by simp
next
  case (Cons v vs)
  then have "pct \<notin> set (crossings limit ps v vs)"
    by (auto intro: f64_le_trans)
  moreover have "pct \<notin> set (crossed_thresholds u v limit ps)"
    using Cons.prems crossed_once by blast
  ultimately show ?case by simp
qed

text \<open>Each configured percentage fires at most once along the sequence.\<close>

lemma crossings_distinct:
  assumes "distinct ps" and "rising u vs"
  shows "distinct (crossings limit ps u vs)"
  using assms(2)
proof (induction vs arbitrary: u)
  case Nil
  then show ?case by simp
next
  case (Cons v vs)
  have "distinct (crossed_thresholds u v limit ps)"
    using assms(1) by (auto simp: crossed_thresholds_def split: option.splits)
  moreover have "f64_le v v"
    using Cons.prems f64_not_NaN(1) [of u v] by (cases v) (auto simp: f64_le_def)
  ultimately show ?case
    using Cons crossings_later [of _ u v limit ps v vs] by auto
qed

end
