(* ===== verification/Database.thy ===== *)
theory Database
  imports Redaction Usage_Rules
begin

text \<open>
  The PostgreSQL state the repositories share (\<^verbatim>\<open>supabase/migrations\<close>): one record per table
  row, a table as the list of its rows, the database as the record of its tables. Columns
  that no statement of the modelled code reads or writes are left out. A \<^verbatim>\<open>numeric\<close> amount is
  kept as the \<^verbatim>\<open>float8\<close> it reads back as; a catalog \<^verbatim>\<open>numeric\<close> is kept exactly.
  An operation of a repository is a function from the database to a result and the next
  database; a transaction that is dropped without \<^verbatim>\<open>commit\<close> gives back the database it
  started from. The last part holds the audit and outbox writers.
\<close>

section \<open>Rows\<close>

record customer_row =
  cu_id :: uuid
  cu_auth_user :: uuid
  cu_type :: string
  cu_display_name :: "string option"
  cu_status :: string
  cu_country :: "string option"
  cu_timezone :: "string option"
  cu_mfa_required :: bool
  cu_mfa_grace :: "time option"
  cu_created :: time

record status_history_row =
  sh_id :: uuid
  sh_customer :: uuid
  sh_from :: "string option"
  sh_to :: string
  sh_reason :: "string option"
  sh_actor_type :: string
  sh_actor :: "string option"

record mfa_history_row =
  mh_id :: uuid
  mh_customer :: uuid
  mh_from :: bool
  mh_to :: bool
  mh_reason :: string
  mh_actor_type :: string
  mh_actor :: "string option"

record email_row =
  em_customer :: uuid
  em_email :: string
  em_primary :: bool
  em_verified :: "time option"

record product_row =
  pr_id :: uuid
  pr_key :: string
  pr_name :: string
  pr_status :: string

record channel_row =
  rc_id :: uuid
  rc_product :: uuid
  rc_key :: string

record plan_row =
  pl_id :: uuid
  pl_product :: uuid
  pl_key :: string
  pl_status :: string

record plan_version_row =
  pv_id :: uuid
  pv_plan :: uuid
  pv_version :: int
  pv_status :: string
  pv_stripe_price :: "string option"

record feature_row =
  ft_id :: uuid
  ft_key :: string

record plan_feature_row =
  pf_version :: uuid
  pf_feature :: uuid
  pf_bool :: "bool option"
  pf_number :: "rat option"
  pf_string :: "string option"

record policy_row =
  cp_product :: uuid
  cp_version :: int
  cp_effective :: time
  cp_policy :: json
  cp_reason :: string
  cp_by :: string
  cp_idem :: string
  cp_corr :: "string option"
  cp_created :: time

record subscription_row =
  su_id :: uuid
  su_customer :: uuid
  su_billing :: uuid
  su_plan_version :: uuid
  su_stripe_id :: "string option"
  su_status :: string
  su_period_start :: "time option"
  su_period_end :: "time option"
  su_cancel_at_end :: bool
  su_event_at :: "time option"
  su_created :: time

record license_row =
  li_id :: uuid
  li_customer :: uuid
  li_product :: uuid
  li_subscription :: "uuid option"
  li_status :: string
  li_device_limit :: int
  li_issued :: time
  li_expires :: "time option"

record device_row =
  dv_id :: uuid
  dv_customer :: uuid
  dv_public_key :: string
  dv_fpr :: string
  dv_label :: "string option"
  dv_status :: string
  dv_created :: time

record fleet_row =
  fl_id :: uuid
  fl_customer :: uuid
  fl_name :: string
  fl_type :: string
  fl_status :: string
  fl_ring :: string
  fl_channel :: "uuid option"
  fl_beta :: bool

record fleet_app_row =
  fa_fleet :: uuid
  fa_product :: uuid
  fa_status :: string
  fa_ring :: string
  fa_channel :: "uuid option"

record installation_row =
  in_id :: uuid
  in_customer :: uuid
  in_device :: "uuid option"
  in_fleet :: "uuid option"
  in_key :: string
  in_product :: uuid
  in_app_version :: "string option"
  in_build :: "string option"
  in_platform :: "string option"
  in_arch :: "string option"
  in_format :: "string option"
  in_updater :: "string option"
  in_status :: string
  in_heartbeat :: "time option"
  in_created :: time

record activation_row =
  ac_id :: uuid
  ac_license :: uuid
  ac_installation :: uuid
  ac_device :: "uuid option"
  ac_status :: string
  ac_activated :: time
  ac_deactivated :: "time option"

record revocation_row =
  rv_license :: "uuid option"
  rv_device :: "uuid option"
  rv_installation :: "uuid option"
  rv_reason :: string
  rv_actor :: "string option"

record override_row =
  ov_id :: uuid
  ov_customer :: uuid
  ov_product :: uuid
  ov_feature :: "string option"
  ov_quota :: "string option"
  ov_bool :: "bool option"
  ov_number :: "rat option"
  ov_string :: "string option"
  ov_reason :: string
  ov_actor :: string
  ov_active :: bool
  ov_expires :: "time option"
  ov_created :: time

record meter_row =
  me_key :: string
  me_unit :: string
  me_cadence :: string

record reservation_row =
  re_id :: uuid
  re_customer :: uuid
  re_meter :: string
  re_amount :: f64
  re_idem :: string
  re_status :: string
  re_period :: string
  re_expires :: time

record usage_event_row =
  ue_id :: uuid
  ue_customer :: uuid
  ue_meter :: string
  ue_amount :: f64
  ue_period :: string
  ue_idem :: string
  ue_reservation :: "uuid option"
  ue_kind :: string

record total_row =
  to_customer :: uuid
  to_meter :: string
  to_period :: string
  to_used :: f64
  to_reserved :: f64

record decision_row =
  qd_id :: uuid
  qd_customer :: uuid
  qd_meter :: string
  qd_requested :: f64
  qd_limit :: "f64 option"
  qd_used :: f64
  qd_reserved :: f64
  qd_outcome :: string
  qd_why :: quota_reason
  qd_correlation :: "string option"

record audit_row =
  au_event :: string
  au_actor_type :: string
  au_actor :: "string option"
  au_customer :: "uuid option"
  au_target_type :: string
  au_target :: string
  au_reason :: string
  au_before :: "json option"
  au_after :: "json option"
  au_correlation :: "string option"

record outbox_row =
  ob_id :: uuid
  ob_event :: string
  ob_key :: string
  ob_payload :: json
  ob_status :: string
  ob_attempts :: int
  ob_error :: "string option"
  ob_next :: time
  ob_delivered :: "time option"
  ob_created :: time

record deletion_row =
  dr_id :: uuid
  dr_customer :: uuid
  dr_status :: string
  dr_requested :: time
  dr_cooling :: "time option"
  dr_completed :: "time option"
  dr_receipt :: "json option"
  dr_reason :: "string option"

section \<open>The database\<close>

record db =
  customers :: "customer_row list"
  status_history :: "status_history_row list"
  mfa_history :: "mfa_history_row list"
  emails :: "email_row list"
  products :: "product_row list"
  channels :: "channel_row list"
  plans :: "plan_row list"
  plan_versions :: "plan_version_row list"
  features_t :: "feature_row list"
  plan_features :: "plan_feature_row list"
  policies :: "policy_row list"
  subscriptions :: "subscription_row list"
  licenses :: "license_row list"
  devices :: "device_row list"
  fleets :: "fleet_row list"
  fleet_apps :: "fleet_app_row list"
  installations :: "installation_row list"
  activations :: "activation_row list"
  revocations :: "revocation_row list"
  overrides :: "override_row list"
  meters :: "meter_row list"
  reservations :: "reservation_row list"
  usage_events :: "usage_event_row list"
  totals :: "total_row list"
  decisions :: "decision_row list"
  audits :: "audit_row list"
  outbox :: "outbox_row list"
  deletions :: "deletion_row list"

definition empty_db :: db where
  "empty_db = \<lparr>customers = [], status_history = [], mfa_history = [], emails = [], products = [], channels = [],
     plans = [], plan_versions = [], features_t = [], plan_features = [], policies = [],
     subscriptions = [], licenses = [], devices = [], fleets = [], fleet_apps = [],
     installations = [], activations = [], revocations = [], overrides = [], meters = [],
     reservations = [], usage_events = [], totals = [], decisions = [], audits = [],
     outbox = [], deletions = []\<rparr>"

section \<open>What an operation reads from its surroundings\<close>

text \<open>
  \<open>e_now\<close> is \<^verbatim>\<open>now()\<close> of the transaction; \<open>e_utc k\<close> is the \<open>k\<close>-th reading of
  \<^verbatim>\<open>Utc::now()\<close> in the operation; \<open>e_id k\<close> the \<open>k\<close>-th uuid the database generates in it;
  \<open>e_time\<close> the text of an instant in JSON; \<open>e_col\<close> and \<open>e_sum\<close> the storage of an amount in
  a \<^verbatim>\<open>numeric\<close> column and \<^verbatim>\<open>sum(amount)::float8\<close>; \<open>e_int8\<close> PostgreSQL's \<^verbatim>\<open>text::bigint\<close>;
  \<open>e_month\<close> and \<open>e_day\<close> its \<^verbatim>\<open>to_char\<close> of an instant as \<^verbatim>\<open>YYYY-MM\<close> and \<^verbatim>\<open>YYYY-MM-DD\<close> in UTC.
\<close>

record env =
  e_now :: time
  e_utc :: "nat \<Rightarrow> time"
  e_id :: "nat \<Rightarrow> uuid"
  e_time :: "time \<Rightarrow> string"
  e_col :: "f64 \<Rightarrow> f64"
  e_sum :: "f64 list \<Rightarrow> f64"
  e_int8 :: "string \<Rightarrow> int option"
  e_month :: "time \<Rightarrow> string"
  e_day :: "time \<Rightarrow> string"

text \<open>The generated uuids are pairwise different and new to the database.\<close>

definition ids_in :: "db \<Rightarrow> uuid list" where
  "ids_in d = map in_id (installations d) @ map li_id (licenses d) @ map ac_id (activations d)
     @ map dv_id (devices d) @ map fl_id (fleets d) @ map re_id (reservations d)
     @ map ue_id (usage_events d) @ map dr_id (deletions d) @ map ob_id (outbox d)
     @ map su_id (subscriptions d)"

definition fresh :: "env \<Rightarrow> db \<Rightarrow> bool" where
  "fresh e d \<longleftrightarrow> distinct (map (e_id e) [0..<8])
     \<and> list_all (\<lambda>k. e_id e k \<notin> set (ids_in d)) [0..<8]"

lemma fresh_new: "fresh e d \<Longrightarrow> k < 8 \<Longrightarrow> e_id e k \<notin> set (ids_in d)"
  by (auto simp: fresh_def list_all_iff)

lemma ids_in_rows:
  "r \<in> set (installations d) \<Longrightarrow> in_id r \<in> set (ids_in d)"
  "l \<in> set (licenses d) \<Longrightarrow> li_id l \<in> set (ids_in d)"
  "a \<in> set (activations d) \<Longrightarrow> ac_id a \<in> set (ids_in d)"
  "v \<in> set (reservations d) \<Longrightarrow> re_id v \<in> set (ids_in d)"
  "x \<in> set (deletions d) \<Longrightarrow> dr_id x \<in> set (ids_in d)"
  "s \<in> set (subscriptions d) \<Longrightarrow> su_id s \<in> set (ids_in d)"
  "u \<in> set (usage_events d) \<Longrightarrow> ue_id u \<in> set (ids_in d)"
  "b \<in> set (outbox d) \<Longrightarrow> ob_id b \<in> set (ids_in d)"
  by (simp_all add: ids_in_def)

lemma fresh_rows:
  assumes "fresh e d" and "k < 8"
  shows "r \<in> set (installations d) \<Longrightarrow> in_id r \<noteq> e_id e k"
    and "l \<in> set (licenses d) \<Longrightarrow> li_id l \<noteq> e_id e k"
    and "a \<in> set (activations d) \<Longrightarrow> ac_id a \<noteq> e_id e k"
    and "v \<in> set (reservations d) \<Longrightarrow> re_id v \<noteq> e_id e k"
    and "x \<in> set (deletions d) \<Longrightarrow> dr_id x \<noteq> e_id e k"
    and "s \<in> set (subscriptions d) \<Longrightarrow> su_id s \<noteq> e_id e k"
    and "u \<in> set (usage_events d) \<Longrightarrow> ue_id u \<noteq> e_id e k"
    and "b \<in> set (outbox d) \<Longrightarrow> ob_id b \<noteq> e_id e k"
  by (metis fresh_new [OF assms] ids_in_rows)+

lemma fresh_distinct: "fresh e d \<Longrightarrow> j < 8 \<Longrightarrow> k < 8 \<Longrightarrow> j \<noteq> k \<Longrightarrow> e_id e j \<noteq> e_id e k"
  by (auto simp: fresh_def distinct_map inj_on_def)

text \<open>\<^verbatim>\<open>json!\<close> of an \<^verbatim>\<open>f64\<close>: a number that is not finite becomes null.\<close>

definition json_f64 :: "f64 \<Rightarrow> json" where
  "json_f64 x = (if f64_is_finite x then JFloat x else JNull)"

section \<open>Audit and outbox\<close>

record customer_audit =
  a_event :: string
  a_actor :: uuid
  a_customer :: "uuid option"
  a_target_type :: string
  a_target :: string
  a_reason :: string
  a_before :: "json option"
  a_after :: "json option"
  a_correlation :: "string option"

definition write_audit :: "string \<Rightarrow> customer_audit \<Rightarrow> db \<Rightarrow> db" where
  "write_audit actor_type r d = d\<lparr>audits := audits d @
     [\<lparr>au_event = a_event r, au_actor_type = actor_type, au_actor = Some (a_actor r),
       au_customer = a_customer r, au_target_type = a_target_type r, au_target = a_target r,
       au_reason = a_reason r, au_before = map_option sanitize (a_before r),
       au_after = map_option sanitize (a_after r), au_correlation = a_correlation r\<rparr>]\<rparr>"

text \<open>\<^verbatim>\<open>write_customer_audit\<close> and \<^verbatim>\<open>write_operator_audit\<close> differ in the actor.\<close>

definition write_customer_audit :: "customer_audit \<Rightarrow> db \<Rightarrow> db" where
  "write_customer_audit r d =
     write_audit ''customer'' (r\<lparr>a_customer := Some (a_actor r)\<rparr>) d"

definition write_operator_audit :: "customer_audit \<Rightarrow> db \<Rightarrow> db" where
  "write_operator_audit r d = write_audit ''operator'' r d"

text \<open>
  \<^verbatim>\<open>write_outbox\<close>: sanitized, and \<^verbatim>\<open>on conflict (delivery_key) do nothing\<close>. The number is
  the generated uuid the row takes.
\<close>

definition write_outbox :: "env \<Rightarrow> nat \<Rightarrow> string \<Rightarrow> string \<Rightarrow> json \<Rightarrow> db \<Rightarrow> db" where
  "write_outbox e n event key payload d =
     (if find (\<lambda>r. ob_key r = key) (outbox d) \<noteq> None then d
      else d\<lparr>outbox := outbox d @
        [\<lparr>ob_id = e_id e n, ob_event = event, ob_key = key, ob_payload = sanitize payload,
          ob_status = ''pending'', ob_attempts = 0, ob_error = None, ob_next = e_now e,
          ob_delivered = None, ob_created = e_now e\<rparr>]\<rparr>)"

text \<open>Everything that leaves through the audit log and the outbox is free of prohibited keys.\<close>

definition audit_clean :: "audit_row \<Rightarrow> bool" where
  "audit_clean r \<longleftrightarrow>
     (\<forall>v \<in> set_option (au_before r) \<union> set_option (au_after r). \<not> contains_prohibited v)"

definition sanitized_db :: "db \<Rightarrow> bool" where
  "sanitized_db d \<longleftrightarrow>
     list_all audit_clean (audits d) \<and> list_all (\<lambda>r. \<not> contains_prohibited (ob_payload r)) (outbox d)"

definition outbox_keys_distinct :: "db \<Rightarrow> bool" where
  "outbox_keys_distinct d \<longleftrightarrow> distinct (map ob_key (outbox d))"

lemma write_audit_sanitized: "sanitized_db d \<Longrightarrow> sanitized_db (write_audit t r d)"
  by (auto simp: sanitized_db_def write_audit_def audit_clean_def sanitize_clean)

lemma write_customer_audit_sanitized: "sanitized_db d \<Longrightarrow> sanitized_db (write_customer_audit r d)"
  by (simp add: write_customer_audit_def write_audit_sanitized)

lemma write_operator_audit_sanitized: "sanitized_db d \<Longrightarrow> sanitized_db (write_operator_audit r d)"
  by (simp add: write_operator_audit_def write_audit_sanitized)

lemma write_outbox_sanitized: "sanitized_db d \<Longrightarrow> sanitized_db (write_outbox e n ev k p d)"
  by (auto simp: sanitized_db_def write_outbox_def sanitize_clean)

lemma write_outbox_keys: "outbox_keys_distinct d \<Longrightarrow> outbox_keys_distinct (write_outbox e n ev k p d)"
  by (auto simp: outbox_keys_distinct_def write_outbox_def find_None_iff)

text \<open>What the writers leave alone.\<close>

lemma write_customer_audit_frame [simp]:
  "customers (write_customer_audit r d) = customers d"
  "status_history (write_customer_audit r d) = status_history d"
  "mfa_history (write_customer_audit r d) = mfa_history d"
  "emails (write_customer_audit r d) = emails d"
  "products (write_customer_audit r d) = products d"
  "channels (write_customer_audit r d) = channels d"
  "plans (write_customer_audit r d) = plans d"
  "plan_versions (write_customer_audit r d) = plan_versions d"
  "features_t (write_customer_audit r d) = features_t d"
  "plan_features (write_customer_audit r d) = plan_features d"
  "policies (write_customer_audit r d) = policies d"
  "subscriptions (write_customer_audit r d) = subscriptions d"
  "licenses (write_customer_audit r d) = licenses d"
  "devices (write_customer_audit r d) = devices d"
  "fleets (write_customer_audit r d) = fleets d"
  "fleet_apps (write_customer_audit r d) = fleet_apps d"
  "installations (write_customer_audit r d) = installations d"
  "activations (write_customer_audit r d) = activations d"
  "revocations (write_customer_audit r d) = revocations d"
  "overrides (write_customer_audit r d) = overrides d"
  "meters (write_customer_audit r d) = meters d"
  "reservations (write_customer_audit r d) = reservations d"
  "usage_events (write_customer_audit r d) = usage_events d"
  "totals (write_customer_audit r d) = totals d"
  "decisions (write_customer_audit r d) = decisions d"
  "outbox (write_customer_audit r d) = outbox d"
  "deletions (write_customer_audit r d) = deletions d"
  by (simp_all add: write_customer_audit_def write_audit_def)

lemma write_operator_audit_frame [simp]:
  "customers (write_operator_audit r d) = customers d"
  "status_history (write_operator_audit r d) = status_history d"
  "mfa_history (write_operator_audit r d) = mfa_history d"
  "emails (write_operator_audit r d) = emails d"
  "products (write_operator_audit r d) = products d"
  "channels (write_operator_audit r d) = channels d"
  "plans (write_operator_audit r d) = plans d"
  "plan_versions (write_operator_audit r d) = plan_versions d"
  "features_t (write_operator_audit r d) = features_t d"
  "plan_features (write_operator_audit r d) = plan_features d"
  "policies (write_operator_audit r d) = policies d"
  "subscriptions (write_operator_audit r d) = subscriptions d"
  "licenses (write_operator_audit r d) = licenses d"
  "devices (write_operator_audit r d) = devices d"
  "fleets (write_operator_audit r d) = fleets d"
  "fleet_apps (write_operator_audit r d) = fleet_apps d"
  "installations (write_operator_audit r d) = installations d"
  "activations (write_operator_audit r d) = activations d"
  "revocations (write_operator_audit r d) = revocations d"
  "overrides (write_operator_audit r d) = overrides d"
  "meters (write_operator_audit r d) = meters d"
  "reservations (write_operator_audit r d) = reservations d"
  "usage_events (write_operator_audit r d) = usage_events d"
  "totals (write_operator_audit r d) = totals d"
  "decisions (write_operator_audit r d) = decisions d"
  "outbox (write_operator_audit r d) = outbox d"
  "deletions (write_operator_audit r d) = deletions d"
  by (simp_all add: write_operator_audit_def write_audit_def)

lemma write_outbox_frame [simp]:
  "customers (write_outbox e n ev k p d) = customers d"
  "status_history (write_outbox e n ev k p d) = status_history d"
  "mfa_history (write_outbox e n ev k p d) = mfa_history d"
  "emails (write_outbox e n ev k p d) = emails d"
  "products (write_outbox e n ev k p d) = products d"
  "channels (write_outbox e n ev k p d) = channels d"
  "plans (write_outbox e n ev k p d) = plans d"
  "plan_versions (write_outbox e n ev k p d) = plan_versions d"
  "features_t (write_outbox e n ev k p d) = features_t d"
  "plan_features (write_outbox e n ev k p d) = plan_features d"
  "policies (write_outbox e n ev k p d) = policies d"
  "subscriptions (write_outbox e n ev k p d) = subscriptions d"
  "licenses (write_outbox e n ev k p d) = licenses d"
  "devices (write_outbox e n ev k p d) = devices d"
  "fleets (write_outbox e n ev k p d) = fleets d"
  "fleet_apps (write_outbox e n ev k p d) = fleet_apps d"
  "installations (write_outbox e n ev k p d) = installations d"
  "activations (write_outbox e n ev k p d) = activations d"
  "revocations (write_outbox e n ev k p d) = revocations d"
  "overrides (write_outbox e n ev k p d) = overrides d"
  "meters (write_outbox e n ev k p d) = meters d"
  "reservations (write_outbox e n ev k p d) = reservations d"
  "usage_events (write_outbox e n ev k p d) = usage_events d"
  "totals (write_outbox e n ev k p d) = totals d"
  "decisions (write_outbox e n ev k p d) = decisions d"
  "audits (write_outbox e n ev k p d) = audits d"
  "deletions (write_outbox e n ev k p d) = deletions d"
  by (simp_all add: write_outbox_def)

end
