(* ===== verification/License_Rules.thy ===== *)
theory License_Rules
  imports Rust_Str
begin

text \<open>
  \<^verbatim>\<open>api/src/domain/subscription.rs\<close> and \<^verbatim>\<open>api/src/domain/license.rs\<close>: the canonical
  subscription statuses, the licence status and how subscription truth moves it, the device
  limit, and the validity of an offline lease.
\<close>

section \<open>Subscription statuses\<close>

datatype subscription_status =
  Trialing | SubActive | PastDue | Unpaid | Canceled | Incomplete | Paused

fun sub_as_str :: "subscription_status \<Rightarrow> string" where
  "sub_as_str Trialing = ''trialing''"
| "sub_as_str SubActive = ''active''"
| "sub_as_str PastDue = ''past_due''"
| "sub_as_str Unpaid = ''unpaid''"
| "sub_as_str Canceled = ''canceled''"
| "sub_as_str Incomplete = ''incomplete''"
| "sub_as_str Paused = ''paused''"

definition grants_cloud :: "subscription_status \<Rightarrow> bool" where
  "grants_cloud s \<longleftrightarrow> s = Trialing \<or> s = SubActive"

definition normalize_stripe_status :: "string \<Rightarrow> subscription_status" where
  "normalize_stripe_status raw =
     (if raw = ''trialing'' then Trialing
      else if raw = ''active'' then SubActive
      else if raw = ''past_due'' then PastDue
      else if raw = ''unpaid'' then Unpaid
      else if raw = ''canceled'' then Canceled
      else if raw = ''incomplete'' then Incomplete
      else if raw = ''incomplete_expired'' then Canceled
      else if raw = ''paused'' then Paused
      else Incomplete)"

lemma normalize_as_str [simp]: "normalize_stripe_status (sub_as_str s) = s"
  by (cases s) (simp_all add: normalize_stripe_status_def)

text \<open>Only the two exact strings grant cloud features: everything else fails closed.\<close>

lemma normalize_grants_iff:
  "grants_cloud (normalize_stripe_status raw) \<longleftrightarrow> raw = ''trialing'' \<or> raw = ''active''"
  by (simp add: normalize_stripe_status_def grants_cloud_def)

section \<open>Device limit\<close>

definition can_activate_device :: "int \<Rightarrow> int \<Rightarrow> bool" where
  "can_activate_device active_devices device_limit \<longleftrightarrow> active_devices < device_limit"

section \<open>Licence statuses\<close>

datatype license_status = LicActive | Suspended | Revoked | Expired

fun lic_as_str :: "license_status \<Rightarrow> string" where
  "lic_as_str LicActive = ''active''"
| "lic_as_str Suspended = ''suspended''"
| "lic_as_str Revoked = ''revoked''"
| "lic_as_str Expired = ''expired''"

definition lic_parse :: "string \<Rightarrow> license_status" where
  "lic_parse raw =
     (if raw = ''active'' then LicActive
      else if raw = ''suspended'' then Suspended
      else if raw = ''expired'' then Expired
      else Revoked)"

lemma lic_parse_as_str [simp]: "lic_parse (lic_as_str s) = s"
  by (cases s) (simp_all add: lic_parse_def)

lemma lic_parse_eq:
  "lic_parse raw = LicActive \<longleftrightarrow> raw = ''active''"
  "lic_parse raw = Suspended \<longleftrightarrow> raw = ''suspended''"
  "lic_parse raw = Expired \<longleftrightarrow> raw = ''expired''"
  "lic_parse raw = Revoked \<longleftrightarrow> raw \<notin> {''active'', ''suspended'', ''expired''}"
  by (simp_all add: lic_parse_def)

datatype sync_action = Issue | Reactivate | Suspend | Expire

fun license_sync_action ::
    "license_status option \<Rightarrow> subscription_status \<Rightarrow> sync_action option" where
  "license_sync_action None sub = (if grants_cloud sub then Some Issue else None)"
| "license_sync_action (Some Revoked) sub = None"
| "license_sync_action (Some LicActive) sub =
     (if sub = SubActive \<or> sub = Trialing \<or> sub = PastDue then None
      else if sub = Canceled then Some Expire
      else Some Suspend)"
| "license_sync_action (Some Suspended) sub =
     (if sub = SubActive \<or> sub = Trialing then Some Reactivate
      else if sub = Canceled then Some Expire
      else None)"
| "license_sync_action (Some Expired) sub =
     (if sub = SubActive \<or> sub = Trialing then Some Reactivate else None)"

text \<open>The status each action leaves, as the persistence layer writes it.\<close>

fun after_action :: "sync_action \<Rightarrow> license_status" where
  "after_action Issue = LicActive"
| "after_action Reactivate = LicActive"
| "after_action Suspend = Suspended"
| "after_action Expire = Expired"

definition sync_status ::
    "subscription_status \<Rightarrow> license_status option \<Rightarrow> license_status option" where
  "sync_status sub l =
     (case license_sync_action l sub of None \<Rightarrow> l | Some a \<Rightarrow> Some (after_action a))"

text \<open>The table the rules add up to.\<close>

lemma sync_status_table:
  "sync_status sub l =
     (if l = Some Revoked then Some Revoked
      else if grants_cloud sub then Some LicActive
      else case l of
        None \<Rightarrow> None
      | Some s \<Rightarrow> Some (if sub = Canceled then Expired
                       else if s = LicActive \<and> sub \<noteq> PastDue then Suspended
                       else s))"
  by (cases "(l, sub)" rule: license_sync_action.cases; cases sub)
    (auto simp: sync_status_def grants_cloud_def)

lemma sync_status_idem [simp]: "sync_status sub (sync_status sub l) = sync_status sub l"
  by (auto simp: sync_status_table split: option.splits)

interpretation lic_machine: status_machine sync_status "\<lambda>l. l = Some Revoked"
  by unfold_locales (simp add: sync_status_table)

text \<open>
  Over a whole history: a licence that is active was last granted by a status that grants
  cloud, with nothing but \<^verbatim>\<open>past_due\<close> since.
\<close>

lemma active_after_run:
  "fold sync_status subs None = Some LicActive \<longleftrightarrow>
     (\<exists>pre s post. subs = pre @ s # post \<and> grants_cloud s \<and> set post \<subseteq> {PastDue, Trialing, SubActive})"
proof (induction subs rule: rev_induct)
  case Nil
  then show ?case by simp
next
  case (snoc s subs)
  have norev: "fold sync_status subs None \<noteq> Some Revoked"
    by (rule lic_machine.run_invariant [where I = "\<lambda>l. l \<noteq> Some Revoked"])
      (auto simp: sync_status_table split: option.splits)
  have step: "fold sync_status (subs @ [s]) None = Some LicActive \<longleftrightarrow>
      grants_cloud s \<or> (s = PastDue \<and> fold sync_status subs None = Some LicActive)"
    using norev by (auto simp: sync_status_table grants_cloud_def
        split: option.splits if_splits)
  show ?case (is "_ \<longleftrightarrow> ?R (subs @ [s])")
  proof
    assume "fold sync_status (subs @ [s]) None = Some LicActive"
    with step consider "grants_cloud s" | "s = PastDue" "?R subs" using snoc by blast
    then show "?R (subs @ [s])"
    proof cases
      case 1
      then show ?thesis by (intro exI [of _ subs] exI [of _ s] exI [of _ "[]"]) simp
    next
      case 2
      then obtain pre t post where "subs = pre @ t # post" "grants_cloud t"
        "set post \<subseteq> {PastDue, Trialing, SubActive}" by blast
      with 2 show ?thesis
        by (intro exI [of _ pre] exI [of _ t] exI [of _ "post @ [s]"]) simp
    qed
  next
    assume "?R (subs @ [s])"
    then obtain pre t post where h: "subs @ [s] = pre @ t # post" "grants_cloud t"
        "set post \<subseteq> {PastDue, Trialing, SubActive}" by blast
    show "fold sync_status (subs @ [s]) None = Some LicActive"
    proof (cases post rule: rev_cases)
      case Nil
      with h step show ?thesis by simp
    next
      case (snoc post' u)
      with h have "s = u" "subs = pre @ t # post'" by simp_all
      with h snoc have "?R subs" "s = PastDue \<or> grants_cloud s" by (auto simp: grants_cloud_def)
      with step snoc.IH show ?thesis by blast
    qed
  qed
qed

section \<open>Offline leases\<close>

datatype lease_invalid_reason = LeaseExpired | LeaseRevoked | OutsideGrace

text \<open>\<^verbatim>\<open>grace_seconds\<close> is an \<^verbatim>\<open>i64\<close> count of seconds, instants are nanoseconds.\<close>

definition validate_lease :: "time \<Rightarrow> bool \<Rightarrow> time \<Rightarrow> int \<Rightarrow> lease_invalid_reason + unit" where
  "validate_lease expires_at revoked now grace_seconds =
     (if revoked then Inl LeaseRevoked
      else if now \<le> expires_at then Inr ()
      else let grace_end = expires_at + secs grace_seconds
           in if now \<le> grace_end then Inr () else Inl OutsideGrace)"

lemma validate_lease_ok:
  "validate_lease e r now g = Inr () \<longleftrightarrow> \<not> r \<and> now \<le> max e (e + secs g)"
  by (auto simp: validate_lease_def Let_def)

text \<open>A lease that is valid now was valid at every earlier instant.\<close>

lemma validate_lease_antimono:
  "validate_lease e r now g = Inr () \<Longrightarrow> before \<le> now \<Longrightarrow> validate_lease e r before g = Inr ()"
  by (auto simp: validate_lease_ok)

end
