(* ===== verification/Cleaning.thy ===== *)
theory Cleaning
  imports Rust_Str
begin

text \<open>
  The contract shared by the input validators of the domain modules: trim, then accept
  exactly the strings with some property and return the trimmed string. The locales state
  it once for required and once for optional fields; each validator interprets one of them.
  An error is the pair of field and message that the \<^verbatim>\<open>...ValidationError\<close> structs hold.
\<close>

type_synonym verr = "string \<times> string"

abbreviation squote :: string where "squote \<equiv> [CHR 0x27]"

definition chars_ok :: "char list \<Rightarrow> string \<Rightarrow> bool" where
  "chars_ok extra s \<longleftrightarrow> list_all (\<lambda>c. is_alnum c \<or> c \<in> set extra) s"

definition one_of :: "string list \<Rightarrow> string \<Rightarrow> bool" where
  "one_of xs s \<longleftrightarrow> s \<in> set xs"

locale cleaner =
  fixes clean :: "string \<Rightarrow> verr + string"
    and accepts :: "string \<Rightarrow> bool"
  assumes clean_iff: "clean s = Inr t \<longleftrightarrow> t = trim s \<and> accepts (trim s)"
begin

lemma sound: "clean s = Inr t \<Longrightarrow> accepts t \<and> trim t = t"
  by (simp add: clean_iff)

text \<open>Validated values validate to themselves.\<close>

lemma idem: "clean s = Inr t \<Longrightarrow> clean t = Inr t"
  by (simp add: clean_iff)

lemma total: "accepts (trim s) \<Longrightarrow> clean s = Inr (trim s)"
  by (simp add: clean_iff)

lemma rejects: "\<not> accepts (trim s) \<Longrightarrow> \<exists>e. clean s = Inl e"
  by (cases "clean s") (simp_all add: clean_iff)

end

locale opt_cleaner =
  fixes clean_opt :: "string option \<Rightarrow> verr + string option"
    and accepts :: "string \<Rightarrow> bool"
  assumes clean_opt_iff: "clean_opt v = Inr w \<longleftrightarrow>
      (case trim_opt v of None \<Rightarrow> w = None | Some t \<Rightarrow> w = Some t \<and> accepts t)"
begin

lemma opt_sound: "clean_opt v = Inr (Some t) \<Longrightarrow> accepts t \<and> trim t = t \<and> t \<noteq> []"
  using trim_opt_Some [of v t] by (auto simp: clean_opt_iff split: option.splits)

lemma opt_idem: "clean_opt v = Inr w \<Longrightarrow> clean_opt w = Inr w"
  using trim_opt_idem [of v] by (auto simp: clean_opt_iff split: option.splits)

lemma opt_blank: "trim_opt v = None \<Longrightarrow> clean_opt v = Inr None"
  by (simp add: clean_opt_iff)

text \<open>On a non-blank value it acts as a required validator.\<close>

lemma opt_present: "trim_opt v = Some t \<Longrightarrow> clean_opt v = Inr (Some t) \<longleftrightarrow> accepts t"
  by (simp add: clean_opt_iff)

end

end
