(* ===== verification/Validation.thy ===== *)
theory Validation
  imports Cleaning
begin

text \<open>
  Client-facing validation: \<^verbatim>\<open>api/src/domain/installation.rs\<close> (registration input and the
  device key), \<^verbatim>\<open>checkout.rs\<close>, \<^verbatim>\<open>customer.rs\<close> and \<^verbatim>\<open>clean_entitlement_key\<close> of
  \<^verbatim>\<open>entitlement.rs\<close>. Base64 and SHA-256 come from crates and are parameters.
\<close>

section \<open>Installation fields\<close>

definition clean_install_key :: "string \<Rightarrow> verr + string" where
  "clean_install_key value =
     (let v = trim value
      in if length v < 8 then Inl (''install_key'', ''must be at least 8 characters'')
         else if 120 < length v then Inl (''install_key'', ''must be at most 120 characters'')
         else if \<not> chars_ok ''-_.:'' v
           then Inl (''install_key'', ''must contain only letters, numbers, '-', '_', '.', or ':'' @ squote)
         else Inr v)"

definition clean_product_key :: "string option \<Rightarrow> verr + string" where
  "clean_product_key value =
     (case map_option trim value of
        Some v \<Rightarrow>
          (if v = [] then Inr ''authorforge''
           else if 120 < length v \<or> \<not> chars_ok ''_'' v
             then Inl (''product_key'', ''must contain only letters, numbers, and underscores'')
           else Inr v)
      | None \<Rightarrow> Inr ''authorforge'')"

definition clean_app_version :: "string option \<Rightarrow> verr + string option" where
  "clean_app_version value =
     (case trim_opt value of
        None \<Rightarrow> Inr None
      | Some v \<Rightarrow>
          (if 64 < length v then Inl (''app_version'', ''must be at most 64 characters'')
           else if \<not> chars_ok ''.-_+'' v
             then Inl (''app_version'', ''must contain only letters, numbers, '.', '-', '_', or '+'' @ squote)
           else Inr (Some v)))"

definition clean_build_id :: "string option \<Rightarrow> verr + string option" where
  "clean_build_id value =
     (case trim_opt value of
        None \<Rightarrow> Inr None
      | Some v \<Rightarrow>
          (if 120 < length v then Inl (''build_id'', ''must be at most 120 characters'')
           else if \<not> chars_ok ''.-_:'' v
             then Inl (''build_id'', ''must contain only letters, numbers, '.', '-', '_', or ':'' @ squote)
           else Inr (Some v)))"

definition clean_platform :: "string option \<Rightarrow> verr + string option" where
  "clean_platform value =
     (case trim_opt value of
        None \<Rightarrow> Inr None
      | Some v \<Rightarrow>
          (if one_of [''windows'', ''linux'', ''darwin''] v then Inr (Some v)
           else Inl (''platform'', ''must be windows, linux, or darwin'')))"

definition clean_architecture :: "string option \<Rightarrow> verr + string option" where
  "clean_architecture value =
     (case trim_opt value of
        None \<Rightarrow> Inr None
      | Some v \<Rightarrow>
          (if one_of [''x86_64'', ''aarch64'', ''i686'', ''armv7''] v then Inr (Some v)
           else Inl (''architecture'', ''must be x86_64, aarch64, i686, or armv7'')))"

definition clean_package_format :: "string option \<Rightarrow> verr + string option" where
  "clean_package_format value =
     (case trim_opt value of
        None \<Rightarrow> Inr None
      | Some v \<Rightarrow>
          (if 40 < length v then Inl (''package_format'', ''must be at most 40 characters'')
           else if \<not> chars_ok ''.-_'' v
             then Inl (''package_format'', ''must contain only letters, numbers, '.', '-', or '_'' @ squote)
           else Inr (Some v)))"

definition clean_device_label :: "string option \<Rightarrow> verr + string option" where
  "clean_device_label value =
     (case trim_opt value of
        None \<Rightarrow> Inr None
      | Some v \<Rightarrow>
          (if 80 < length v then Inl (''device_label'', ''must be at most 80 characters'')
           else if has_control v
             then Inl (''device_label'', ''must not contain control characters'')
           else Inr (Some v)))"

lemmas installation_clean_defs =
  clean_app_version_def clean_build_id_def clean_platform_def clean_architecture_def
  clean_package_format_def clean_device_label_def

interpretation install_key: cleaner clean_install_key
    "\<lambda>s. 8 \<le> length s \<and> length s \<le> 120 \<and> chars_ok ''-_.:'' s"
  by unfold_locales (auto simp: clean_install_key_def Let_def)

interpretation app_version: opt_cleaner clean_app_version
    "\<lambda>s. length s \<le> 64 \<and> chars_ok ''.-_+'' s"
  by unfold_locales (auto simp: installation_clean_defs split: option.splits)

interpretation build_id: opt_cleaner clean_build_id
    "\<lambda>s. length s \<le> 120 \<and> chars_ok ''.-_:'' s"
  by unfold_locales (auto simp: installation_clean_defs split: option.splits)

interpretation platform: opt_cleaner clean_platform "one_of [''windows'', ''linux'', ''darwin'']"
  by unfold_locales (auto simp: installation_clean_defs split: option.splits)

interpretation architecture: opt_cleaner clean_architecture
    "one_of [''x86_64'', ''aarch64'', ''i686'', ''armv7'']"
  by unfold_locales (auto simp: installation_clean_defs split: option.splits)

interpretation package_format: opt_cleaner clean_package_format
    "\<lambda>s. length s \<le> 40 \<and> chars_ok ''.-_'' s"
  by unfold_locales (auto simp: installation_clean_defs split: option.splits)

interpretation device_label: opt_cleaner clean_device_label
    "\<lambda>s. length s \<le> 80 \<and> \<not> has_control s"
  by unfold_locales (auto simp: installation_clean_defs split: option.splits)

lemma clean_product_key_eq:
  "clean_product_key value = Inr k \<longleftrightarrow>
     (case trim_opt value of None \<Rightarrow> k = ''authorforge''
      | Some v \<Rightarrow> k = v \<and> length v \<le> 120 \<and> chars_ok ''_'' v)"
  by (auto simp: clean_product_key_def trim_opt_def split: option.splits)

lemma clean_product_key_idem: "clean_product_key v = Inr k \<Longrightarrow> clean_product_key (Some k) = Inr k"
proof -
  have "clean_product_key (Some ''authorforge'') = Inr ''authorforge''" by code_simp
  then show "clean_product_key v = Inr k \<Longrightarrow> ?thesis"
    using trim_opt_idem [of v] by (auto simp: clean_product_key_eq split: option.splits)
qed

section \<open>Device key and registration\<close>

text \<open>
  The standard base64 engine and \<^verbatim>\<open>hex::encode(Sha256::digest(..))\<close>; byte strings are
  strings of bytes.
\<close>

record codec =
  b64_decode :: "string \<Rightarrow> string option"
  b64_encode :: "string \<Rightarrow> string"
  sha256_hex :: "string \<Rightarrow> string"

definition clean_device_public_key :: "codec \<Rightarrow> string \<Rightarrow> verr + (string \<times> string)" where
  "clean_device_public_key cd value =
     (let v = trim value
      in if v = [] \<or> 64 < length v
         then Inl (''device_public_key'', ''must be a base64-encoded 32-byte Ed25519 public key'')
         else case b64_decode cd v of
           None \<Rightarrow> Inl (''device_public_key'', ''must be valid standard base64 with padding'')
         | Some bytes \<Rightarrow>
             (if length bytes \<noteq> 32
              then Inl (''device_public_key'', ''must decode to exactly 32 bytes'')
              else Inr (b64_encode cd bytes, sha256_hex cd bytes)))"

record registration_input =
  ri_install_key :: string
  ri_product_key :: "string option"
  ri_app_version :: "string option"
  ri_build_id :: "string option"
  ri_platform :: "string option"
  ri_architecture :: "string option"
  ri_package_format :: "string option"
  ri_updater_version :: "string option"
  ri_device_public_key :: "string option"
  ri_device_label :: "string option"

record validated_device =
  vd_public_key :: string
  vd_public_key_fpr :: string
  vd_label :: "string option"

record validated_registration =
  vr_install_key :: string
  vr_product_key :: string
  vr_app_version :: "string option"
  vr_build_id :: "string option"
  vr_platform :: "string option"
  vr_architecture :: "string option"
  vr_package_format :: "string option"
  vr_updater_version :: "string option"
  vr_device :: "validated_device option"

definition validate_registration ::
    "codec \<Rightarrow> registration_input \<Rightarrow> verr + validated_registration" where
  "validate_registration cd input =
     bind_r (clean_device_label (ri_device_label input)) (\<lambda>label.
     bind_r (case trim_opt (ri_device_public_key input) of
               Some raw \<Rightarrow>
                 bind_r (clean_device_public_key cd raw) (\<lambda>(public_key, fpr).
                   Inr (Some \<lparr>vd_public_key = public_key, vd_public_key_fpr = fpr, vd_label = label\<rparr>))
             | None \<Rightarrow>
                 (if label \<noteq> None
                  then Inl (''device_label'', ''requires device_public_key to be provided'')
                  else Inr None)) (\<lambda>device.
     bind_r (clean_install_key (ri_install_key input)) (\<lambda>install_key.
     bind_r (clean_product_key (ri_product_key input)) (\<lambda>product_key.
     bind_r (clean_app_version (ri_app_version input)) (\<lambda>app_version.
     bind_r (clean_build_id (ri_build_id input)) (\<lambda>build_id.
     bind_r (clean_platform (ri_platform input)) (\<lambda>platform.
     bind_r (clean_architecture (ri_architecture input)) (\<lambda>architecture.
     bind_r (clean_package_format (ri_package_format input)) (\<lambda>package_format.
     bind_r (clean_app_version (ri_updater_version input)) (\<lambda>updater_version.
     Inr \<lparr>vr_install_key = install_key, vr_product_key = product_key,
          vr_app_version = app_version, vr_build_id = build_id, vr_platform = platform,
          vr_architecture = architecture, vr_package_format = package_format,
          vr_updater_version = updater_version, vr_device = device\<rparr>))))))))))"

text \<open>The registration input a client would send to repeat a validated one.\<close>

definition as_input :: "validated_registration \<Rightarrow> registration_input" where
  "as_input r =
     \<lparr>ri_install_key = vr_install_key r, ri_product_key = Some (vr_product_key r),
      ri_app_version = vr_app_version r, ri_build_id = vr_build_id r,
      ri_platform = vr_platform r, ri_architecture = vr_architecture r,
      ri_package_format = vr_package_format r, ri_updater_version = vr_updater_version r,
      ri_device_public_key = map_option vd_public_key (vr_device r),
      ri_device_label = Option.bind (vr_device r) vd_label\<rparr>"

text \<open>What the code relies on of the base64 crate: 32 bytes encode to a short, trimmed text
  that decodes to the same bytes.\<close>

definition codec_ok :: "codec \<Rightarrow> bool" where
  "codec_ok cd \<longleftrightarrow> (\<forall>b. length b = 32 \<longrightarrow>
     b64_decode cd (b64_encode cd b) = Some b \<and> b64_encode cd b \<noteq> []
     \<and> length (b64_encode cd b) \<le> 64 \<and> trim (b64_encode cd b) = b64_encode cd b)"

lemma device_key_idem:
  assumes "codec_ok cd" and "clean_device_public_key cd v = Inr (k, f)"
  shows "clean_device_public_key cd k = Inr (k, f) \<and> trim_opt (Some k) = Some k"
proof -
  from assms(2) obtain b where b: "length b = 32" "k = b64_encode cd b" "f = sha256_hex cd b"
    by (auto simp: clean_device_public_key_def Let_def split: if_splits option.splits)
  with assms(1) have "b64_decode cd k = Some b" "k \<noteq> []" "length k \<le> 64" "trim k = k"
    by (auto simp: codec_ok_def)
  with b show ?thesis by (simp add: clean_device_public_key_def trim_opt_def)
qed

lemma validate_registration_idem:
  assumes cd: "codec_ok cd" and r: "validate_registration cd i = Inr r"
  shows "validate_registration cd (as_input r) = Inr r"
proof -
  have none: "clean_device_label None = Inr None"
    by (simp add: clean_device_label_def)
  note idem = install_key.idem clean_product_key_idem app_version.opt_idem build_id.opt_idem
    platform.opt_idem architecture.opt_idem package_format.opt_idem device_label.opt_idem
  show ?thesis
  proof (cases "trim_opt (ri_device_public_key i)")
    case None
    with r none show ?thesis
      by (auto simp: validate_registration_def as_input_def dest: idem split: if_splits)
  next
    case (Some raw)
    with r obtain label k f where key: "clean_device_public_key cd raw = Inr (k, f)"
      "clean_device_label (ri_device_label i) = Inr label"
      "vr_device r = Some \<lparr>vd_public_key = k, vd_public_key_fpr = f, vd_label = label\<rparr>"
      by (auto simp: validate_registration_def)
    note again = device_key_idem [OF cd key(1)] device_label.opt_idem [OF key(2)]
    from r Some have "clean_install_key (vr_install_key r) = Inr (vr_install_key r)"
      "clean_product_key (Some (vr_product_key r)) = Inr (vr_product_key r)"
      "clean_app_version (vr_app_version r) = Inr (vr_app_version r)"
      "clean_build_id (vr_build_id r) = Inr (vr_build_id r)"
      "clean_platform (vr_platform r) = Inr (vr_platform r)"
      "clean_architecture (vr_architecture r) = Inr (vr_architecture r)"
      "clean_package_format (vr_package_format r) = Inr (vr_package_format r)"
      "clean_app_version (vr_updater_version r) = Inr (vr_updater_version r)"
      by (auto simp: validate_registration_def dest: idem)
    then show ?thesis
      using again key(3) by (simp add: validate_registration_def as_input_def del: bind_r_eq_Inr)
  qed
qed

text \<open>A concrete codec that meets the requirement: hexadecimal text in place of base64.\<close>

definition hex_codec :: codec where
  "hex_codec = \<lparr>b64_decode = hex_decode, b64_encode = hex_encode, sha256_hex = hex_encode\<rparr>"

lemma hex_codec_ok: "codec_ok hex_codec"
  by (auto simp: codec_ok_def hex_codec_def simp flip: length_0_conv)

section \<open>Checkout\<close>

record checkout_input =
  ci_product_key :: "string option"
  ci_plan_key :: string
  ci_success_url :: string
  ci_cancel_url :: string

record validated_checkout_input =
  vc_product_key :: string
  vc_plan_key :: string
  vc_success_url :: string
  vc_cancel_url :: string

definition clean_key :: "string \<Rightarrow> string \<Rightarrow> verr + string" where
  "clean_key value field =
     (let v = trim value
      in if v = [] then Inl (field, ''field is required'')
         else if 120 < length v \<or> \<not> chars_ok ''_'' v
           then Inl (field, ''field must contain only letters, numbers, and underscores'')
         else Inr v)"

definition clean_checkout_url :: "string \<Rightarrow> string \<Rightarrow> verr + string" where
  "clean_checkout_url value field =
     (let v = trim value
      in if v = [] then Inl (field, ''field is required'')
         else if 2048 < length v \<or> \<not> (starts_with ''https://'' v \<or> starts_with ''http://'' v)
           then Inl (field, ''field must be an http or https URL'')
         else Inr v)"

definition validate_checkout_input :: "checkout_input \<Rightarrow> verr + validated_checkout_input" where
  "validate_checkout_input input =
     bind_r (case ci_product_key input of
               Some value \<Rightarrow>
                 (if trim value \<noteq> [] then clean_key value ''product_key'' else Inr ''authorforge'')
             | None \<Rightarrow> Inr ''authorforge'') (\<lambda>product_key.
     bind_r (clean_key (ci_plan_key input) ''plan_key'') (\<lambda>plan_key.
     bind_r (clean_checkout_url (ci_success_url input) ''success_url'') (\<lambda>success_url.
     bind_r (clean_checkout_url (ci_cancel_url input) ''cancel_url'') (\<lambda>cancel_url.
     Inr \<lparr>vc_product_key = product_key, vc_plan_key = plan_key,
          vc_success_url = success_url, vc_cancel_url = cancel_url\<rparr>))))"

definition validate_return_url :: "string \<Rightarrow> verr + string" where
  "validate_return_url value = clean_checkout_url value ''return_url''"

definition key_ok :: "string \<Rightarrow> bool" where
  "key_ok s \<longleftrightarrow> s \<noteq> [] \<and> length s \<le> 120 \<and> chars_ok ''_'' s"

definition url_ok :: "string \<Rightarrow> bool" where
  "url_ok s \<longleftrightarrow> length s \<le> 2048 \<and> (starts_with ''https://'' s \<or> starts_with ''http://'' s)"

interpretation checkout_key: cleaner "\<lambda>s. clean_key s field" key_ok for field
  by unfold_locales (auto simp: clean_key_def key_ok_def Let_def)

interpretation checkout_url: cleaner "\<lambda>s. clean_checkout_url s field" url_ok for field
  by unfold_locales (auto simp: clean_checkout_url_def url_ok_def starts_with_def Let_def)

interpretation return_url: cleaner validate_return_url url_ok
  by unfold_locales (simp add: validate_return_url_def checkout_url.clean_iff)

lemma key_ok_authorforge [simp]: "key_ok ''authorforge''"
  by code_simp

lemma validate_checkout_sound:
  assumes "validate_checkout_input i = Inr v"
  shows "key_ok (vc_product_key v)" "key_ok (vc_plan_key v)"
    "url_ok (vc_success_url v)" "url_ok (vc_cancel_url v)"
  using assms checkout_key.sound checkout_url.sound
  by (fastforce simp: validate_checkout_input_def split: option.splits if_splits)+

section \<open>Customer profile\<close>

record provision_profile_input =
  pi_display_name :: "string option"
  pi_country_code :: "string option"
  pi_timezone :: "string option"

record validated_provision_profile =
  vp_display_name :: "string option"
  vp_country_code :: "string option"
  vp_timezone :: "string option"

text \<open>
  \<^verbatim>\<open>v[..max_len]\<close> slices at a byte index and panics inside a character: the outer
  \<open>None\<close> is that panic.
\<close>

definition trimmed_optional :: "string option \<Rightarrow> nat \<Rightarrow> string option option" where
  "trimmed_optional value max_len =
     (case trim_opt value of
        None \<Rightarrow> Some None
      | Some v \<Rightarrow>
          (if max_len < length v then map_option Some (slice_to max_len v) else Some (Some v)))"

definition validate_country_code :: "string option \<Rightarrow> verr + string option" where
  "validate_country_code value =
     (case trim_opt value of
        None \<Rightarrow> Inr None
      | Some raw \<Rightarrow>
          (let code = to_upper raw
           in if length code = 2 \<and> list_all is_upper code then Inr (Some code)
              else Inl (''country_code'', ''country_code must be a two-letter ISO country code'')))"

definition validate_provision_profile ::
    "provision_profile_input \<Rightarrow> (verr + validated_provision_profile) option" where
  "validate_provision_profile input =
     (case trimmed_optional (pi_display_name input) 120 of
        None \<Rightarrow> None
      | Some display_name \<Rightarrow>
          (case validate_country_code (pi_country_code input) of
             Inl e \<Rightarrow> Some (Inl e)
           | Inr country_code \<Rightarrow>
               (case trimmed_optional (pi_timezone input) 80 of
                  None \<Rightarrow> None
                | Some timezone \<Rightarrow>
                    Some (Inr \<lparr>vp_display_name = display_name, vp_country_code = country_code,
                               vp_timezone = timezone\<rparr>))))"

definition normalize_email_claim :: "string option \<Rightarrow> string option" where
  "normalize_email_claim value =
     (case value of
        None \<Rightarrow> None
      | Some v \<Rightarrow>
          (let email = to_lower (trim v)
           in if CHR 0x40 \<in> set email \<and> length email \<le> 320 then Some email else None))"

text \<open>The panic happens exactly when the cut falls inside a character.\<close>

lemma trimmed_optional_panics_iff:
  "trimmed_optional v n = None \<longleftrightarrow>
     (\<exists>s. trim_opt v = Some s \<and> n < length s \<and> \<not> is_char_boundary n s)"
  by (auto simp: trimmed_optional_def slice_to_def split: option.splits)

lemma trimmed_optional_bound:
  "trimmed_optional v n = Some (Some s) \<Longrightarrow> length s \<le> n"
  by (auto simp: trimmed_optional_def slice_to_def split: option.splits if_splits)

definition ascii :: "string \<Rightarrow> bool" where
  "ascii s \<longleftrightarrow> list_all (\<lambda>c. byte c < 128) s"

lemma ascii_boundary: "ascii s \<Longrightarrow> n < length s \<Longrightarrow> is_char_boundary n s"
proof -
  assume "ascii s" and n: "n < length s"
  then have "byte (s ! n) < 128" by (simp add: ascii_def list_all_length)
  with n show ?thesis by (simp add: is_char_boundary_def)
qed

lemma set_trim_subset: "set (trim s) \<subseteq> set s"
proof -
  have st: "set (trim_start s) \<subseteq> set s"
    by (induction s rule: trim_start.induct)
      (subst trim_start.simps, auto dest: in_set_dropD)
  obtain t where "trim_start s = trim s @ t"
    using trim_end_prefix [of "trim_start s"] by (auto simp: trim_def)
  then have "set (trim s) \<subseteq> set (trim_start s)" by simp
  with st show ?thesis by blast
qed

lemma ascii_trim: "ascii s \<Longrightarrow> ascii (trim s)"
  using set_trim_subset [of s] by (auto simp: ascii_def list_all_iff)

lemma trimmed_optional_ascii:
  assumes "\<And>s. v = Some s \<Longrightarrow> ascii s"
  shows "trimmed_optional v n \<noteq> None"
proof
  assume "trimmed_optional v n = None"
  then obtain s where s: "v = Some s" "n < length (trim s)" "\<not> is_char_boundary n (trim s)"
    by (auto simp: trimmed_optional_panics_iff trim_opt_def split: option.splits if_splits)
  with assms show False using ascii_boundary ascii_trim by blast
qed

lemma validate_country_code_ok:
  assumes "validate_country_code v = Inr (Some c)"
  shows "length c = 2 \<and> list_all is_upper c"
  using assms by (auto simp: validate_country_code_def Let_def split: option.splits if_splits)

lemma normalize_email_idem:
  assumes "normalize_email_claim v = Some e"
  shows "normalize_email_claim (Some e) = Some e"
proof -
  from assms obtain s where e: "e = to_lower (trim s)" "CHR 0x40 \<in> set e" "length e \<le> 320"
    by (auto simp: normalize_email_claim_def Let_def split: option.splits if_splits)
  then have "to_lower (trim e) = e" by (simp add: trim_to_lower)
  with e show ?thesis by (simp add: normalize_email_claim_def)
qed

section \<open>Entitlement keys\<close>

definition clean_entitlement_key :: "string \<Rightarrow> string + string" where
  "clean_entitlement_key value =
     (let v = trim value
      in if v = [] then Inl ''key is required''
         else if 120 < length v then Inl ''key must be at most 120 characters''
         else if \<not> chars_ok ''._-'' v
           then Inl (''key must contain only letters, numbers, '.', '_', or '-'' @ squote)
         else Inr v)"

lemma clean_entitlement_key_iff:
  "clean_entitlement_key s = Inr t \<longleftrightarrow>
     t = trim s \<and> t \<noteq> [] \<and> length t \<le> 120 \<and> chars_ok ''._-'' t"
  by (auto simp: clean_entitlement_key_def Let_def)

end
