(* ===== verification/Licensing.thy ===== *)
theory Licensing
  imports Database License_Rules Validation
begin

text \<open>
  \<^verbatim>\<open>api/src/repositories/licensing.rs\<close>: installation registration, licence activation under
  the device limit, heartbeat, deactivation, the read-own lists, and the licence kept in step
  with a subscription. Each definition is one repository function; the row locks make the
  transactions on one licence or installation run one after the other, so each is one step.
\<close>

datatype db_error = Db

datatype registration_error = UnknownProduct | ProductMismatch | RegDb

datatype activation_error =
    InstallationNotFound
  | InstallationDeactivated
  | LicenseNotFound
  | NoActiveLicense
  | LicenseNotActive string
  | RevocationBlocked
  | DeviceLimitReached int int \<comment> \<open>device limit, active devices\<close>
  | ActDb

text \<open>A listed installation: its row and the product key shown in place of the product id.\<close>

type_synonym installation_view = "installation_row \<times> string"

record registered_installation =
  rg_installation :: installation_view
  rg_created :: bool
  rg_reactivated :: bool

section \<open>Registration\<close>

definition stable_channel :: "db \<Rightarrow> (product_row \<Rightarrow> bool) \<Rightarrow> uuid option" where
  "stable_channel d p =
     map_option rc_id (find (\<lambda>c. rc_key c = ''stable''
        \<and> (\<exists>r \<in> set (products d). pr_id r = rc_product c \<and> p r)) (channels d))"

definition same_device :: "uuid \<Rightarrow> string \<Rightarrow> device_row \<Rightarrow> bool" where
  "same_device customer fpr r \<longleftrightarrow> dv_customer r = customer \<and> dv_fpr r = fpr"

text \<open>\<^verbatim>\<open>insert into devices ... on conflict do update set label = coalesce(...)\<close>.\<close>

definition upsert_device :: "env \<Rightarrow> uuid \<Rightarrow> validated_device \<Rightarrow> db \<Rightarrow> uuid \<times> db" where
  "upsert_device e customer dev d =
     (case find (same_device customer (vd_public_key_fpr dev)) (devices d) of
        Some r \<Rightarrow> (dv_id r, d\<lparr>devices := upd (same_device customer (vd_public_key_fpr dev))
                     (\<lambda>r. r\<lparr>dv_label := coalesce (vd_label dev) (dv_label r)\<rparr>) (devices d)\<rparr>)
      | None \<Rightarrow> (e_id e 0, d\<lparr>devices := devices d @
          [\<lparr>dv_id = e_id e 0, dv_customer = customer, dv_public_key = vd_public_key dev,
            dv_fpr = vd_public_key_fpr dev, dv_label = vd_label dev, dv_status = ''active'',
            dv_created = e_now e\<rparr>]\<rparr>))"

definition default_fleet_of :: "uuid \<Rightarrow> fleet_row \<Rightarrow> bool" where
  "default_fleet_of customer f \<longleftrightarrow>
     fl_customer f = customer \<and> fl_type f = ''default'' \<and> fl_status f \<noteq> ''deleted''"

text \<open>The default fleet of the customer, created unless there is one.\<close>

definition ensure_fleet :: "env \<Rightarrow> uuid \<Rightarrow> string \<Rightarrow> db \<Rightarrow> uuid \<times> db" where
  "ensure_fleet e customer product_key d =
     (case find (default_fleet_of customer) (fleets d) of
        Some f \<Rightarrow> (fl_id f, d)
      | None \<Rightarrow> (e_id e 1, d\<lparr>fleets := fleets d @
          [\<lparr>fl_id = e_id e 1, fl_customer = customer, fl_name = ''Default fleet'', fl_type = ''default'',
            fl_status = ''active'', fl_ring = ''standard'',
            fl_channel = stable_channel d (\<lambda>p. pr_key p = product_key), fl_beta = False\<rparr>]\<rparr>))"

definition ensure_fleet_app :: "uuid \<Rightarrow> uuid \<Rightarrow> db \<Rightarrow> db" where
  "ensure_fleet_app fleet pro d =
     (if find (\<lambda>a. fa_fleet a = fleet \<and> fa_product a = pro) (fleet_apps d) \<noteq> None then d
      else d\<lparr>fleet_apps := fleet_apps d @
        [\<lparr>fa_fleet = fleet, fa_product = pro, fa_status = ''active'', fa_ring = ''standard'',
          fa_channel = stable_channel d (\<lambda>p. pr_id p = pro)\<rparr>]\<rparr>)"

definition has_key :: "uuid \<Rightarrow> string \<Rightarrow> installation_row \<Rightarrow> bool" where
  "has_key customer key r \<longleftrightarrow> in_customer r = customer \<and> in_key r = key"

definition new_installation ::
    "env \<Rightarrow> uuid \<Rightarrow> uuid option \<Rightarrow> uuid \<Rightarrow> uuid \<Rightarrow> validated_registration \<Rightarrow> installation_row" where
  "new_installation e customer device fleet pro inp =
     \<lparr>in_id = e_id e 2, in_customer = customer, in_device = device, in_fleet = Some fleet,
      in_key = vr_install_key inp, in_product = pro, in_app_version = vr_app_version inp,
      in_build = vr_build_id inp, in_platform = vr_platform inp, in_arch = vr_architecture inp,
      in_format = vr_package_format inp, in_updater = vr_updater_version inp,
      in_status = ''active'', in_heartbeat = None, in_created = e_now e\<rparr>"

text \<open>The row a repeated registration leaves: absent values keep what is stored.\<close>

definition refresh_installation ::
    "uuid option \<Rightarrow> uuid \<Rightarrow> validated_registration \<Rightarrow> installation_row \<Rightarrow> installation_row" where
  "refresh_installation device fleet inp r = r\<lparr>
     in_status := ''active'',
     in_app_version := coalesce (vr_app_version inp) (in_app_version r),
     in_device := coalesce device (in_device r),
     in_fleet := coalesce (in_fleet r) (Some fleet),
     in_build := coalesce (vr_build_id inp) (in_build r),
     in_platform := coalesce (vr_platform inp) (in_platform r),
     in_arch := coalesce (vr_architecture inp) (in_arch r),
     in_format := coalesce (vr_package_format inp) (in_format r),
     in_updater := coalesce (vr_updater_version inp) (in_updater r)\<rparr>"

definition register_installation ::
    "env \<Rightarrow> uuid \<Rightarrow> validated_registration \<Rightarrow> db
      \<Rightarrow> (registration_error + registered_installation) \<times> db" where
  "register_installation e customer inp d =
     (case find (\<lambda>p. pr_key p = vr_product_key inp \<and> pr_status p = ''active'') (products d) of
        None \<Rightarrow> (Inl UnknownProduct, d)
      | Some pro \<Rightarrow>
        (let (device, d1) = (case vr_device inp of
               Some dev \<Rightarrow> (let (i, d') = upsert_device e customer dev d in (Some i, d'))
             | None \<Rightarrow> (None, d));
             (fleet, d2) = ensure_fleet e customer (pr_key pro) d1;
             d3 = ensure_fleet_app fleet (pr_id pro) d2
         in case find (has_key customer (vr_install_key inp)) (installations d3) of
              None \<Rightarrow>
                (let row = new_installation e customer device fleet (pr_id pro) inp;
                     d4 = d3\<lparr>installations := installations d3 @ [row]\<rparr>;
                     d5 = write_outbox e 3 ''installation_registered''
                       (''installation_registered:'' @ in_id row)
                       (JObj [(''customer_id'', JStr customer), (''installation_id'', JStr (in_id row)),
                              (''fleet_id'', jopt JStr (in_fleet row)), (''product'', JStr (pr_key pro)),
                              (''has_device'', JBool (device \<noteq> None)),
                              (''occurred_at'', JStr (e_time e (e_utc e 0)))]) d4
                 in (Inr \<lparr>rg_installation = (row, pr_key pro), rg_created = True,
                          rg_reactivated = False\<rparr>, d5))
            | Some prior \<Rightarrow>
                if in_product prior \<noteq> pr_id pro then (Inl ProductMismatch, d)
                else
                  (let refresh = refresh_installation device fleet inp
                   in (Inr \<lparr>rg_installation = (refresh prior, pr_key pro), rg_created = False,
                            rg_reactivated = (in_status prior = ''deactivated'')\<rparr>,
                       d3\<lparr>installations :=
                          upd (\<lambda>r. in_id r = in_id prior) refresh (installations d3)\<rparr>))))"

section \<open>Device limits from the commercial policy\<close>

text \<open>
  \<^verbatim>\<open>(policy -> tier ->> 'device_limit')::bigint\<close>: \<open>None\<close> where the cast or the decoding of a
  null fails. The text of a JSON float always has a point or an exponent.
\<close>

definition policy_bigint :: "env \<Rightarrow> string \<Rightarrow> json \<Rightarrow> int option" where
  "policy_bigint e tier policy =
     Option.bind (jget tier policy) (\<lambda>t. Option.bind (jget ''device_limit'' t) (\<lambda>v.
       (case v of JInt n \<Rightarrow> (if in_i64 n then Some n else None)
                | JStr s \<Rightarrow> e_int8 e s
                | _ \<Rightarrow> None)))"

definition policy_tier :: "string \<Rightarrow> string \<Rightarrow> string option" where
  "policy_tier product_key plan_key =
     (if product_key = ''authorforge'' \<and> plan_key = ''authorforge_included'' then Some ''included''
      else if product_key = ''authorforge'' \<and> plan_key = ''authorforge_pro'' then Some ''pro''
      else None)"

definition effective_policy :: "env \<Rightarrow> string \<Rightarrow> db \<Rightarrow> policy_row option" where
  "effective_policy e product_key d =
     first_by (\<lambda>r. (- cp_effective r, - cp_version r))
       (filter (\<lambda>r. (\<exists>p \<in> set (products d). pr_id p = cp_product r \<and> pr_key p = product_key)
                  \<and> cp_effective r \<le> e_now e) (policies d))"

definition commercial_policy_device_limit ::
    "env \<Rightarrow> string \<Rightarrow> string \<Rightarrow> db \<Rightarrow> db_error + int option" where
  "commercial_policy_device_limit e product_key plan_key d =
     (case policy_tier product_key plan_key of
        None \<Rightarrow> Inr None
      | Some tier \<Rightarrow>
        (case effective_policy e product_key d of
           None \<Rightarrow> Inr None
         | Some r \<Rightarrow>
           (case policy_bigint e tier (cp_policy r) of
              None \<Rightarrow> Inl Db
            | Some v \<Rightarrow> Inr (Some (unwrap_or (i32_try_from (clamp v 0 i32_max)) 0)))))"

text \<open>The join from a licence to its product's and its plan's keys.\<close>

definition license_plan :: "uuid \<Rightarrow> db \<Rightarrow> (string \<times> string) option" where
  "license_plan license d =
     Option.bind (find (\<lambda>l. li_id l = license) (licenses d)) (\<lambda>l.
     Option.bind (find (\<lambda>p. pr_id p = li_product l) (products d)) (\<lambda>p.
     Option.bind (li_subscription l) (\<lambda>sid.
     Option.bind (find (\<lambda>s. su_id s = sid) (subscriptions d)) (\<lambda>s.
     Option.bind (find (\<lambda>v. pv_id v = su_plan_version s) (plan_versions d)) (\<lambda>v.
     Option.bind (find (\<lambda>pl. pl_id pl = pv_plan v) (plans d)) (\<lambda>pl.
       Some (pr_key p, pl_key pl)))))))"

definition commercial_policy_device_limit_for_license ::
    "env \<Rightarrow> uuid \<Rightarrow> db \<Rightarrow> db_error + int option" where
  "commercial_policy_device_limit_for_license e license d =
     (case license_plan license d of
        Some (product_key, plan_key) \<Rightarrow> commercial_policy_device_limit e product_key plan_key d
      | None \<Rightarrow> Inr None)"

section \<open>Activation\<close>

record activation_outcome =
  o_activation :: uuid
  o_license :: uuid
  o_installation :: uuid
  o_activated_at :: time
  o_device_limit :: int
  o_active_devices :: int
  o_already_active :: bool

definition active_on :: "uuid \<Rightarrow> activation_row \<Rightarrow> bool" where
  "active_on license a \<longleftrightarrow> ac_license a = license \<and> ac_status a = ''active''"

definition active_count :: "uuid \<Rightarrow> db \<Rightarrow> nat" where
  "active_count license d = length (filter (active_on license) (activations d))"

definition device_status :: "uuid option \<Rightarrow> db \<Rightarrow> string option" where
  "device_status dev d =
     Option.bind dev (\<lambda>i. map_option dv_status (find (\<lambda>v. dv_id v = i) (devices d)))"

definition choose_license ::
    "env \<Rightarrow> uuid \<Rightarrow> installation_row \<Rightarrow> uuid option \<Rightarrow> db \<Rightarrow> activation_error + license_row" where
  "choose_license e customer inst wanted d =
     (case wanted of
        Some i \<Rightarrow> ok_or (find (\<lambda>l. li_id l = i \<and> li_customer l = customer) (licenses d)) LicenseNotFound
      | None \<Rightarrow> ok_or (first_by (\<lambda>l. - li_issued l)
            (filter (\<lambda>l. li_customer l = customer \<and> li_product l = in_product inst
                       \<and> li_status l = ''active''
                       \<and> (case li_expires l of None \<Rightarrow> True | Some t \<Rightarrow> e_now e < t)) (licenses d)))
          NoActiveLicense)"

definition revocation_blocks :: "uuid \<Rightarrow> installation_row \<Rightarrow> revocation_row \<Rightarrow> bool" where
  "revocation_blocks license inst r \<longleftrightarrow>
     (rv_license r = Some license \<and> rv_installation r = None \<and> rv_device r = None)
     \<or> rv_installation r = Some (in_id inst)
     \<or> (in_device inst \<noteq> None \<and> rv_device r = in_device inst)"

text \<open>The guards between the licence choice and the device count, in the code's order.\<close>

definition license_guards ::
    "env \<Rightarrow> installation_row \<Rightarrow> license_row \<Rightarrow> db \<Rightarrow> activation_error + unit" where
  "license_guards e inst l d =
     (if li_status l = ''revoked'' then Inl RevocationBlocked
      else if li_status l \<noteq> ''active'' then Inl (LicenseNotActive (li_status l))
      else if (case li_expires l of None \<Rightarrow> False | Some t \<Rightarrow> t \<le> e_utc e 0)
        then Inl (LicenseNotActive ''expired'')
      else if list_ex (revocation_blocks (li_id l) inst) (revocations d) then Inl RevocationBlocked
      else Inr ())"

definition device_limit_of :: "env \<Rightarrow> license_row \<Rightarrow> db \<Rightarrow> activation_error + int" where
  "device_limit_of e l d =
     (case commercial_policy_device_limit_for_license e (li_id l) d of
        Inl _ \<Rightarrow> Inl ActDb
      | Inr policy_limit \<Rightarrow>
          Inr (unwrap_or (u32_try_from (max (unwrap_or policy_limit (li_device_limit l)) 0)) 0))"

definition count_u32 :: "int \<Rightarrow> int" where
  "count_u32 n = unwrap_or (u32_try_from (max n 0)) u32_max"

definition activation_audit :: "uuid \<Rightarrow> activation_row \<Rightarrow> int \<Rightarrow> int \<Rightarrow> string option \<Rightarrow> customer_audit" where
  "activation_audit customer a n limit corr =
     \<lparr>a_event = ''license_activated'', a_actor = customer, a_customer = Some customer,
      a_target_type = ''license_activation'', a_target = ac_id a, a_reason = ''installation_activate'',
      a_before = None,
      a_after = Some (JObj [(''license_id'', JStr (ac_license a)),
        (''installation_id'', JStr (ac_installation a)), (''device_id'', jopt JStr (ac_device a)),
        (''active_devices'', JInt n), (''device_limit'', JInt limit)]),
      a_correlation = corr\<rparr>"

text \<open>The insert of the activation with its audit record and outbox event.\<close>

definition record_activation ::
    "env \<Rightarrow> uuid \<Rightarrow> installation_row \<Rightarrow> license_row \<Rightarrow> int \<Rightarrow> int \<Rightarrow> string option \<Rightarrow> db
      \<Rightarrow> activation_outcome \<times> db" where
  "record_activation e customer inst l limit n corr d =
     (let a = \<lparr>ac_id = e_id e 0, ac_license = li_id l, ac_installation = in_id inst,
               ac_device = in_device inst, ac_status = ''active'',
               ac_activated = e_now e, ac_deactivated = None\<rparr>;
          d1 = d\<lparr>activations := activations d @ [a]\<rparr>;
          d2 = write_customer_audit (activation_audit customer a (n + 1) limit corr) d1;
          d3 = write_outbox e 1 ''license_activated'' (''license_activated:'' @ ac_id a)
            (JObj [(''customer_id'', JStr customer), (''license_id'', JStr (li_id l)),
                   (''installation_id'', JStr (in_id inst)),
                   (''device_id'', jopt JStr (in_device inst)),
                   (''active_devices'', JInt (n + 1)), (''device_limit'', JInt limit),
                   (''occurred_at'', JStr (e_time e (ac_activated a)))]) d2
      in (\<lparr>o_activation = ac_id a, o_license = li_id l, o_installation = in_id inst,
           o_activated_at = ac_activated a, o_device_limit = limit,
           o_active_devices = n + 1, o_already_active = False\<rparr>, d3))"

definition activate_installation ::
    "env \<Rightarrow> uuid \<Rightarrow> uuid \<Rightarrow> uuid option \<Rightarrow> string option \<Rightarrow> db
      \<Rightarrow> (activation_error + activation_outcome) \<times> db" where
  "activate_installation e customer inst_id wanted corr d =
     (case find (\<lambda>i. in_id i = inst_id \<and> in_customer i = customer) (installations d) of
        None \<Rightarrow> (Inl InstallationNotFound, d)
      | Some inst \<Rightarrow>
      if in_status inst = ''deactivated'' then (Inl InstallationDeactivated, d)
      else if device_status (in_device inst) d = Some ''revoked'' then (Inl RevocationBlocked, d)
      else case bind_r (choose_license e customer inst wanted d) (\<lambda>l.
                bind_r (license_guards e inst l d) (\<lambda>_.
                bind_r (device_limit_of e l d) (\<lambda>limit. Inr (l, limit)))) of
        Inl err \<Rightarrow> (Inl err, d)
      | Inr (l, limit) \<Rightarrow>
        (let n = count_u32 (int (active_count (li_id l) d))
         in case find (\<lambda>a. active_on (li_id l) a \<and> ac_installation a = in_id inst) (activations d) of
              Some a \<Rightarrow>
                (Inr \<lparr>o_activation = ac_id a, o_license = li_id l, o_installation = in_id inst,
                      o_activated_at = ac_activated a, o_device_limit = limit, o_active_devices = n,
                      o_already_active = True\<rparr>, d)
            | None \<Rightarrow>
                if \<not> can_activate_device n limit then (Inl (DeviceLimitReached limit n), d)
                else (let (out, d') = record_activation e customer inst l limit n corr d in (Inr out, d'))))"

section \<open>Heartbeat, deactivation, lists\<close>

definition heartbeat_installation ::
    "env \<Rightarrow> uuid \<Rightarrow> uuid \<Rightarrow> string option \<Rightarrow> db \<Rightarrow> installation_row option \<times> db" where
  "heartbeat_installation e customer inst_id version d =
     (let hit = (\<lambda>i. in_id i = inst_id \<and> in_customer i = customer);
          beat = (\<lambda>i. i\<lparr>in_heartbeat := Some (e_now e),
                        in_app_version := coalesce version (in_app_version i)\<rparr>)
      in (map_option beat (find hit (installations d)),
          d\<lparr>installations := upd hit beat (installations d)\<rparr>))"

record deactivation_outcome =
  do_installation :: uuid
  do_status :: string
  do_released :: nat
  do_already :: bool

definition deactivate_installation ::
    "env \<Rightarrow> uuid \<Rightarrow> uuid \<Rightarrow> string option \<Rightarrow> db
      \<Rightarrow> (activation_error + deactivation_outcome) \<times> db" where
  "deactivate_installation e customer inst_id corr d =
     (case find (\<lambda>i. in_id i = inst_id \<and> in_customer i = customer) (installations d) of
        None \<Rightarrow> (Inl InstallationNotFound, d)
      | Some inst \<Rightarrow>
      if in_status inst = ''deactivated''
      then (Inr \<lparr>do_installation = inst_id, do_status = in_status inst, do_released = 0,
                 do_already = True\<rparr>, d)
      else
        (let held = (\<lambda>a. ac_installation a = inst_id \<and> ac_status a = ''active'');
             released = rows_affected held (activations d);
             d1 = d\<lparr>installations := upd (\<lambda>i. in_id i = inst_id)
                      (\<lambda>i. i\<lparr>in_status := ''deactivated''\<rparr>) (installations d)\<rparr>;
             d2 = d1\<lparr>activations := upd held (\<lambda>a. a\<lparr>ac_status := ''deactivated'',
                       ac_deactivated := Some (e_now e)\<rparr>) (activations d1)\<rparr>
         in (Inr \<lparr>do_installation = inst_id, do_status = ''deactivated'', do_released = released,
                  do_already = False\<rparr>,
             write_customer_audit
               \<lparr>a_event = ''installation_deactivated'', a_actor = customer, a_customer = Some customer,
                a_target_type = ''installation'', a_target = inst_id,
                a_reason = ''installation_deactivate'',
                a_before = Some (JObj [(''status'', JStr ''active'')]),
                a_after = Some (JObj [(''status'', JStr ''deactivated''),
                                      (''released_activations'', JInt (int released))]),
                a_correlation = corr\<rparr> d2)))"

definition product_key_of :: "db \<Rightarrow> uuid \<Rightarrow> string option" where
  "product_key_of d pro = map_option pr_key (find (\<lambda>p. pr_id p = pro) (products d))"

definition list_installations :: "uuid \<Rightarrow> db \<Rightarrow> installation_view list" where
  "list_installations customer d =
     List.map_filter (\<lambda>i. map_option (Pair i) (product_key_of d (in_product i)))
       (order_by in_created (filter (\<lambda>i. in_customer i = customer) (installations d)))"

definition list_devices :: "uuid \<Rightarrow> db \<Rightarrow> device_row list" where
  "list_devices customer d = order_by dv_created (filter (\<lambda>v. dv_customer v = customer) (devices d))"

text \<open>A listed licence: its row, the product key and the number of active devices.\<close>

definition list_licenses :: "uuid \<Rightarrow> db \<Rightarrow> (license_row \<times> string \<times> nat) list" where
  "list_licenses customer d =
     List.map_filter (\<lambda>l. map_option (\<lambda>k. (l, k, active_count (li_id l) d)) (product_key_of d (li_product l)))
       (order_by (\<lambda>l. - li_issued l) (filter (\<lambda>l. li_customer l = customer) (licenses d)))"

section \<open>Keeping the licence in step with a subscription\<close>

record sync_outcome =
  so_license :: uuid
  so_before_status :: "string option"
  so_before_limit :: "int option"
  so_after_status :: string
  so_limit :: int
  so_audit_event :: string

definition so_before_state :: "sync_outcome \<Rightarrow> json option" where
  "so_before_state o' = map_option (\<lambda>status.
     JObj [(''license_status'', JStr status), (''device_limit'', jopt JInt (so_before_limit o'))])
     (so_before_status o')"

definition so_after_state :: "sync_outcome \<Rightarrow> json" where
  "so_after_state o' =
     JObj [(''license_status'', JStr (so_after_status o')), (''device_limit'', JInt (so_limit o'))]"

text \<open>
  The catalog row behind a plan version: product id, product key, plan key and the whole part
  of the \<^verbatim>\<open>devices.max\<close> feature; \<open>Inl Db\<close> where \<^verbatim>\<open>::int8\<close> is out of range.
\<close>

definition devices_max :: "db \<Rightarrow> uuid \<Rightarrow> string \<Rightarrow> db_error + int option" where
  "devices_max d version product_key =
     (case find (\<lambda>f. pf_version f = version
          \<and> (\<exists>t \<in> set (features_t d). ft_id t = pf_feature f \<and> ft_key t = product_key @ ''.devices.max''))
        (plan_features d) of
        None \<Rightarrow> Inr None
      | Some f \<Rightarrow>
        (case pf_number f of
           None \<Rightarrow> Inr None
         | Some x \<Rightarrow> (if in_i64 \<lfloor>x\<rfloor> then Inr (Some \<lfloor>x\<rfloor>) else Inl Db)))"

definition plan_context :: "uuid \<Rightarrow> db \<Rightarrow> (uuid \<times> string \<times> string) option" where
  "plan_context version d =
     Option.bind (find (\<lambda>v. pv_id v = version) (plan_versions d)) (\<lambda>v.
     Option.bind (find (\<lambda>pl. pl_id pl = pv_plan v) (plans d)) (\<lambda>pl.
     Option.bind (find (\<lambda>p. pr_id p = pl_product pl) (products d)) (\<lambda>p.
       Some (pr_id p, pr_key p, pl_key pl))))"

definition synced_license :: "uuid \<Rightarrow> uuid \<Rightarrow> license_row \<Rightarrow> bool" where
  "synced_license customer sub l \<longleftrightarrow> li_customer l = customer \<and> li_subscription l = Some sub"

definition set_license :: "uuid \<Rightarrow> (license_row \<Rightarrow> license_row) \<Rightarrow> db \<Rightarrow> db" where
  "set_license i f d = d\<lparr>licenses := upd (\<lambda>l. li_id l = i) f (licenses d)\<rparr>"

definition sync_license_for_subscription ::
    "env \<Rightarrow> nat \<Rightarrow> uuid \<Rightarrow> uuid \<Rightarrow> uuid \<Rightarrow> subscription_status \<Rightarrow> db
      \<Rightarrow> db_error + sync_outcome option \<times> db" where
  "sync_license_for_subscription e n customer sub version status d =
     (case plan_context version d of
        None \<Rightarrow> Inr (None, d)
      | Some (pro, product_key, plan_key) \<Rightarrow>
        bind_r (devices_max d version product_key) (\<lambda>dmax.
        let catalog_limit = unwrap_or (i32_try_from (clamp (unwrap_or dmax 1) 0 i32_max)) 1
        in bind_r (commercial_policy_device_limit e product_key plan_key d) (\<lambda>pol.
        let limit = unwrap_or pol catalog_limit;
            existing = find (synced_license customer sub) (licenses d);
            action = license_sync_action (map_option (\<lambda>l. lic_parse (li_status l)) existing) status;
            done = (\<lambda>l after lim ev. Some \<lparr>so_license = li_id l, so_before_status = Some (li_status l),
                so_before_limit = Some (li_device_limit l), so_after_status = after, so_limit = lim,
                so_audit_event = ev\<rparr>)
        in Inr (case (existing, action) of
             (None, Some Issue) \<Rightarrow>
               (Some \<lparr>so_license = e_id e n, so_before_status = None, so_before_limit = None,
                      so_after_status = ''active'', so_limit = limit,
                      so_audit_event = ''license_issued''\<rparr>,
                d\<lparr>licenses := licenses d @
                  [\<lparr>li_id = e_id e n, li_customer = customer, li_product = pro,
                    li_subscription = Some sub, li_status = ''active'', li_device_limit = limit,
                    li_issued = e_now e, li_expires = None\<rparr>]\<rparr>)
           | (Some l, Some Reactivate) \<Rightarrow>
               (done l ''active'' limit ''license_reactivated'',
                set_license (li_id l) (\<lambda>r. r\<lparr>li_status := ''active'', li_device_limit := limit,
                                             li_expires := None\<rparr>) d)
           | (Some l, Some Suspend) \<Rightarrow>
               (done l ''suspended'' (li_device_limit l) ''license_suspended'',
                set_license (li_id l) (\<lambda>r. r\<lparr>li_status := ''suspended''\<rparr>) d)
           | (Some l, Some Expire) \<Rightarrow>
               (done l ''expired'' (li_device_limit l) ''license_expired'',
                set_license (li_id l) (\<lambda>r. r\<lparr>li_status := ''expired'',
                   li_expires := coalesce (li_expires r) (Some (e_now e))\<rparr>) d)
           | (Some l, None) \<Rightarrow>
               (if li_status l = ''active'' \<and> grants_cloud status \<and> li_device_limit l \<noteq> limit
                then (done l ''active'' limit ''license_device_limit_changed'',
                      set_license (li_id l) (\<lambda>r. r\<lparr>li_device_limit := limit\<rparr>) d)
                else (None, d))
           | _ \<Rightarrow> (None, d)))))"

end
