(* ===== verification/Licensing_Facts.thy ===== *)
theory Licensing_Facts
  imports Licensing
begin

text \<open>
  What the licensing operations do to the tables, the invariant they keep over every run, and
  the behaviour of each on its branches.
\<close>

section \<open>Effects on the tables\<close>

lemma upsert_device_tables [simp]:
  "installations (snd (upsert_device e c v d)) = installations d"
  "activations (snd (upsert_device e c v d)) = activations d"
  "licenses (snd (upsert_device e c v d)) = licenses d"
  "audits (snd (upsert_device e c v d)) = audits d"
  "outbox (snd (upsert_device e c v d)) = outbox d"
  "fleets (snd (upsert_device e c v d)) = fleets d"
  "fleet_apps (snd (upsert_device e c v d)) = fleet_apps d"
  "products (snd (upsert_device e c v d)) = products d"
  "channels (snd (upsert_device e c v d)) = channels d"
  by (simp_all add: upsert_device_def split: option.split)

lemma ensure_fleet_tables [simp]:
  "installations (snd (ensure_fleet e c k d)) = installations d"
  "activations (snd (ensure_fleet e c k d)) = activations d"
  "licenses (snd (ensure_fleet e c k d)) = licenses d"
  "audits (snd (ensure_fleet e c k d)) = audits d"
  "outbox (snd (ensure_fleet e c k d)) = outbox d"
  "devices (snd (ensure_fleet e c k d)) = devices d"
  "fleet_apps (snd (ensure_fleet e c k d)) = fleet_apps d"
  by (simp_all add: ensure_fleet_def split: option.split)

lemma ensure_fleet_app_tables [simp]:
  "installations (ensure_fleet_app f p d) = installations d"
  "activations (ensure_fleet_app f p d) = activations d"
  "licenses (ensure_fleet_app f p d) = licenses d"
  "audits (ensure_fleet_app f p d) = audits d"
  "outbox (ensure_fleet_app f p d) = outbox d"
  "devices (ensure_fleet_app f p d) = devices d"
  "fleets (ensure_fleet_app f p d) = fleets d"
  by (simp_all add: ensure_fleet_app_def)

text \<open>The database after the device, the fleet and its product are in place.\<close>

definition prepared :: "env \<Rightarrow> uuid \<Rightarrow> validated_registration \<Rightarrow> product_row \<Rightarrow> db
    \<Rightarrow> uuid option \<times> uuid \<times> db" where
  "prepared e c inp p d =
     (let (device, d1) = (case vr_device inp of
            Some dev \<Rightarrow> (let (i, d') = upsert_device e c dev d in (Some i, d'))
          | None \<Rightarrow> (None, d));
          (fleet, d2) = ensure_fleet e c (pr_key p) d1
      in (device, fleet, ensure_fleet_app fleet (pr_id p) d2))"

lemma prepared_tables:
  assumes "prepared e c inp p d = (device, fleet, d3)"
  shows "installations d3 = installations d" "activations d3 = activations d"
    "licenses d3 = licenses d" "audits d3 = audits d" "outbox d3 = outbox d"
proof -
  obtain dv d1 where 1: "(case vr_device inp of
        Some dev \<Rightarrow> (let (i, d') = upsert_device e c dev d in (Some i, d'))
      | None \<Rightarrow> (None, d)) = (dv, d1)" by (cases "case vr_device inp of
        Some dev \<Rightarrow> (let (i, d') = upsert_device e c dev d in (Some i, d'))
      | None \<Rightarrow> (None, d)")
  obtain f d2 where 2: "ensure_fleet e c (pr_key p) d1 = (f, d2)"
    by (cases "ensure_fleet e c (pr_key p) d1")
  have d3: "d3 = ensure_fleet_app f (pr_id p) d2"
    using assms by (auto simp: prepared_def 1 2)
  have d1: "d1 = (case vr_device inp of None \<Rightarrow> d | Some dev \<Rightarrow> snd (upsert_device e c dev d))"
    using 1 by (auto split: option.splits prod.splits)
  have d2: "d2 = snd (ensure_fleet e c (pr_key p) d1)" using 2 by simp
  show "installations d3 = installations d" "activations d3 = activations d"
    "licenses d3 = licenses d" "audits d3 = audits d" "outbox d3 = outbox d"
    by (simp_all add: d3 d2 d1 split: option.split)
qed

lemma register_installation_prepared:
  "register_installation e c inp d =
     (case find (\<lambda>p. pr_key p = vr_product_key inp \<and> pr_status p = ''active'') (products d) of
        None \<Rightarrow> (Inl UnknownProduct, d)
      | Some p \<Rightarrow>
        (let (device, fleet, d3) = prepared e c inp p d
         in case find (has_key c (vr_install_key inp)) (installations d3) of
              None \<Rightarrow>
                (let row = new_installation e c device fleet (pr_id p) inp
                 in (Inr \<lparr>rg_installation = (row, pr_key p), rg_created = True,
                          rg_reactivated = False\<rparr>,
                     write_outbox e 3 ''installation_registered''
                       (''installation_registered:'' @ in_id row)
                       (JObj [(''customer_id'', JStr c), (''installation_id'', JStr (in_id row)),
                              (''fleet_id'', jopt JStr (in_fleet row)), (''product'', JStr (pr_key p)),
                              (''has_device'', JBool (device \<noteq> None)),
                              (''occurred_at'', JStr (e_time e (e_utc e 0)))])
                       (d3\<lparr>installations := installations d3 @ [row]\<rparr>)))
            | Some prior \<Rightarrow>
                if in_product prior \<noteq> pr_id p then (Inl ProductMismatch, d)
                else (Inr \<lparr>rg_installation = (refresh_installation device fleet inp prior, pr_key p),
                           rg_created = False, rg_reactivated = (in_status prior = ''deactivated'')\<rparr>,
                      d3\<lparr>installations := upd (\<lambda>r. in_id r = in_id prior)
                           (refresh_installation device fleet inp) (installations d3)\<rparr>)))"
  by (simp add: register_installation_def prepared_def Let_def case_prod_beta split: option.split)

text \<open>The two ways a registration succeeds.\<close>

lemma register_cases:
  assumes "register_installation e c inp d = (Inr r, d')"
  obtains (new) p device fleet where "p \<in> set (products d)" "pr_key p = vr_product_key inp"
      "pr_status p = ''active''"
      "find (has_key c (vr_install_key inp)) (installations d) = None"
      "rg_created r" "\<not> rg_reactivated r"
      "rg_installation r = (new_installation e c device fleet (pr_id p) inp, pr_key p)"
      "installations d' = installations d @ [new_installation e c device fleet (pr_id p) inp]"
  | (again) p device fleet prior where "p \<in> set (products d)" "pr_key p = vr_product_key inp"
      "pr_status p = ''active''"
      "find (has_key c (vr_install_key inp)) (installations d) = Some prior"
      "in_product prior = pr_id p" "\<not> rg_created r"
      "rg_reactivated r \<longleftrightarrow> in_status prior = ''deactivated''"
      "rg_installation r = (refresh_installation device fleet inp prior, pr_key p)"
      "installations d' = upd (\<lambda>i. in_id i = in_id prior) (refresh_installation device fleet inp)
         (installations d)" "outbox d' = outbox d"
proof -
  obtain p where p: "find (\<lambda>p. pr_key p = vr_product_key inp \<and> pr_status p = ''active'') (products d)
      = Some p"
    using assms by (auto simp: register_installation_prepared split: option.splits)
  note pD = find_SomeD [OF p]
  obtain device fleet d3 where prep: "prepared e c inp p d = (device, fleet, d3)"
    by (cases "prepared e c inp p d")
  note tab = prepared_tables [OF prep]
  show ?thesis
  proof (cases "find (has_key c (vr_install_key inp)) (installations d)")
    case None
    with assms show ?thesis
      using pD by (intro new [of p device fleet])
        (auto simp: register_installation_prepared p prep tab Let_def)
  next
    case (Some prior)
    with assms show ?thesis
      using pD by (intro again [of p prior device fleet])
        (auto simp: register_installation_prepared p prep tab Let_def split: if_splits)
  qed
qed

lemma register_error: "register_installation e c inp d = (Inl err, d') \<Longrightarrow> d' = d"
  by (auto simp: register_installation_prepared Let_def case_prod_beta split: option.splits if_splits)

lemma register_tables:
  assumes "register_installation e c inp d = (res, d')"
  shows "activations d' = activations d" "licenses d' = licenses d" "audits d' = audits d"
proof -
  have "activations d' = activations d \<and> licenses d' = licenses d \<and> audits d' = audits d"
  proof (cases "find (\<lambda>p. pr_key p = vr_product_key inp \<and> pr_status p = ''active'') (products d)")
    case None
    then show ?thesis using assms by (simp add: register_installation_prepared)
  next
    case (Some p)
    obtain device fleet d3 where prep: "prepared e c inp p d = (device, fleet, d3)"
      by (cases "prepared e c inp p d")
    show ?thesis
      using assms prepared_tables [OF prep]
      by (auto simp: register_installation_prepared Some prep Let_def split: option.splits if_splits)
  qed
  then show "activations d' = activations d" "licenses d' = licenses d" "audits d' = audits d"
    by simp_all
qed

lemma record_activation_facts:
  assumes "record_activation e c inst l limit n corr d = (o', d')"
  shows "\<not> o_already_active o'" "o_license o' = li_id l" "o_installation o' = in_id inst"
    "o_device_limit o' = limit" "o_activation o' = e_id e 0" "o_active_devices o' = n + 1"
    "o_activated_at o' = e_now e"
    "activations d' = activations d @ [\<lparr>ac_id = e_id e 0, ac_license = li_id l,
       ac_installation = in_id inst, ac_device = in_device inst, ac_status = ''active'',
       ac_activated = e_now e, ac_deactivated = None\<rparr>]"
    "installations d' = installations d" "licenses d' = licenses d"
    "\<exists>ev key payload r. d' = write_outbox e 1 ev key payload
       (write_customer_audit r (d\<lparr>activations := activations d'\<rparr>))"
  using assms by (auto simp: record_activation_def Let_def simp del: One_nat_def intro!: exI)

text \<open>The three ways an activation ends.\<close>

lemma activate_cases:
  assumes "activate_installation e c i w corr d = (res, d')"
  obtains (error) err where "res = Inl err" "d' = d"
  | (again) inst l a o' where "res = Inr o'" "d' = d" "o_already_active o'"
      "o_activation o' = ac_id a" "a \<in> set (activations d)" "active_on (o_license o') a"
      "ac_installation a = o_installation o'"
  | (new) inst l limit a o' where "res = Inr o'" "\<not> o_already_active o'"
      "inst \<in> set (installations d)" "in_id inst = i" "in_customer inst = c"
      "in_status inst \<noteq> ''deactivated''" "device_status (in_device inst) d \<noteq> Some ''revoked''"
      "choose_license e c inst w d = Inr l" "license_guards e inst l d = Inr ()"
      "device_limit_of e l d = Inr limit"
      "\<And>b. b \<in> set (activations d) \<Longrightarrow> active_on (li_id l) b \<Longrightarrow> ac_installation b \<noteq> i"
      "can_activate_device (count_u32 (int (active_count (li_id l) d))) limit"
      "a = \<lparr>ac_id = e_id e 0, ac_license = li_id l, ac_installation = i, ac_device = in_device inst,
            ac_status = ''active'', ac_activated = e_now e, ac_deactivated = None\<rparr>"
      "activations d' = activations d @ [a]" "installations d' = installations d"
      "licenses d' = licenses d"
      "o_license o' = li_id l" "o_installation o' = i" "o_device_limit o' = limit"
      "o_activation o' = ac_id a"
      "o_active_devices o' = count_u32 (int (active_count (li_id l) d)) + 1"
      "o_activated_at o' = e_now e"
      "\<exists>ev key payload r. d' = write_outbox e 1 ev key payload
         (write_customer_audit r (d\<lparr>activations := activations d'\<rparr>))"
proof (cases "find (\<lambda>j. in_id j = i \<and> in_customer j = c) (installations d)")
  case None
  with assms show ?thesis by (intro error) (auto simp: activate_installation_def)
next
  case (Some inst)
  note inst = find_SomeD [OF Some]
  show ?thesis
  proof (cases "in_status inst = ''deactivated'' \<or> device_status (in_device inst) d = Some ''revoked''")
    case True
    with assms Some have "(\<exists>err. res = Inl err) \<and> d' = d"
      by (auto simp: activate_installation_def split: if_splits)
    then show ?thesis using error by blast
  next
    case False
    let ?pick = "bind_r (choose_license e c inst w d) (\<lambda>l.
                bind_r (license_guards e inst l d) (\<lambda>_.
                bind_r (device_limit_of e l d) (\<lambda>limit. Inr (l, limit))))"
    show ?thesis
    proof (cases ?pick)
      case (Inl err)
      with assms Some False show ?thesis
        by (intro error) (auto simp: activate_installation_def)
    next
      case (Inr x)
      then obtain l limit where x: "x = (l, limit)" and l: "choose_license e c inst w d = Inr l"
        "license_guards e inst l d = Inr ()" "device_limit_of e l d = Inr limit" by auto
      show ?thesis
      proof (cases "find (\<lambda>a. active_on (li_id l) a \<and> ac_installation a = in_id inst) (activations d)")
        case found: (Some a)
        from assms Some False Inr x found find_SomeD [OF found] show ?thesis
          by (intro again [of _ a]) (auto simp: activate_installation_def Let_def)
      next
        case None
        show ?thesis
        proof (cases "can_activate_device (count_u32 (int (active_count (li_id l) d))) limit")
          case no: False
          with assms Some False Inr x None show ?thesis
            by (intro error) (auto simp: activate_installation_def Let_def)
        next
          case yes: True
          let ?n = "count_u32 (int (active_count (li_id l) d))"
          obtain o' d'' where rec: "record_activation e c inst l limit ?n corr d = (o', d'')"
            by (cases "record_activation e c inst l limit ?n corr d")
          have "res = Inr o'" "d' = d''"
            using assms Some False Inr x None yes rec by (auto simp: activate_installation_def Let_def)
          then show ?thesis
            using Some False l inst find_NoneD [OF None] yes record_activation_facts [OF rec]
            by (intro new [of o' inst l limit]) auto
        qed
      qed
    qed
  qed
qed

text \<open>The limit is a \<^verbatim>\<open>u32\<close>, so a passed device check is a check on the real count.\<close>

lemma device_limit_u32: "device_limit_of e l d = Inr limit \<Longrightarrow> 0 \<le> limit \<and> limit \<le> u32_max"
  by (auto simp: device_limit_of_def u32_try_from_def unwrap_or_def u32_max_def
      split: sum.splits option.splits if_splits)

lemma can_activate_count:
  assumes "can_activate_device (count_u32 (int n)) limit" and "limit \<le> u32_max"
  shows "count_u32 (int n) = int n" and "int n < limit"
  using assms by (auto simp: can_activate_device_def count_u32_def u32_try_from_def split: if_splits)

lemma active_count_snoc:
  "activations d' = activations d @ [a] \<Longrightarrow>
     active_count l d' = active_count l d + (if active_on l a then 1 else 0)"
  by (simp add: active_count_def)

section \<open>The invariant\<close>

text \<open>An active activation holds a slot of an installation and a licence of one customer, and the
  installation is not deactivated.\<close>

definition slot_ok :: "db \<Rightarrow> activation_row \<Rightarrow> bool" where
  "slot_ok d a \<longleftrightarrow> (\<exists>i \<in> set (installations d). \<exists>l \<in> set (licenses d).
     in_id i = ac_installation a \<and> li_id l = ac_license a \<and> in_customer i = li_customer l
     \<and> in_status i \<noteq> ''deactivated'')"

definition is_active :: "activation_row \<Rightarrow> bool" where
  "is_active a \<longleftrightarrow> ac_status a = ''active''"

definition lic_inv :: "db \<Rightarrow> bool" where
  "lic_inv d \<longleftrightarrow>
     distinct (map in_id (installations d))
     \<and> distinct (map (\<lambda>i. (in_customer i, in_key i)) (installations d))
     \<and> distinct (map li_id (licenses d))
     \<and> distinct (map (\<lambda>a. (ac_license a, ac_installation a)) (filter is_active (activations d)))
     \<and> (\<forall>a \<in> set (activations d). is_active a \<longrightarrow> slot_ok d a)"

lemma lic_invI:
  assumes "distinct (map in_id (installations d))"
    and "distinct (map (\<lambda>i. (in_customer i, in_key i)) (installations d))"
    and "distinct (map li_id (licenses d))"
    and "distinct (map (\<lambda>a. (ac_license a, ac_installation a)) (filter is_active (activations d)))"
    and "\<And>a. a \<in> set (activations d) \<Longrightarrow> is_active a \<Longrightarrow> slot_ok d a"
  shows "lic_inv d"
  using assms by (simp add: lic_inv_def)

lemma lic_invD:
  assumes "lic_inv d"
  shows "distinct (map in_id (installations d))"
    and "distinct (map (\<lambda>i. (in_customer i, in_key i)) (installations d))"
    and "distinct (map li_id (licenses d))"
    and "distinct (map (\<lambda>a. (ac_license a, ac_installation a)) (filter is_active (activations d)))"
    and "\<And>a. a \<in> set (activations d) \<Longrightarrow> is_active a \<Longrightarrow> slot_ok d a"
  using assms by (simp_all add: lic_inv_def)

text \<open>The invariant reads three tables only.\<close>

lemma lic_inv_cong:
  "installations d' = installations d \<Longrightarrow> licenses d' = licenses d \<Longrightarrow>
   activations d' = activations d \<Longrightarrow> lic_inv d' = lic_inv d"
  by (simp add: lic_inv_def slot_ok_def)

text \<open>
  Updates that keep identities and owners, only end activations, and deactivate an installation
  only if every activation it holds ends, keep the invariant.
\<close>

lemma lic_inv_update:
  assumes inv: "lic_inv d"
    and upds: "installations d' = upd P f (installations d)" "licenses d' = upd R g (licenses d)"
      "activations d' = upd Q h (activations d)"
    and keep: "\<And>r. in_id (f r) = in_id r \<and> in_customer (f r) = in_customer r \<and> in_key (f r) = in_key r"
      "\<And>l. li_id (g l) = li_id l \<and> li_customer (g l) = li_customer l"
      "\<And>a. Q a \<Longrightarrow> \<not> is_active (h a)"
    and st: "\<And>a i. a \<in> set (activations d) \<Longrightarrow> is_active a \<Longrightarrow> \<not> Q a \<Longrightarrow> i \<in> set (installations d) \<Longrightarrow>
      in_id i = ac_installation a \<Longrightarrow> in_status i \<noteq> ''deactivated'' \<Longrightarrow> P i \<Longrightarrow>
      (\<And>l. l \<in> set (licenses d) \<Longrightarrow> li_id l = ac_license a \<Longrightarrow> in_customer i = li_customer l) \<Longrightarrow>
      in_status (f i) \<noteq> ''deactivated''"
  shows "lic_inv d'"
proof (rule lic_invI)
  note I = lic_invD [OF inv]
  show "distinct (map in_id (installations d'))"
    "distinct (map (\<lambda>i. (in_customer i, in_key i)) (installations d'))"
    "distinct (map li_id (licenses d'))"
    using I(1-3) by (simp_all add: upds map_upd_key keep)
  show "distinct (map (\<lambda>a. (ac_license a, ac_installation a)) (filter is_active (activations d')))"
    using distinct_map_filter_sub [OF I(4), of "\<lambda>a. \<not> Q a"]
      filter_upd_sub [of Q is_active h "activations d"] keep(3) by (simp add: upds)
  fix a assume a': "a \<in> set (activations d')" "is_active a"
  then have a: "a \<in> set (activations d)" "\<not> Q a" using keep(3) by (auto simp: upds dest: in_set_upd)
  obtain i l where il: "i \<in> set (installations d)" "l \<in> set (licenses d)"
    "in_id i = ac_installation a" "li_id l = ac_license a" "in_customer i = li_customer l"
    "in_status i \<noteq> ''deactivated''" using I(5) [OF a(1) a'(2)] by (auto simp: slot_ok_def)
  let ?i = "if P i then f i else i" and ?l = "if R l then g l else l"
  have own: "in_customer i = li_customer m" if "m \<in> set (licenses d)" "li_id m = ac_license a" for m
    using distinct_key_eq [OF I(3) il(2) that(1)] that(2) il(4,5) by simp
  have "?i \<in> set (installations d')" "?l \<in> set (licenses d')"
    using il by (auto simp: upds set_upd)
  moreover have "in_id ?i = in_id i" "in_customer ?i = in_customer i" "li_id ?l = li_id l"
    "li_customer ?l = li_customer l" by (simp_all add: keep)
  moreover have "in_status ?i \<noteq> ''deactivated''"
    using st [OF a(1) a'(2) a(2) il(1,3,6)] own il(6) by auto
  ultimately show "slot_ok d' a"
    using il unfolding slot_ok_def by (intro bexI [of _ ?i] bexI [of _ ?l]) simp_all
qed

lemma register_inv:
  assumes reg: "register_installation e c inp d = (res, d')" and inv: "lic_inv d" and fr: "fresh e d"
  shows "lic_inv d'"
proof (cases res)
  case (Inl err)
  then show ?thesis using register_error [of e c inp d err d'] reg inv by simp
next
  case (Inr r)
  note tab = register_tables [OF reg]
  note I = lic_invD [OF inv]
  from reg have "register_installation e c inp d = (Inr r, d')" by (simp add: Inr)
  then show ?thesis
  proof (cases rule: register_cases)
    case (new p device fleet)
    let ?row = "new_installation e c device fleet (pr_id p) inp"
    have row: "in_id ?row = e_id e 2" "in_customer ?row = c" "in_key ?row = vr_install_key inp"
      by (simp_all add: new_installation_def)
    have nid: "\<And>r. r \<in> set (installations d) \<Longrightarrow> in_id r \<noteq> in_id ?row"
      using fresh_rows(1) [OF fr, of 2] by (simp add: row)
    have nkey: "\<And>r. r \<in> set (installations d) \<Longrightarrow> (in_customer r, in_key r) \<noteq> (in_customer ?row, in_key ?row)"
      using new(4) by (auto simp: row find_eq_None has_key_def)
    show ?thesis
    proof (rule lic_invI)
      show "distinct (map in_id (installations d'))"
        unfolding new(8) by (rule distinct_insert_new [OF I(1) nid])
      show "distinct (map (\<lambda>i. (in_customer i, in_key i)) (installations d'))"
        unfolding new(8) by (rule distinct_insert_new [OF I(2) nkey])
      show "distinct (map li_id (licenses d'))" "distinct (map (\<lambda>a. (ac_license a, ac_installation a))
          (filter is_active (activations d')))"
        using I(3,4) by (simp_all add: tab)
      show "slot_ok d' a" if "a \<in> set (activations d')" "is_active a" for a
        using I(5) [of a] that by (auto simp: slot_ok_def tab new(8))
    qed
  next
    case (again p device fleet prior)
    show ?thesis
      by (rule lic_inv_update [OF inv again(9), where R = "\<lambda>_. False" and Q = "\<lambda>_. False"])
        (simp_all add: refresh_installation_def tab)
  qed
qed

lemma choose_license_owner:
  "choose_license e c inst w d = Inr l \<Longrightarrow> l \<in> set (licenses d) \<and> li_customer l = c"
  by (auto simp: choose_license_def dest!: find_SomeD first_by_SomeD(1) split: option.splits)

lemma activate_inv:
  assumes act: "activate_installation e c i w corr d = (res, d')" and inv: "lic_inv d"
  shows "lic_inv d'"
  using act
proof (cases rule: activate_cases)
  case (new inst l limit a o')
  note I = lic_invD [OF inv]
  note l = choose_license_owner [OF new(8)]
  show ?thesis
  proof (rule lic_invI)
    show "distinct (map in_id (installations d'))"
      "distinct (map (\<lambda>i. (in_customer i, in_key i)) (installations d'))"
      "distinct (map li_id (licenses d'))"
      using I by (simp_all add: new)
    have "\<forall>b \<in> set (filter is_active (activations d)). (ac_license b, ac_installation b) \<noteq> (li_id l, i)"
      using new(11) by (auto simp: is_active_def active_on_def)
    then show "distinct (map (\<lambda>a. (ac_license a, ac_installation a)) (filter is_active (activations d')))"
      using I(4) by (auto simp: new is_active_def)
    show "slot_ok d' b" if "b \<in> set (activations d')" "is_active b" for b
    proof (cases "b \<in> set (activations d)")
      case True
      then show ?thesis using I(5) that by (simp add: slot_ok_def new)
    next
      case False
      then have "b = a" using that by (simp add: new)
      then show ?thesis
        using new l by (auto simp: slot_ok_def intro!: bexI [of _ inst] bexI [of _ l])
    qed
  qed
qed (use inv in simp_all)

lemma heartbeat_inv:
  "heartbeat_installation e c i v d = (res, d') \<Longrightarrow> lic_inv d \<Longrightarrow> lic_inv d'"
  by (rule lic_inv_update [where d = d and R = "\<lambda>_. False" and Q = "\<lambda>_. False"
        and P = "\<lambda>j. in_id j = i \<and> in_customer j = c"
        and f = "\<lambda>j. j\<lparr>in_heartbeat := Some (e_now e),
                      in_app_version := coalesce v (in_app_version j)\<rparr>" and g = id and h = id], assumption)
    (auto simp: heartbeat_installation_def Let_def)

text \<open>The ways a deactivation ends.\<close>

definition held_by :: "uuid \<Rightarrow> activation_row \<Rightarrow> bool" where
  "held_by i a \<longleftrightarrow> ac_installation a = i \<and> ac_status a = ''active''"

lemma deactivate_cases:
  assumes "deactivate_installation e c i corr d = (res, d')"
  obtains (missing) "res = Inl InstallationNotFound" "d' = d"
      "\<And>j. j \<in> set (installations d) \<Longrightarrow> in_id j = i \<Longrightarrow> in_customer j \<noteq> c"
  | (already) inst where "inst \<in> set (installations d)" "in_id inst = i" "in_status inst = ''deactivated''"
      "res = Inr \<lparr>do_installation = i, do_status = ''deactivated'', do_released = 0, do_already = True\<rparr>"
      "d' = d"
  | (off) inst where "inst \<in> set (installations d)" "in_id inst = i" "in_customer inst = c"
      "in_status inst \<noteq> ''deactivated''"
      "res = Inr \<lparr>do_installation = i, do_status = ''deactivated'',
                  do_released = rows_affected (held_by i) (activations d), do_already = False\<rparr>"
      "installations d' = upd (\<lambda>j. in_id j = i) (\<lambda>j. j\<lparr>in_status := ''deactivated''\<rparr>) (installations d)"
      "activations d' = upd (held_by i) (\<lambda>a. a\<lparr>ac_status := ''deactivated'',
         ac_deactivated := Some (e_now e)\<rparr>) (activations d)"
      "licenses d' = licenses d"
proof (cases "find (\<lambda>j. in_id j = i \<and> in_customer j = c) (installations d)")
  case None
  with assms show ?thesis
    using find_NoneD [OF None] by (intro missing) (auto simp: deactivate_installation_def)
next
  case (Some inst)
  note inst = find_SomeD [OF Some]
  have held: "(\<lambda>a. ac_installation a = i \<and> ac_status a = ''active'') = held_by i"
    by (auto simp: held_by_def)
  show ?thesis
  proof (cases "in_status inst = ''deactivated''")
    case True
    with assms Some inst show ?thesis
      by (intro already [of inst]) (auto simp: deactivate_installation_def)
  next
    case False
    with assms Some inst show ?thesis
      by (intro off [of inst]) (auto simp: deactivate_installation_def Let_def held)
  qed
qed

lemma deactivate_inv:
  assumes de: "deactivate_installation e c i corr d = (res, d')" and inv: "lic_inv d"
  shows "lic_inv d'"
  using de
proof (cases rule: deactivate_cases)
  case (off inst)
  show ?thesis
    by (rule lic_inv_update [OF inv off(6) _ off(7), where R = "\<lambda>_. False"])
      (auto simp: off held_by_def is_active_def)
qed (use inv in simp_all)

section \<open>Subscription sync\<close>

lemma limit_fallback:
  "0 \<le> unwrap_or (i32_try_from (clamp n 0 i32_max)) x"
  "unwrap_or (i32_try_from (clamp n 0 i32_max)) x \<le> i32_max"
  using clamp_bounds [of 0 i32_max n] by (simp_all add: i32_clamped) (simp_all add: i32_max_def)

text \<open>The new licence table, by the action.\<close>

lemma sync_cases:
  assumes "sync_license_for_subscription e n c sub ver status d = Inr (out, d')"
  obtains (same) "d' = d" "out = None"
      "plan_context ver d = None
       \<or> license_sync_action (map_option (\<lambda>l. lic_parse (li_status l))
            (find (synced_license c sub) (licenses d))) status = None"
  | (issue) l where "find (synced_license c sub) (licenses d) = None" "grants_cloud status"
      "d' = d\<lparr>licenses := licenses d @ [l]\<rparr>" "li_id l = e_id e n" "synced_license c sub l"
      "li_status l = ''active''" "0 \<le> li_device_limit l \<and> li_device_limit l \<le> i32_max"
  | (change) l a f where "find (synced_license c sub) (licenses d) = Some l"
      "license_sync_action (Some (lic_parse (li_status l))) status = Some a"
      "d' = set_license (li_id l) f d" "\<And>r. li_id (f r) = li_id r \<and> li_customer (f r) = li_customer r
         \<and> li_subscription (f r) = li_subscription r \<and> li_status (f r) = lic_as_str (after_action a)"
  | (limit) l lim where "find (synced_license c sub) (licenses d) = Some l"
      "license_sync_action (Some (lic_parse (li_status l))) status = None"
      "li_status l = ''active''" "grants_cloud status"
      "d' = set_license (li_id l) (\<lambda>r. r\<lparr>li_device_limit := lim\<rparr>) d"
proof -
  obtain pro pk plk where ctx: "plan_context ver d = Some (pro, pk, plk) \<or> plan_context ver d = None"
    by (cases "plan_context ver d") auto
  show ?thesis
  proof (cases "plan_context ver d = None")
    case True
    with assms show ?thesis by (intro same) (auto simp: sync_license_for_subscription_def)
  next
    case False
    with ctx have ctx: "plan_context ver d = Some (pro, pk, plk)" by simp
    from assms obtain dmax pol where dm: "devices_max d ver pk = Inr dmax"
      "commercial_policy_device_limit e pk plk d = Inr pol"
      by (auto simp: sync_license_for_subscription_def ctx Let_def)
    define lim where "lim = unwrap_or pol (unwrap_or (i32_try_from (clamp (unwrap_or dmax 1) 0 i32_max)) 1)"
    have lim: "0 \<le> lim \<and> lim \<le> i32_max"
      using dm(2) limit_fallback
      by (auto simp: lim_def commercial_policy_device_limit_def split: option.splits)
    show ?thesis
    proof (cases "find (synced_license c sub) (licenses d)")
      case None
      show ?thesis
      proof (cases "grants_cloud status")
        case True
        with assms dm ctx None lim show ?thesis
          by (intro issue) (auto simp: sync_license_for_subscription_def Let_def synced_license_def
              simp flip: lim_def)
      next
        case False
        with assms dm ctx None show ?thesis
          by (intro same) (auto simp: sync_license_for_subscription_def Let_def)
      qed
    next
      case (Some l)
      show ?thesis
      proof (cases "license_sync_action (Some (lic_parse (li_status l))) status")
        case act: None
        show ?thesis
        proof (cases "li_status l = ''active'' \<and> grants_cloud status \<and> li_device_limit l \<noteq> lim")
          case True
          with assms dm ctx Some act show ?thesis
            by (intro limit [of l lim]) (auto simp: sync_license_for_subscription_def Let_def lim_def)
        next
          case False
          with assms dm ctx Some act show ?thesis
            by (intro same) (auto simp: sync_license_for_subscription_def Let_def lim_def)
        qed
      next
        case act: (Some a)
        have "a \<noteq> Issue"
          using act by (cases "lic_parse (li_status l)"; cases status) auto
        with assms dm ctx Some act show ?thesis
          by (cases a) (rule change [of l a], auto simp: sync_license_for_subscription_def Let_def)+
      qed
    qed
  qed
qed

lemma sync_inv_new:
  assumes sy: "sync_license_for_subscription e n c sub ver status d = Inr (out, d')"
    and inv: "lic_inv d" and new: "\<And>l. l \<in> set (licenses d) \<Longrightarrow> li_id l \<noteq> e_id e n"
  shows "lic_inv d'"
  using sy
proof (cases rule: sync_cases)
  case (issue l)
  note I = lic_invD [OF inv]
  show ?thesis
  proof (rule lic_invI)
    show "distinct (map li_id (licenses d'))"
      using distinct_insert_new [OF I(3), of l] new by (simp add: issue(3,4))
    show "slot_ok d' a" if "a \<in> set (activations d')" "is_active a" for a
      using I(5) [of a] that by (auto simp: issue(3) slot_ok_def)
  qed (use I in \<open>simp_all add: issue(3)\<close>)
next
  case (change l a f)
  show ?thesis
    by (rule lic_inv_update [OF inv, where P = "\<lambda>_. False" and Q = "\<lambda>_. False"
          and R = "\<lambda>r. li_id r = li_id l" and g = f and f = id])
      (simp_all add: change(3,4) set_license_def)
next
  case (limit l lim)
  show ?thesis
    by (rule lic_inv_update [OF inv, where P = "\<lambda>_. False" and Q = "\<lambda>_. False"
          and R = "\<lambda>r. li_id r = li_id l" and g = "\<lambda>r. r\<lparr>li_device_limit := lim\<rparr>" and f = id])
      (simp_all add: limit(5) set_license_def)
qed (use inv in simp)

lemma sync_inv:
  "sync_license_for_subscription e n c sub ver status d = Inr (out, d') \<Longrightarrow> lic_inv d \<Longrightarrow> fresh e d \<Longrightarrow>
     n < 8 \<Longrightarrow> lic_inv d'"
  using sync_inv_new fresh_rows(2) by blast

text \<open>The abstract licence of a subscription, and the refinement: a sync is \<open>sync_status\<close> on it.\<close>

definition license_view :: "uuid \<Rightarrow> uuid \<Rightarrow> db \<Rightarrow> license_status option" where
  "license_view c sub d =
     map_option (\<lambda>l. lic_parse (li_status l)) (find (synced_license c sub) (licenses d))"

lemma find_set_license:
  assumes "find (synced_license c sub) (licenses d) = Some l"
    and "\<And>r. li_customer (f r) = li_customer r \<and> li_subscription (f r) = li_subscription r"
  shows "find (synced_license c sub) (licenses (set_license (li_id l) f d)) = Some (f l)"
  using assms find_upd_Q [of "\<lambda>r. li_id r = li_id l" "synced_license c sub" f "licenses d"]
  by (simp add: set_license_def synced_license_def)

lemma sync_refines:
  assumes sy: "sync_license_for_subscription e n c sub ver status d = Inr (out, d')"
    and ctx: "plan_context ver d \<noteq> None"
  shows "license_view c sub d' = sync_status status (license_view c sub d)"
  using sy
proof (cases rule: sync_cases)
  case same
  then show ?thesis using ctx by (simp add: license_view_def sync_status_def)
next
  case (issue l)
  then show ?thesis
    by (auto simp: license_view_def sync_status_def find_append lic_parse_def)
next
  case (change l a f)
  then show ?thesis
    using find_set_license [OF change(1), of f]
    by (simp add: license_view_def sync_status_def)
next
  case (limit l lim)
  then show ?thesis
    using find_set_license [OF limit(1), of "\<lambda>r. r\<lparr>li_device_limit := lim\<rparr>"]
    by (simp add: license_view_def sync_status_def)
qed

lemma sync_plan_context:
  "sync_license_for_subscription e n c sub ver status d = Inr (out, d') \<Longrightarrow>
     plan_context v d' = plan_context v d"
  by (erule sync_cases) (simp_all add: plan_context_def set_license_def)

text \<open>The licences of other subscriptions and customers stay as they are.\<close>

lemma sync_frame:
  assumes sy: "sync_license_for_subscription e n c sub ver status d = Inr (out, d')"
    and inv: "lic_inv d"
  shows "filter (\<lambda>l. \<not> synced_license c sub l) (licenses d') =
         filter (\<lambda>l. \<not> synced_license c sub l) (licenses d)"
proof -
  have upd: "filter (\<lambda>l. \<not> synced_license c sub l) (upd (\<lambda>r. li_id r = li_id l) f ls)
      = filter (\<lambda>l. \<not> synced_license c sub l) ls"
    if "synced_license c sub l" "\<And>r. synced_license c sub (f r) = synced_license c sub r"
      "\<And>r. r \<in> set ls \<Longrightarrow> li_id r = li_id l \<Longrightarrow> r = l" for l f ls
    using that by (induction ls) auto
  have one: "r = l" if "find (synced_license c sub) (licenses d) = Some l" "r \<in> set (licenses d)"
      "li_id r = li_id l" for l r
    using distinct_key_eq [OF lic_invD(3) [OF inv] that(2) _ that(3)] find_SomeD [OF that(1)] by simp
  from sy show ?thesis
  proof (cases rule: sync_cases)
    case (change l a f)
    show ?thesis
      unfolding change(3) set_license_def
      using upd [of l f "licenses d"] one [OF change(1)] find_SomeD [OF change(1)] change(4)
      by (simp add: synced_license_def)
  next
    case (limit l lim)
    show ?thesis
      unfolding limit(5) set_license_def
      using upd [of l "\<lambda>r. r\<lparr>li_device_limit := lim\<rparr>" "licenses d"] one [OF limit(1)]
        find_SomeD [OF limit(1)]
      by (simp add: synced_license_def)
  qed simp_all
qed

section \<open>Slots\<close>

lemma activation_takes_slot:
  assumes act: "activate_installation e c i w corr d = (Inr out, d')" and new: "\<not> o_already_active out"
  shows "active_count (o_license out) d' = active_count (o_license out) d + 1"
    and "int (active_count (o_license out) d') = o_active_devices out"
    and "o_active_devices out \<le> o_device_limit out"
    and "l \<noteq> o_license out \<Longrightarrow> active_count l d' = active_count l d"
proof -
  from act obtain k limit a where h: "o_license out = k" "o_device_limit out = limit"
    "activations d' = activations d @ [a]" "ac_license a = k" "ac_status a = ''active''"
    "can_activate_device (count_u32 (int (active_count k d))) limit" "limit \<le> u32_max"
    "o_active_devices out = count_u32 (int (active_count k d)) + 1"
    by (cases rule: activate_cases) (use new in \<open>auto dest: device_limit_u32\<close>)
  note n = can_activate_count [OF h(6,7)]
  show "active_count (o_license out) d' = active_count (o_license out) d + 1"
    "int (active_count (o_license out) d') = o_active_devices out"
    "o_active_devices out \<le> o_device_limit out"
    "l \<noteq> o_license out \<Longrightarrow> active_count l d' = active_count l d"
    using h n by (simp_all add: active_count_snoc [OF h(3)] active_on_def)
qed

text \<open>The guards of an activation as one computation over the tables it reads.\<close>

definition activation_context ::
    "env \<Rightarrow> uuid \<Rightarrow> uuid \<Rightarrow> uuid option \<Rightarrow> db \<Rightarrow> activation_error + (installation_row \<times> license_row \<times> int)" where
  "activation_context e c i w d =
     (case find (\<lambda>j. in_id j = i \<and> in_customer j = c) (installations d) of
        None \<Rightarrow> Inl InstallationNotFound
      | Some inst \<Rightarrow>
      if in_status inst = ''deactivated'' then Inl InstallationDeactivated
      else if device_status (in_device inst) d = Some ''revoked'' then Inl RevocationBlocked
      else bind_r (choose_license e c inst w d) (\<lambda>l.
           bind_r (license_guards e inst l d) (\<lambda>_.
           bind_r (device_limit_of e l d) (\<lambda>limit. Inr (inst, l, limit)))))"

definition finish_activation ::
    "env \<Rightarrow> uuid \<Rightarrow> string option \<Rightarrow> installation_row \<times> license_row \<times> int \<Rightarrow> db
      \<Rightarrow> (activation_error + activation_outcome) \<times> db" where
  "finish_activation e c corr x d = (case x of (inst, l, limit) \<Rightarrow>
     let n = count_u32 (int (active_count (li_id l) d))
     in case find (\<lambda>a. active_on (li_id l) a \<and> ac_installation a = in_id inst) (activations d) of
          Some a \<Rightarrow>
            (Inr \<lparr>o_activation = ac_id a, o_license = li_id l, o_installation = in_id inst,
                  o_activated_at = ac_activated a, o_device_limit = limit, o_active_devices = n,
                  o_already_active = True\<rparr>, d)
        | None \<Rightarrow>
            if \<not> can_activate_device n limit then (Inl (DeviceLimitReached limit n), d)
            else (let (out, d') = record_activation e c inst l limit n corr d in (Inr out, d')))"

lemma activate_by_context:
  "activate_installation e c i w corr d =
     (case activation_context e c i w d of
        Inl err \<Rightarrow> (Inl err, d)
      | Inr x \<Rightarrow> finish_activation e c corr x d)"
proof (cases "find (\<lambda>j. in_id j = i \<and> in_customer j = c) (installations d)")
  case None
  then show ?thesis by (simp add: activate_installation_def activation_context_def)
next
  case (Some inst)
  show ?thesis
  proof (cases "bind_r (choose_license e c inst w d) (\<lambda>l. bind_r (license_guards e inst l d) (\<lambda>_.
           bind_r (device_limit_of e l d) (\<lambda>limit. Inr (l, limit))))")
    case (Inl err)
    then show ?thesis
      using Some by (auto simp: activate_installation_def activation_context_def bind_r_eq_Inl)
  next
    case (Inr x)
    then show ?thesis
      using Some by (auto simp: activate_installation_def activation_context_def finish_activation_def)
  qed
qed

lemma activation_context_frame:
  "activation_context e c i w (write_outbox e n ev k p (write_customer_audit r (d\<lparr>activations := x\<rparr>)))
     = activation_context e c i w d"
proof -
  let ?d = "write_outbox e n ev k p (write_customer_audit r (d\<lparr>activations := x\<rparr>))"
  have "choose_license e c inst w ?d = choose_license e c inst w d" for inst
    by (cases w) (simp_all add: choose_license_def)
  moreover have "device_status dev ?d = device_status dev d" for dev
    by (simp add: device_status_def)
  moreover have "license_guards e inst l ?d = license_guards e inst l d" for inst l
    by (simp add: license_guards_def)
  moreover have "device_limit_of e l ?d = device_limit_of e l d" for l
  proof -
    have "effective_policy e pk ?d = effective_policy e pk d" for pk by (simp add: effective_policy_def)
    then have "commercial_policy_device_limit e pk plk ?d = commercial_policy_device_limit e pk plk d" for pk plk
      by (simp add: commercial_policy_device_limit_def split: option.split)
    moreover have "license_plan i ?d = license_plan i d" for i by (simp add: license_plan_def)
    ultimately show ?thesis
      by (simp add: device_limit_of_def commercial_policy_device_limit_for_license_def
          split: option.split)
  qed
  ultimately show ?thesis by (simp add: activation_context_def split: option.split)
qed

text \<open>The same call again answers with the same activation and changes nothing.\<close>

lemma activate_retry:
  assumes act: "activate_installation e c i w corr d = (Inr out, d')"
  shows "activate_installation e c i w corr' d' = (Inr (out\<lparr>o_already_active := True\<rparr>), d')"
proof -
  obtain inst l limit where ctx: "activation_context e c i w d = Inr (inst, l, limit)"
    using act by (auto simp: activate_by_context split: sum.splits)
  let ?hit = "\<lambda>a. active_on (li_id l) a \<and> ac_installation a = in_id inst"
  let ?n = "count_u32 (int (active_count (li_id l) d))"
  show ?thesis
  proof (cases "find ?hit (activations d)")
    case (Some a)
    then show ?thesis
      using act ctx by (auto simp: activate_by_context finish_activation_def Let_def)
  next
    case None
    obtain o' d'' where rec: "record_activation e c inst l limit ?n corr d = (o', d'')"
      by (cases "record_activation e c inst l limit ?n corr d")
    from act None rec have out: "out = o'" "d' = d''" and can: "can_activate_device ?n limit"
      by (auto simp: activate_by_context ctx finish_activation_def Let_def split: if_splits)
    note f = record_activation_facts [OF rec, folded out]
    obtain ev key p r where "d' = write_outbox e 1 ev key p
        (write_customer_audit r (d\<lparr>activations := activations d'\<rparr>))" using f(11) by blast
    then have ctx': "activation_context e c i w d' = Inr (inst, l, limit)"
      using activation_context_frame ctx by metis
    have "device_limit_of e l d = Inr limit"
      using ctx by (auto simp: activation_context_def split: option.splits if_splits)
    then have n: "?n = int (active_count (li_id l) d)" "?n < limit" "limit \<le> u32_max"
      using can_activate_count [OF can] device_limit_u32 by auto
    have n': "count_u32 (int (active_count (li_id l) d')) = ?n + 1"
      using n by (simp add: active_count_snoc [OF f(8)] active_on_def)
        (simp add: count_u32_def u32_try_from_def)
    have hit: "find ?hit (activations d') = Some (last (activations d'))"
      using None by (simp add: f(8) find_append active_on_def)
    show ?thesis
      using f(1-7) hit by (simp add: activate_by_context ctx' finish_activation_def n' Let_def f(8))
  qed
qed

lemma deactivate_frees:
  assumes de: "deactivate_installation e c i corr d = (Inr out, d')" and inv: "lic_inv d"
  shows "a \<in> set (activations d') \<Longrightarrow> \<not> held_by i a"
    and "length (filter is_active (activations d)) =
         length (filter is_active (activations d')) + do_released out"
proof -
  have none: "\<not> held_by i a" if "j \<in> set (installations d)" "in_id j = i" "in_status j = ''deactivated''"
      "a \<in> set (activations d)" for a j
  proof
    assume h: "held_by i a"
    then have "slot_ok d a" using lic_invD(5) [OF inv that(4)] by (simp add: held_by_def is_active_def)
    then show False
      using distinct_key_eq [OF lic_invD(1) [OF inv] _ that(1)] that(2,3) h
      by (auto simp: slot_ok_def held_by_def)
  qed
  have split: "length (filter is_active as) = length (filter is_active
      (upd (held_by i) (\<lambda>a. a\<lparr>ac_status := ''deactivated'', ac_deactivated := t\<rparr>) as))
      + length (filter (held_by i) as)" for as t
    by (induction as) (auto simp: held_by_def is_active_def)
  from de show "a \<in> set (activations d') \<Longrightarrow> \<not> held_by i a"
    by (cases rule: deactivate_cases) (use none in \<open>auto simp: set_upd held_by_def\<close>)
  from de show "length (filter is_active (activations d)) =
         length (filter is_active (activations d')) + do_released out"
    by (cases rule: deactivate_cases) (use split in \<open>auto simp: rows_affected_def\<close>)
qed

lemma deactivate_again:
  assumes "deactivate_installation e c i corr d = (Inr out, d')" and inv: "lic_inv d"
  shows "deactivate_installation e' c i corr' d' =
    (Inr \<lparr>do_installation = i, do_status = ''deactivated'', do_released = 0, do_already = True\<rparr>, d')"
  using assms(1)
proof (cases rule: deactivate_cases)
  case missing
  then show ?thesis by simp
next
  case (already inst)
  with assms(1) show ?thesis
    by (auto simp: deactivate_installation_def Let_def split: option.splits if_splits)
next
  case (off inst)
  let ?hit = "\<lambda>j. in_id j = i \<and> in_customer j = c"
  have "find ?hit (installations d) = Some inst"
  proof (cases "find ?hit (installations d)")
    case None
    then show ?thesis using off find_NoneD by fastforce
  next
    case (Some j)
    then show ?thesis
      using distinct_key_eq [OF lic_invD(1) [OF inv], of j inst] find_SomeD [OF Some] off by simp
  qed
  then have "find ?hit (installations d') = Some (inst\<lparr>in_status := ''deactivated''\<rparr>)"
    using off(2) by (simp add: off(6) find_upd_Q)
  then show ?thesis by (simp add: deactivate_installation_def)
qed

section \<open>Repeated registration\<close>

lemma register_again:
  assumes reg: "register_installation e c inp d = (Inr r, d')" and inv: "lic_inv d"
    and reg2: "register_installation e2 c inp2 d' = (Inr r2, d2)"
    and key: "vr_install_key inp2 = vr_install_key inp"
  shows "\<not> rg_created r2" "in_id (fst (rg_installation r2)) = in_id (fst (rg_installation r))"
    "in_status (fst (rg_installation r2)) = ''active''" "outbox d2 = outbox d'"
    "length (installations d2) = length (installations d')"
proof -
  have found: "find (has_key c (vr_install_key inp)) (installations d')
      = Some (fst (rg_installation r))"
    using reg
  proof (cases rule: register_cases)
    case (new p device fleet)
    then show ?thesis
      by (simp add: find_append has_key_def new_installation_def)
  next
    case (again p device fleet prior)
    then show ?thesis
      by (simp add: find_upd_Q has_key_def refresh_installation_def)
  qed
  from reg2 show "\<not> rg_created r2" "in_id (fst (rg_installation r2)) = in_id (fst (rg_installation r))"
    "in_status (fst (rg_installation r2)) = ''active''" "outbox d2 = outbox d'"
    "length (installations d2) = length (installations d')"
    by (cases rule: register_cases; use found key in \<open>auto simp: refresh_installation_def\<close>)+
qed

end
