(* ===== verification/Usage_Ledger.thy ===== *)
theory Usage_Ledger
  imports Database "HOL-Library.List_Lexorder"
begin

text \<open>
  \<^verbatim>\<open>api/src/repositories/usage.rs\<close>: reservations, commits and releases against the usage
  ledger, the derived period totals, and the sweep of overdue holds. The row lock on the
  totals makes the transactions on one meter run one after the other, so each is one step;
  the branches for a lost idempotency race are kept, though no single step reaches them.
\<close>

datatype usage_error =
    MeterNotFound
  | ReservationNotFound
  | ReservationNotCommittable string
  | UsageDb

record denied_decision =
  dn_reason :: quota_reason
  dn_limit :: "f64 option"
  dn_used :: f64
  dn_reserved :: f64
  dn_remaining :: f64

datatype reserve_outcome =
    Reserved reservation_row
  | ReserveReplayed reservation_row
  | ReserveDenied denied_decision

datatype commit_outcome =
    Committed usage_event_row f64 "int list" \<comment> \<open>event, used after, thresholds crossed\<close>
  | CommitReplayed usage_event_row
  | CommitDenied denied_decision

datatype release_outcome = Released f64 | AlreadyTerminal string

definition find_meter :: "string \<Rightarrow> db \<Rightarrow> meter_row option" where
  "find_meter key d = find (\<lambda>m. me_key m = key) (meters d)"

section \<open>Totals\<close>

definition totals_for :: "uuid \<Rightarrow> string \<Rightarrow> string \<Rightarrow> total_row \<Rightarrow> bool" where
  "totals_for c m p t \<longleftrightarrow> to_customer t = c \<and> to_meter t = m \<and> to_period t = p"

definition used_reserved :: "total_row \<Rightarrow> f64 \<times> f64" where
  "used_reserved t = (to_used t, to_reserved t)"

text \<open>\<^verbatim>\<open>greatest(0, x)\<close>; PostgreSQL orders a NaN above every number.\<close>

definition greatest0 :: "f64 \<Rightarrow> f64" where
  "greatest0 x = (if f64_lt x (Fin 0) then Fin 0 else x)"

definition ensure_total :: "uuid \<Rightarrow> string \<Rightarrow> string \<Rightarrow> db \<Rightarrow> db" where
  "ensure_total c m p d =
     (if find (totals_for c m p) (totals d) \<noteq> None then d
      else d\<lparr>totals := totals d @
        [\<lparr>to_customer = c, to_meter = m, to_period = p, to_used = Fin 0, to_reserved = Fin 0\<rparr>]\<rparr>)"

definition read_locked :: "uuid \<Rightarrow> string \<Rightarrow> string \<Rightarrow> db \<Rightarrow> usage_error + f64 \<times> f64" where
  "read_locked c m p d = ok_or (map_option used_reserved (find (totals_for c m p) (totals d))) UsageDb"

definition lock_totals :: "uuid \<Rightarrow> string \<Rightarrow> string \<Rightarrow> db \<Rightarrow> usage_error + (f64 \<times> f64) \<times> db" where
  "lock_totals c m p d =
     (let d1 = ensure_total c m p d in bind_r (read_locked c m p d1) (\<lambda>x. Inr (x, d1)))"

definition read_totals :: "uuid \<Rightarrow> string \<Rightarrow> string \<Rightarrow> db \<Rightarrow> f64 \<times> f64" where
  "read_totals c m p d =
     unwrap_or (map_option used_reserved (find (totals_for c m p) (totals d))) (Fin 0, Fin 0)"

text \<open>\<^verbatim>\<open>update usage_period_totals set reserved = greatest(0, reserved - $4)\<close>.\<close>

definition free_hold :: "env \<Rightarrow> uuid \<Rightarrow> string \<Rightarrow> string \<Rightarrow> f64 \<Rightarrow> db \<Rightarrow> db" where
  "free_hold e c m p amount d = d\<lparr>totals := upd (totals_for c m p)
     (\<lambda>t. t\<lparr>to_reserved := e_col e (greatest0 (f64_sub (to_reserved t) amount))\<rparr>) (totals d)\<rparr>"

section \<open>Expiry\<close>

definition set_reservation :: "(reservation_row \<Rightarrow> bool) \<Rightarrow> string \<Rightarrow> db \<Rightarrow> db" where
  "set_reservation P status d =
     d\<lparr>reservations := upd P (\<lambda>r. r\<lparr>re_status := status\<rparr>) (reservations d)\<rparr>"

definition stale_for :: "env \<Rightarrow> uuid \<Rightarrow> string \<Rightarrow> string \<Rightarrow> reservation_row \<Rightarrow> bool" where
  "stale_for e c m p r \<longleftrightarrow> re_customer r = c \<and> re_meter r = m \<and> re_period r = p
     \<and> re_status r = ''pending'' \<and> re_expires r \<le> e_now e"

text \<open>\<^verbatim>\<open>select sum(amount)\<close> over no rows is null.\<close>

definition sql_sum :: "env \<Rightarrow> f64 list \<Rightarrow> f64 option" where
  "sql_sum e xs = (if xs = [] then None else Some (e_sum e xs))"

definition expire_stale_reservations ::
    "env \<Rightarrow> uuid \<Rightarrow> string \<Rightarrow> string \<Rightarrow> db \<Rightarrow> f64 \<times> db" where
  "expire_stale_reservations e c m p d =
     (let reclaimed = unwrap_or (sql_sum e (map re_amount (filter (stale_for e c m p) (reservations d))))
                        (Fin 0);
          d1 = set_reservation (stale_for e c m p) ''expired'' d
      in (reclaimed, if f64_lt (Fin 0) reclaimed then free_hold e c m p reclaimed d1 else d1))"

section \<open>Decisions\<close>

definition record_decision ::
    "env \<Rightarrow> uuid \<Rightarrow> string \<Rightarrow> f64 \<Rightarrow> f64 option \<Rightarrow> f64 \<Rightarrow> f64 \<Rightarrow> quota_decision \<Rightarrow> string option
      \<Rightarrow> db \<Rightarrow> db" where
  "record_decision e c m requested limit u s dec corr d = d\<lparr>decisions := decisions d @
     [\<lparr>qd_id = e_id e 0, qd_customer = c, qd_meter = m, qd_requested = e_col e requested,
       qd_limit = map_option (e_col e) limit, qd_used = e_col e u, qd_reserved = e_col e s,
       qd_outcome = (case qd_decision dec of Allow \<Rightarrow> ''allow'' | Deny \<Rightarrow> ''deny''),
       qd_why = qd_reason dec, qd_correlation = corr\<rparr>]\<rparr>"

text \<open>
  The part \<^verbatim>\<open>reserve\<close> and a direct \<^verbatim>\<open>commit\<close> share: lock the totals, expire stale holds, read
  again, decide, record the decision.
\<close>

definition gate ::
    "env \<Rightarrow> uuid \<Rightarrow> string \<Rightarrow> string \<Rightarrow> f64 \<Rightarrow> f64 option \<Rightarrow> string option \<Rightarrow> db
      \<Rightarrow> usage_error + (quota_decision \<times> f64 \<times> f64) \<times> db" where
  "gate e c m p amount limit corr d =
     bind_r (lock_totals c m p d) (\<lambda>(_, d1).
     let d2 = snd (expire_stale_reservations e c m p d1)
     in bind_r (read_locked c m p d2) (\<lambda>(u, s).
     let dec = decide amount u s limit
     in Inr ((dec, u, s), record_decision e c m amount limit u s dec corr d2)))"

definition denied :: "quota_decision \<Rightarrow> f64 option \<Rightarrow> f64 \<Rightarrow> f64 \<Rightarrow> denied_decision" where
  "denied dec limit u s =
     \<lparr>dn_reason = qd_reason dec, dn_limit = limit, dn_used = u, dn_reserved = s,
      dn_remaining = qd_remaining_before dec\<rparr>"

section \<open>Reserve\<close>

record reserve_input =
  ri_customer :: uuid
  ri_meter :: string
  ri_amount :: f64
  ri_limit :: "f64 option"
  ri_period :: string
  ri_ttl :: time
  ri_idem :: string
  ri_corr :: "string option"

definition reservation_of :: "uuid \<Rightarrow> string \<Rightarrow> db \<Rightarrow> reservation_row option" where
  "reservation_of c key d = find (\<lambda>r. re_customer r = c \<and> re_idem r = key) (reservations d)"

definition reserve :: "env \<Rightarrow> reserve_input \<Rightarrow> db \<Rightarrow> (usage_error + reserve_outcome) \<times> db" where
  "reserve e inp d =
     (let c = ri_customer inp; m = ri_meter inp; p = ri_period inp in
      case reservation_of c (ri_idem inp) d of
        Some existing \<Rightarrow> (Inr (ReserveReplayed existing), d)
      | None \<Rightarrow>
        (case gate e c m p (ri_amount inp) (ri_limit inp) (ri_corr inp) d of
           Inl err \<Rightarrow> (Inl err, d)
         | Inr ((dec, u, s), d1) \<Rightarrow>
             if qd_decision dec = Deny then (Inr (ReserveDenied (denied dec (ri_limit inp) u s)), d1)
             else case reservation_of c (ri_idem inp) d1 of
               Some existing \<Rightarrow> (Inr (ReserveReplayed existing), d1)
             | None \<Rightarrow>
               (let row = \<lparr>re_id = e_id e 1, re_customer = c, re_meter = m,
                           re_amount = e_col e (ri_amount inp), re_idem = ri_idem inp,
                           re_status = ''pending'', re_period = p,
                           re_expires = e_utc e 0 + ri_ttl inp\<rparr>;
                    d2 = d1\<lparr>reservations := reservations d1 @ [row]\<rparr>;
                    d3 = d2\<lparr>totals := upd (totals_for c m p)
                      (\<lambda>t. t\<lparr>to_reserved := e_col e (f64_add (to_reserved t) (ri_amount inp))\<rparr>) (totals d2)\<rparr>
                in (Inr (Reserved row), d3))))"

definition find_reservation :: "uuid \<Rightarrow> uuid \<Rightarrow> db \<Rightarrow> reservation_row option" where
  "find_reservation c i d = find (\<lambda>r. re_id r = i \<and> re_customer r = c) (reservations d)"

section \<open>Commit\<close>

datatype commit_mode = ByReservation uuid | Direct string f64

record commit_input =
  ci_customer :: uuid
  ci_mode :: commit_mode
  ci_limit :: "f64 option"
  ci_period :: string
  ci_percents :: "int list"
  ci_idem :: string
  ci_corr :: "string option"

definition event_of :: "uuid \<Rightarrow> string \<Rightarrow> db \<Rightarrow> usage_event_row option" where
  "event_of c key d = find (\<lambda>u. ue_customer u = c \<and> ue_idem u = key) (usage_events d)"

text \<open>
  What is to be charged: an answer that ends the operation (with the database it commits), or
  meter, amount, period and the reservation that is converted.
\<close>

type_synonym charge = "string \<times> f64 \<times> string \<times> uuid option"

definition resolve_reservation ::
    "env \<Rightarrow> commit_input \<Rightarrow> uuid \<Rightarrow> db \<Rightarrow> ((usage_error + commit_outcome) + charge) \<times> db" where
  "resolve_reservation e inp i d =
     (case find_reservation (ci_customer inp) i d of
        None \<Rightarrow> (Inl (Inl ReservationNotFound), d)
      | Some r \<Rightarrow>
          if re_status r \<noteq> ''pending'' then (Inl (Inl (ReservationNotCommittable (re_status r))), d)
          else if re_expires r \<le> e_utc e 0
          then (Inl (Inl (ReservationNotCommittable ''expired'')),
                free_hold e (ci_customer inp) (re_meter r) (re_period r) (re_amount r)
                  (set_reservation (\<lambda>r. re_id r = i) ''expired'' d))
          else (Inr (re_meter r, re_amount r, re_period r, Some i), d))"

definition resolve_direct ::
    "env \<Rightarrow> commit_input \<Rightarrow> string \<Rightarrow> f64 \<Rightarrow> db \<Rightarrow> ((usage_error + commit_outcome) + charge) \<times> db" where
  "resolve_direct e inp m amount d =
     (let c = ci_customer inp; p = ci_period inp; limit = ci_limit inp in
      case gate e c m p amount limit (ci_corr inp) d of
        Inl err \<Rightarrow> (Inl (Inl err), d)
      | Inr ((dec, u, s), d1) \<Rightarrow>
          if qd_decision dec = Deny
          then (Inl (Inr (CommitDenied (denied dec limit u s))),
                write_outbox e 2 ''usage_commit_failed''
                  (''usage_commit_failed:'' @ c @ '':'' @ ci_idem inp)
                  (JObj [(''customer_id'', JStr c), (''meter_key'', JStr m), (''period_key'', JStr p),
                         (''requested'', json_f64 amount), (''limit'', jopt json_f64 limit),
                         (''occurred_at'', JStr (e_time e (e_utc e 0)))]) d1)
          else (Inr (m, amount, p, None), d1))"

definition threshold_key :: "uuid \<Rightarrow> string \<Rightarrow> string \<Rightarrow> int \<Rightarrow> string" where
  "threshold_key c m p pct =
     ''quota_threshold_reached:'' @ c @ '':'' @ m @ '':'' @ p @ '':'' @ show_int pct"

definition write_threshold ::
    "env \<Rightarrow> uuid \<Rightarrow> string \<Rightarrow> string \<Rightarrow> f64 \<Rightarrow> f64 option \<Rightarrow> nat \<times> int \<Rightarrow> db \<Rightarrow> db" where
  "write_threshold e c m p used_after limit x d =
     (case x of (k, pct) \<Rightarrow>
        write_outbox e (3 + k) ''quota_threshold_reached'' (threshold_key c m p pct)
          (JObj [(''customer_id'', JStr c), (''meter_key'', JStr m), (''period_key'', JStr p),
                 (''threshold_percent'', JInt pct), (''used'', json_f64 used_after),
                 (''limit'', jopt json_f64 limit),
                 (''occurred_at'', JStr (e_time e (e_utc e (1 + k))))]) d)"

text \<open>The ledger insert, the conversion of the hold, and the totals.\<close>

definition post_charge :: "env \<Rightarrow> uuid \<Rightarrow> usage_event_row \<Rightarrow> charge \<Rightarrow> db \<Rightarrow> db" where
  "post_charge e c event x d = (case x of (m, amount, p, rid) \<Rightarrow>
     let d1 = d\<lparr>usage_events := usage_events d @ [event]\<rparr>;
         d2 = (case rid of None \<Rightarrow> d1 | Some i \<Rightarrow> set_reservation (\<lambda>r. re_id r = i) ''committed'' d1);
         delta = (if rid \<noteq> None then amount else Fin 0)
     in d2\<lparr>totals := upd (totals_for c m p)
          (\<lambda>t. t\<lparr>to_used := e_col e (f64_add (to_used t) amount),
                 to_reserved := e_col e (greatest0 (f64_sub (to_reserved t) delta))\<rparr>) (totals d2)\<rparr>)"

text \<open>The charge with its threshold events.\<close>

definition apply_charge ::
    "env \<Rightarrow> commit_input \<Rightarrow> charge \<Rightarrow> db \<Rightarrow> (usage_error + commit_outcome) \<times> db" where
  "apply_charge e inp x d = (case x of (m, amount, p, rid) \<Rightarrow>
     let c = ci_customer inp in
     case event_of c (ci_idem inp) d of
       Some existing \<Rightarrow> (Inr (CommitReplayed existing), d)
     | None \<Rightarrow>
       (let event = \<lparr>ue_id = e_id e 1, ue_customer = c, ue_meter = m, ue_amount = e_col e amount,
                     ue_period = p, ue_idem = ci_idem inp, ue_reservation = rid,
                ue_kind = ''commit''\<rparr>;
            d3 = post_charge e c event x d
        in case find (totals_for c m p) (totals d3) of
             None \<Rightarrow> (Inl UsageDb, d)
           | Some t \<Rightarrow>
             (let used_after = to_used t;
                  used_before = f64_sub used_after amount;
                  crossed = crossed_thresholds used_before used_after (ci_limit inp) (ci_percents inp);
                  d4 = fold (write_threshold e c m p used_after (ci_limit inp)) (enumerate 0 crossed) d3
              in (Inr (Committed event used_after crossed), d4))))"

definition commit :: "env \<Rightarrow> commit_input \<Rightarrow> db \<Rightarrow> (usage_error + commit_outcome) \<times> db" where
  "commit e inp d =
     (case event_of (ci_customer inp) (ci_idem inp) d of
        Some existing \<Rightarrow> (Inr (CommitReplayed existing), d)
      | None \<Rightarrow>
        (case (case ci_mode inp of
                 ByReservation i \<Rightarrow> resolve_reservation e inp i d
               | Direct m amount \<Rightarrow> resolve_direct e inp m amount d) of
           (Inl res, d1) \<Rightarrow> (res, d1)
         | (Inr x, d1) \<Rightarrow>
             (case apply_charge e inp x d1 of
                (Inl err, _) \<Rightarrow> (Inl err, d)
              | (Inr out, d2) \<Rightarrow> (Inr out, d2))))"

section \<open>Release and sweep\<close>

definition release :: "env \<Rightarrow> uuid \<Rightarrow> uuid \<Rightarrow> db \<Rightarrow> release_outcome option \<times> db" where
  "release e c i d =
     (case find_reservation c i d of
        None \<Rightarrow> (None, d)
      | Some r \<Rightarrow>
          if re_status r \<noteq> ''pending'' then (Some (AlreadyTerminal (re_status r)), d)
          else (Some (Released (re_amount r)),
                free_hold e c (re_meter r) (re_period r) (re_amount r)
                  (set_reservation (\<lambda>r. re_id r = i) ''released'' d)))"

definition overdue :: "env \<Rightarrow> reservation_row \<Rightarrow> bool" where
  "overdue e r \<longleftrightarrow> re_status r = ''pending'' \<and> re_expires r \<le> e_now e"

text \<open>The ids the sweep picks: the first of the batch by expiry; then one update per row.\<close>

definition sweep_ids :: "env \<Rightarrow> nat \<Rightarrow> db \<Rightarrow> uuid list" where
  "sweep_ids e batch d =
     map re_id (take batch (order_by re_expires (filter (overdue e) (reservations d))))"

definition free_row :: "env \<Rightarrow> reservation_row \<Rightarrow> db \<Rightarrow> db" where
  "free_row e r = free_hold e (re_customer r) (re_meter r) (re_period r) (re_amount r)"

definition sweep_expired_reservations :: "env \<Rightarrow> nat \<Rightarrow> db \<Rightarrow> nat \<times> db" where
  "sweep_expired_reservations e batch d =
     (let ids = sweep_ids e batch d;
          expired = filter (\<lambda>r. re_id r \<in> set ids) (reservations d)
      in (length expired,
          fold (free_row e) expired (set_reservation (\<lambda>r. re_id r \<in> set ids) ''expired'' d)))"

section \<open>Current usage\<close>

record current_usage_row =
  cr_meter :: string
  cr_unit :: string
  cr_cadence :: string
  cr_period :: string
  cr_used :: f64
  cr_reserved :: f64

definition sql_period_key :: "env \<Rightarrow> string \<Rightarrow> string" where
  "sql_period_key e cadence =
     (if cadence = ''monthly'' then e_month e (e_now e)
      else if cadence = ''daily'' then e_day e (e_now e)
      else ''all'')"

text \<open>Keys compare bytewise, as in the \<^verbatim>\<open>C\<close> collation.\<close>

definition current_usage :: "env \<Rightarrow> uuid \<Rightarrow> db \<Rightarrow> current_usage_row list" where
  "current_usage e c d =
     map (\<lambda>m. let p = sql_period_key e (me_cadence m);
                  (u, s) = read_totals c (me_key m) p d
              in \<lparr>cr_meter = me_key m, cr_unit = me_unit m, cr_cadence = me_cadence m,
                  cr_period = p, cr_used = u, cr_reserved = s\<rparr>)
       (order_by me_key (meters d))"

end
