(* ===== verification/Usage_Facts.thy ===== *)
theory Usage_Facts
  imports Usage_Ledger
begin

text \<open>
  The usage ledger: reserve and commit are idempotent operations in the sense of the prelude's
  interface, the derived totals equal the sums over the ledger on whole amounts, and a limit
  is never oversubscribed.
\<close>

section \<open>Idempotency\<close>

fun reserve_record :: "usage_error + reserve_outcome \<Rightarrow> reservation_row option" where
  "reserve_record (Inr (Reserved r)) = Some r"
| "reserve_record (Inr (ReserveReplayed r)) = Some r"
| "reserve_record _ = None"

fun commit_record :: "usage_error + commit_outcome \<Rightarrow> usage_event_row option" where
  "commit_record (Inr (Committed ev _ _)) = Some ev"
| "commit_record (Inr (CommitReplayed ev)) = Some ev"
| "commit_record _ = None"

text \<open>The operations with the customer and the idempotency key as their key.\<close>

definition reserve_at :: "uuid \<times> string \<Rightarrow> env \<times> reserve_input \<Rightarrow> db
    \<Rightarrow> (usage_error + reserve_outcome) \<times> db" where
  "reserve_at k a = reserve (fst a) ((snd a)\<lparr>ri_customer := fst k, ri_idem := snd k\<rparr>)"

definition commit_at :: "uuid \<times> string \<Rightarrow> env \<times> commit_input \<Rightarrow> db
    \<Rightarrow> (usage_error + commit_outcome) \<times> db" where
  "commit_at k a = commit (fst a) ((snd a)\<lparr>ci_customer := fst k, ci_idem := snd k\<rparr>)"

lemma write_threshold_frame [simp]:
  "usage_events (write_threshold e c m p u l x d) = usage_events d"
  "reservations (write_threshold e c m p u l x d) = reservations d"
  "totals (write_threshold e c m p u l x d) = totals d"
  by (simp_all add: write_threshold_def split: prod.split)

lemma write_thresholds_frame [simp]:
  "usage_events (fold (write_threshold e c m p u l) xs d) = usage_events d"
  "reservations (fold (write_threshold e c m p u l) xs d) = reservations d"
  "totals (fold (write_threshold e c m p u l) xs d) = totals d"
  by (induction xs arbitrary: d) simp_all

interpretation reserve_op: idempotent_op "\<lambda>k. reservation_of (fst k) (snd k)" reserve_at
    "\<lambda>r. Inr (ReserveReplayed r)" reserve_record
proof unfold_locales
  fix k :: "uuid \<times> string" and d :: db and r :: reservation_row and a :: "env \<times> reserve_input"
  assume "reservation_of (fst k) (snd k) d = Some r"
  then show "reserve_at k a d = (Inr (ReserveReplayed r), d)"
    by (simp add: reserve_at_def reserve_def)
next
  fix k :: "uuid \<times> string" and a :: "env \<times> reserve_input" and d d' :: db
    and res :: "usage_error + reserve_outcome" and r :: reservation_row
  assume "reserve_at k a d = (res, d')" "reserve_record res = Some r"
  then show "reservation_of (fst k) (snd k) d' = Some r"
    by (auto simp: reserve_at_def reserve_def Let_def reservation_of_def find_append
        split: option.splits sum.splits prod.splits if_splits)
qed

lemma apply_charge_records:
  "apply_charge e inp x d = (res, d') \<Longrightarrow> commit_record res = Some ev \<Longrightarrow>
     event_of (ci_customer inp) (ci_idem inp) d' = Some ev"
  by (auto simp: apply_charge_def post_charge_def Let_def event_of_def find_append set_reservation_def
      split: option.splits prod.splits)

lemma resolve_no_record:
  "resolve_reservation e inp i d = (Inl res, d') \<Longrightarrow> commit_record res = None"
  "resolve_direct e inp m amount d = (Inl res, d') \<Longrightarrow> commit_record res = None"
  by (auto simp: resolve_reservation_def resolve_direct_def Let_def
      split: option.splits if_splits sum.splits prod.splits)

interpretation commit_op: idempotent_op "\<lambda>k. event_of (fst k) (snd k)" commit_at
    "\<lambda>ev. Inr (CommitReplayed ev)" commit_record
proof unfold_locales
  fix k :: "uuid \<times> string" and d :: db and ev :: usage_event_row and a :: "env \<times> commit_input"
  assume "event_of (fst k) (snd k) d = Some ev"
  then show "commit_at k a d = (Inr (CommitReplayed ev), d)"
    by (simp add: commit_at_def commit_def)
next
  fix k :: "uuid \<times> string" and a :: "env \<times> commit_input" and d d' :: db
    and res :: "usage_error + commit_outcome" and ev :: usage_event_row
  assume h: "commit_at k a d = (res, d')" "commit_record res = Some ev"
  let ?inp = "(snd a)\<lparr>ci_customer := fst k, ci_idem := snd k\<rparr>"
  show "event_of (fst k) (snd k) d' = Some ev"
  proof (cases "event_of (fst k) (snd k) d")
    case (Some x)
    with h show ?thesis by (auto simp: commit_at_def commit_def)
  next
    case None
    obtain res1 d1 where r: "(case ci_mode ?inp of
        ByReservation i \<Rightarrow> resolve_reservation (fst a) ?inp i d
      | Direct m amount \<Rightarrow> resolve_direct (fst a) ?inp m amount d) = (res1, d1)"
      by (meson surj_pair)
    show ?thesis
    proof (cases res1)
      case (Inl x)
      with h None r have "res = x" by (simp add: commit_at_def commit_def)
      with h(2) r Inl resolve_no_record show ?thesis
        by (auto split: commit_mode.splits)
    next
      case (Inr x)
      with h None r obtain d2 out where "apply_charge (fst a) ?inp x d1 = (Inr out, d2)"
          "res = Inr out" "d' = d2"
        by (auto simp: commit_at_def commit_def split: prod.splits sum.splits)
      with apply_charge_records [of "fst a" ?inp x d1 "Inr out" d2 ev] h(2) show ?thesis by simp
    qed
  qed
qed

section \<open>Sums over the ledger\<close>

type_synonym total_key = "uuid \<times> string \<times> string"

definition amt :: "f64 \<Rightarrow> int" where
  "amt x = (case x of Fin r \<Rightarrow> \<lfloor>r\<rfloor> | _ \<Rightarrow> 0)"

definition whole :: "f64 \<Rightarrow> bool" where
  "whole x \<longleftrightarrow> x = wh (amt x) \<and> 0 \<le> amt x"

lemma amt_wh [simp]: "amt (wh n) = n"
  by (simp add: amt_def wh_def)

lemma whole_wh [simp]: "whole (wh n) \<longleftrightarrow> 0 \<le> n"
  by (simp add: whole_def)

lemma wholeE: "whole x \<Longrightarrow> (\<And>n. x = wh n \<Longrightarrow> 0 \<le> n \<Longrightarrow> P) \<Longrightarrow> P"
  by (auto simp: whole_def)

definition re_key :: "reservation_row \<Rightarrow> total_key" where
  "re_key r = (re_customer r, re_meter r, re_period r)"

definition ue_key :: "usage_event_row \<Rightarrow> total_key" where
  "ue_key u = (ue_customer u, ue_meter u, ue_period u)"

definition to_key :: "total_row \<Rightarrow> total_key" where
  "to_key t = (to_customer t, to_meter t, to_period t)"

definition sum_re :: "(reservation_row \<Rightarrow> bool) \<Rightarrow> total_key \<Rightarrow> reservation_row list \<Rightarrow> int" where
  "sum_re P k rs = (\<Sum>r\<leftarrow>filter (\<lambda>r. P r \<and> re_key r = k) rs. amt (re_amount r))"

definition is_pending :: "reservation_row \<Rightarrow> bool" where
  "is_pending r \<longleftrightarrow> re_status r = ''pending''"

text \<open>Units on hold and units charged for a customer, meter and period.\<close>

definition on_hold :: "total_key \<Rightarrow> db \<Rightarrow> int" where
  "on_hold k d = sum_re is_pending k (reservations d)"

definition charged :: "total_key \<Rightarrow> db \<Rightarrow> int" where
  "charged k d = (\<Sum>u\<leftarrow>filter (\<lambda>u. ue_key u = k) (usage_events d). amt (ue_amount u))"

lemma totals_for_key: "totals_for c m p t \<longleftrightarrow> to_key t = (c, m, p)"
  by (auto simp: totals_for_def to_key_def)

definition amounts_whole :: "db \<Rightarrow> bool" where
  "amounts_whole d \<longleftrightarrow> list_all (\<lambda>r. whole (re_amount r)) (reservations d)
     \<and> list_all (\<lambda>u. whole (ue_amount u)) (usage_events d)"

lemma sum_re_nonneg: "list_all (\<lambda>r. whole (re_amount r)) rs \<Longrightarrow> 0 \<le> sum_re P k rs"
  by (induction rs) (auto simp: sum_re_def whole_def)

lemma sum_re_mono:
  "list_all (\<lambda>r. whole (re_amount r)) rs \<Longrightarrow> (\<And>r. r \<in> set rs \<Longrightarrow> P r \<Longrightarrow> Q r) \<Longrightarrow>
     sum_re P k rs \<le> sum_re Q k rs"
  by (induction rs) (auto simp: sum_re_def whole_def)

lemma charged_nonneg: "list_all (\<lambda>u. whole (ue_amount u)) (usage_events d) \<Longrightarrow> 0 \<le> charged k d"
  unfolding charged_def by (induction "usage_events d" rule: list.induct)
    (auto simp: whole_def intro!: sum_list_nonneg simp: list_all_iff)

lemma sum_re_snoc:
  "sum_re P k (rs @ [r]) = sum_re P k rs + (if P r \<and> re_key r = k then amt (re_amount r) else 0)"
  by (simp add: sum_re_def)

lemma charged_snoc:
  "usage_events d' = usage_events d @ [u] \<Longrightarrow>
     charged k d' = charged k d + (if ue_key u = k then amt (ue_amount u) else 0)"
  by (simp add: charged_def)

text \<open>Closing reservations takes exactly their amounts off the hold.\<close>

lemma sum_re_close:
  assumes "s \<noteq> ''pending''"
  shows "sum_re is_pending k (upd P (\<lambda>r. r\<lparr>re_status := s\<rparr>) rs) =
         sum_re is_pending k rs - sum_re (\<lambda>r. P r \<and> is_pending r) k rs"
  using assms by (induction rs) (auto simp: sum_re_def is_pending_def re_key_def)

lemma on_hold_close:
  "s \<noteq> ''pending'' \<Longrightarrow> on_hold k (set_reservation P s d) =
     on_hold k d - sum_re (\<lambda>r. P r \<and> is_pending r) k (reservations d)"
  by (simp add: on_hold_def set_reservation_def sum_re_close)

lemma sum_re_one:
  "distinct (map re_id rs) \<Longrightarrow> r \<in> set rs \<Longrightarrow> P r \<Longrightarrow>
     sum_re (\<lambda>x. re_id x = re_id r \<and> P x) k rs = (if re_key r = k then amt (re_amount r) else 0)"
proof (induction rs)
  case (Cons a rs)
  show ?case
  proof (cases "a = r")
    case True
    have none: "filter (\<lambda>x. (re_id x = re_id r \<and> P x) \<and> re_key x = k) rs = []"
      using Cons.prems(1) True by (auto simp: filter_empty_conv) (metis image_eqI)
    show ?thesis using Cons.prems True none by (simp add: sum_re_def)
  next
    case False
    then have "r \<in> set rs" "re_id a \<noteq> re_id r" using Cons.prems by auto
    then show ?thesis using Cons by (simp add: sum_re_def)
  qed
qed simp

section \<open>The totals against the ledger\<close>

text \<open>Totals that still count \<open>\<delta>\<close> units of hold too many and \<open>\<nu>\<close> charged units too few.\<close>

definition off_by :: "(total_key \<Rightarrow> int) \<Rightarrow> (total_key \<Rightarrow> int) \<Rightarrow> db \<Rightarrow> bool" where
  "off_by \<delta> \<nu> d \<longleftrightarrow> (\<forall>t \<in> set (totals d).
     to_reserved t = wh (on_hold (to_key t) d + \<delta> (to_key t))
     \<and> to_used t = wh (charged (to_key t) d - \<nu> (to_key t)))"

abbreviation balanced :: "db \<Rightarrow> bool" where
  "balanced \<equiv> off_by (\<lambda>_. 0) (\<lambda>_. 0)"

definition within_range :: "db \<Rightarrow> bool" where
  "within_range d \<longleftrightarrow> (\<forall>t \<in> set (totals d). on_hold (to_key t) d + charged (to_key t) d < 10 ^ 15)"

lemma free_hold_frame [simp]:
  "reservations (free_hold e c m p x d) = reservations d"
  "usage_events (free_hold e c m p x d) = usage_events d"
  "on_hold k (free_hold e c m p x d) = on_hold k d"
  "charged k (free_hold e c m p x d) = charged k d"
  by (simp_all add: free_hold_def on_hold_def charged_def)

text \<open>Freeing \<open>n\<close> units that are there to free.\<close>

lemma free_hold_off:
  assumes num: "numeric_column (e_col e) (e_sum e)" and off: "off_by \<delta> \<nu> d"
    and n: "0 \<le> n" "n \<le> on_hold (c, m, p) d + \<delta> (c, m, p)"
      "on_hold (c, m, p) d + \<delta> (c, m, p) < 10 ^ 15"
  shows "off_by (\<delta>((c, m, p) := \<delta> (c, m, p) - n)) \<nu> (free_hold e c m p (wh n) d)"
proof -
  note col_whole = numeric_column.col_whole [OF num]
  let ?x = "on_hold (c, m, p) d + \<delta> (c, m, p)"
  have "whole_ok (?x - n)" using n by (simp add: whole_ok_def)
  then have "e_col e (greatest0 (f64_sub (wh ?x) (wh n))) = wh (?x - n)"
    using n by (simp add: greatest0_def wh_zero wh_arith whole_ok_def col_whole)
  then show ?thesis
    using off by (auto simp: off_by_def free_hold_def totals_for_key set_upd to_key_def on_hold_def
        charged_def algebra_simps)
qed

definition rows_ok :: "db \<Rightarrow> bool" where
  "rows_ok d \<longleftrightarrow> amounts_whole d \<and> distinct (map re_id (reservations d))
     \<and> distinct (map (\<lambda>r. (re_customer r, re_idem r)) (reservations d))
     \<and> distinct (map (\<lambda>u. (ue_customer u, ue_idem u)) (usage_events d))
     \<and> distinct (map to_key (totals d))
     \<and> re_key ` set (reservations d) \<union> ue_key ` set (usage_events d) \<subseteq> to_key ` set (totals d)"

text \<open>The usage invariant: rows in order, totals exact, everything below \<open>10 ^ 15\<close>.\<close>

definition usage_inv :: "db \<Rightarrow> bool" where
  "usage_inv d \<longleftrightarrow> rows_ok d \<and> balanced d \<and> within_range d"

definition load :: "total_key \<Rightarrow> db \<Rightarrow> int" where
  "load k d = on_hold k d + charged k d"

lemma usage_inv_cong:
  assumes "reservations d' = reservations d" "usage_events d' = usage_events d" "totals d' = totals d"
  shows "usage_inv d' = usage_inv d" and "load k d' = load k d"
  using assms by (simp_all add: usage_inv_def rows_ok_def amounts_whole_def off_by_def within_range_def
      on_hold_def charged_def load_def)

lemma usage_invD:
  assumes "usage_inv d"
  shows "rows_ok d" "balanced d" "within_range d" "amounts_whole d" "distinct (map re_id (reservations d))"
    "distinct (map to_key (totals d))"
  using assms by (simp_all add: usage_inv_def rows_ok_def)

lemma on_hold_nonneg: "amounts_whole d \<Longrightarrow> 0 \<le> on_hold k d"
  by (simp add: on_hold_def sum_re_nonneg amounts_whole_def)

lemma charged_nonneg': "amounts_whole d \<Longrightarrow> 0 \<le> charged k d"
  by (simp add: charged_nonneg amounts_whole_def)

lemma load_range:
  assumes "usage_inv d" "k \<in> to_key ` set (totals d)"
  shows "0 \<le> on_hold k d" "0 \<le> charged k d" "load k d < 10 ^ 15"
    "whole_ok (on_hold k d)" "whole_ok (charged k d)" "whole_ok (load k d)"
proof -
  show h: "0 \<le> on_hold k d" "0 \<le> charged k d"
    using usage_invD(4) [OF assms(1)] by (simp_all add: on_hold_nonneg charged_nonneg')
  show r: "load k d < 10 ^ 15"
    using usage_invD(3) [OF assms(1)] assms(2) by (auto simp: within_range_def load_def)
  from h r show "whole_ok (on_hold k d)" "whole_ok (charged k d)" "whole_ok (load k d)"
    by (simp_all add: whole_ok_def load_def)
qed

text \<open>A load that nowhere grows on the same totals keeps the range.\<close>

lemma within_range_keys: "within_range d \<longleftrightarrow> (\<forall>k \<in> to_key ` set (totals d). load k d < 10 ^ 15)"
  by (simp add: within_range_def load_def)

lemma within_range_mono:
  assumes "within_range d" and "to_key ` set (totals d') = to_key ` set (totals d)"
    and "\<And>k. load k d' \<le> load k d"
  shows "within_range d'"
  unfolding within_range_keys
proof
  fix k assume "k \<in> to_key ` set (totals d')"
  then have "load k d < 10 ^ 15" using assms(1,2) by (simp only: within_range_keys)
  then show "load k d' < 10 ^ 15" using assms(3) [of k] by simp
qed

lemma keys_upd [simp]:
  assumes "\<And>t. to_key (f t) = to_key t"
  shows "map to_key (upd P f ts) = map to_key ts" "to_key ` set (upd P f ts) = to_key ` set ts"
proof -
  show m: "map to_key (upd P f ts) = map to_key ts" using assms by (simp add: map_upd_key)
  show "to_key ` set (upd P f ts) = to_key ` set ts" using m by (metis list.set_map)
qed

lemma keys_set: "map to_key ts = map to_key us \<Longrightarrow> to_key ` set ts = to_key ` set us"
  by (metis list.set_map)

lemma keys_free_hold [simp]: "map to_key (totals (free_hold e c m p x d)) = map to_key (totals d)"
  by (simp add: free_hold_def to_key_def)

lemma rows_ok_close:
  assumes "rows_ok d" and "map to_key (totals d') = map to_key (totals d)"
    and "reservations d' = upd P (\<lambda>r. r\<lparr>re_status := s\<rparr>) (reservations d)"
    and "usage_events d' = usage_events d"
  shows "rows_ok d'"
proof -
  have "map re_id (reservations d') = map re_id (reservations d)"
    "map (\<lambda>r. (re_customer r, re_idem r)) (reservations d') = map (\<lambda>r. (re_customer r, re_idem r)) (reservations d)"
    "map re_key (reservations d') = map re_key (reservations d)"
    "map re_amount (reservations d') = map re_amount (reservations d)"
    unfolding assms(3) by (rule map_upd_key, simp add: re_key_def)+
  moreover have "to_key ` set (totals d') = to_key ` set (totals d)"
    using assms(2) by (metis list.set_map)
  moreover have "re_key ` set (reservations d') = re_key ` set (reservations d)"
    "re_amount ` set (reservations d') = re_amount ` set (reservations d)"
    using calculation(3,4) by (metis list.set_map)+
  moreover have "amounts_whole d'"
  proof -
    have "list_all whole (map re_amount (reservations d'))"
      using assms(1) calculation(4) by (simp add: rows_ok_def amounts_whole_def list.pred_map comp_def)
    then show ?thesis
      using assms(1,4) by (simp add: rows_ok_def amounts_whole_def list.pred_map comp_def)
  qed
  ultimately show ?thesis
    using assms(1,2,4) unfolding rows_ok_def by simp
qed

text \<open>Closing one pending reservation and freeing its amount keeps the invariant.\<close>

lemma close_one:
  assumes num: "numeric_column (e_col e) (e_sum e)" and inv: "usage_inv d"
    and r: "r \<in> set (reservations d)" "is_pending r" and s: "s \<noteq> ''pending''"
  defines "d' \<equiv> free_hold e (re_customer r) (re_meter r) (re_period r) (re_amount r)
                   (set_reservation (\<lambda>x. re_id x = re_id r) s d)"
  shows "usage_inv d'" "charged k d' = charged k d"
    "on_hold k d' = on_hold k d - (if re_key r = k then amt (re_amount r) else 0)"
proof -
  let ?P = "\<lambda>x. re_id x = re_id r" and ?k = "(re_customer r, re_meter r, re_period r)"
  let ?d1 = "set_reservation ?P s d"
  have key: "re_key r = ?k" by (simp add: re_key_def)
  have w: "re_amount r = wh (amt (re_amount r))" "0 \<le> amt (re_amount r)"
    using usage_invD(4) [OF inv] r by (auto simp: amounts_whole_def list_all_iff whole_def)
  have close: "on_hold j ?d1 = on_hold j d - (if re_key r = j then amt (re_amount r) else 0)" for j
    using on_hold_close [OF s] sum_re_one [OF usage_invD(5) [OF inv] r(1), of is_pending] r(2) by simp
  have ch: "charged j ?d1 = charged j d" for j by (simp add: charged_def set_reservation_def)
  have tot: "totals ?d1 = totals d" by (simp add: set_reservation_def)
  have kin: "?k \<in> to_key ` set (totals d)"
    using usage_invD(1) [OF inv] r(1) key by (force simp: rows_ok_def)
  have "off_by ((\<lambda>j. if re_key r = j then amt (re_amount r) else 0)) (\<lambda>_. 0) ?d1"
    using usage_invD(2) [OF inv] by (simp add: off_by_def tot close ch)
  moreover have "0 \<le> on_hold ?k ?d1"
    using rows_ok_close [OF usage_invD(1) [OF inv], of ?d1 ?P s] on_hold_nonneg
    by (simp add: tot set_reservation_def rows_ok_def)
  moreover have "on_hold ?k d < 10 ^ 15"
    using load_range(2,3) [OF inv kin] by (simp add: load_def)
  ultimately have "off_by ((\<lambda>j. if re_key r = j then amt (re_amount r) else 0)
      (?k := 0)) (\<lambda>_. 0) (free_hold e (re_customer r) (re_meter r) (re_period r)
        (wh (amt (re_amount r))) ?d1)"
    using free_hold_off [OF num, of "\<lambda>j. if re_key r = j then amt (re_amount r) else 0" "\<lambda>_. 0" ?d1 "amt (re_amount r)" "re_customer r" "re_meter r" "re_period r"]
      w(2) by (simp add: key close)
  moreover have "(\<lambda>j. if re_key r = j then amt (re_amount r) else 0)(?k := 0) = (\<lambda>_. 0)"
    by (auto simp: key)
  ultimately have bal: "balanced d'" using w(1) by (simp add: d'_def)
  show cg: "charged k d' = charged k d"
    and oh: "on_hold k d' = on_hold k d - (if re_key r = k then amt (re_amount r) else 0)" for k
    by (simp_all add: d'_def close ch)
  have keys: "map to_key (totals d') = map to_key (totals d)" by (simp add: d'_def tot)
  have "rows_ok d'"
    by (rule rows_ok_close [OF usage_invD(1) [OF inv] keys, of ?P s])
      (simp_all add: d'_def set_reservation_def)
  moreover have "within_range d'"
    by (rule within_range_mono [OF usage_invD(3) [OF inv] keys_set [OF keys]])
      (use w(2) in \<open>simp add: load_def cg oh\<close>)
  ultimately show "usage_inv d'" using bal by (simp add: usage_inv_def)
qed

section \<open>Locking and expiry\<close>

lemma ensure_total_inv:
  assumes inv: "usage_inv d"
  shows "usage_inv (ensure_total c m p d)" "(c, m, p) \<in> to_key ` set (totals (ensure_total c m p d))"
    "load k (ensure_total c m p d) = load k d"
    "reservations (ensure_total c m p d) = reservations d"
    "usage_events (ensure_total c m p d) = usage_events d"
proof -
  let ?d = "ensure_total c m p d"
  show frame: "reservations ?d = reservations d" "usage_events ?d = usage_events d"
    by (simp_all add: ensure_total_def)
  then show load: "load k ?d = load k d" for k
    by (simp add: load_def on_hold_def charged_def)
  have sums: "on_hold k ?d = on_hold k d" "charged k ?d = charged k d" for k
    by (simp_all add: on_hold_def charged_def frame)
  show "(c, m, p) \<in> to_key ` set (totals ?d)"
  proof (cases "find (totals_for c m p) (totals d)")
    case None
    then show ?thesis by (simp add: ensure_total_def to_key_def)
  next
    case (Some t)
    then show ?thesis
      using find_SomeD [OF Some] by (auto simp: ensure_total_def totals_for_key intro: rev_image_eqI)
  qed
  show "usage_inv ?d"
  proof (cases "find (totals_for c m p) (totals d)")
    case (Some t)
    then show ?thesis using inv by (simp add: ensure_total_def)
  next
    case None
    let ?t = "\<lparr>to_customer = c, to_meter = m, to_period = p, to_used = Fin 0, to_reserved = Fin 0\<rparr>"
    have tot: "totals ?d = totals d @ [?t]" using None by (simp add: ensure_total_def)
    have new: "(c, m, p) \<notin> to_key ` set (totals d)"
      using None by (auto simp: find_eq_None totals_for_key)
    have rows: "rows_ok d" by (rule usage_invD(1) [OF inv])
    have "(c, m, p) \<notin> re_key ` set (reservations d)" "(c, m, p) \<notin> ue_key ` set (usage_events d)"
      using rows new by (auto simp: rows_ok_def)
    then have "filter (\<lambda>r. is_pending r \<and> re_key r = (c, m, p)) (reservations d) = []"
      "filter (\<lambda>u. ue_key u = (c, m, p)) (usage_events d) = []"
      by (auto simp: filter_empty_conv rev_image_eqI)
    then have zero: "on_hold (c, m, p) d = 0" "charged (c, m, p) d = 0"
      by (simp_all add: on_hold_def charged_def sum_re_def)
    have key: "to_key ?t = (c, m, p)" by (simp add: to_key_def)
    have "rows_ok ?d"
      using rows new by (auto simp: rows_ok_def amounts_whole_def frame tot key)
    moreover have "balanced ?d"
      using usage_invD(2) [OF inv] zero by (auto simp: off_by_def tot sums to_key_def wh_zero)
    moreover have "within_range ?d"
      using usage_invD(3) [OF inv] zero by (auto simp: within_range_def tot sums to_key_def)
    ultimately show ?thesis by (simp add: usage_inv_def)
  qed
qed

text \<open>What a locked read returns.\<close>

lemma read_locked_inv:
  assumes inv: "usage_inv d" and "(c, m, p) \<in> to_key ` set (totals d)"
  shows "read_locked c m p d = Inr (wh (charged (c, m, p) d), wh (on_hold (c, m, p) d))"
proof -
  obtain t where t: "find (totals_for c m p) (totals d) = Some t"
    using assms(2) find_eq_None [of "totals_for c m p" "totals d"]
    by (cases "find (totals_for c m p) (totals d)") (auto simp: totals_for_key)
  with find_SomeD [OF t] usage_invD(2) [OF inv] show ?thesis
    by (auto simp: read_locked_def used_reserved_def off_by_def totals_for_key)
qed

lemma sum_list_map_wh:
  "list_all (\<lambda>r. whole (re_amount r)) rs \<Longrightarrow>
     map re_amount rs = map wh (map (\<lambda>r. amt (re_amount r)) rs)"
  by (induction rs) (auto simp: whole_def)

lemma expire_stale_inv:
  assumes num: "numeric_column (e_col e) (e_sum e)" and inv: "usage_inv d"
    and kin: "(c, m, p) \<in> to_key ` set (totals d)"
    and ex: "expire_stale_reservations e c m p d = (x, d')"
  shows "usage_inv d'" "map to_key (totals d') = map to_key (totals d)" "load k d' \<le> load k d"
    "usage_events d' = usage_events d"
    "reservations d' = upd (stale_for e c m p) (\<lambda>r. r\<lparr>re_status := ''expired''\<rparr>) (reservations d)"
proof -
  let ?P = "stale_for e c m p" and ?k = "(c, m, p)"
  let ?d1 = "set_reservation ?P ''expired'' d"
  let ?S = "sum_re ?P ?k (reservations d)"
  have stale: "?P r \<Longrightarrow> is_pending r \<and> re_key r = ?k" for r
    by (simp add: stale_for_def is_pending_def re_key_def)
  have amounts: "list_all (\<lambda>r. whole (re_amount r)) (reservations d)"
    using usage_invD(4) [OF inv] by (simp add: amounts_whole_def)
  have S0: "0 \<le> ?S" by (rule sum_re_nonneg [OF amounts])
  have Sle: "?S \<le> on_hold ?k d"
    unfolding on_hold_def by (rule sum_re_mono [OF amounts]) (simp add: stale)
  have filt: "filter (\<lambda>r. ?P r \<and> re_key r = ?k) = filter ?P"
    by (rule ext) (auto simp: stale intro: filter_cong)
  have fa: "list_all (\<lambda>r. whole (re_amount r)) (filter ?P (reservations d))"
    using amounts by (simp add: list_all_iff)
  have rec: "unwrap_or (sql_sum e (map re_amount (filter ?P (reservations d)))) (Fin 0) = wh ?S"
  proof (cases "filter ?P (reservations d) = []")
    case True
    then show ?thesis by (simp add: sql_sum_def sum_re_def filt wh_zero)
  next
    case False
    have "whole_ok ?S" using S0 Sle load_range(4) [OF inv kin] by (simp add: whole_ok_def)
    then have "e_sum e (map re_amount (filter ?P (reservations d))) = wh ?S"
      unfolding sum_list_map_wh [OF fa] by (simp add: numeric_column.sum8_whole [OF num] sum_re_def filt del: map_map)
    then show ?thesis using False by (simp add: sql_sum_def)
  qed
  have other: "sum_re (\<lambda>r. ?P r \<and> is_pending r) j (reservations d) = (if j = ?k then ?S else 0)" for j
  proof -
    have "(\<lambda>r. (?P r \<and> is_pending r) \<and> re_key r = j) = (\<lambda>r. j = ?k \<and> ?P r)" using stale by auto
    then show ?thesis by (simp add: sum_re_def filt)
  qed
  have oh1: "on_hold j ?d1 = on_hold j d - (if j = ?k then ?S else 0)" for j
    by (simp add: on_hold_close other)
  have ch1: "charged j ?d1 = charged j d" and t1: "totals ?d1 = totals d" for j
    by (simp_all add: charged_def set_reservation_def)
  have off1: "off_by (\<lambda>j. if j = ?k then ?S else 0) (\<lambda>_. 0) ?d1"
    using usage_invD(2) [OF inv] by (simp add: off_by_def t1 oh1 ch1)
  have d': "d' = (if 0 < ?S then free_hold e c m p (wh ?S) ?d1 else ?d1)"
    using ex unfolding expire_stale_reservations_def rec Let_def
    by (auto simp: wh_zero split: if_splits)
  show res: "reservations d' = upd ?P (\<lambda>r. r\<lparr>re_status := ''expired''\<rparr>) (reservations d)"
    and ev: "usage_events d' = usage_events d"
    by (simp_all add: d' set_reservation_def)
  show keys: "map to_key (totals d') = map to_key (totals d)" by (simp add: d' t1)
  have oh: "on_hold j d' = on_hold j d - (if j = ?k then ?S else 0)" and ch: "charged j d' = charged j d" for j
    by (simp_all add: d' oh1 ch1)
  show load: "load k d' \<le> load k d" for k using S0 by (simp add: load_def oh ch)
  have bal: "balanced d'"
  proof (cases "0 < ?S")
    case True
    have "(\<lambda>j. if j = ?k then ?S else 0)(?k := 0) = (\<lambda>_. 0)" by auto
    with True show ?thesis
      using free_hold_off [OF num off1, of ?S c m p] S0 Sle load_range(4) [OF inv kin]
      by (simp add: d' oh1 whole_ok_def)
  next
    case False
    with S0 have "?S = 0" by simp
    with off1 show ?thesis by (simp add: d' if_distrib cong: if_cong)
  qed
  have "rows_ok d'"
    by (rule rows_ok_close [OF usage_invD(1) [OF inv] keys res ev])
  moreover have "within_range d'"
    by (rule within_range_mono [OF usage_invD(3) [OF inv] keys_set [OF keys] load])
  ultimately show "usage_inv d'" using bal by (simp add: usage_inv_def)
qed

section \<open>The gate\<close>

lemma record_decision_frame [simp]:
  "reservations (record_decision e c m r l u s dec corr d) = reservations d"
  "usage_events (record_decision e c m r l u s dec corr d) = usage_events d"
  "totals (record_decision e c m r l u s dec corr d) = totals d"
  by (simp_all add: record_decision_def)

lemma gate_inv:
  assumes num: "numeric_column (e_col e) (e_sum e)" and inv: "usage_inv d"
  obtains u s d1 where "gate e c m p a limit corr d = Inr ((decide a u s limit, u, s), d1)"
    "u = wh (charged (c, m, p) d1)" "s = wh (on_hold (c, m, p) d1)" "usage_inv d1"
    "(c, m, p) \<in> to_key ` set (totals d1)" "\<forall>k. load k d1 \<le> load k d"
    "usage_events d1 = usage_events d"
    "reservations d1 = upd (stale_for e c m p) (\<lambda>r. r\<lparr>re_status := ''expired''\<rparr>) (reservations d)"
proof -
  let ?d1 = "ensure_total c m p d"
  note en = ensure_total_inv [OF inv, where c = c and m = m and p = p]
  obtain x d2 where ex: "expire_stale_reservations e c m p ?d1 = (x, d2)"
    by (cases "expire_stale_reservations e c m p ?d1")
  note ei = expire_stale_inv [OF num en(1,2) ex]
  have kin: "(c, m, p) \<in> to_key ` set (totals d2)"
    using en(2) keys_set [OF ei(2)] by simp
  let ?u = "wh (charged (c, m, p) d2)" and ?s = "wh (on_hold (c, m, p) d2)"
  let ?d3 = "record_decision e c m a limit ?u ?s (decide a ?u ?s limit) corr d2"
  have "gate e c m p a limit corr d = Inr ((decide a ?u ?s limit, ?u, ?s), ?d3)"
    by (simp add: gate_def lock_totals_def Let_def read_locked_inv [OF en(1,2)] ex
        read_locked_inv [OF ei(1) kin])
  moreover have "usage_inv ?d3" "load k ?d3 = load k d2" for k
    using usage_inv_cong [of ?d3 d2] ei(1) by simp_all
  moreover have "charged k ?d3 = charged k d2" "on_hold k ?d3 = on_hold k d2" for k
    by (simp_all add: charged_def on_hold_def)
  ultimately show ?thesis
    using that [of ?u ?s ?d3] kin ei(3,4,5) en(3,4,5) by simp
qed

text \<open>A limit the exact arithmetic can decide.\<close>

definition decidable_limit :: "int \<Rightarrow> total_key \<Rightarrow> f64 option \<Rightarrow> db \<Rightarrow> bool" where
  "decidable_limit n k limit d \<longleftrightarrow>
     (case limit of None \<Rightarrow> load k d + n < 10 ^ 15
      | Some x \<Rightarrow> whole x \<and> amt x < 10 ^ 15)"

lemma gate_allows:
  assumes inv: "usage_inv d" and kin: "k \<in> to_key ` set (totals d)"
    and lim: "decidable_limit n k limit d'" and le: "load k d \<le> load k d'" and n: "0 \<le> n"
    and allow: "qd_decision (decide (wh n) (wh (charged k d)) (wh (on_hold k d)) limit) = Allow"
  shows "load k d + n < 10 ^ 15" and "limit = Some x \<Longrightarrow> load k d + n \<le> amt x"
proof -
  note r = load_range [OF inv kin]
  have some: "load k d + n \<le> l \<and> l < 10 ^ 15" if "limit = Some (wh l)" for l
  proof -
    have "0 \<le> l" "l < 10 ^ 15" using lim that by (simp_all add: decidable_limit_def)
    then have "whole_ok l" "whole_ok (l - charged k d - on_hold k d)"
      using r(1-3) by (simp_all add: whole_ok_def load_def)
    then show ?thesis
      using allow decide_whole [of l "charged k d" "on_hold k d" n] r(5) \<open>l < 10 ^ 15\<close>
      by (simp add: that load_def)
  qed
  show "load k d + n < 10 ^ 15"
  proof (cases limit)
    case None
    then show ?thesis using lim le by (simp add: decidable_limit_def)
  next
    case (Some y)
    then obtain l where "limit = Some (wh l)"
      using lim by (auto simp: decidable_limit_def elim: wholeE)
    with some show ?thesis by fastforce
  qed
  assume "limit = Some x"
  then obtain l where "limit = Some (wh l)" "x = wh l"
    using lim by (auto simp: decidable_limit_def elim: wholeE)
  with some show "load k d + n \<le> amt x" by simp
qed

section \<open>Reserve keeps the invariant and the limit\<close>

lemma add_hold:
  assumes num: "numeric_column (e_col e) (e_sum e)" and inv: "usage_inv d"
    and kin: "(c, m, p) \<in> to_key ` set (totals d)" and n: "0 \<le> n" "load (c, m, p) d + n < 10 ^ 15"
    and row: "re_key r = (c, m, p)" "is_pending r" "re_amount r = wh n"
      "\<And>x. x \<in> set (reservations d) \<Longrightarrow> re_id x \<noteq> re_id r"
      "\<And>x. x \<in> set (reservations d) \<Longrightarrow> (re_customer x, re_idem x) \<noteq> (re_customer r, re_idem r)"
    and d': "reservations d' = reservations d @ [r]" "usage_events d' = usage_events d"
      "totals d' = upd (totals_for c m p)
         (\<lambda>t. t\<lparr>to_reserved := e_col e (f64_add (to_reserved t) (wh n))\<rparr>) (totals d)"
  shows "usage_inv d'" "load k d' = load k d + (if k = (c, m, p) then n else 0)"
proof -
  let ?k = "(c, m, p)"
  have oh: "on_hold j d' = on_hold j d + (if j = ?k then n else 0)" for j
    using row by (auto simp: on_hold_def d'(1) sum_re_snoc)
  have ch: "charged j d' = charged j d" for j by (simp add: charged_def d'(2))
  show load: "load k d' = load k d + (if k = ?k then n else 0)" for k
    by (simp add: load_def oh ch)
  have keys: "map to_key (totals d') = map to_key (totals d)" by (simp add: d'(3) to_key_def)
  have set: "to_key ` set (totals d') = to_key ` set (totals d)" by (rule keys_set [OF keys])
  have R: "rows_ok d" by (rule usage_invD(1) [OF inv])
  have "distinct (map re_id (reservations d'))"
    unfolding d'(1) using R by (intro distinct_insert_new row(4)) (simp_all add: rows_ok_def)
  moreover have "distinct (map (\<lambda>r. (re_customer r, re_idem r)) (reservations d'))"
    unfolding d'(1) using R by (intro distinct_insert_new row(5)) (simp_all add: rows_ok_def)
  moreover have "amounts_whole d'"
    using R n(1) row(3) by (simp add: rows_ok_def amounts_whole_def d')
  moreover have "re_key ` set (reservations d') \<union> ue_key ` set (usage_events d') \<subseteq> to_key ` set (totals d')"
    unfolding set using R kin row(1) by (simp add: d'(1,2) rows_ok_def)
  ultimately have "rows_ok d'" using R by (simp add: rows_ok_def keys d'(2))
  moreover have "balanced d'"
  proof -
    note r = load_range [OF inv kin]
    have "whole_ok (on_hold ?k d + n)" using n r(1,2) by (simp add: whole_ok_def load_def)
    then have "e_col e (f64_add (wh (on_hold ?k d)) (wh n)) = wh (on_hold ?k d + n)"
      by (rule numeric_column.col_add [OF num])
    then show ?thesis
      using usage_invD(2) [OF inv]
      by (auto simp: off_by_def d'(3) set_upd totals_for_key oh ch to_key_def)
  qed
  moreover have "within_range d'"
    using usage_invD(3) [OF inv] n(2) by (simp add: within_range_keys set load)
  ultimately show "usage_inv d'" by (simp add: usage_inv_def)
qed

lemma reservation_of_upd:
  "reservation_of c k d = None \<Longrightarrow> reservations d' = upd P (\<lambda>r. r\<lparr>re_status := s\<rparr>) (reservations d) \<Longrightarrow>
     reservation_of c k d' = None"
  by (simp add: reservation_of_def find_upd_Q)

lemma reserve_inv:
  assumes num: "numeric_column (e_col e) (e_sum e)" and inv: "usage_inv d" and fr: "fresh e d"
    and n: "ri_amount inp = wh n" "0 \<le> n"
    and lim: "decidable_limit n (ri_customer inp, ri_meter inp, ri_period inp) (ri_limit inp) d"
    and res: "reserve e inp d = (out, d')"
  shows "usage_inv d'"
    and "ri_limit inp = Some x \<Longrightarrow> k = (ri_customer inp, ri_meter inp, ri_period inp) \<Longrightarrow>
      load k d \<le> amt x \<Longrightarrow> load k d' \<le> amt x"
    and "k \<noteq> (ri_customer inp, ri_meter inp, ri_period inp) \<Longrightarrow> load k d' \<le> load k d"
    and "ri_limit inp = Some x \<Longrightarrow> out = Inr (Reserved row) \<Longrightarrow>
      load (ri_customer inp, ri_meter inp, ri_period inp) d' \<le> amt x"
proof -
  let ?c = "ri_customer inp" and ?m = "ri_meter inp" and ?p = "ri_period inp"
  let ?k = "(?c, ?m, ?p)"
  have "usage_inv d' \<and> (ri_limit inp = Some x \<longrightarrow> k = ?k \<longrightarrow> load k d \<le> amt x \<longrightarrow> load k d' \<le> amt x)
      \<and> (k \<noteq> ?k \<longrightarrow> load k d' \<le> load k d)
      \<and> (ri_limit inp = Some x \<longrightarrow> out = Inr (Reserved row) \<longrightarrow> load ?k d' \<le> amt x)"
  proof (cases "reservation_of ?c (ri_idem inp) d")
    case (Some r)
    with inv res show ?thesis by (auto simp: reserve_def Let_def)
  next
    case None
    obtain u s d1 where g: "gate e ?c ?m ?p (wh n) (ri_limit inp) (ri_corr inp) d
          = Inr ((decide (wh n) u s (ri_limit inp), u, s), d1)"
      "u = wh (charged ?k d1)" "s = wh (on_hold ?k d1)" "usage_inv d1"
      "?k \<in> to_key ` set (totals d1)" "\<forall>k. load k d1 \<le> load k d"
      "usage_events d1 = usage_events d"
      "reservations d1 = upd (stale_for e ?c ?m ?p) (\<lambda>r. r\<lparr>re_status := ''expired''\<rparr>) (reservations d)"
      by (rule gate_inv [OF num inv, of ?c ?m ?p "wh n" "ri_limit inp" "ri_corr inp"]) (rule that; assumption)
    show ?thesis
    proof (cases "qd_decision (decide (wh n) u s (ri_limit inp))")
      case Deny
      with None res g(1) have "d' = d1" "out \<noteq> Inr (Reserved row)" by (auto simp: reserve_def Let_def n(1))
      then show ?thesis using g(4) order_trans [OF spec [OF g(6)]] spec [OF g(6)] by blast
    next
      case Allow
      note none1 = reservation_of_upd [OF None g(8)]
      note al = gate_allows [OF g(4,5) lim spec [OF g(6)] n(2) Allow [unfolded g(2,3)]]
      let ?row = "\<lparr>re_id = e_id e 1, re_customer = ?c, re_meter = ?m, re_amount = e_col e (wh n),
        re_idem = ri_idem inp, re_status = ''pending'', re_period = ?p,
        re_expires = e_utc e 0 + ri_ttl inp\<rparr>"
      have d': "d' = d1\<lparr>reservations := reservations d1 @ [?row], totals := upd (totals_for ?c ?m ?p)
          (\<lambda>t. t\<lparr>to_reserved := e_col e (f64_add (to_reserved t) (wh n))\<rparr>) (totals d1)\<rparr>"
        using res None none1 Allow g(1) by (auto simp: reserve_def Let_def n(1))
      have wn: "whole_ok n" using al(1) n(2) load_range(1,2) [OF g(4,5)]
        by (simp add: whole_ok_def load_def)
      have ids: "re_id y \<noteq> e_id e 1" if "y \<in> set (reservations d1)" for y
        using that fresh_rows(4) [OF fr, of 1] by (auto simp: g(8) set_upd)
      have idem: "(re_customer y, re_idem y) \<noteq> (?c, ri_idem inp)" if "y \<in> set (reservations d1)" for y
        using that none1 by (auto simp: reservation_of_def find_eq_None)
      have *: "usage_inv d'" "\<And>k. load k d' = load k d1 + (if k = ?k then n else 0)"
        by (rule add_hold [OF num g(4,5) n(2) al(1), of ?row]; use ids idem in
            \<open>simp add: d' re_key_def is_pending_def numeric_column.col_whole [OF num wn]\<close>)+
      show ?thesis using *(1) al(2) spec [OF g(6), of k] by (simp add: *(2))
    qed
  qed
  then show "usage_inv d'"
    and "ri_limit inp = Some x \<Longrightarrow> k = ?k \<Longrightarrow> load k d \<le> amt x \<Longrightarrow> load k d' \<le> amt x"
    and "k \<noteq> ?k \<Longrightarrow> load k d' \<le> load k d"
    and "ri_limit inp = Some x \<Longrightarrow> out = Inr (Reserved row) \<Longrightarrow> load ?k d' \<le> amt x" by blast+
qed

section \<open>Release and sweep\<close>

lemma release_inv:
  assumes num: "numeric_column (e_col e) (e_sum e)" and inv: "usage_inv d"
    and rel: "release e c i d = (out, d')"
  shows "usage_inv d'" "load k d' \<le> load k d"
proof -
  have "usage_inv d' \<and> load k d' \<le> load k d"
  proof (cases "find_reservation c i d")
    case None
    with rel inv show ?thesis by (simp add: release_def)
  next
    case (Some r)
    note r = find_SomeD [OF Some [unfolded find_reservation_def]]
    show ?thesis
    proof (cases "re_status r = ''pending''")
      case False
      with Some rel inv show ?thesis by (simp add: release_def)
    next
      case True
      have d': "d' = free_hold e (re_customer r) (re_meter r) (re_period r) (re_amount r)
          (set_reservation (\<lambda>x. re_id x = re_id r) ''released'' d)"
        using rel Some True r by (auto simp: release_def)
      have "is_pending r" "r \<in> set (reservations d)" using True r by (simp_all add: is_pending_def)
      note c1 = close_one [OF num inv this(2,1), of "''released''", folded d']
      have "0 \<le> amt (re_amount r)"
        using usage_invD(4) [OF inv] r by (auto simp: amounts_whole_def list_all_iff whole_def)
      with c1 show ?thesis by (simp add: load_def)
    qed
  qed
  then show "usage_inv d'" "load k d' \<le> load k d" by simp_all
qed

lemma on_hold_range:
  assumes inv: "usage_inv d"
  shows "0 \<le> on_hold k d" "on_hold k d < 10 ^ 15"
proof -
  show "0 \<le> on_hold k d" using usage_invD(4) [OF inv] by (rule on_hold_nonneg)
  show "on_hold k d < 10 ^ 15"
  proof (cases "k \<in> to_key ` set (totals d)")
    case True
    then show ?thesis using load_range(2,3) [OF inv True] by (simp add: load_def)
  next
    case False
    then have "k \<notin> re_key ` set (reservations d)"
      using usage_invD(1) [OF inv] by (auto simp: rows_ok_def)
    then have "filter (\<lambda>r. is_pending r \<and> re_key r = k) (reservations d) = []"
      by (auto simp: filter_empty_conv)
    then show ?thesis by (simp add: on_hold_def sum_re_def)
  qed
qed

lemma free_rows_frame [simp]:
  "reservations (fold (free_row e) rs d) = reservations d"
  "usage_events (fold (free_row e) rs d) = usage_events d"
  "map to_key (totals (fold (free_row e) rs d)) = map to_key (totals d)"
  by (induction rs arbitrary: d) (simp_all add: free_row_def)

text \<open>One update per row adds up.\<close>

lemma free_rows_off:
  assumes num: "numeric_column (e_col e) (e_sum e)"
  shows "list_all (\<lambda>r. whole (re_amount r)) rs \<Longrightarrow> off_by (\<lambda>k. sum_re (\<lambda>_. True) k rs) (\<lambda>_. 0) d \<Longrightarrow>
    (\<And>k. 0 \<le> on_hold k d \<and> on_hold k d + sum_re (\<lambda>_. True) k rs < 10 ^ 15) \<Longrightarrow>
    balanced (fold (free_row e) rs d)"
proof (induction rs arbitrary: d)
  case Nil
  then show ?case by (simp add: sum_re_def)
next
  case (Cons r rs)
  let ?k = "re_key r" and ?n = "amt (re_amount r)"
  let ?\<delta> = "\<lambda>k. sum_re (\<lambda>_. True) k (r # rs)"
  have n: "re_amount r = wh ?n" "0 \<le> ?n" using Cons.prems(1) by (simp_all add: whole_def)
  have rest: "0 \<le> sum_re (\<lambda>_. True) k rs" for k
    using Cons.prems(1) by (simp add: sum_re_nonneg)
  have step: "?\<delta> k = sum_re (\<lambda>_. True) k rs + (if k = ?k then ?n else 0)" for k
    by (auto simp: sum_re_def)
  have "off_by (?\<delta>(?k := ?\<delta> ?k - ?n)) (\<lambda>_. 0) (free_row e r d)"
    unfolding free_row_def re_key_def
    using free_hold_off [OF num Cons.prems(2), of ?n "re_customer r" "re_meter r" "re_period r"]
      Cons.prems(3) [of ?k] rest [of ?k] step [of ?k] n
    by (simp add: re_key_def)
  moreover have "?\<delta>(?k := ?\<delta> ?k - ?n) = (\<lambda>k. sum_re (\<lambda>_. True) k rs)"
    by (auto simp: step)
  moreover have "0 \<le> on_hold k (free_row e r d) \<and>
      on_hold k (free_row e r d) + sum_re (\<lambda>_. True) k rs < 10 ^ 15" for k
    using Cons.prems(3) [of k] n(2) by (simp add: free_row_def step split: if_splits)
  ultimately show ?case
    using Cons.IH [of "free_row e r d"] Cons.prems(1) by simp
qed

lemma in_sweep_ids: "i \<in> set (sweep_ids e b d) \<Longrightarrow> \<exists>r \<in> set (reservations d). re_id r = i \<and> overdue e r"
  unfolding sweep_ids_def by (auto dest!: in_set_takeD)

lemma sweep_inv:
  assumes num: "numeric_column (e_col e) (e_sum e)" and inv: "usage_inv d"
    and sw: "sweep_expired_reservations e b d = (n, d')"
  shows "usage_inv d'" "load k d' \<le> load k d"
proof -
  let ?P = "\<lambda>r. re_id r \<in> set (sweep_ids e b d)"
  let ?rs = "filter ?P (reservations d)"
  let ?d1 = "set_reservation ?P ''expired'' d"
  have d': "d' = fold (free_row e) ?rs ?d1" using sw by (simp add: sweep_expired_reservations_def Let_def)
  have pend: "is_pending r" if h: "r \<in> set (reservations d)" "?P r" for r
  proof -
    obtain x where "x \<in> set (reservations d)" "re_id x = re_id r" "overdue e x"
      using in_sweep_ids [OF h(2)] by blast
    with distinct_key_eq [OF usage_invD(5) [OF inv], of x r] h(1) show ?thesis
      by (simp add: overdue_def is_pending_def)
  qed
  have amounts: "list_all (\<lambda>r. whole (re_amount r)) (reservations d)"
    using usage_invD(4) [OF inv] by (simp add: amounts_whole_def)
  have sums: "sum_re (\<lambda>r. ?P r \<and> is_pending r) j (reservations d) = sum_re (\<lambda>_. True) j ?rs" for j
    using pend by (auto simp: sum_re_def conj_commute intro!: arg_cong [where f = sum_list] arg_cong2 [where f = map] filter_cong)
  have oh1: "on_hold j ?d1 = on_hold j d - sum_re (\<lambda>_. True) j ?rs" for j
    by (simp add: on_hold_close sums)
  have ch1: "charged j ?d1 = charged j d" and t1: "totals ?d1 = totals d" for j
    by (simp_all add: charged_def set_reservation_def)
  have S: "0 \<le> sum_re (\<lambda>_. True) j ?rs" "sum_re (\<lambda>_. True) j ?rs \<le> on_hold j d" for j
    unfolding on_hold_def sums [symmetric]
    by (rule sum_re_nonneg [OF amounts]) (rule sum_re_mono [OF amounts], simp)
  have "off_by (\<lambda>k. sum_re (\<lambda>_. True) k ?rs) (\<lambda>_. 0) ?d1"
    using usage_invD(2) [OF inv] by (simp add: off_by_def t1 oh1 ch1)
  then have bal: "balanced d'"
    unfolding d' using amounts S on_hold_range [OF inv]
    by (intro free_rows_off [OF num]) (auto simp: list_all_iff oh1)
  have res: "reservations d' = upd ?P (\<lambda>r. r\<lparr>re_status := ''expired''\<rparr>) (reservations d)"
    "usage_events d' = usage_events d" "map to_key (totals d') = map to_key (totals d)"
    by (simp_all add: d' set_reservation_def)
  have "on_hold j d' = on_hold j ?d1" "charged j d' = charged j ?d1" for j
    by (simp_all add: on_hold_def charged_def d')
  then show load: "load k d' \<le> load k d" for k
    using S(1) [of k] by (simp add: load_def oh1 ch1)
  have "rows_ok d'" by (rule rows_ok_close [OF usage_invD(1) [OF inv] res(3,1,2)])
  moreover have "within_range d'"
    by (rule within_range_mono [OF usage_invD(3) [OF inv] keys_set [OF res(3)] load])
  ultimately show "usage_inv d'" using bal by (simp add: usage_inv_def)
qed

section \<open>Commit\<close>

lemma charge_totals:
  assumes num: "numeric_column (e_col e) (e_sum e)"
    and off: "off_by (\<lambda>j. if j = (c, m, p) then h else 0) (\<lambda>j. if j = (c, m, p) then n else 0) d"
    and r: "0 \<le> h" "0 \<le> on_hold (c, m, p) d" "on_hold (c, m, p) d + h < 10 ^ 15" "0 \<le> n"
      "n \<le> charged (c, m, p) d" "charged (c, m, p) d < 10 ^ 15"
    and d': "reservations d' = reservations d" "usage_events d' = usage_events d"
      "totals d' = upd (totals_for c m p) (\<lambda>t. t\<lparr>to_used := e_col e (f64_add (to_used t) (wh n)),
         to_reserved := e_col e (greatest0 (f64_sub (to_reserved t) (wh h)))\<rparr>) (totals d)"
  shows "balanced d'"
proof -
  let ?k = "(c, m, p)"
  have "whole_ok (on_hold ?k d)" "whole_ok (charged ?k d)" using r by (simp_all add: whole_ok_def)
  then have "e_col e (f64_add (wh (charged ?k d - n)) (wh n)) = wh (charged ?k d)"
    "e_col e (greatest0 (f64_sub (wh (on_hold ?k d + h)) (wh h))) = wh (on_hold ?k d)"
    using r numeric_column.col_add [OF num, of "charged ?k d - n" n]
    by (simp_all add: greatest0_def wh_zero wh_arith whole_ok_def numeric_column.col_whole [OF num])
  moreover have "on_hold j d' = on_hold j d" "charged j d' = charged j d" for j
    by (simp_all add: on_hold_def charged_def d')
  ultimately show ?thesis
    using off by (auto simp: off_by_def d'(3) set_upd totals_for_key to_key_def)
qed

text \<open>Inserting the event, converting the hold and folding both into the totals.\<close>

lemma closing_sum:
  assumes inv: "usage_inv d" and h: "h = (if rid = None then 0 else n)"
    and hold: "\<And>i. rid = Some i \<Longrightarrow> \<exists>r \<in> set (reservations d). re_id r = i \<and> is_pending r
                 \<and> re_key r = k \<and> re_amount r = wh n"
  shows "sum_re (\<lambda>r. Some (re_id r) = rid \<and> is_pending r) j (reservations d) = (if j = k then h else 0)"
proof (cases rid)
  case None
  then show ?thesis by (simp add: sum_re_def h)
next
  case (Some i)
  then obtain r where r: "r \<in> set (reservations d)" "re_id r = i" "is_pending r" "re_key r = k" "re_amount r = wh n"
    using hold by blast
  have "(\<lambda>x. Some (re_id x) = rid \<and> is_pending x) = (\<lambda>x. re_id x = re_id r \<and> is_pending x)"
    using Some r(2) by auto
  then show ?thesis
    using sum_re_one [OF usage_invD(5) [OF inv] r(1), of is_pending j] r Some by (auto simp: h)
qed

lemma closing_bounds:
  assumes inv: "usage_inv d" and kin: "k \<in> to_key ` set (totals d)" and n: "0 \<le> n"
    and h: "h = (if rid = None then 0 else n)" and room: "rid = None \<Longrightarrow> load k d + n < 10 ^ 15"
    and closed: "\<And>j. sum_re (\<lambda>r. Some (re_id r) = rid \<and> is_pending r) j (reservations d) = (if j = k then h else 0)"
  shows "h \<le> on_hold k d" and "whole_ok n"
proof -
  have "list_all (\<lambda>r. whole (re_amount r)) (reservations d)"
    using usage_invD(4) [OF inv] by (simp add: amounts_whole_def)
  from sum_re_mono [OF this, of "\<lambda>r. Some (re_id r) = rid \<and> is_pending r" is_pending k]
  show le: "h \<le> on_hold k d" by (simp add: closed on_hold_def)
  show "whole_ok n"
    using le n room h load_range(1,2,4) [OF inv kin] by (cases rid) (auto simp: whole_ok_def load_def)
qed

text \<open>The ledger after the three statements of a charge: the event, the closed reservation, the total.\<close>

lemma posted_charge_inv:
  assumes num: "numeric_column (e_col e) (e_sum e)" and inv: "usage_inv d"
    and kin: "k \<in> to_key ` set (totals d)" and k: "k = (c, m, p)" and n: "0 \<le> n"
    and h: "h = (if rid = None then 0 else n)" and room: "rid = None \<Longrightarrow> load k d + n < 10 ^ 15"
    and hold: "\<And>i. rid = Some i \<Longrightarrow> \<exists>r \<in> set (reservations d). re_id r = i \<and> is_pending r
                 \<and> re_key r = k \<and> re_amount r = wh n"
    and ev: "ue_key ev = k" "ue_amount ev = e_col e (wh n)" "event_of (ue_customer ev) (ue_idem ev) d = None"
    and d2: "d2 = set_reservation (\<lambda>r. Some (re_id r) = rid) ''committed'' (d\<lparr>usage_events := usage_events d @ [ev]\<rparr>)"
    and d3: "d3 = d2\<lparr>totals := upd (totals_for c m p) (\<lambda>t. t\<lparr>to_used := e_col e (f64_add (to_used t) (wh n)),
         to_reserved := e_col e (greatest0 (f64_sub (to_reserved t) (wh h)))\<rparr>) (totals d)\<rparr>"
  shows "usage_inv d3" and "load j d3 = load j d + (if j = k then n - h else 0)"
proof -
  note closed = closing_sum [OF inv h hold]
  note b = closing_bounds [OF inv kin n h room closed]
  note lr = load_range [OF inv kin]
  have col: "e_col e (wh n) = wh n" by (rule numeric_column.col_whole [OF num b(2)])
  have t2: "totals d2 = totals d" by (simp add: d2 set_reservation_def)
  have oh: "on_hold j d2 = on_hold j d - (if j = k then h else 0)" for j
    using closed by (simp add: d2 on_hold_close) (simp add: on_hold_def)
  have ch: "charged j d2 = charged j d + (if j = k then n else 0)" for j
    using charged_snoc [of d2 d ev j] by (auto simp: d2 set_reservation_def ev col)
  have load3: "load j d3 = load j d + (if j = k then n - h else 0)" for j
    using oh ch by (simp add: load_def d3 on_hold_def charged_def)
  then show "load j d3 = load j d + (if j = k then n - h else 0)" .
  have top: "load k d + (n - h) < 10 ^ 15" using room lr(3) h by (cases rid) simp_all
  have bal: "balanced d3"
    unfolding d3 t2 [symmetric]
  proof (rule charge_totals [OF num, of c m p h n d2, folded k])
    show "off_by (\<lambda>j. if j = k then h else 0) (\<lambda>j. if j = k then n else 0) d2"
      using usage_invD(2) [OF inv] by (auto simp: off_by_def t2 oh ch)
    show "on_hold k d2 + h < 10 ^ 15" using lr(2,3) oh [of k] by (simp add: load_def)
    show "n \<le> charged k d2" "charged k d2 < 10 ^ 15" using lr(2) top b(1) h ch [of k] by (auto simp: load_def)
  qed (use n h oh [of k] b(1) in auto)
  have keys: "map to_key (totals d3) = map to_key (totals d)" by (simp add: to_key_def d3)
  have "rows_ok (d\<lparr>usage_events := usage_events d @ [ev]\<rparr>)"
  proof -
    have "distinct (map (\<lambda>u. (ue_customer u, ue_idem u)) (usage_events d @ [ev]))"
      using usage_invD(1) [OF inv] ev(3)
      by (intro distinct_insert_new) (auto simp: rows_ok_def event_of_def find_eq_None)
    then show ?thesis using usage_invD(1) [OF inv] kin n by (simp add: rows_ok_def amounts_whole_def col ev(1,2))
  qed
  then have "rows_ok d3"
    by (rule rows_ok_close [of _ _ "\<lambda>r. Some (re_id r) = rid" "''committed''"])
      (use keys in \<open>simp_all add: d3 d2 set_reservation_def\<close>)
  moreover have "within_range d3"
    unfolding within_range_keys keys_set [OF keys] load3
    using usage_invD(3) [OF inv] top by (auto simp: within_range_keys)
  ultimately show "usage_inv d3" using bal by (simp add: usage_inv_def)
qed

lemma charge_inv:
  assumes num: "numeric_column (e_col e) (e_sum e)" and inv: "usage_inv d"
    and kin: "(c, m, p) \<in> to_key ` set (totals d)" and c: "ci_customer inp = c" and n: "0 \<le> n"
    and room: "rid = None \<Longrightarrow> load (c, m, p) d + n < 10 ^ 15"
    and hold: "\<And>i. rid = Some i \<Longrightarrow> \<exists>r \<in> set (reservations d). re_id r = i \<and> is_pending r
                 \<and> re_key r = (c, m, p) \<and> re_amount r = wh n"
    and ch: "apply_charge e inp (m, wh n, p, rid) d = (out, d')"
  shows "usage_inv d'" and "load k d' \<le> load k d + (if k = (c, m, p) \<and> rid = None then n else 0)"
proof -
  have "usage_inv d' \<and> load k d' \<le> load k d + (if k = (c, m, p) \<and> rid = None then n else 0)"
  proof (cases "event_of c (ci_idem inp) d")
    case (Some ev)
    with ch inv n show ?thesis by (auto simp: apply_charge_def c)
  next
    case None
    define ev where "ev = \<lparr>ue_id = e_id e 1, ue_customer = c, ue_meter = m, ue_amount = e_col e (wh n),
       ue_period = p, ue_idem = ci_idem inp, ue_reservation = rid, ue_kind = ''commit''\<rparr>"
    define h where "h = (if rid = None then 0 else n)"
    define d2 where "d2 = set_reservation (\<lambda>r. Some (re_id r) = rid) ''committed''
       (d\<lparr>usage_events := usage_events d @ [ev]\<rparr>)"
    define d3 where "d3 = d2\<lparr>totals := upd (totals_for c m p) (\<lambda>t. t\<lparr>to_used := e_col e (f64_add (to_used t) (wh n)),
       to_reserved := e_col e (greatest0 (f64_sub (to_reserved t) (wh h)))\<rparr>) (totals d)\<rparr>"
    have i3: "usage_inv d3" "load j d3 = load j d + (if j = (c, m, p) then n - h else 0)" for j
      using posted_charge_inv [OF num inv kin refl n h_def room hold _ _ _ d2_def d3_def] None
      by (simp_all add: ev_def ue_key_def)
    have same2: "(case rid of None \<Rightarrow> d\<lparr>usage_events := usage_events d @ [ev]\<rparr>
        | Some i \<Rightarrow> set_reservation (\<lambda>r. re_id r = i) ''committed'' (d\<lparr>usage_events := usage_events d @ [ev]\<rparr>)) = d2"
      by (cases rid; cases d) (simp_all add: d2_def set_reservation_def upd_idle)
    have w: "(if rid \<noteq> None then wh n else Fin 0) = wh h" by (simp add: wh_zero h_def)
    have t2: "totals d2 = totals d" by (simp add: d2_def set_reservation_def)
    have "d' = d \<or> (reservations d' = reservations d3 \<and> usage_events d' = usage_events d3 \<and> totals d' = totals d3)"
      using ch None unfolding apply_charge_def post_charge_def Let_def c prod.case ev_def [symmetric] same2 w
      by (auto simp: c t2 d3_def split: option.splits)
    then show ?thesis
    proof
      assume "reservations d' = reservations d3 \<and> usage_events d' = usage_events d3 \<and> totals d' = totals d3"
      with usage_inv_cong [of d' d3] i3(1) i3(2) [of k] n show ?thesis by (simp add: h_def)
    qed (use inv n in simp)
  qed
  then show "usage_inv d'" and "load k d' \<le> load k d + (if k = (c, m, p) \<and> rid = None then n else 0)" by blast+
qed

definition commit_decidable :: "commit_input \<Rightarrow> db \<Rightarrow> bool" where
  "commit_decidable inp d \<longleftrightarrow>
     (case ci_mode inp of ByReservation _ \<Rightarrow> True
      | Direct m a \<Rightarrow> whole a \<and> decidable_limit (amt a) (ci_customer inp, m, ci_period inp) (ci_limit inp) d)"

text \<open>The key a direct commit charges.\<close>

definition direct_key :: "commit_input \<Rightarrow> total_key option" where
  "direct_key inp =
     (case ci_mode inp of ByReservation _ \<Rightarrow> None
      | Direct m _ \<Rightarrow> Some (ci_customer inp, m, ci_period inp))"

lemma commit_by_reservation_inv:
  assumes num: "numeric_column (e_col e) (e_sum e)" and inv: "usage_inv d"
    and mode: "ci_mode inp = ByReservation i" and co: "commit e inp d = (out, d')"
  shows "usage_inv d' \<and> load k d' \<le> load k d"
proof (cases "event_of (ci_customer inp) (ci_idem inp) d")
  case (Some ev)
  with co inv show ?thesis by (simp add: commit_def)
next
  case None
  show ?thesis
  proof (cases "find_reservation (ci_customer inp) i d")
    case none: None
    with co None inv mode show ?thesis by (simp add: commit_def resolve_reservation_def)
  next
    case (Some r)
    note r = find_SomeD [OF Some [unfolded find_reservation_def]]
    have a: "re_amount r = wh (amt (re_amount r))" "0 \<le> amt (re_amount r)"
      using usage_invD(4) [OF inv] r by (auto simp: amounts_whole_def list_all_iff whole_def)
    show ?thesis
    proof (cases "re_status r = ''pending''")
      case False
      with co None inv mode Some show ?thesis by (simp add: commit_def resolve_reservation_def)
    next
      case True
      then have p: "is_pending r" by (simp add: is_pending_def)
      show ?thesis
      proof (cases "re_expires r \<le> e_utc e 0")
        case exp: True
        have "d' = free_hold e (re_customer r) (re_meter r) (re_period r) (re_amount r)
            (set_reservation (\<lambda>x. re_id x = re_id r) ''expired'' d)"
          using co None mode Some True exp r by (auto simp: commit_def resolve_reservation_def)
        note c1 = close_one [OF num inv conjunct1 [OF r] p, of "''expired''", folded this]
        from c1 a(2) show ?thesis by (simp add: load_def)
      next
        case False
        let ?x = "(re_meter r, wh (amt (re_amount r)), re_period r, Some i)"
        have res: "resolve_reservation e inp i d = (Inr ?x, d)"
          using Some True False a(1) by (simp add: resolve_reservation_def)
        obtain out1 d1 where ch: "apply_charge e inp ?x d = (out1, d1)"
          by (cases "apply_charge e inp ?x d")
        have kin: "(ci_customer inp, re_meter r, re_period r) \<in> to_key ` set (totals d)"
          using usage_invD(1) [OF inv] r by (force simp: rows_ok_def re_key_def)
        have "usage_inv d1" "load k d1 \<le> load k d"
          using charge_inv(1) [OF num inv kin refl a(2) _ _ ch] charge_inv(2) [OF num inv kin refl a(2) _ _ ch, of k] r p a(1) by (auto simp: re_key_def)
        moreover have "d' = d \<or> d' = d1"
          using co None mode res ch by (auto simp: commit_def split: sum.splits)
        ultimately show ?thesis using inv by auto
      qed
    qed
  qed
qed

lemma commit_direct_inv:
  assumes num: "numeric_column (e_col e) (e_sum e)" and inv: "usage_inv d"
    and mode: "ci_mode inp = Direct m (wh n)" and n: "0 \<le> n"
    and lim: "decidable_limit n (ci_customer inp, m, ci_period inp) (ci_limit inp) d"
    and co: "commit e inp d = (out, d')"
  shows "usage_inv d' \<and> (k \<noteq> (ci_customer inp, m, ci_period inp) \<longrightarrow> load k d' \<le> load k d) \<and>
    (\<forall>x. ci_limit inp = Some x \<longrightarrow> k = (ci_customer inp, m, ci_period inp) \<longrightarrow> load k d \<le> amt x \<longrightarrow>
       load k d' \<le> amt x)"
proof (cases "event_of (ci_customer inp) (ci_idem inp) d")
  case (Some ev)
  with co inv show ?thesis by (simp add: commit_def)
next
  case None
  let ?c = "ci_customer inp" and ?p = "ci_period inp"
  let ?k = "(?c, m, ?p)"
  obtain u s d1 where g: "gate e ?c m ?p (wh n) (ci_limit inp) (ci_corr inp) d
        = Inr ((decide (wh n) u s (ci_limit inp), u, s), d1)"
    "u = wh (charged ?k d1)" "s = wh (on_hold ?k d1)" "usage_inv d1"
    "?k \<in> to_key ` set (totals d1)" "\<forall>k. load k d1 \<le> load k d"
    "usage_events d1 = usage_events d"
    "reservations d1 = upd (stale_for e ?c m ?p) (\<lambda>r. r\<lparr>re_status := ''expired''\<rparr>) (reservations d)"
    by (rule gate_inv [OF num inv, of ?c m ?p "wh n" "ci_limit inp" "ci_corr inp"]) (rule that; assumption)
  show ?thesis
  proof (cases "qd_decision (decide (wh n) u s (ci_limit inp))")
    case Deny
    with co None g(1) mode have "reservations d' = reservations d1" "usage_events d' = usage_events d1"
      "totals d' = totals d1" by (auto simp: commit_def resolve_direct_def Let_def)
    then have "usage_inv d'" "load j d' \<le> load j d" for j
      using usage_inv_cong [of d' d1] g(4) spec [OF g(6)] by simp_all
    then show ?thesis using order_trans by blast
  next
    case Allow
    note al = gate_allows [OF g(4,5) lim spec [OF g(6)] n Allow [unfolded g(2,3)]]
    let ?x = "(m, wh n, ?p, None)"
    have res: "resolve_direct e inp m (wh n) d = (Inr ?x, d1)"
      using g(1) Allow by (simp add: resolve_direct_def Let_def)
    obtain out1 d2 where ch: "apply_charge e inp ?x d1 = (out1, d2)"
      by (cases "apply_charge e inp ?x d1")
    have *: "usage_inv d2" "load j d2 \<le> load j d1 + (if j = ?k then n else 0)" for j
      using charge_inv(1) [OF num g(4,5) refl n _ _ ch] charge_inv(2) [OF num g(4,5) refl n _ _ ch, of j]
        al(1) by auto
    have "d' = d \<or> d' = d2"
      using co None mode res ch by (auto simp: commit_def split: sum.splits)
    then show ?thesis
    proof
      assume d': "d' = d2"
      have "load k d2 \<le> load k d" if "k \<noteq> ?k"
        using *(2) [of k] spec [OF g(6), of k] that by simp
      moreover have "load ?k d2 \<le> amt x" if "ci_limit inp = Some x" for x
        using *(2) [of ?k] al(2) [OF that] by simp
      ultimately show ?thesis using *(1) d' by blast
    qed (use inv in simp)
  qed
qed

lemma commit_inv:
  assumes num: "numeric_column (e_col e) (e_sum e)" and inv: "usage_inv d"
    and dec: "commit_decidable inp d" and co: "commit e inp d = (out, d')"
  shows "usage_inv d'" and "direct_key inp \<noteq> Some k \<Longrightarrow> load k d' \<le> load k d"
    and "direct_key inp = Some k \<Longrightarrow> ci_limit inp = Some x \<Longrightarrow> load k d \<le> amt x \<Longrightarrow> load k d' \<le> amt x"
proof -
  show "usage_inv d'" "direct_key inp \<noteq> Some k \<Longrightarrow> load k d' \<le> load k d"
    "direct_key inp = Some k \<Longrightarrow> ci_limit inp = Some x \<Longrightarrow> load k d \<le> amt x \<Longrightarrow> load k d' \<le> amt x"
  proof (atomize (full), cases "ci_mode inp")
    case (ByReservation i)
    then show "usage_inv d' \<and> (direct_key inp \<noteq> Some k \<longrightarrow> load k d' \<le> load k d) \<and>
      (direct_key inp = Some k \<longrightarrow> ci_limit inp = Some x \<longrightarrow> load k d \<le> amt x \<longrightarrow> load k d' \<le> amt x)"
      using commit_by_reservation_inv [OF num inv ByReservation co] by (simp add: direct_key_def)
  next
    case (Direct m a)
    then obtain n where a: "a = wh n" "0 \<le> n"
      "decidable_limit n (ci_customer inp, m, ci_period inp) (ci_limit inp) d"
      using dec by (auto simp: commit_decidable_def elim: wholeE)
    show "usage_inv d' \<and> (direct_key inp \<noteq> Some k \<longrightarrow> load k d' \<le> load k d) \<and>
      (direct_key inp = Some k \<longrightarrow> ci_limit inp = Some x \<longrightarrow> load k d \<le> amt x \<longrightarrow> load k d' \<le> amt x)"
      using commit_direct_inv [OF num inv _ a(2,3) co, of k] Direct a(1) by (auto simp: direct_key_def)
  qed
qed

end
