(* ===== verification/Deletion_Rules.thy ===== *)
theory Deletion_Rules
  imports Prelude
begin

text \<open>
  \<^verbatim>\<open>api/src/domain/deletion.rs\<close>: the rules of the account-deletion state machine. A status is
  the text the column holds.
\<close>

definition next_state :: "string \<Rightarrow> string option" where
  "next_state current =
     (if current = ''requested'' then Some ''verified''
      else if current = ''verified'' then Some ''cooling_off''
      else if current = ''cooling_off'' then Some ''processing''
      else None)"

definition can_cancel :: "string \<Rightarrow> bool" where
  "can_cancel current \<longleftrightarrow>
     current = ''requested'' \<or> current = ''verified'' \<or> current = ''cooling_off''"

definition can_reject :: "string \<Rightarrow> bool" where
  "can_reject current \<longleftrightarrow>
     current = ''requested'' \<or> current = ''verified'' \<or> current = ''cooling_off''"

definition can_execute :: "string \<Rightarrow> bool" where
  "can_execute current \<longleftrightarrow> current = ''processing''"

text \<open>The statuses the partial queries treat as closed.\<close>

definition terminal :: "string \<Rightarrow> bool" where
  "terminal s \<longleftrightarrow> s = ''completed'' \<or> s = ''rejected'' \<or> s = ''canceled''"

text \<open>One step of the workflow, as the operations of the repository allow it.\<close>

inductive deletion_step :: "string \<Rightarrow> string \<Rightarrow> bool" where
  advance: "next_state s = Some t \<Longrightarrow> deletion_step s t"
| cancel: "can_cancel s \<Longrightarrow> deletion_step s ''canceled''"
| reject: "can_reject s \<Longrightarrow> deletion_step s ''rejected''"
| execute: "can_execute s \<Longrightarrow> deletion_step s ''completed''"

inductive_cases deletion_stepE: "deletion_step s t"

inductive_simps deletion_step_iff: "deletion_step s t"

lemmas deletion_rule_defs =
  next_state_def can_cancel_def can_reject_def can_execute_def terminal_def

lemma terminal_stuck: "terminal s \<Longrightarrow> \<not> deletion_step s t"
  by (auto simp: deletion_rule_defs elim!: deletion_stepE split: if_splits)

text \<open>Progress: a workflow status is stuck exactly when it is terminal.\<close>

lemma open_progress:
  assumes "s \<in> {''requested'', ''verified'', ''cooling_off'', ''processing''}"
  shows "\<exists>t. deletion_step s t"
  using assms by (auto simp: deletion_step_iff deletion_rule_defs)

text \<open>From \<^verbatim>\<open>processing\<close> the only way on is completion: the point of no return.\<close>

lemma processing_step: "deletion_step ''processing'' t \<longleftrightarrow> t = ''completed''"
  by (auto simp: deletion_step_iff deletion_rule_defs)

text \<open>How far a request has come; every forward step raises it.\<close>

definition stage :: "string \<Rightarrow> nat" where
  "stage s = (if s = ''requested'' then 0 else if s = ''verified'' then 1
              else if s = ''cooling_off'' then 2 else if s = ''processing'' then 3 else 4)"

lemma stage_values [simp]:
  "stage ''requested'' = 0" "stage ''verified'' = 1" "stage ''cooling_off'' = 2"
  "stage ''processing'' = 3" "stage ''completed'' = 4" "stage ''rejected'' = 4"
  "stage ''canceled'' = 4"
  by (simp_all add: stage_def)

lemma next_state_Some:
  "next_state s = Some t \<longleftrightarrow>
     s = ''requested'' \<and> t = ''verified'' \<or> s = ''verified'' \<and> t = ''cooling_off''
     \<or> s = ''cooling_off'' \<and> t = ''processing''"
  by (auto simp: next_state_def)

lemma step_raises_stage: "deletion_step s t \<Longrightarrow> stage s < stage t"
  by (erule deletion_stepE)
    (auto simp: next_state_Some can_cancel_def can_reject_def can_execute_def)

text \<open>No run of the workflow is longer than four steps.\<close>

lemma steps_bounded: "(deletion_step ^^ n) s t \<Longrightarrow> stage s + n \<le> stage t"
proof (induction n arbitrary: t)
  case 0
  then show ?case by simp
next
  case (Suc n)
  then obtain u where "(deletion_step ^^ n) s u" "deletion_step u t" by auto
  with Suc.IH [of u] step_raises_stage [of u t] show ?case by simp
qed

lemma stage_le: "stage s \<le> 4"
  by (simp add: stage_def)

text \<open>A completed request passed through every stage: it was executed from \<^verbatim>\<open>processing\<close>,
  which it reached from \<^verbatim>\<open>cooling_off\<close>.\<close>

lemma completed_from: "deletion_step s ''completed'' \<Longrightarrow> s = ''processing''"
  by (erule deletion_stepE) (auto simp: next_state_Some can_execute_def)

lemma processing_from: "deletion_step s ''processing'' \<Longrightarrow> s = ''cooling_off''"
  by (erule deletion_stepE) (auto simp: next_state_Some)

end
