(* ===== verification/Privacy.thy ===== *)
theory Privacy
  imports Licensing Deletion_Rules
begin

text \<open>
  \<^verbatim>\<open>api/src/repositories/privacy.rs\<close>: the account-deletion requests and the execution of a
  deletion. A transaction that returns an error leaves the database as it was.
\<close>

datatype deletion_error =
    DelNotFound
  | InvalidState string
  | CoolingOffActive
  | SubscriptionStillActive
  | DelDb

section \<open>Requests\<close>

text \<open>\<^verbatim>\<open>status not in ('completed','rejected','canceled')\<close>.\<close>

definition open_for :: "uuid \<Rightarrow> deletion_row \<Rightarrow> bool" where
  "open_for c r \<longleftrightarrow> dr_customer r = c \<and> \<not> terminal (dr_status r)"

definition open_request :: "uuid \<Rightarrow> db \<Rightarrow> deletion_row option" where
  "open_request c d = first_by (\<lambda>r. - dr_requested r) (filter (open_for c) (deletions d))"

definition status_json :: "string \<Rightarrow> json" where
  "status_json s = JObj [(''status'', JStr s)]"

definition request_deletion ::
    "env \<Rightarrow> uuid \<Rightarrow> string option \<Rightarrow> string option \<Rightarrow> db \<Rightarrow> (deletion_row \<times> bool) \<times> db" where
  "request_deletion e c reason corr d =
     (case open_request c d of
        Some r \<Rightarrow> ((r, False), d)
      | None \<Rightarrow>
        (let r = \<lparr>dr_id = e_id e 0, dr_customer = c, dr_status = ''requested'',
                  dr_requested = e_now e, dr_cooling = None, dr_completed = None,
                  dr_receipt = None, dr_reason = reason\<rparr>
         in ((r, True),
             write_customer_audit
               \<lparr>a_event = ''deletion_requested'', a_actor = c, a_customer = Some c,
                a_target_type = ''deletion_request'', a_target = dr_id r,
                a_reason = unwrap_or reason ''customer_request'', a_before = None,
                a_after = Some (status_json ''requested''), a_correlation = corr\<rparr>
               (d\<lparr>deletions := deletions d @ [r]\<rparr>))))"

definition latest_request :: "uuid \<Rightarrow> db \<Rightarrow> deletion_row option" where
  "latest_request c d =
     first_by (\<lambda>r. - dr_requested r) (filter (\<lambda>r. dr_customer r = c) (deletions d))"

definition lock_request :: "uuid \<Rightarrow> uuid option \<Rightarrow> db \<Rightarrow> deletion_error + deletion_row" where
  "lock_request i c d =
     ok_or (find (\<lambda>r. dr_id r = i \<and> (c = None \<or> c = Some (dr_customer r))) (deletions d)) DelNotFound"

definition with_status :: "string \<Rightarrow> time option \<Rightarrow> deletion_row \<Rightarrow> deletion_row" where
  "with_status s cooling r = r\<lparr>dr_status := s, dr_cooling := coalesce cooling (dr_cooling r)\<rparr>"

definition set_request_status ::
    "uuid \<Rightarrow> string \<Rightarrow> time option \<Rightarrow> db \<Rightarrow> deletion_error + deletion_row \<times> db" where
  "set_request_status i s cooling d =
     bind_r (ok_or (find (\<lambda>r. dr_id r = i) (deletions d)) DelDb) (\<lambda>r.
       Inr (with_status s cooling r,
            d\<lparr>deletions := upd (\<lambda>r. dr_id r = i) (with_status s cooling) (deletions d)\<rparr>))"

text \<open>A transaction: the database of an error is the one it started from.\<close>

definition transact :: "('e + 'a \<times> db) \<Rightarrow> db \<Rightarrow> ('e + 'a) \<times> db" where
  "transact r d = (case r of Inl err \<Rightarrow> (Inl err, d) | Inr (a, d') \<Rightarrow> (Inr a, d'))"

definition cancel_request ::
    "uuid \<Rightarrow> string option \<Rightarrow> db \<Rightarrow> (deletion_error + deletion_row) \<times> db" where
  "cancel_request c corr d = transact
     (bind_r (ok_or (open_request c d) DelNotFound) (\<lambda>r.
      if \<not> can_cancel (dr_status r) then Inl (InvalidState (dr_status r))
      else bind_r (set_request_status (dr_id r) ''canceled'' None d) (\<lambda>(r', d').
        Inr (r', write_customer_audit
          \<lparr>a_event = ''deletion_request_canceled'', a_actor = c, a_customer = Some c,
           a_target_type = ''deletion_request'', a_target = dr_id r, a_reason = ''customer_cancel'',
           a_before = Some (status_json (dr_status r)), a_after = Some (status_json ''canceled''),
           a_correlation = corr\<rparr> d')))) d"

definition list_requests :: "string option \<Rightarrow> nat \<Rightarrow> db \<Rightarrow> deletion_row list" where
  "list_requests status n d =
     take n (order_by (\<lambda>r. - dr_requested r)
       (filter (\<lambda>r. status = None \<or> status = Some (dr_status r)) (deletions d)))"

text \<open>The window to stamp on the way to the next status, or the refusal.\<close>

definition cooling_for ::
    "env \<Rightarrow> time \<Rightarrow> string \<Rightarrow> deletion_row \<Rightarrow> deletion_error + time option" where
  "cooling_for e cooling_off nxt r =
     (if nxt = ''cooling_off'' then Inr (Some (e_utc e 0 + cooling_off))
      else if nxt = ''processing''
      then bind_r (ok_or (dr_cooling r) (InvalidState ''cooling_off window was never stamped'')) (\<lambda>until.
        if e_utc e 0 < until then Inl CoolingOffActive else Inr None)
      else Inr None)"

definition advance_request ::
    "env \<Rightarrow> string \<Rightarrow> uuid \<Rightarrow> time \<Rightarrow> string \<Rightarrow> string option \<Rightarrow> db
      \<Rightarrow> (deletion_error + deletion_row) \<times> db" where
  "advance_request e operator i cooling_off reason corr d = transact
     (bind_r (lock_request i None d) (\<lambda>r.
      bind_r (ok_or (next_state (dr_status r)) (InvalidState (dr_status r))) (\<lambda>nxt.
      bind_r (cooling_for e cooling_off nxt r) (\<lambda>until.
      bind_r (set_request_status i nxt until d) (\<lambda>(r', d').
        Inr (r', write_operator_audit
          \<lparr>a_event = ''deletion_request_advanced'', a_actor = operator,
           a_customer = Some (dr_customer r), a_target_type = ''deletion_request'', a_target = i,
           a_reason = reason, a_before = Some (status_json (dr_status r)),
           a_after = Some (JObj [(''status'', JStr nxt),
             (''cooling_off_until'', jopt (\<lambda>t. JStr (e_time e t)) (dr_cooling r'))]),
           a_correlation = corr\<rparr> d')))))) d"

definition reject_request ::
    "string \<Rightarrow> uuid \<Rightarrow> string \<Rightarrow> string option \<Rightarrow> db \<Rightarrow> (deletion_error + deletion_row) \<times> db" where
  "reject_request operator i reason corr d = transact
     (bind_r (lock_request i None d) (\<lambda>r.
      if \<not> can_reject (dr_status r) then Inl (InvalidState (dr_status r))
      else bind_r (set_request_status i ''rejected'' None d) (\<lambda>(r', d').
        Inr (r', write_operator_audit
          \<lparr>a_event = ''deletion_request_rejected'', a_actor = operator,
           a_customer = Some (dr_customer r), a_target_type = ''deletion_request'', a_target = i,
           a_reason = reason, a_before = Some (status_json (dr_status r)),
           a_after = Some (status_json ''rejected''), a_correlation = corr\<rparr> d')))) d"

section \<open>Execution\<close>

definition anonymize_profile :: "customer_row \<Rightarrow> customer_row" where
  "anonymize_profile r = r\<lparr>cu_status := ''anonymized'', cu_display_name := None,
     cu_country := None, cu_timezone := None\<rparr>"

text \<open>Profile, status history and contact emails; the number of emails deleted.\<close>

definition erase_profile :: "env \<Rightarrow> string \<Rightarrow> uuid \<Rightarrow> string \<Rightarrow> db \<Rightarrow> nat \<times> db" where
  "erase_profile e operator c prior d =
     (rows_affected (\<lambda>m. em_customer m = c) (emails d),
      d\<lparr>customers := upd (\<lambda>r. cu_id r = c) anonymize_profile (customers d),
        status_history := status_history d @
          [\<lparr>sh_id = e_id e 0, sh_customer = c, sh_from = Some prior, sh_to = ''anonymized'',
            sh_reason = Some ''account_deletion'', sh_actor_type = ''operator'',
            sh_actor = Some operator\<rparr>],
        emails := filter (\<lambda>m. em_customer m \<noteq> c) (emails d)\<rparr>)"

definition revoke_devices :: "uuid \<Rightarrow> db \<Rightarrow> nat \<times> db" where
  "revoke_devices c d =
     (rows_affected (\<lambda>v. dv_customer v = c) (devices d),
      d\<lparr>devices := upd (\<lambda>v. dv_customer v = c)
          (\<lambda>v. v\<lparr>dv_status := ''revoked'', dv_label := None\<rparr>) (devices d)\<rparr>)"

definition revocable :: "uuid \<Rightarrow> license_row \<Rightarrow> bool" where
  "revocable c l \<longleftrightarrow> li_customer l = c \<and> li_status l \<noteq> ''revoked''"

definition deletion_revocation :: "string \<Rightarrow> license_row \<Rightarrow> revocation_row" where
  "deletion_revocation operator l =
     \<lparr>rv_license = Some (li_id l), rv_device = None, rv_installation = None,
      rv_reason = ''account_deletion'', rv_actor = Some operator\<rparr>"

definition revoke_licenses :: "string \<Rightarrow> uuid \<Rightarrow> db \<Rightarrow> nat \<times> db" where
  "revoke_licenses operator c d =
     (let hit = filter (revocable c) (licenses d)
      in (length hit,
          d\<lparr>licenses := upd (revocable c) (\<lambda>l. l\<lparr>li_status := ''revoked''\<rparr>) (licenses d),
            revocations := revocations d @ map (deletion_revocation operator) hit\<rparr>))"

definition retire_installations :: "env \<Rightarrow> uuid \<Rightarrow> db \<Rightarrow> nat \<times> db" where
  "retire_installations e c d =
     (let act = (\<lambda>i. in_customer i = c \<and> in_status i = ''active'');
          held = (\<lambda>a. ac_status a = ''active''
                    \<and> (\<exists>l \<in> set (licenses d). li_id l = ac_license a \<and> li_customer l = c))
      in (rows_affected act (installations d),
          d\<lparr>installations := upd act (\<lambda>i. i\<lparr>in_status := ''deactivated''\<rparr>) (installations d),
            activations := upd held (\<lambda>a. a\<lparr>ac_status := ''deactivated'',
              ac_deactivated := Some (e_now e)\<rparr>) (activations d)\<rparr>))"

definition drop_overrides :: "uuid \<Rightarrow> db \<Rightarrow> db" where
  "drop_overrides c d =
     d\<lparr>overrides := upd (\<lambda>x. ov_customer x = c) (\<lambda>x. x\<lparr>ov_active := False\<rparr>) (overrides d)\<rparr>"

definition receipt_json :: "nat \<Rightarrow> nat \<Rightarrow> nat \<Rightarrow> nat \<Rightarrow> json" where
  "receipt_json mails devs lics insts = JObj
     [(''profile_anonymized'', JBool True), (''emails_deleted'', JInt (int mails)),
      (''devices_revoked'', JInt (int devs)), (''licenses_revoked'', JInt (int lics)),
      (''installations_deactivated'', JInt (int insts)),
      (''retained'', JObj
        [(''billing_and_invoice_references'', JStr ''statutory accounting period''),
         (''commercial_audit_events'', JStr ''append-only integrity''),
         (''usage_ledger'', JStr ''billing correctness (aggregates, no PII)''),
         (''consent_records'', JStr ''legal evidence of consent'')]),
      (''external_steps'', JObj
        [(''supabase_auth_user'', JStr ''deleted/disabled via Supabase Auth by the operator''),
         (''stripe_customer'', JStr ''subscriptions canceled at Stripe before execution'')])]"

text \<open>Everything the execution erases or freezes, with the receipt.\<close>

definition freeze_customer :: "env \<Rightarrow> string \<Rightarrow> uuid \<Rightarrow> string \<Rightarrow> db \<Rightarrow> json \<times> db" where
  "freeze_customer e operator c prior d =
     (let (mails, d1) = erase_profile e operator c prior d;
          (devs, d2) = revoke_devices c d1;
          (lics, d3) = revoke_licenses operator c d2;
          (insts, d4) = retire_installations e c d3
      in (receipt_json mails devs lics insts, drop_overrides c d4))"

definition completed_row :: "env \<Rightarrow> json \<Rightarrow> deletion_row \<Rightarrow> deletion_row" where
  "completed_row e receipt r = r\<lparr>dr_status := ''completed'', dr_completed := Some (e_now e),
     dr_receipt := Some receipt\<rparr>"

definition execute_deletion ::
    "env \<Rightarrow> string \<Rightarrow> uuid \<Rightarrow> string \<Rightarrow> string option \<Rightarrow> db
      \<Rightarrow> (deletion_error + deletion_row) \<times> db" where
  "execute_deletion e operator i reason corr d = transact
     (bind_r (lock_request i None d) (\<lambda>r.
      if \<not> can_execute (dr_status r) then Inl (InvalidState (dr_status r))
      else let c = dr_customer r in
      bind_r (ok_or (find (\<lambda>p. cu_id p = c) (customers d)) DelDb) (\<lambda>profile.
      if list_ex (\<lambda>s. su_customer s = c \<and> su_status s \<noteq> ''canceled'') (subscriptions d)
      then Inl SubscriptionStillActive
      else
        let (receipt, d1) = freeze_customer e operator c (cu_status profile) d;
            d2 = d1\<lparr>deletions := upd (\<lambda>r. dr_id r = i) (completed_row e receipt) (deletions d1)\<rparr>;
            d3 = write_outbox e 1 ''customer_anonymized'' (''customer_anonymized:'' @ i)
              (JObj [(''customer_id'', JStr c), (''occurred_at'', JStr (e_time e (e_utc e 0)))]) d2;
            d4 = write_operator_audit
              \<lparr>a_event = ''deletion_completed'', a_actor = operator, a_customer = Some c,
               a_target_type = ''deletion_request'', a_target = i, a_reason = reason,
               a_before = Some (JObj [(''status'', JStr ''processing''),
                                      (''customer_status'', JStr (cu_status profile))]),
               a_after = Some receipt, a_correlation = corr\<rparr> d3
        in Inr (completed_row e receipt r, d4)))) d"

end
