(* ===== verification/Privacy_Facts.thy ===== *)
theory Privacy_Facts
  imports Privacy Licensing_Facts
begin

text \<open>
  The deletion workflow: every operation moves a request along the state machine of
  \<^verbatim>\<open>domain/deletion.rs\<close>, a customer has at most one open request, processing waits for the
  cooling-off window, and an execution erases the contact data and closes every way to use a
  licence.
\<close>

lemma transact_cases:
  assumes "transact r d = (res, d')"
  obtains (err) x where "r = Inl x" "res = Inl x" "d' = d"
  | (ok) a where "r = Inr (a, d')" "res = Inr a"
  using assms by (auto simp: transact_def split: sum.splits prod.splits)

lemma transact_Inr [simp]: "transact r d = (Inr a, d') \<longleftrightarrow> r = Inr (a, d')"
  by (auto simp: transact_def split: sum.splits prod.splits)

section \<open>The state machine\<close>

definition request_wf :: "db \<Rightarrow> bool" where
  "request_wf d \<longleftrightarrow> distinct (map dr_id (deletions d))
     \<and> distinct (map dr_customer (filter (\<lambda>r. \<not> terminal (dr_status r)) (deletions d)))"

text \<open>The request table after an operation: one row moved by a step of the workflow.\<close>

definition moved :: "uuid \<Rightarrow> deletion_row \<Rightarrow> (deletion_row \<Rightarrow> deletion_row) \<Rightarrow> db \<Rightarrow> db \<Rightarrow> bool" where
  "moved i r f d d' \<longleftrightarrow> r \<in> set (deletions d) \<and> dr_id r = i
     \<and> deletion_step (dr_status r) (dr_status (f r))
     \<and> (\<forall>x. dr_id (f x) = dr_id x \<and> dr_customer (f x) = dr_customer x)
     \<and> deletions d' = upd (\<lambda>x. dr_id x = i) f (deletions d)"

lemma set_request_status_moved:
  assumes "set_request_status i s t d = Inr (r', d')"
    and "r \<in> set (deletions d)" "dr_id r = i" "deletion_step (dr_status r) s"
  shows "moved i r (with_status s t) d d'"
  using assms by (auto simp: set_request_status_def moved_def with_status_def)

lemma moved_audit [simp]:
  "moved i r f d (write_customer_audit x d') = moved i r f d d'"
  "moved i r f d (write_operator_audit x d') = moved i r f d d'"
  by (simp_all add: moved_def)

lemma open_request_SomeD: "open_request c d = Some r \<Longrightarrow> r \<in> set (deletions d) \<and> open_for c r"
  unfolding open_request_def using first_by_SomeD(1) by fastforce

lemma lock_requestD: "lock_request i None d = Inr r \<Longrightarrow> r \<in> set (deletions d) \<and> dr_id r = i"
  by (auto simp: lock_request_def dest: find_SomeD)

lemma cancel_moves:
  assumes "cancel_request c corr d = (Inr r', d')"
  shows "\<exists>r f. moved (dr_id r) r f d d' \<and> dr_customer r = c \<and> dr_status (f r) = ''canceled''"
proof -
  from assms obtain r d1 where h: "open_request c d = Some r" "can_cancel (dr_status r)"
    "set_request_status (dr_id r) ''canceled'' None d = Inr (r', d1)"
    "deletions d' = deletions d1"
    by (auto simp: cancel_request_def split: if_splits)
  have "moved (dr_id r) r (with_status ''canceled'' None) d d1"
    using h open_request_SomeD [OF h(1)] by (intro set_request_status_moved) (auto intro: deletion_step.cancel)
  then have "moved (dr_id r) r (with_status ''canceled'' None) d d'" by (simp add: moved_def h(4))
  then show ?thesis
    using open_request_SomeD [OF h(1)] by (force simp: open_for_def with_status_def)
qed

lemma advance_moves:
  assumes "advance_request e op i co reason corr d = (Inr r', d')"
  shows "\<exists>r f. moved i r f d d' \<and> next_state (dr_status r) = Some (dr_status (f r))
    \<and> (dr_status (f r) = ''processing'' \<longrightarrow> (\<exists>t. dr_cooling r = Some t \<and> t \<le> e_utc e 0))
    \<and> (dr_status (f r) = ''cooling_off'' \<longrightarrow> dr_cooling (f r) = Some (e_utc e 0 + co))"
proof -
  from assms obtain r nxt t d1 where h: "lock_request i None d = Inr r"
    "next_state (dr_status r) = Some nxt" "cooling_for e co nxt r = Inr t"
    "set_request_status i nxt t d = Inr (r', d1)" "deletions d' = deletions d1"
    by (auto simp: advance_request_def)
  have "moved i r (with_status nxt t) d d1"
    using h lock_requestD [OF h(1)] by (intro set_request_status_moved) (auto intro: deletion_step.advance)
  then have "moved i r (with_status nxt t) d d'" by (simp add: moved_def h(5))
  moreover have "nxt = ''processing'' \<longrightarrow> (\<exists>t. dr_cooling r = Some t \<and> t \<le> e_utc e 0)"
    "nxt = ''cooling_off'' \<longrightarrow> t = Some (e_utc e 0 + co)"
    using h(3) by (auto simp: cooling_for_def split: if_splits)
  ultimately show ?thesis
    using h(2) by (intro exI [of _ r] exI [of _ "with_status nxt t"]) (auto simp: with_status_def)
qed

lemma reject_moves:
  assumes "reject_request op i reason corr d = (Inr r', d')"
  shows "\<exists>r f. moved i r f d d' \<and> dr_status (f r) = ''rejected''"
proof -
  from assms obtain r d1 where h: "lock_request i None d = Inr r" "can_reject (dr_status r)"
    "set_request_status i ''rejected'' None d = Inr (r', d1)" "deletions d' = deletions d1"
    by (auto simp: reject_request_def split: if_splits)
  have "moved i r (with_status ''rejected'' None) d d1"
    using h lock_requestD [OF h(1)] by (intro set_request_status_moved) (auto intro: deletion_step.reject)
  then have "moved i r (with_status ''rejected'' None) d d'" by (simp add: moved_def h(4))
  then show ?thesis by (force simp: with_status_def)
qed

section \<open>What an execution does\<close>

lemma bex_upd:
  "(\<And>r. P r \<Longrightarrow> Q (f r) = Q r) \<Longrightarrow> (\<exists>r \<in> set (upd P f rs). Q r) \<longleftrightarrow> (\<exists>r \<in> set rs. Q r)"
  by (induction rs) auto

lemma freeze_customer_tables:
  assumes "freeze_customer e op c prior d = (x, d')"
  shows "customers d' = upd (\<lambda>r. cu_id r = c) anonymize_profile (customers d)"
    "emails d' = filter (\<lambda>m. em_customer m \<noteq> c) (emails d)"
    "devices d' = upd (\<lambda>v. dv_customer v = c)
       (\<lambda>v. v\<lparr>dv_status := ''revoked'', dv_label := None\<rparr>) (devices d)"
    "licenses d' = upd (revocable c) (\<lambda>l. l\<lparr>li_status := ''revoked''\<rparr>) (licenses d)"
    "revocations d' = revocations d @ map (deletion_revocation op) (filter (revocable c) (licenses d))"
    "installations d' = upd (\<lambda>i. in_customer i = c \<and> in_status i = ''active'')
       (\<lambda>i. i\<lparr>in_status := ''deactivated''\<rparr>) (installations d)"
    "activations d' = upd (\<lambda>a. ac_status a = ''active''
         \<and> (\<exists>l \<in> set (licenses d). li_id l = ac_license a \<and> li_customer l = c))
       (\<lambda>a. a\<lparr>ac_status := ''deactivated'', ac_deactivated := Some (e_now e)\<rparr>) (activations d)"
    "overrides d' = upd (\<lambda>x. ov_customer x = c) (\<lambda>x. x\<lparr>ov_active := False\<rparr>) (overrides d)"
    "deletions d' = deletions d" "subscriptions d' = subscriptions d" "outbox d' = outbox d"
    "audits d' = audits d"
proof -
  have lic: "(\<exists>l \<in> set (upd (revocable c) (\<lambda>l. l\<lparr>li_status := ''revoked''\<rparr>) (licenses d)).
      li_id l = i \<and> li_customer l = c) \<longleftrightarrow> (\<exists>l \<in> set (licenses d). li_id l = i \<and> li_customer l = c)" for i
    by (rule bex_upd) simp
  show "customers d' = upd (\<lambda>r. cu_id r = c) anonymize_profile (customers d)"
    "emails d' = filter (\<lambda>m. em_customer m \<noteq> c) (emails d)"
    "devices d' = upd (\<lambda>v. dv_customer v = c)
       (\<lambda>v. v\<lparr>dv_status := ''revoked'', dv_label := None\<rparr>) (devices d)"
    "licenses d' = upd (revocable c) (\<lambda>l. l\<lparr>li_status := ''revoked''\<rparr>) (licenses d)"
    "revocations d' = revocations d @ map (deletion_revocation op) (filter (revocable c) (licenses d))"
    "installations d' = upd (\<lambda>i. in_customer i = c \<and> in_status i = ''active'')
       (\<lambda>i. i\<lparr>in_status := ''deactivated''\<rparr>) (installations d)"
    "activations d' = upd (\<lambda>a. ac_status a = ''active''
         \<and> (\<exists>l \<in> set (licenses d). li_id l = ac_license a \<and> li_customer l = c))
       (\<lambda>a. a\<lparr>ac_status := ''deactivated'', ac_deactivated := Some (e_now e)\<rparr>) (activations d)"
    "overrides d' = upd (\<lambda>x. ov_customer x = c) (\<lambda>x. x\<lparr>ov_active := False\<rparr>) (overrides d)"
    "deletions d' = deletions d" "subscriptions d' = subscriptions d" "outbox d' = outbox d"
    "audits d' = audits d"
    using assms lic
    by (auto simp: freeze_customer_def erase_profile_def revoke_devices_def revoke_licenses_def
        retire_installations_def drop_overrides_def Let_def)
qed

lemma execute_cases:
  assumes "execute_deletion e op i reason corr d = (Inr r', d')"
  obtains r profile receipt d1 where "r \<in> set (deletions d)" "dr_id r = i"
    "dr_status r = ''processing''" "profile \<in> set (customers d)" "cu_id profile = dr_customer r"
    "\<And>s. s \<in> set (subscriptions d) \<Longrightarrow> su_customer s = dr_customer r \<Longrightarrow> su_status s = ''canceled''"
    "freeze_customer e op (dr_customer r) (cu_status profile) d = (receipt, d1)"
    "r' = completed_row e receipt r"
    "deletions d' = upd (\<lambda>r. dr_id r = i) (completed_row e receipt) (deletions d)"
    "customers d' = customers d1" "emails d' = emails d1" "devices d' = devices d1"
    "licenses d' = licenses d1" "revocations d' = revocations d1" "installations d' = installations d1"
    "activations d' = activations d1" "overrides d' = overrides d1"
proof -
  from assms obtain r where lk: "lock_request i None d = Inr r" "can_execute (dr_status r)"
    by (auto simp: execute_deletion_def split: if_splits)
  with assms obtain profile where p: "find (\<lambda>p. cu_id p = dr_customer r) (customers d) = Some profile"
    "\<not> list_ex (\<lambda>s. su_customer s = dr_customer r \<and> su_status s \<noteq> ''canceled'') (subscriptions d)"
    by (auto simp: execute_deletion_def Let_def split: if_splits)
  obtain receipt d1 where fz: "freeze_customer e op (dr_customer r) (cu_status profile) d = (receipt, d1)"
    by (cases "freeze_customer e op (dr_customer r) (cu_status profile) d")
  note lr = lock_requestD [OF lk(1)] and fp = find_SomeD [OF p(1)]
  note tb = freeze_customer_tables [OF fz]
  have "r' = completed_row e receipt r \<and> (\<exists>x y z v.
      d' = write_operator_audit v (write_outbox e 1 x y z
        (d1\<lparr>deletions := upd (\<lambda>r. dr_id r = i) (completed_row e receipt) (deletions d1)\<rparr>)))"
    using assms lk p fz by (auto simp: execute_deletion_def Let_def simp del: One_nat_def)
  then obtain x y z v where "r' = completed_row e receipt r" and d': "d' = write_operator_audit v (write_outbox e 1 x y z
        (d1\<lparr>deletions := upd (\<lambda>r. dr_id r = i) (completed_row e receipt) (deletions d1)\<rparr>))" by blast
  then show ?thesis
    using that [of r profile receipt d1] lr lk(2) fp p(2) fz tb(9)
    by (auto simp: can_execute_def list_ex_iff)
qed

lemma execute_moves:
  assumes "execute_deletion e op i reason corr d = (Inr r', d')"
  shows "\<exists>r f. moved i r f d d' \<and> dr_status (f r) = ''completed''"
  using assms
proof (cases rule: execute_cases)
  case (1 r profile receipt d1)
  then have "moved i r (completed_row e receipt) d d'"
    by (auto simp: moved_def completed_row_def can_execute_def intro!: deletion_step.execute)
  then show ?thesis by (force simp: completed_row_def)
qed

section \<open>One open request\<close>

lemma moved_wf:
  assumes wf: "request_wf d" and m: "moved i r f d d'"
  shows "request_wf d'"
proof -
  have ids: "distinct (map dr_id (deletions d))"
    and one: "distinct (map dr_customer (filter (\<lambda>r. \<not> terminal (dr_status r)) (deletions d)))"
    using wf by (simp_all add: request_wf_def)
  from m have r: "r \<in> set (deletions d)" "dr_id r = i" "\<not> terminal (dr_status r)"
    and f: "\<And>x. dr_id (f x) = dr_id x" "\<And>x. dr_customer (f x) = dr_customer x"
    and d': "deletions d' = upd (\<lambda>x. dr_id x = i) f (deletions d)"
    using terminal_stuck by (auto simp: moved_def)
  have same: "x = r" if "x \<in> set (deletions d)" "dr_id x = i" for x
    using distinct_key_eq [OF ids that(1) r(1)] that(2) r(2) by simp
  let ?cs = "\<lambda>xs. map dr_customer (filter (\<lambda>r. \<not> terminal (dr_status r)) xs)"
  have "set (?cs (upd (\<lambda>x. dr_id x = i) f xs)) \<subseteq> set (?cs xs) \<and>
      (distinct (?cs xs) \<longrightarrow> distinct (?cs (upd (\<lambda>x. dr_id x = i) f xs)))"
    if "set xs \<subseteq> set (deletions d)" for xs
    using that
  proof (induction xs)
    case (Cons x xs)
    then have IH: "set (?cs (upd (\<lambda>x. dr_id x = i) f xs)) \<subseteq> set (?cs xs)"
      "distinct (?cs xs) \<longrightarrow> distinct (?cs (upd (\<lambda>x. dr_id x = i) f xs))" by auto
    show ?case
    proof (cases "dr_id x = i")
      case True
      then have "x = r" using same Cons.prems by simp
      then show ?thesis using IH r(3) True by (auto simp: f(2))
    next
      case False
      then show ?thesis using IH by auto
    qed
  qed simp
  then have "distinct (?cs (deletions d'))" using one by (simp add: d')
  moreover have "distinct (map dr_id (deletions d'))" using ids by (simp add: d' map_upd_key f(1))
  ultimately show ?thesis by (simp add: request_wf_def)
qed

lemma request_deletion_wf:
  assumes wf: "request_wf d" and fr: "fresh e d" and re: "request_deletion e c reason corr d = ((r, new), d')"
  shows "request_wf d'"
proof (cases "open_request c d")
  case (Some x)
  with re wf show ?thesis by (simp add: request_deletion_def)
next
  case None
  then have no: "filter (open_for c) (deletions d) = []" by (simp add: open_request_def)
  from re None have d': "deletions d' = deletions d @ [r]" "dr_id r = e_id e 0" "dr_customer r = c"
    by (auto simp: request_deletion_def Let_def)
  have "distinct (map dr_id (deletions d'))"
    unfolding d'(1) using wf fresh_rows(5) [OF fr, of 0]
    by (intro distinct_insert_new) (simp_all add: request_wf_def d'(2))
  moreover have "distinct (map dr_customer (filter (\<lambda>r. \<not> terminal (dr_status r)) (deletions d')))"
    using wf no by (auto simp: d' request_wf_def open_for_def filter_empty_conv)
  ultimately show ?thesis by (simp add: request_wf_def)
qed

lemma request_deletion_again:
  assumes "request_deletion e c reason corr d = ((r, new), d')"
  shows "\<exists>r2. request_deletion e2 c reason2 corr2 d' = ((r2, False), d') \<and> open_for c r2"
proof -
  have "\<exists>x \<in> set (deletions d'). open_for c x"
  proof (cases "open_request c d")
    case (Some x)
    with assms have "d' = d" by (simp add: request_deletion_def)
    with open_request_SomeD [OF Some] show ?thesis by blast
  next
    case None
    with assms show ?thesis by (auto simp: request_deletion_def Let_def open_for_def terminal_def)
  qed
  then obtain r2 where r2: "open_request c d' = Some r2"
    unfolding open_request_def
    by (cases "first_by (\<lambda>r. - dr_requested r) (filter (open_for c) (deletions d'))")
      (auto simp: filter_empty_conv)
  then show ?thesis using open_request_SomeD [OF r2] by (simp add: request_deletion_def)
qed

section \<open>Execution and licensing\<close>

text \<open>The slot ownership of the licensing invariant is what makes releasing the activations of
  the customer's licences release those on the customer's installations.\<close>

lemma execute_lic_inv:
  assumes ex: "execute_deletion e op i reason corr d = (Inr r', d')" and inv: "lic_inv d"
  shows "lic_inv d'"
  using ex
proof (cases rule: execute_cases)
  case (1 r profile receipt d1)
  note tb = freeze_customer_tables [OF 1(7)]
  let ?c = "dr_customer r"
  let ?Q = "\<lambda>a. ac_status a = ''active'' \<and> (\<exists>l \<in> set (licenses d). li_id l = ac_license a \<and> li_customer l = ?c)"
  show ?thesis
  proof (rule lic_inv_update [OF inv, where R = "revocable ?c" and Q = ?Q])
    show "installations d' = upd (\<lambda>i. in_customer i = ?c \<and> in_status i = ''active'')
       (\<lambda>i. i\<lparr>in_status := ''deactivated''\<rparr>) (installations d)" by (simp add: 1 tb)
    show "licenses d' = upd (revocable ?c) (\<lambda>l. l\<lparr>li_status := ''revoked''\<rparr>) (licenses d)" by (simp add: 1 tb)
    show "activations d' = upd ?Q (\<lambda>a. a\<lparr>ac_status := ''deactivated'',
        ac_deactivated := Some (e_now e)\<rparr>) (activations d)" by (simp add: 1 tb)
    fix a j
    assume h: "a \<in> set (activations d)" "is_active a" "\<not> ?Q a" "in_customer j = ?c \<and> in_status j = ''active''"
      "\<And>l. l \<in> set (licenses d) \<Longrightarrow> li_id l = ac_license a \<Longrightarrow> in_customer j = li_customer l"
    from lic_invD(5) [OF inv h(1,2)] obtain l where "l \<in> set (licenses d)" "li_id l = ac_license a"
      by (auto simp: slot_ok_def)
    with h have "?Q a" by (auto simp: is_active_def)
    with h(3) show "in_status (j\<lparr>in_status := ''deactivated''\<rparr>) \<noteq> ''deactivated''" by simp
  qed (simp_all add: is_active_def)
qed

text \<open>Everything of the customer that could hold or take a slot is closed.\<close>

definition closed_account :: "uuid \<Rightarrow> db \<Rightarrow> bool" where
  "closed_account c d \<longleftrightarrow>
     (\<forall>l \<in> set (licenses d). li_customer l = c \<longrightarrow> li_status l = ''revoked'')
     \<and> (\<forall>v \<in> set (devices d). dv_customer v = c \<longrightarrow> dv_status v = ''revoked'' \<and> dv_label v = None)
     \<and> (\<forall>i \<in> set (installations d). in_customer i = c \<longrightarrow> in_status i \<noteq> ''active'')
     \<and> (\<forall>m \<in> set (emails d). em_customer m \<noteq> c)
     \<and> (\<forall>p \<in> set (customers d). cu_id p = c \<longrightarrow> cu_status p = ''anonymized'' \<and> cu_display_name p = None
          \<and> cu_country p = None \<and> cu_timezone p = None)
     \<and> (\<forall>x \<in> set (overrides d). ov_customer x = c \<longrightarrow> \<not> ov_active x)"

lemma execute_closes:
  assumes ex: "execute_deletion e op i reason corr d = (Inr r', d')"
  shows "closed_account (dr_customer r') d'"
    and "\<And>l. l \<in> set (licenses d) \<Longrightarrow> li_customer l = dr_customer r' \<Longrightarrow> li_status l \<noteq> ''revoked'' \<Longrightarrow>
      deletion_revocation op l \<in> set (revocations d')"
  using ex
proof (atomize (full), cases rule: execute_cases)
  case (1 r profile receipt d1)
  note tb = freeze_customer_tables [OF 1(7)]
  have c: "dr_customer r' = dr_customer r" by (simp add: 1(8) completed_row_def)
  have "closed_account (dr_customer r') d'"
    unfolding closed_account_def c
    by (auto simp: 1(10-17) tb set_upd revocable_def anonymize_profile_def)
  moreover have "deletion_revocation op l \<in> set (revocations d')"
    if "l \<in> set (licenses d)" "li_customer l = dr_customer r'" "li_status l \<noteq> ''revoked''" for l
    using that by (auto simp: 1(10-17) tb c revocable_def)
  ultimately show "closed_account (dr_customer r') d' \<and> (\<forall>l. l \<in> set (licenses d) \<longrightarrow>
      li_customer l = dr_customer r' \<longrightarrow> li_status l \<noteq> ''revoked'' \<longrightarrow>
      deletion_revocation op l \<in> set (revocations d'))" by blast
qed

text \<open>A closed account activates nothing, whatever installation and licence are asked for.\<close>

lemma closed_no_activation:
  assumes cl: "closed_account c d"
  shows "fst (activate_installation e c i w corr d) \<noteq> Inr out"
proof
  assume "fst (activate_installation e c i w corr d) = Inr out"
  then obtain inst l lim where ctx: "activation_context e c i w d = Inr (inst, l, lim)"
    by (auto simp: activate_by_context split: sum.splits)
  then have l: "choose_license e c inst w d = Inr l" "license_guards e inst l d = Inr ()"
    by (auto simp: activation_context_def split: option.splits if_splits)
  have "li_status l = ''revoked''"
    using choose_license_owner [OF l(1)] cl by (auto simp: closed_account_def)
  with l(2) show False by (simp add: license_guards_def)
qed

end
