(* ===== verification/System.thy ===== *)
theory System
  imports Licensing_Facts Usage_Facts Privacy_Facts
begin

text \<open>
  The operations together: what each leaves alone, the step relations of the account side
  (licensing and privacy) and of the usage side, and the invariant of every reachable database.
\<close>

section \<open>What leaves the service\<close>

text \<open>Audit and outbox rows carry no prohibited key, and a delivery key is used once.\<close>

definition out_inv :: "db \<Rightarrow> bool" where
  "out_inv d \<longleftrightarrow> sanitized_db d \<and> outbox_keys_distinct d"

lemma out_inv_cong: "audits d' = audits d \<Longrightarrow> outbox d' = outbox d \<Longrightarrow> out_inv d' = out_inv d"
  by (simp add: out_inv_def sanitized_db_def outbox_keys_distinct_def)

lemma out_inv_frame [simp]:
  "out_inv (d\<lparr>installations := i\<rparr>) = out_inv d" "out_inv (d\<lparr>activations := a\<rparr>) = out_inv d"
  "out_inv (d\<lparr>licenses := l\<rparr>) = out_inv d" "out_inv (d\<lparr>deletions := x\<rparr>) = out_inv d"
  "out_inv (d\<lparr>reservations := r\<rparr>) = out_inv d" "out_inv (d\<lparr>usage_events := u\<rparr>) = out_inv d"
  "out_inv (d\<lparr>totals := t\<rparr>) = out_inv d" "out_inv (d\<lparr>decisions := q\<rparr>) = out_inv d"
  by (simp_all add: out_inv_def sanitized_db_def outbox_keys_distinct_def)

lemma out_inv_write_outbox: "out_inv d \<Longrightarrow> out_inv (write_outbox e n ev k p d)"
  by (simp add: out_inv_def write_outbox_sanitized write_outbox_keys)

lemma out_inv_audit:
  "out_inv d \<Longrightarrow> out_inv (write_customer_audit r d)"
  "out_inv d \<Longrightarrow> out_inv (write_operator_audit r d)"
  by (simp_all add: out_inv_def write_customer_audit_sanitized write_operator_audit_sanitized
      outbox_keys_distinct_def)

lemmas out_inv_writers = out_inv_write_outbox out_inv_audit

lemma register_out:
  assumes "register_installation e c inp d = (res, d')" and inv: "out_inv d"
  shows "out_inv d'"
proof (cases "find (\<lambda>p. pr_key p = vr_product_key inp \<and> pr_status p = ''active'') (products d)")
  case None
  with assms show ?thesis by (simp add: register_installation_prepared)
next
  case (Some p)
  obtain device fleet d3 where prep: "prepared e c inp p d = (device, fleet, d3)"
    by (cases "prepared e c inp p d")
  have "out_inv d3" using inv out_inv_cong [OF prepared_tables(4,5) [OF prep]] by simp
  then show ?thesis
    using assms(1) inv
    by (auto simp: register_installation_prepared Some prep Let_def
        intro: out_inv_writers split: option.splits if_splits)
qed

lemma activate_out:
  assumes "activate_installation e c i w corr d = (res, d')" and inv: "out_inv d"
  shows "out_inv d'"
  using assms(1)
proof (cases rule: activate_cases)
  case (new inst l limit a o')
  then obtain ev key p r where "d' = write_outbox e 1 ev key p
      (write_customer_audit r (d\<lparr>activations := activations d'\<rparr>))" by blast
  moreover have "out_inv (d\<lparr>activations := activations d'\<rparr>)" using inv by simp
  ultimately show ?thesis by (metis out_inv_writers(1,2))
qed (use inv in simp_all)

lemma heartbeat_out: "heartbeat_installation e c i v d = (res, d') \<Longrightarrow> out_inv d \<Longrightarrow> out_inv d'"
  by (auto simp: heartbeat_installation_def Let_def)

lemma deactivate_out: "deactivate_installation e c i corr d = (res, d') \<Longrightarrow> out_inv d \<Longrightarrow> out_inv d'"
  by (auto simp: deactivate_installation_def Let_def intro!: out_inv_audit split: option.splits if_splits)

lemma sync_out:
  "sync_license_for_subscription e n c sub ver st d = Inr (out, d') \<Longrightarrow> out_inv d \<Longrightarrow> out_inv d'"
  by (erule sync_cases) (simp_all add: set_license_def)

lemma request_out: "request_deletion e c reason corr d = (res, d') \<Longrightarrow> out_inv d \<Longrightarrow> out_inv d'"
  by (auto simp: request_deletion_def Let_def intro!: out_inv_audit split: option.splits)

lemma set_status_out: "set_request_status i s t d = Inr (r, d') \<Longrightarrow> out_inv d \<Longrightarrow> out_inv d'"
  by (auto simp: set_request_status_def)

lemma cancel_out: "cancel_request c corr d = (Inr r, d') \<Longrightarrow> out_inv d \<Longrightarrow> out_inv d'"
  by (auto simp: cancel_request_def intro!: out_inv_audit dest: set_status_out split: if_splits)

lemma advance_out: "advance_request e op i co reason corr d = (Inr r, d') \<Longrightarrow> out_inv d \<Longrightarrow> out_inv d'"
  by (auto simp: advance_request_def intro!: out_inv_audit dest: set_status_out)

lemma reject_out: "reject_request op i reason corr d = (Inr r, d') \<Longrightarrow> out_inv d \<Longrightarrow> out_inv d'"
  by (auto simp: reject_request_def intro!: out_inv_audit dest: set_status_out split: if_splits)

lemma execute_out:
  assumes "execute_deletion e op i reason corr d = (Inr r, d')" and inv: "out_inv d"
  shows "out_inv d'"
proof -
  have "out_inv d1" if "freeze_customer e op c p d = (x, d1)" for c p x d1
    using inv out_inv_cong [OF freeze_customer_tables(12,11) [OF that]] by simp
  then show ?thesis
    using assms(1) by (auto simp: execute_deletion_def Let_def intro!: out_inv_writers
        split: if_splits prod.splits)
qed

section \<open>What each side leaves alone\<close>

definition same_core :: "db \<Rightarrow> db \<Rightarrow> bool" where
  "same_core d d' \<longleftrightarrow> installations d' = installations d \<and> licenses d' = licenses d
     \<and> activations d' = activations d \<and> deletions d' = deletions d
     \<and> subscriptions d' = subscriptions d"

definition same_ledger :: "db \<Rightarrow> db \<Rightarrow> bool" where
  "same_ledger d d' \<longleftrightarrow> reservations d' = reservations d \<and> usage_events d' = usage_events d
     \<and> totals d' = totals d \<and> subscriptions d' = subscriptions d"

definition same_requests :: "db \<Rightarrow> db \<Rightarrow> bool" where
  "same_requests d d' \<longleftrightarrow> deletions d' = deletions d"

lemmas same_defs = same_core_def same_ledger_def same_requests_def

lemma prepared_same:
  assumes "prepared e c inp p d = (device, fleet, d3)"
  shows "same_ledger d d3" "same_requests d d3"
  using assms
  by (auto simp: prepared_def Let_def upsert_device_def ensure_fleet_def ensure_fleet_app_def same_defs
      split: option.splits if_splits)

lemma register_same:
  assumes "register_installation e c inp d = (res, d')"
  shows "same_ledger d d'" "same_requests d d'"
proof -
  have "same_ledger d d' \<and> same_requests d d'"
  proof (cases "find (\<lambda>p. pr_key p = vr_product_key inp \<and> pr_status p = ''active'') (products d)")
    case None
    with assms show ?thesis by (simp add: register_installation_prepared same_defs)
  next
    case (Some p)
    obtain device fleet d3 where prep: "prepared e c inp p d = (device, fleet, d3)"
      by (cases "prepared e c inp p d")
    from assms prepared_same [OF prep] show ?thesis
      by (auto simp: register_installation_prepared Some prep Let_def same_defs
          split: option.splits if_splits)
  qed
  then show "same_ledger d d'" "same_requests d d'" by simp_all
qed

lemma activate_same:
  assumes "activate_installation e c i w corr d = (res, d')"
  shows "same_ledger d d'" "same_requests d d'"
proof -
  from assms have "same_ledger d d' \<and> same_requests d d'"
  proof (cases rule: activate_cases)
    case (new inst l limit a o')
    then obtain ev key p r acts where "d' = write_outbox e 1 ev key p
        (write_customer_audit r (d\<lparr>activations := acts\<rparr>))" by blast
    then show ?thesis by (simp add: same_defs)
  qed (simp_all add: same_defs)
  then show "same_ledger d d'" "same_requests d d'" by simp_all
qed

lemma heartbeat_same:
  "heartbeat_installation e c i v d = (res, d') \<Longrightarrow> same_ledger d d' \<and> same_requests d d'"
  by (auto simp: heartbeat_installation_def Let_def same_defs)

lemma deactivate_same:
  "deactivate_installation e c i corr d = (res, d') \<Longrightarrow> same_ledger d d' \<and> same_requests d d'"
  by (auto simp: deactivate_installation_def Let_def same_defs split: option.splits if_splits)

lemma sync_same:
  "sync_license_for_subscription e n c sub ver st d = Inr (out, d') \<Longrightarrow>
     same_ledger d d' \<and> same_requests d d'"
  by (erule sync_cases) (simp_all add: set_license_def same_defs)

lemma request_same:
  "request_deletion e c reason corr d = (res, d') \<Longrightarrow>
     same_ledger d d' \<and> installations d' = installations d \<and> licenses d' = licenses d
     \<and> activations d' = activations d"
  by (auto simp: request_deletion_def Let_def same_defs split: option.splits)

lemma set_status_same:
  "set_request_status i s t d = Inr (r, d') \<Longrightarrow> same_ledger d d' \<and> installations d' = installations d
     \<and> licenses d' = licenses d \<and> activations d' = activations d"
  by (auto simp: set_request_status_def same_defs)

lemma request_ops_same:
  "cancel_request c corr d = (Inr r, d') \<Longrightarrow> same_ledger d d' \<and> installations d' = installations d
     \<and> licenses d' = licenses d \<and> activations d' = activations d"
  "advance_request e op i co reason corr d = (Inr r, d') \<Longrightarrow> same_ledger d d'
     \<and> installations d' = installations d \<and> licenses d' = licenses d \<and> activations d' = activations d"
  "reject_request op i reason corr d = (Inr r, d') \<Longrightarrow> same_ledger d d'
     \<and> installations d' = installations d \<and> licenses d' = licenses d \<and> activations d' = activations d"
  by (auto simp: cancel_request_def advance_request_def reject_request_def same_ledger_def
      dest!: set_status_same split: if_splits)

lemma freeze_same: "freeze_customer e op c prior d = (x, d') \<Longrightarrow> same_ledger d d'"
  by (auto simp: freeze_customer_def erase_profile_def revoke_devices_def revoke_licenses_def
      retire_installations_def drop_overrides_def Let_def same_defs)

lemma execute_same: "execute_deletion e op i reason corr d = (Inr r, d') \<Longrightarrow> same_ledger d d'"
  by (auto simp: execute_deletion_def Let_def same_ledger_def dest!: freeze_same
      split: if_splits prod.splits)

section \<open>The usage side\<close>

lemma expire_core:
  "expire_stale_reservations e c m p d = (x, d') \<Longrightarrow> same_core d d' \<and> out_inv d' = out_inv d"
  by (auto simp: expire_stale_reservations_def free_hold_def set_reservation_def same_defs Let_def
      split: if_splits)

lemma ensure_total_core: "same_core d (ensure_total c m p d) \<and> out_inv (ensure_total c m p d) = out_inv d"
  by (simp add: ensure_total_def same_defs)

lemma gate_core:
  assumes "gate e c m p a l corr d = Inr (x, d')"
  shows "same_core d d' \<and> out_inv d' = out_inv d"
proof -
  obtain z d2 where ex: "expire_stale_reservations e c m p (ensure_total c m p d) = (z, d2)"
    by (meson surj_pair)
  with assms have "same_core d2 d' \<and> out_inv d' = out_inv d2"
    by (auto simp: gate_def lock_totals_def Let_def record_decision_def same_defs)
  with expire_core [OF ex] ensure_total_core [of d c m p] show ?thesis by (simp add: same_core_def)
qed

lemma reserve_core:
  assumes re: "reserve e inp d = (res, d')"
  shows "same_core d d' \<and> out_inv d' = out_inv d"
proof (cases "reservation_of (ri_customer inp) (ri_idem inp) d")
  case (Some r)
  with re show ?thesis by (simp add: reserve_def Let_def same_defs)
next
  case None
  show ?thesis
  proof (cases "gate e (ri_customer inp) (ri_meter inp) (ri_period inp) (ri_amount inp)
      (ri_limit inp) (ri_corr inp) d")
    case (Inl err)
    with None re show ?thesis by (simp add: reserve_def Let_def same_defs)
  next
    case (Inr x)
    obtain dec u s d1 where x: "x = ((dec, u, s), d1)" by (cases x) auto
    with Inr have "same_core d d1 \<and> out_inv d1 = out_inv d" using gate_core by blast
    moreover have "same_core d1 d' \<and> out_inv d' = out_inv d1"
      using re None Inr x
      by (auto simp: reserve_def Let_def same_defs split: if_splits option.splits)
    ultimately show ?thesis by (simp add: same_defs)
  qed
qed

lemma write_threshold_core:
  "same_core d (write_threshold e c m p u l x d) \<and> (out_inv d \<longrightarrow> out_inv (write_threshold e c m p u l x d))"
  by (auto simp: write_threshold_def same_defs intro: out_inv_write_outbox split: prod.split)

lemma write_thresholds_core:
  "same_core d (fold (write_threshold e c m p u l) xs d)
     \<and> (out_inv d \<longrightarrow> out_inv (fold (write_threshold e c m p u l) xs d))"
proof (induction xs arbitrary: d)
  case (Cons x xs)
  then show ?case
    using write_threshold_core [of d e c m p u l x] Cons [of "write_threshold e c m p u l x d"]
    by (simp add: same_core_def)
qed (simp add: same_defs)

lemma post_charge_core: "same_core d (post_charge e c ev x d) \<and> out_inv (post_charge e c ev x d) = out_inv d"
  by (auto simp: post_charge_def set_reservation_def same_defs Let_def split: prod.split option.split)

lemma apply_charge_core:
  assumes ch: "apply_charge e inp x d = (res, d')"
  shows "same_core d d' \<and> (out_inv d \<longrightarrow> out_inv d')"
proof -
  obtain m a p rid where x: "x = (m, a, p, rid)" by (cases x)
  let ?w = "\<lambda>u l ys ev. fold (write_threshold e (ci_customer inp) m p u l) ys
      (post_charge e (ci_customer inp) ev x d)"
  have w: "same_core d (?w u l ys ev) \<and> (out_inv d \<longrightarrow> out_inv (?w u l ys ev))" for u l ys ev
    using write_thresholds_core post_charge_core by (simp add: same_core_def)
  from ch have "d' = d \<or> (\<exists>u l ys ev. d' = ?w u l ys ev)"
    by (auto simp: apply_charge_def x Let_def split: option.splits)
  then show ?thesis using w by (auto simp: same_defs)
qed

lemma resolve_core:
  "resolve_reservation e inp i d = (res, d') \<Longrightarrow> same_core d d' \<and> (out_inv d \<longrightarrow> out_inv d')"
  by (auto simp: resolve_reservation_def free_hold_def set_reservation_def same_defs
      split: option.splits if_splits)

lemma resolve_direct_core:
  assumes "resolve_direct e inp m a d = (res, d')"
  shows "same_core d d' \<and> (out_inv d \<longrightarrow> out_inv d')"
proof (cases "gate e (ci_customer inp) m (ci_period inp) a (ci_limit inp) (ci_corr inp) d")
  case (Inl err)
  with assms show ?thesis by (simp add: resolve_direct_def Let_def same_defs)
next
  case (Inr x)
  obtain dec u s d1 where x: "x = ((dec, u, s), d1)" by (cases x) auto
  with Inr have "same_core d d1 \<and> out_inv d1 = out_inv d" using gate_core by blast
  with assms Inr x show ?thesis
    by (auto simp: resolve_direct_def Let_def same_defs intro: out_inv_write_outbox split: if_splits)
qed

lemma commit_core:
  assumes co: "commit e inp d = (res, d')"
  shows "same_core d d' \<and> (out_inv d \<longrightarrow> out_inv d')"
proof (cases "event_of (ci_customer inp) (ci_idem inp) d")
  case (Some ev)
  with co show ?thesis by (simp add: commit_def same_defs)
next
  case None
  obtain res1 d1 where r: "(case ci_mode inp of ByReservation i \<Rightarrow> resolve_reservation e inp i d
      | Direct m amount \<Rightarrow> resolve_direct e inp m amount d) = (res1, d1)" by (meson surj_pair)
  have 1: "same_core d d1 \<and> (out_inv d \<longrightarrow> out_inv d1)"
    using r resolve_core resolve_direct_core by (cases "ci_mode inp") auto
  show ?thesis
  proof (cases res1)
    case (Inl y)
    with co None r 1 show ?thesis by (simp add: commit_def)
  next
    case (Inr x)
    obtain res2 d2 where ch: "apply_charge e inp x d1 = (res2, d2)" by (meson surj_pair)
    from apply_charge_core [OF ch] 1 have "same_core d d2 \<and> (out_inv d \<longrightarrow> out_inv d2)"
      by (simp add: same_core_def)
    moreover have "d' = d \<or> d' = d2"
      using co None r Inr ch by (auto simp: commit_def split: sum.splits)
    ultimately show ?thesis by (auto simp: same_defs)
  qed
qed

lemma release_core: "release e c i d = (res, d') \<Longrightarrow> same_core d d' \<and> out_inv d' = out_inv d"
  by (auto simp: release_def free_hold_def set_reservation_def same_defs split: option.splits if_splits)

lemma sweep_core:
  assumes "sweep_expired_reservations e b d = (n, d')"
  shows "same_core d d' \<and> out_inv d' = out_inv d"
proof -
  have "same_core d0 (fold (free_row e) rs d0) \<and> out_inv (fold (free_row e) rs d0) = out_inv d0" for rs d0
    by (induction rs arbitrary: d0) (auto simp: free_row_def free_hold_def same_defs)
  moreover have "d' = fold (free_row e) (filter (\<lambda>r. re_id r \<in> set (sweep_ids e b d)) (reservations d))
      (set_reservation (\<lambda>r. re_id r \<in> set (sweep_ids e b d)) ''expired'' d)"
    using assms by (simp add: sweep_expired_reservations_def Let_def)
  ultimately show ?thesis by (simp add: set_reservation_def same_core_def)
qed

section \<open>Steps\<close>

text \<open>One operation of the licensing or the privacy repository, by anyone, with fresh uuids.\<close>

inductive account_step :: "db \<Rightarrow> db \<Rightarrow> bool" where
  register: "fresh e d \<Longrightarrow> register_installation e c inp d = (res, d') \<Longrightarrow> account_step d d'"
| activate: "activate_installation e c i w corr d = (res, d') \<Longrightarrow> account_step d d'"
| heartbeat: "heartbeat_installation e c i v d = (res, d') \<Longrightarrow> account_step d d'"
| deactivate: "deactivate_installation e c i corr d = (res, d') \<Longrightarrow> account_step d d'"
| sync: "fresh e d \<Longrightarrow> n < 8 \<Longrightarrow> sync_license_for_subscription e n c sub ver st d = Inr (out, d') \<Longrightarrow>
    account_step d d'"
| request: "fresh e d \<Longrightarrow> request_deletion e c reason corr d = (res, d') \<Longrightarrow> account_step d d'"
| cancel: "cancel_request c corr d = (Inr r, d') \<Longrightarrow> account_step d d'"
| advance: "advance_request e op i co reason corr d = (Inr r, d') \<Longrightarrow> account_step d d'"
| reject: "reject_request op i reason corr d = (Inr r, d') \<Longrightarrow> account_step d d'"
| execute: "execute_deletion e op i reason corr d = (Inr r, d') \<Longrightarrow> account_step d d'"

text \<open>
  One operation of the usage repository on whole amounts, where \<open>limits\<close> gives the limit the caller
  passes for a customer, meter and period.
\<close>

inductive ledger_step :: "(total_key \<Rightarrow> f64 option) \<Rightarrow> db \<Rightarrow> db \<Rightarrow> bool" for limits where
  reserve: "numeric_column (e_col e) (e_sum e) \<Longrightarrow> fresh e d \<Longrightarrow> ri_amount inp = wh n \<Longrightarrow> 0 \<le> n \<Longrightarrow>
    k = (ri_customer inp, ri_meter inp, ri_period inp) \<Longrightarrow> ri_limit inp = limits k \<Longrightarrow>
    decidable_limit n k (limits k) d \<Longrightarrow> reserve e inp d = (out, d') \<Longrightarrow> ledger_step limits d d'"
| commit: "numeric_column (e_col e) (e_sum e) \<Longrightarrow> commit_decidable inp d \<Longrightarrow>
    (\<And>k. direct_key inp = Some k \<Longrightarrow> ci_limit inp = limits k) \<Longrightarrow> commit e inp d = (res, d') \<Longrightarrow>
    ledger_step limits d d'"
| release: "numeric_column (e_col e) (e_sum e) \<Longrightarrow> release e c i d = (rel, d') \<Longrightarrow> ledger_step limits d d'"
| sweep: "numeric_column (e_col e) (e_sum e) \<Longrightarrow> sweep_expired_reservations e b d = (m, d') \<Longrightarrow>
    ledger_step limits d d'"

inductive_cases account_stepE: "account_step d d'"
inductive_cases ledger_stepE: "ledger_step limits d d'"

definition sys_step :: "(total_key \<Rightarrow> f64 option) \<Rightarrow> db \<Rightarrow> db \<Rightarrow> bool" where
  "sys_step limits d d' \<longleftrightarrow> account_step d d' \<or> ledger_step limits d d'"

definition sys_inv :: "db \<Rightarrow> bool" where
  "sys_inv d \<longleftrightarrow> lic_inv d \<and> request_wf d \<and> out_inv d \<and> usage_inv d"

lemma request_wf_same: "same_requests d d' \<Longrightarrow> request_wf d' = request_wf d"
  by (simp add: request_wf_def same_requests_def)

lemma usage_inv_same: "same_ledger d d' \<Longrightarrow> usage_inv d' = usage_inv d \<and> load k d' = load k d"
  using usage_inv_cong [of d' d] by (simp add: same_ledger_def)

lemma account_step_ledger: "account_step d d' \<Longrightarrow> same_ledger d d'"
  by (erule account_stepE)
    (auto dest: register_same(1) activate_same(1) heartbeat_same deactivate_same sync_same request_same
      request_ops_same execute_same)

lemma account_step_lic: "account_step d d' \<Longrightarrow> lic_inv d \<Longrightarrow> lic_inv d'"
  by (erule account_stepE)
    (auto dest: register_inv activate_inv heartbeat_inv deactivate_inv sync_inv request_same
      request_ops_same execute_lic_inv lic_inv_cong)

lemma account_step_requests: "account_step d d' \<Longrightarrow> request_wf d \<Longrightarrow> request_wf d'"
proof (erule account_stepE)
  fix e c reason corr res
  assume h: "fresh e d" "request_deletion e c reason corr d = (res, d')" "request_wf d"
  then show "request_wf d'" using request_deletion_wf [of d e c reason corr "fst res" "snd res" d'] by simp
qed (auto dest: register_same(2) activate_same(2) heartbeat_same deactivate_same sync_same
      request_wf_same cancel_moves advance_moves reject_moves execute_moves intro: moved_wf)

lemma account_step_out: "account_step d d' \<Longrightarrow> out_inv d \<Longrightarrow> out_inv d'"
  by (erule account_stepE)
    (auto dest: register_out activate_out heartbeat_out deactivate_out sync_out request_out cancel_out
      advance_out reject_out execute_out)

lemma ledger_step_core: "ledger_step limits d d' \<Longrightarrow> same_core d d' \<and> (out_inv d \<longrightarrow> out_inv d')"
  by (erule ledger_stepE) (auto dest: reserve_core commit_core release_core sweep_core)

lemma ledger_step_usage: "ledger_step limits d d' \<Longrightarrow> usage_inv d \<Longrightarrow> usage_inv d'"
  by (erule ledger_stepE) (auto dest: reserve_inv(1) commit_inv(1) release_inv(1) sweep_inv(1))

lemma sys_step_inv: "sys_step limits d d' \<Longrightarrow> sys_inv d \<Longrightarrow> sys_inv d'"
  unfolding sys_step_def
proof (erule disjE)
  assume st: "account_step d d'" and inv: "sys_inv d"
  have "usage_inv d'" using usage_inv_same [OF account_step_ledger [OF st]] inv by (simp add: sys_inv_def)
  then show "sys_inv d'"
    using account_step_lic [OF st] account_step_requests [OF st] account_step_out [OF st] inv
    by (simp add: sys_inv_def)
next
  assume h: "ledger_step limits d d'" "sys_inv d"
  have "lic_inv d'" "request_wf d'"
    using ledger_step_core [OF h(1)] h(2) lic_inv_cong [of d' d]
    by (simp_all add: sys_inv_def same_core_def request_wf_def)
  then show "sys_inv d'" using h ledger_step_core ledger_step_usage by (simp add: sys_inv_def)
qed

text \<open>The databases reachable from one that satisfies the invariant.\<close>

definition reachable :: "(total_key \<Rightarrow> f64 option) \<Rightarrow> db \<Rightarrow> db \<Rightarrow> bool" where
  "reachable limits = (sys_step limits)\<^sup>*\<^sup>*"

interpretation sys_runs: preserved "sys_step limits" sys_inv for limits
  by unfold_locales (rule sys_step_inv)

lemma reachable_inv: "reachable limits d d' \<Longrightarrow> sys_inv d \<Longrightarrow> sys_inv d'"
  unfolding reachable_def by (rule sys_runs.run_keeps)

section \<open>Quotas along a run\<close>

lemma sys_step_load:
  assumes st: "sys_step limits d d'" and inv: "usage_inv d" and limits: "limits k = Some x" and le: "load k d \<le> amt x"
  shows "load k d' \<le> amt x"
  using st unfolding sys_step_def
proof
  assume "account_step d d'"
  then show ?thesis using account_step_ledger usage_inv_same [of d d' k] le by simp
next
  assume "ledger_step limits d d'"
  then show ?thesis
  proof (cases rule: ledger_step.cases)
    case (reserve e inp n j out)
    show ?thesis
    proof (cases "k = j")
      case True
      then show ?thesis
        using reserve_inv(2) [OF reserve(1) inv reserve(2-4) _ reserve(8), of x k] reserve(5-7) limits le by simp
    next
      case False
      then have "load k d' \<le> load k d"
        using reserve_inv(3) [OF reserve(1) inv reserve(2-4) _ reserve(8), of k] reserve(5-7) by simp
      with le show ?thesis by simp
    qed
  next
    case (commit e inp res)
    show ?thesis
    proof (cases "direct_key inp = Some k")
      case True
      then show ?thesis using commit_inv(3) [OF commit(1) inv commit(2,4) True, of x] commit(3) limits le by simp
    next
      case False
      then show ?thesis using commit_inv(2) [OF commit(1) inv commit(2,4) False] le by simp
    qed
  next
    case (release e c i rel)
    then show ?thesis using release_inv(2) [OF release(1) inv release(2), of k] le by simp
  next
    case (sweep e b m)
    then show ?thesis using sweep_inv(2) [OF sweep(1) inv sweep(2), of k] le by simp
  qed
qed

interpretation quota_runs: preserved_beside "sys_step limits" sys_inv "\<lambda>d. \<forall>x. limits k = Some x \<longrightarrow> load k d \<le> amt x"
  for limits k
  by unfold_locales (auto simp: sys_inv_def intro: sys_step_load)

lemma reachable_load:
  assumes "reachable limits d d'" "sys_inv d" "limits k = Some x" "load k d \<le> amt x"
  shows "load k d' \<le> amt x"
  using quota_runs.both.run_keeps [of limits d d' k] assms by (simp add: reachable_def)

end
