(* ===== verification/Demo.thy ===== *)
theory Demo
  imports System
begin

text \<open>
  One small account: a product with two plans and a commercial policy, a customer with a manual
  licence for one device, two installations, a meter, and an operator. The properties are
  applied to it.
\<close>

definition demo_env :: "string \<Rightarrow> time \<Rightarrow> env" where
  "demo_env tag t = \<lparr>e_now = t, e_utc = (\<lambda>_. t), e_id = (\<lambda>k. tag @ show_nat k), e_time = show_int,
     e_col = pg_col, e_sum = pg_sum, e_int8 = parse_i64, e_month = (\<lambda>_. ''2026-06''),
     e_day = (\<lambda>_. ''2026-06-15'')\<rparr>"

definition demo_license :: license_row where
  "demo_license = \<lparr>li_id = ''lic'', li_customer = ''ada'', li_product = ''prod'',
     li_subscription = None, li_status = ''active'', li_device_limit = 1, li_issued = 10,
     li_expires = None\<rparr>"

definition demo_installation :: "string \<Rightarrow> installation_row" where
  "demo_installation i = \<lparr>in_id = i, in_customer = ''ada'', in_device = None, in_fleet = None,
     in_key = i, in_product = ''prod'', in_app_version = None, in_build = None, in_platform = None,
     in_arch = None, in_format = None, in_updater = None, in_status = ''active'',
     in_heartbeat = None, in_created = 20\<rparr>"

definition demo_limits :: "int \<Rightarrow> int \<Rightarrow> json" where
  "demo_limits tokens seats = JObj [(''cloud_tokens_per_month'', JInt tokens),
     (''deep_analysis_runs_per_month'', JInt 0), (''premium_model_requests_per_month'', JInt 0),
     (''device_limit'', JInt seats)]"

definition demo_policy :: json where
  "demo_policy = JObj [(''included'', demo_limits 0 1), (''pro'', demo_limits 1000 3)]"

definition demo_db :: db where
  "demo_db = empty_db\<lparr>
     customers := [\<lparr>cu_id = ''ada'', cu_auth_user = ''auth-ada'', cu_type = ''individual'',
       cu_display_name = Some ''Ada'', cu_status = ''active'', cu_country = Some ''GB'',
       cu_timezone = None, cu_mfa_required = False, cu_mfa_grace = None, cu_created = 0\<rparr>],
     emails := [\<lparr>em_customer = ''ada'', em_email = ''ada@example.org'', em_primary = True,
       em_verified = None\<rparr>],
     products := [\<lparr>pr_id = ''prod'', pr_key = ''authorforge'', pr_name = ''AuthorForge'',
       pr_status = ''active''\<rparr>],
     plans := [\<lparr>pl_id = ''plan'', pl_product = ''prod'', pl_key = ''authorforge_pro'',
       pl_status = ''active''\<rparr>],
     plan_versions := [\<lparr>pv_id = ''plan-v1'', pv_plan = ''plan'', pv_version = 1,
       pv_status = ''active'', pv_stripe_price = Some ''price_1''\<rparr>],
     policies := [\<lparr>cp_product = ''prod'', cp_version = 1, cp_effective = 0,
       cp_policy = demo_policy, cp_reason = ''launch'', cp_by = ''op'', cp_idem = ''seed'', cp_corr = None,
       cp_created = 0\<rparr>],
     licenses := [demo_license],
     installations := [demo_installation ''laptop'', demo_installation ''desktop''],
     meters := [\<lparr>me_key = ''cloud_tokens'', me_unit = ''tokens'', me_cadence = ''monthly''\<rparr>]\<rparr>"

definition demo_act :: "(activation_error + activation_outcome) \<times> db" where
  "demo_act = activate_installation (demo_env ''a'' 100) ''ada'' ''laptop'' None None demo_db"

definition demo_outcome :: activation_outcome where
  "demo_outcome = \<lparr>o_activation = ''a0'', o_license = ''lic'', o_installation = ''laptop'',
     o_activated_at = 100, o_device_limit = 1, o_active_devices = 1, o_already_active = False\<rparr>"

text \<open>A concrete run from the part of its result that is evaluated.\<close>

lemma run_eq: "r = x \<Longrightarrow> fst x = a \<Longrightarrow> x = (a, snd r)"
  by (simp add: prod_eq_iff)

lemma demo_act_eq:
  "activate_installation (demo_env ''a'' 100) ''ada'' ''laptop'' None None demo_db
     = (Inr demo_outcome, snd demo_act)"
  by (rule run_eq [OF demo_act_def]) code_simp

lemma demo_inv: "sys_inv demo_db"
  by code_simp

end
