(* ===== verification/Account_Properties.thy ===== *)
theory Account_Properties
  imports Demo
begin

text \<open>
  The properties of the licensing and privacy repositories, each applied to the account of
  \<^verbatim>\<open>Demo\<close>.
\<close>

section \<open>Activation\<close>



text \<open>An activation that answers with any error leaves the database as it was: no slot, audit row or
  outbox row remains of it. The second device of a licence for one device is such a refusal.\<close>

theorem activation_error_rolls_back:
  "fst (activate_installation e c i w corr d) = Inl err \<Longrightarrow> snd (activate_installation e c i w corr d) = d"
  by (rule activate_cases [of e c i w corr d "Inl err" "snd (activate_installation e c i w corr d)"])
    (auto simp: prod_eq_iff)

theorem activation_error_rolls_back_witness:
  "fst (activate_installation (demo_env ''b'' 200) ''ada'' ''desktop'' None None (snd demo_act))
     = Inl (DeviceLimitReached 1 1)
   \<and> snd (activate_installation (demo_env ''b'' 200) ''ada'' ''desktop'' None None (snd demo_act)) = snd demo_act"
proof -
  have "fst (activate_installation (demo_env ''b'' 200) ''ada'' ''desktop'' None None (snd demo_act))
     = Inl (DeviceLimitReached 1 1)" by code_simp
  with activation_error_rolls_back [OF this] show ?thesis by simp
qed

text \<open>Activation is idempotent: the same call on the database a successful call left answers
  with the same activation, marked as already active, and changes nothing.\<close>

theorem activation_idempotent:
  "activate_installation e c i w corr d = (Inr out, d') \<Longrightarrow>
     activate_installation e c i w corr' d' = (Inr (out\<lparr>o_already_active := True\<rparr>), d')"
  by (rule activate_retry)

theorem activation_idempotent_witness:
  "snd (activate_installation (demo_env ''a'' 100) ''ada'' ''laptop'' None (Some ''retry'') (snd demo_act))
     = snd demo_act"
proof -
  from activation_idempotent [OF demo_act_eq] show ?thesis by simp
qed

text \<open>C22: An explicit denial is final for activation: a new activation is only granted on an
  active, unexpired licence of the same customer, on an installation that is not deactivated,
  with no revocation of the licence, the installation or its device, and with its device not
  revoked.\<close>

theorem activation_respects_denials:
  assumes "activate_installation e c i w corr d = (Inr out, d')" and "\<not> o_already_active out"
  shows "\<exists>inst \<in> set (installations d). \<exists>l \<in> set (licenses d).
     in_id inst = i \<and> in_customer inst = c \<and> in_status inst \<noteq> ''deactivated''
     \<and> device_status (in_device inst) d \<noteq> Some ''revoked''
     \<and> li_id l = o_license out \<and> li_customer l = c \<and> li_status l = ''active''
     \<and> (\<forall>t. li_expires l = Some t \<longrightarrow> e_utc e 0 < t)
     \<and> (\<forall>r \<in> set (revocations d). \<not> revocation_blocks (li_id l) inst r)"
  using assms(1)
proof (cases rule: activate_cases)
  case (new inst l limit a o')
  have "li_status l = ''active''" "\<forall>t. li_expires l = Some t \<longrightarrow> e_utc e 0 < t"
    "\<forall>r \<in> set (revocations d). \<not> revocation_blocks (li_id l) inst r"
    using new(9) by (auto simp: license_guards_def list_ex_iff split: if_splits option.splits)
  then show ?thesis using new choose_license_owner [OF new(8)] by auto
qed (use assms(2) in simp_all)

theorem activation_respects_denials_witness:
  "\<exists>inst \<in> set (installations demo_db). \<exists>l \<in> set (licenses demo_db).
     in_id inst = ''laptop'' \<and> li_id l = ''lic'' \<and> li_status l = ''active''"
proof -
  from activation_respects_denials [OF demo_act_eq] show ?thesis by (auto simp: demo_outcome_def)
qed

section \<open>Deactivation and registration\<close>

text \<open>Deactivating an installation ends every activation it holds, reports how many, frees
  exactly those slots, and repeating it reports an already deactivated installation and changes
  nothing.\<close>

theorem deactivation_frees_slots:
  assumes "deactivate_installation e c i corr d = (Inr out, d')" and "lic_inv d"
  shows "(\<forall>a \<in> set (activations d'). \<not> held_by i a)
    \<and> length (filter is_active (activations d)) =
        length (filter is_active (activations d')) + do_released out
    \<and> deactivate_installation e' c i corr' d' =
        (Inr \<lparr>do_installation = i, do_status = ''deactivated'', do_released = 0, do_already = True\<rparr>, d')"
  using deactivate_frees [OF assms] deactivate_again [OF assms] by blast

definition demo_off :: "(activation_error + deactivation_outcome) \<times> db" where
  "demo_off = deactivate_installation (demo_env ''c'' 300) ''ada'' ''laptop'' None (snd demo_act)"

theorem deactivation_frees_slots_witness:
  "length (filter is_active (activations (snd demo_act))) = 1
   \<and> filter is_active (activations (snd demo_off)) = []"
proof -
  let ?out = "\<lparr>do_installation = ''laptop'', do_status = ''deactivated'', do_released = 1, do_already = False\<rparr>"
  have inv: "lic_inv (snd demo_act)" by code_simp
  have n: "length (filter is_active (activations (snd demo_act))) = 1" by code_simp
  have "deactivate_installation (demo_env ''c'' 300) ''ada'' ''laptop'' None (snd demo_act) = (Inr ?out, snd demo_off)"
    by (rule run_eq [OF demo_off_def]) code_simp
  from deactivation_frees_slots [OF this inv] n show ?thesis by simp
qed

text \<open>Registration is idempotent by install key: registering the key again, with whatever
  other values, creates no second installation and no second outbox event, and answers with the
  same installation, active.\<close>

theorem registration_idempotent:
  assumes "register_installation e c inp d = (Inr r, d1)" and "lic_inv d"
    and "register_installation e2 c inp2 d1 = (Inr r2, d2)"
    and "vr_install_key inp2 = vr_install_key inp"
  shows "\<not> rg_created r2 \<and> in_id (fst (rg_installation r2)) = in_id (fst (rg_installation r))
    \<and> in_status (fst (rg_installation r2)) = ''active''
    \<and> length (installations d2) = length (installations d1) \<and> outbox d2 = outbox d1"
  using register_again [OF assms] by blast

definition demo_registration :: "string option \<Rightarrow> validated_registration" where
  "demo_registration v = \<lparr>vr_install_key = ''key-1'', vr_product_key = ''authorforge'',
     vr_app_version = v, vr_build_id = None, vr_platform = Some ''linux'', vr_architecture = None,
     vr_package_format = None, vr_updater_version = None,
     vr_device = Some \<lparr>vd_public_key = ''pk'', vd_public_key_fpr = ''fpr'', vd_label = None\<rparr>\<rparr>"

definition demo_reg1 :: "(registration_error + registered_installation) \<times> db" where
  "demo_reg1 = register_installation (demo_env ''r'' 50) ''ada'' (demo_registration None) demo_db"

definition demo_reg2 :: "(registration_error + registered_installation) \<times> db" where
  "demo_reg2 = register_installation (demo_env ''s'' 60) ''ada'' (demo_registration (Some ''2.0'')) (snd demo_reg1)"

theorem registration_idempotent_witness:
  "length (installations (snd demo_reg1)) = 3 \<and> length (installations (snd demo_reg2)) = 3"
proof -
  have "isl (fst demo_reg1) = False" "isl (fst demo_reg2) = False" by code_simp+
  then obtain r r2 where "fst demo_reg1 = Inr r" "fst demo_reg2 = Inr r2"
    by (metis sum.collapse(2))
  then have 1: "register_installation (demo_env ''r'' 50) ''ada'' (demo_registration None) demo_db = (Inr r, snd demo_reg1)"
    and 2: "register_installation (demo_env ''s'' 60) ''ada'' (demo_registration (Some ''2.0'')) (snd demo_reg1) = (Inr r2, snd demo_reg2)"
    by (simp_all add: demo_reg1_def demo_reg2_def prod_eq_iff)
  have inv: "lic_inv demo_db" by code_simp
  have n: "length (installations (snd demo_reg1)) = 3" by code_simp
  have "vr_install_key (demo_registration (Some ''2.0'')) = vr_install_key (demo_registration None)"
    by (simp add: demo_registration_def)
  from registration_idempotent [OF 1 inv 2 this] n show ?thesis by simp
qed

section \<open>The licence of a subscription\<close>

text \<open>C21: The licence sync refines the pure transition rules: whatever the tables hold, on a known
  plan version a successful sync moves the licence of the subscription exactly as
  \<^verbatim>\<open>license_sync_action\<close> says, issues one where there is none and cloud is granted, never
  touches a revoked one, and leaves every other licence alone.\<close>

theorem sync_refines_rules:
  assumes "sync_license_for_subscription e n c sub ver status d = Inr (out, d')"
    and "plan_context ver d \<noteq> None" and "lic_inv d"
  shows "license_view c sub d' = sync_status status (license_view c sub d)
    \<and> filter (\<lambda>l. \<not> synced_license c sub l) (licenses d') = filter (\<lambda>l. \<not> synced_license c sub l) (licenses d)"
  using sync_refines [OF assms(1,2)] sync_frame [OF assms(1,3)] by simp

definition demo_sync :: "string \<Rightarrow> subscription_status \<Rightarrow> db \<Rightarrow> db_error + sync_outcome option \<times> db" where
  "demo_sync tag st d = sync_license_for_subscription (demo_env tag 70) 0 ''ada'' ''sub'' ''plan-v1'' st d"

theorem sync_refines_rules_witness:
  "\<exists>out d'. demo_sync ''l'' Trialing demo_db = Inr (out, d') \<and> license_view ''ada'' ''sub'' d' = Some LicActive"
proof -
  have "\<not> isl (demo_sync ''l'' Trialing demo_db)" by code_simp
  then obtain out d' where r: "demo_sync ''l'' Trialing demo_db = Inr (out, d')"
    by (metis prod.collapse sum.collapse(2))
  have "plan_context ''plan-v1'' demo_db \<noteq> None" "lic_inv demo_db"
    "license_view ''ada'' ''sub'' demo_db = None" by code_simp+
  with sync_refines_rules [OF r [unfolded demo_sync_def]] r show ?thesis
    by (simp add: sync_status_def grants_cloud_def)
qed

text \<open>A run of syncs of one subscription.\<close>

fun sync_run :: "(env \<times> nat \<times> uuid \<times> subscription_status) list \<Rightarrow> uuid \<Rightarrow> uuid \<Rightarrow> db \<Rightarrow> db_error + db" where
  "sync_run [] c sub d = Inr d"
| "sync_run ((e, n, ver, st) # xs) c sub d =
     bind_r (sync_license_for_subscription e n c sub ver st d) (\<lambda>(_, d'). sync_run xs c sub d')"

lemma sync_run_view:
  "sync_run xs c sub d = Inr d' \<Longrightarrow> list_all (\<lambda>(e, n, ver, st). plan_context ver d \<noteq> None) xs \<Longrightarrow>
     license_view c sub d' = fold sync_status (map (\<lambda>(e, n, ver, st). st) xs) (license_view c sub d)"
proof (induction xs arbitrary: d)
  case (Cons x xs)
  obtain e n ver st where x: "x = (e, n, ver, st)" by (cases x)
  from Cons.prems x obtain out d1 where 1: "sync_license_for_subscription e n c sub ver st d = Inr (out, d1)"
    "sync_run xs c sub d1 = Inr d'" by auto
  have "license_view c sub d1 = sync_status st (license_view c sub d)"
    using sync_refines [OF 1(1)] Cons.prems(2) by (simp add: x)
  moreover have "list_all (\<lambda>(e, n, ver, st). plan_context ver d1 \<noteq> None) xs"
    using Cons.prems(2) sync_plan_context [OF 1(1)] by (simp add: x)
  ultimately show ?case using Cons.IH [OF 1(2)] by (simp add: x)
qed simp

text \<open>C10: Over a whole history of subscription statuses, starting without a licence, the licence
  is active exactly when some status granted cloud and every status since was granting or
  \<^verbatim>\<open>past_due\<close>: nothing else keeps or brings back access.\<close>

theorem license_active_iff_history:
  assumes "sync_run xs c sub d = Inr d'" and "list_all (\<lambda>(e, n, ver, st). plan_context ver d \<noteq> None) xs"
    and "license_view c sub d = None"
  shows "license_view c sub d' = Some LicActive \<longleftrightarrow>
    (\<exists>pre s post. map (\<lambda>(e, n, ver, st). st) xs = pre @ s # post \<and> grants_cloud s
       \<and> set post \<subseteq> {PastDue, Trialing, SubActive})"
  unfolding sync_run_view [OF assms(1,2)] assms(3) by (rule active_after_run)

theorem license_active_iff_history_witness:
  "\<exists>d'. sync_run [(demo_env ''l'' 70, 0, ''plan-v1'', SubActive), (demo_env ''m'' 80, 0, ''plan-v1'', PastDue)]
       ''ada'' ''sub'' demo_db = Inr d' \<and> license_view ''ada'' ''sub'' d' = Some LicActive"
proof -
  let ?xs = "[(demo_env ''l'' 70, 0, ''plan-v1'', SubActive), (demo_env ''m'' 80, 0, ''plan-v1'', PastDue)]"
  have "\<not> isl (sync_run ?xs ''ada'' ''sub'' demo_db)" by code_simp
  then obtain d' where r: "sync_run ?xs ''ada'' ''sub'' demo_db = Inr d'" by (metis sum.collapse(2))
  have "plan_context ''plan-v1'' demo_db \<noteq> None" and v: "license_view ''ada'' ''sub'' demo_db = None"
    by code_simp+
  then have "list_all (\<lambda>(e, n, ver, st). plan_context ver demo_db \<noteq> None) ?xs" by simp
  from license_active_iff_history [OF r this v] have "license_view ''ada'' ''sub'' d' = Some LicActive"
    by (simp add: grants_cloud_def exI [of _ "[]"] exI [of _ SubActive])
  with r show ?thesis by blast
qed

section \<open>Account deletion\<close>

text \<open>How one step of the system moves the requests.\<close>

definition requests_follow :: "(string \<Rightarrow> string \<Rightarrow> bool) \<Rightarrow> db \<Rightarrow> db \<Rightarrow> bool" where
  "requests_follow R d d' \<longleftrightarrow> (\<forall>r \<in> set (deletions d). \<exists>r' \<in> set (deletions d').
     dr_id r' = dr_id r \<and> dr_customer r' = dr_customer r \<and> R (dr_status r) (dr_status r'))"

lemma moved_follow:
  assumes "request_wf d" and m: "moved i r f d d'"
  shows "requests_follow deletion_step\<^sup>=\<^sup>= d d'"
  unfolding requests_follow_def
proof
  fix x assume x: "x \<in> set (deletions d)"
  have same: "x = r" if "dr_id x = i"
    using distinct_key_eq [of dr_id "deletions d" x r] assms x that by (simp add: request_wf_def moved_def)
  let ?y = "if dr_id x = i then f x else x"
  have "?y \<in> set (deletions d')" using m x by (auto simp: moved_def set_upd)
  moreover have "dr_id ?y = dr_id x" "dr_customer ?y = dr_customer x"
    "deletion_step\<^sup>=\<^sup>= (dr_status x) (dr_status ?y)"
    using m same by (auto simp: moved_def)
  ultimately show "\<exists>r' \<in> set (deletions d'). dr_id r' = dr_id x \<and> dr_customer r' = dr_customer x
      \<and> deletion_step\<^sup>=\<^sup>= (dr_status x) (dr_status r')" by blast
qed

lemma follow_trans:
  assumes "requests_follow R\<^sup>*\<^sup>* d1 d2" and "requests_follow R\<^sup>=\<^sup>= d2 d3"
  shows "requests_follow R\<^sup>*\<^sup>* d1 d3"
  unfolding requests_follow_def
proof
  fix r assume "r \<in> set (deletions d1)"
  with assms(1) obtain s where s: "s \<in> set (deletions d2)" "dr_id s = dr_id r"
    "dr_customer s = dr_customer r" "R\<^sup>*\<^sup>* (dr_status r) (dr_status s)"
    unfolding requests_follow_def by blast
  with assms(2) obtain t where "t \<in> set (deletions d3)" "dr_id t = dr_id s"
    "dr_customer t = dr_customer s" "R\<^sup>=\<^sup>= (dr_status s) (dr_status t)"
    unfolding requests_follow_def by blast
  with s have "dr_id t = dr_id r \<and> dr_customer t = dr_customer r \<and> R\<^sup>*\<^sup>* (dr_status r) (dr_status t)"
    by auto
  then show "\<exists>t \<in> set (deletions d3). dr_id t = dr_id r \<and> dr_customer t = dr_customer r
      \<and> R\<^sup>*\<^sup>* (dr_status r) (dr_status t)" using \<open>t \<in> set (deletions d3)\<close> by blast
qed

lemma same_follow: "set (deletions d) \<subseteq> set (deletions d') \<Longrightarrow> requests_follow R\<^sup>=\<^sup>= d d'"
  by (auto simp: requests_follow_def)

lemma request_grows: "request_deletion e c reason corr d = (res, d') \<Longrightarrow> set (deletions d) \<subseteq> set (deletions d')"
  by (auto simp: request_deletion_def Let_def split: option.splits)

lemma same_requests_follow: "same_requests d d' \<Longrightarrow> requests_follow R\<^sup>=\<^sup>= d d'"
  by (rule same_follow) (simp add: same_requests_def)

lemma request_ops_follow:
  "cancel_request c corr d = (Inr r, d') \<Longrightarrow> request_wf d \<Longrightarrow> requests_follow deletion_step\<^sup>=\<^sup>= d d'"
  "advance_request e op i co reason corr d = (Inr r, d') \<Longrightarrow> request_wf d \<Longrightarrow>
     requests_follow deletion_step\<^sup>=\<^sup>= d d'"
  "reject_request op i reason corr d = (Inr r, d') \<Longrightarrow> request_wf d \<Longrightarrow>
     requests_follow deletion_step\<^sup>=\<^sup>= d d'"
  "execute_deletion e op i reason corr d = (Inr r, d') \<Longrightarrow> request_wf d \<Longrightarrow>
     requests_follow deletion_step\<^sup>=\<^sup>= d d'"
  by (drule cancel_moves advance_moves reject_moves execute_moves, elim exE conjE, erule (1) moved_follow)+

lemma licensing_follow:
  "register_installation e c inp d = (res1, d') \<Longrightarrow> requests_follow R\<^sup>=\<^sup>= d d'"
  "activate_installation e c i w corr d = (res2, d') \<Longrightarrow> requests_follow R\<^sup>=\<^sup>= d d'"
  "heartbeat_installation e c i v d = (res3, d') \<Longrightarrow> requests_follow R\<^sup>=\<^sup>= d d'"
  "deactivate_installation e c i corr d = (res4, d') \<Longrightarrow> requests_follow R\<^sup>=\<^sup>= d d'"
  "sync_license_for_subscription e n c sub ver st d = Inr (out, d') \<Longrightarrow> requests_follow R\<^sup>=\<^sup>= d d'"
  "request_deletion e c reason corr d = (res5, d') \<Longrightarrow> requests_follow R\<^sup>=\<^sup>= d d'"
  by (erule register_same(2) [THEN same_requests_follow] activate_same(2) [THEN same_requests_follow]
      heartbeat_same [THEN conjunct2, THEN same_requests_follow]
      deactivate_same [THEN conjunct2, THEN same_requests_follow]
      sync_same [THEN conjunct2, THEN same_requests_follow] request_grows [THEN same_follow])+

lemma account_step_follow: "account_step d d' \<Longrightarrow> request_wf d \<Longrightarrow> requests_follow deletion_step\<^sup>=\<^sup>= d d'"
  by (erule account_stepE) (erule licensing_follow | erule (1) request_ops_follow)+


definition demo_request :: db where
  "demo_request = snd (request_deletion (demo_env ''q'' 400) ''ada'' None None demo_db)"

definition demo_advance :: "time \<Rightarrow> db \<Rightarrow> (deletion_error + deletion_row) \<times> db" where
  "demo_advance t d = advance_request (demo_env ''w'' t) ''operator'' ''q0'' 1000 ''ok'' None d"

lemma demo_request_inv: "sys_inv demo_request"
  by code_simp


end
