(* ===== verification/Deletion_Properties.thy ===== *)
theory Deletion_Properties
  imports Account_Properties
begin

text \<open>
  The properties of account deletion beyond its state machine: the cooling-off window, the single
  open request, what an execution closes, and that nothing a customer or an operator does
  afterwards opens it again.
\<close>

section \<open>The steps other than a subscription sync\<close>

text \<open>
  Any operation of the licensing and privacy repositories by anyone, except the sync of a
  subscription, which issues a licence when Stripe reports a new subscription of the customer.
\<close>

inductive handler_step :: "db \<Rightarrow> db \<Rightarrow> bool" where
  register: "register_installation e c inp d = (res, d') \<Longrightarrow> handler_step d d'"
| activate: "activate_installation e c i w corr d = (res, d') \<Longrightarrow> handler_step d d'"
| heartbeat: "heartbeat_installation e c i v d = (res, d') \<Longrightarrow> handler_step d d'"
| deactivate: "deactivate_installation e c i corr d = (res, d') \<Longrightarrow> handler_step d d'"
| request: "request_deletion e c reason corr d = (res, d') \<Longrightarrow> handler_step d d'"
| cancel: "cancel_request c corr d = (Inr r, d') \<Longrightarrow> handler_step d d'"
| advance: "advance_request e op i co reason corr d = (Inr r, d') \<Longrightarrow> handler_step d d'"
| reject: "reject_request op i reason corr d = (Inr r, d') \<Longrightarrow> handler_step d d'"
| execute: "execute_deletion e op i reason corr d = (Inr r, d') \<Longrightarrow> handler_step d d'"

inductive_cases handler_stepE: "handler_step d d'"

definition all_revoked :: "uuid \<Rightarrow> db \<Rightarrow> bool" where
  "all_revoked c d \<longleftrightarrow> (\<forall>l \<in> set (licenses d). li_customer l = c \<longrightarrow> li_status l = ''revoked'')"

lemma revoked_keep: "licenses d' = licenses d \<Longrightarrow> all_revoked c d \<Longrightarrow> all_revoked c d'"
  by (simp add: all_revoked_def)

lemma handler_licenses:
  "activate_installation e c i w corr d = (res2, d') \<Longrightarrow> licenses d' = licenses d"
  "heartbeat_installation e c i v d = (res3, d') \<Longrightarrow> licenses d' = licenses d"
  "deactivate_installation e c i corr d = (res4, d') \<Longrightarrow> licenses d' = licenses d"
  by (erule activate_cases, simp_all add: heartbeat_installation_def Let_def)
    (auto elim: deactivate_cases)

lemmas handler_keeps =
  register_tables(2) [THEN revoked_keep]
  handler_licenses [THEN revoked_keep]
  request_same [THEN conjunct2, THEN conjunct2, THEN conjunct1, THEN revoked_keep]
  request_ops_same [THEN conjunct2, THEN conjunct2, THEN conjunct1, THEN revoked_keep]

lemma execute_revoked:
  assumes "execute_deletion e op i reason corr d = (Inr r', d')" and "all_revoked c d"
  shows "all_revoked c d'"
  using assms(1)
proof (cases rule: execute_cases)
  case (1 r profile receipt d1)
  note tb = freeze_customer_tables [OF 1(7)]
  show ?thesis using assms(2) by (auto simp: all_revoked_def 1(10-17) tb set_upd)
qed

lemma handler_step_revoked: "handler_step d d' \<Longrightarrow> all_revoked c d \<Longrightarrow> all_revoked c d'"
  by (erule handler_stepE) (erule (1) handler_keeps execute_revoked)+

interpretation revoked_runs: preserved handler_step "all_revoked c" for c
  by unfold_locales (rule handler_step_revoked)

lemmas handler_run_revoked = revoked_runs.run_keeps

lemma revoked_no_activation:
  assumes "all_revoked c d"
  shows "fst (activate_installation e c i w corr d) \<noteq> Inr out"
proof
  assume "fst (activate_installation e c i w corr d) = Inr out"
  then obtain inst l lim where ctx: "activation_context e c i w d = Inr (inst, l, lim)"
    by (auto simp: activate_by_context split: sum.splits)
  then have l: "choose_license e c inst w d = Inr l" "license_guards e inst l d = Inr ()"
    by (auto simp: activation_context_def split: option.splits if_splits)
  have "li_status l = ''revoked''"
    using choose_license_owner [OF l(1)] assms by (auto simp: all_revoked_def)
  with l(2) show False by (simp add: license_guards_def)
qed

lemma closed_revoked: "closed_account c d \<Longrightarrow> all_revoked c d"
  by (simp add: closed_account_def all_revoked_def)

section \<open>Execution\<close>


text \<open>The example account with an activated laptop and a request in processing.\<close>

definition demo_processing :: db where
  "demo_processing = demo_db\<lparr>
     activations := [\<lparr>ac_id = ''a0'', ac_license = ''lic'', ac_installation = ''laptop'',
       ac_device = None, ac_status = ''active'', ac_activated = 100, ac_deactivated = None\<rparr>],
     deletions := [\<lparr>dr_id = ''q0'', dr_customer = ''ada'', dr_status = ''processing'',
       dr_requested = 400, dr_cooling = Some 1600, dr_completed = None, dr_receipt = None,
       dr_reason = None\<rparr>]\<rparr>"

definition demo_executed :: "(deletion_error + deletion_row) \<times> db" where
  "demo_executed = execute_deletion (demo_env ''x'' 6000) ''operator'' ''q0'' ''verified'' None demo_processing"

lemma demo_executed_eq:
  "\<exists>r. execute_deletion (demo_env ''x'' 6000) ''operator'' ''q0'' ''verified'' None demo_processing
     = (Inr r, snd demo_executed) \<and> dr_customer r = ''ada''"
proof -
  have "\<exists>r. fst demo_executed = Inr r \<and> dr_customer r = ''ada''"
    by (simp add: demo_executed_def execute_deletion_def demo_processing_def lock_request_def
        can_execute_def demo_db_def empty_db_def Let_def case_prod_beta transact_def completed_row_def)
  then show ?thesis by (auto simp: demo_executed_def prod_eq_iff)
qed


text \<open>After an executed deletion the customer activates no licence on any installation ever again,
  whatever sequence of registrations, activations, heartbeats, deactivations and deletion requests
  by anyone comes in between. Only a sync of a subscription could issue a new licence.\<close>

theorem deleted_customer_never_activates:
  assumes "execute_deletion e op i reason corr d = (Inr r', d1)" and "handler_step\<^sup>*\<^sup>* d1 d2"
  shows "\<exists>err. activate_installation e2 (dr_customer r') j w corr2 d2 = (Inl err, d2)"
proof -
  have "all_revoked (dr_customer r') d2"
    using handler_run_revoked [OF assms(2) closed_revoked [OF execute_closes(1) [OF assms(1)]]] .
  note no = revoked_no_activation [OF this]
  show ?thesis
  proof (cases "activate_installation e2 (dr_customer r') j w corr2 d2")
    case (Pair res d3)
    with no have "\<And>out. res \<noteq> Inr out" by (metis fst_conv)
    with Pair show ?thesis
      using activate_cases [of e2 "dr_customer r'" j w corr2 d2 res d3] by (cases res) auto
  qed
qed

definition demo_back :: "(registration_error + registered_installation) \<times> db" where
  "demo_back = register_installation (demo_env ''y'' 7000) ''ada'' (demo_registration None) (snd demo_executed)"

theorem deleted_customer_never_activates_witness:
  "snd (activate_installation (demo_env ''z'' 7100) ''ada'' ''y2'' (Some ''lic'') None (snd demo_back)) = snd demo_back"
proof -
  have "handler_step (snd demo_executed) (snd demo_back)"
    by (rule handler_step.register [of "demo_env ''y'' 7000" "''ada''" "demo_registration None" _ "fst demo_back"])
      (simp add: demo_back_def)
  then have run: "handler_step\<^sup>*\<^sup>* (snd demo_executed) (snd demo_back)" by simp
  obtain r where r: "execute_deletion (demo_env ''x'' 6000) ''operator'' ''q0'' ''verified'' None demo_processing
     = (Inr r, snd demo_executed)" "dr_customer r = ''ada''" using demo_executed_eq by blast
  from deleted_customer_never_activates [OF r(1) run, of "demo_env ''z'' 7100" "''y2''" "Some ''lic''" None]
  have "snd (activate_installation (demo_env ''z'' 7100) ''ada'' ''y2'' (Some ''lic'') None (snd demo_back)) = snd demo_back"
    unfolding r(2) by (elim exE) simp
  then show ?thesis .
qed

section \<open>Requests\<close>

text \<open>C32: Processing only starts after the cooling-off window: an operator's advance into processing
  finds a stamped window that has elapsed, an advance into cooling-off stamps the configured one,
  and every advance is the next state of the workflow.\<close>

theorem processing_waits_for_cooling_off:
  assumes "advance_request e op i co reason corr d = (Inr r', d')" and "request_wf d"
  shows "\<exists>r \<in> set (deletions d). dr_id r = i \<and> next_state (dr_status r) = Some (dr_status r')
    \<and> (dr_status r' = ''processing'' \<longrightarrow> (\<exists>t. dr_cooling r = Some t \<and> t \<le> e_utc e 0))
    \<and> (dr_status r' = ''cooling_off'' \<longrightarrow> dr_cooling r' = Some (e_utc e 0 + co))"
proof -
  from assms(1) obtain r nxt t d1 where h: "lock_request i None d = Inr r"
    "next_state (dr_status r) = Some nxt" "cooling_for e co nxt r = Inr t"
    "set_request_status i nxt t d = Inr (r', d1)"
    by (auto simp: advance_request_def)
  note r = lock_requestD [OF h(1)]
  have "find (\<lambda>x. dr_id x = i) (deletions d) = Some r"
    using h(1) by (simp add: lock_request_def)
  then have "r' = with_status nxt t r" using h(4) by (auto simp: set_request_status_def)
  then show ?thesis
    using h(2,3) r by (intro bexI [of _ r]) (auto simp: with_status_def cooling_for_def split: if_splits)
qed

theorem processing_waits_for_cooling_off_witness:
  "\<exists>r \<in> set (deletions (snd (demo_advance 600 (snd (demo_advance 500 demo_request))))).
     dr_cooling r = Some 1600"
proof -
  let ?d = "snd (demo_advance 600 (snd (demo_advance 500 demo_request)))"
  have wf: "request_wf ?d" by code_simp
  have "case fst (demo_advance 5000 ?d) of Inr r \<Rightarrow> dr_status r = ''processing'' | Inl _ \<Rightarrow> False" by code_simp
  then obtain r' where "fst (demo_advance 5000 ?d) = Inr r'" "dr_status r' = ''processing''"
    by (auto split: sum.splits)
  then have "advance_request (demo_env ''w'' 5000) ''operator'' ''q0'' 1000 ''ok'' None ?d = (Inr r', snd (demo_advance 5000 ?d))"
    by (simp add: demo_advance_def prod_eq_iff)
  from processing_waits_for_cooling_off [OF this wf] \<open>dr_status r' = ''processing''\<close>
  obtain r where "r \<in> set (deletions ?d)" "\<exists>t. dr_cooling r = Some t \<and> t \<le> 5000"
    by (auto simp: demo_env_def)
  moreover have "map dr_cooling (deletions ?d) = [Some 1600]" by code_simp
  ultimately show ?thesis by auto
qed

end
