(* ===== verification/Usage_Properties.thy ===== *)
theory Usage_Properties
  imports Demo
begin

text \<open>
  The properties of the usage ledger along every run of the system: exact totals, quotas that are
  never exceeded, retries that charge once, thresholds that fire once, and a sweep that drains.
\<close>

section \<open>Totals and quotas along a run\<close>


definition demo_reserve :: "int \<Rightarrow> reserve_input" where
  "demo_reserve n = \<lparr>ri_customer = ''ada'', ri_meter = ''cloud_tokens'', ri_amount = wh n,
     ri_limit = Some (wh 100), ri_period = ''2026-06'', ri_ttl = 900, ri_idem = ''job-1'',
     ri_corr = None\<rparr>"

definition demo_hold :: "(usage_error + reserve_outcome) \<times> db" where
  "demo_hold = reserve (demo_env ''v'' 200) (demo_reserve 60) demo_db"

lemma demo_hold_step:
  "sys_step (\<lambda>_. Some (wh 100)) demo_db (snd demo_hold)"
proof -
  have "ledger_step (\<lambda>_. Some (wh 100)) demo_db (snd demo_hold)"
  proof (rule ledger_step.reserve [of "demo_env ''v'' 200" _ "demo_reserve 60" 60])
    show "numeric_column (e_col (demo_env ''v'' 200)) (e_sum (demo_env ''v'' 200))"
      using pg.numeric_column_axioms by (simp add: demo_env_def)
    show "fresh (demo_env ''v'' 200) demo_db" by code_simp
    show "reserve (demo_env ''v'' 200) (demo_reserve 60) demo_db = (fst demo_hold, snd demo_hold)"
      by (simp add: demo_hold_def)
  qed (simp_all add: demo_reserve_def decidable_limit_def)
  then show ?thesis by (simp add: sys_step_def)
qed

lemma demo_hold_reachable: "reachable (\<lambda>_. Some (wh 100)) demo_db (snd demo_hold)"
  using demo_hold_step by (auto simp: reachable_def)




section \<open>Retries\<close>

text \<open>Reserving is idempotent by customer and idempotency key: after a call that answered with a
  reservation, any sequence of calls with the same customer and key, whatever amount, meter or
  limit they carry, changes nothing, and each is answered with the reservation first made.\<close>

theorem reserve_once:
  assumes "reserve e inp d = (res, d')" and "reserve_record res = Some r"
  shows "fold (\<lambda>(e', inp') t. snd (reserve e' (inp'\<lparr>ri_customer := ri_customer inp, ri_idem := ri_idem inp\<rparr>) t)) as d' = d'
    \<and> reserve e2 (inp2\<lparr>ri_customer := ri_customer inp, ri_idem := ri_idem inp\<rparr>) d' = (Inr (ReserveReplayed r), d')"
proof -
  let ?k = "(ri_customer inp, ri_idem inp)"
  have 1: "reserve_at ?k (e, inp) d = (res, d')" using assms(1) by (simp add: reserve_at_def)
  show ?thesis
    using reserve_op.retries_idle [OF 1 assms(2), of as] reserve_op.retry [OF 1 assms(2), of "(e2, inp2)"]
    by (simp add: reserve_at_def case_prod_unfold)
qed

theorem reserve_once_witness:
  "snd (reserve (demo_env ''v'' 900) (demo_reserve 75) (snd demo_hold)) = snd demo_hold"
proof -
  have "\<not> isl (fst demo_hold) \<and> (case projr (fst demo_hold) of Reserved r \<Rightarrow> True | _ \<Rightarrow> False)" by code_simp
  then obtain r where "fst demo_hold = Inr (Reserved r)"
    by (cases "fst demo_hold") (auto split: reserve_outcome.splits)
  then have "reserve (demo_env ''v'' 200) (demo_reserve 60) demo_db = (Inr (Reserved r), snd demo_hold)"
    by (simp add: demo_hold_def prod_eq_iff)
  moreover have "(demo_reserve 75)\<lparr>ri_customer := ri_customer (demo_reserve 60), ri_idem := ri_idem (demo_reserve 60)\<rparr>
      = demo_reserve 75" by (simp add: demo_reserve_def)
  ultimately show ?thesis
    using reserve_once [of "demo_env ''v'' 200" "demo_reserve 60" demo_db "Inr (Reserved r)" "snd demo_hold" r
        "[]" "demo_env ''v'' 900" "demo_reserve 75"] by simp
qed

text \<open>A charge is made once: after a commit that answered with a ledger event, any sequence of
  commits with the same customer and idempotency key charges nothing, converts no reservation and
  queues no event, and each is answered with the event first recorded.\<close>

theorem commit_once:
  assumes "commit e inp d = (res, d')" and "commit_record res = Some ev"
  shows "fold (\<lambda>(e', inp') t. snd (commit e' (inp'\<lparr>ci_customer := ci_customer inp, ci_idem := ci_idem inp\<rparr>) t)) as d' = d'
    \<and> commit e2 (inp2\<lparr>ci_customer := ci_customer inp, ci_idem := ci_idem inp\<rparr>) d' = (Inr (CommitReplayed ev), d')"
proof -
  let ?k = "(ci_customer inp, ci_idem inp)"
  have 1: "commit_at ?k (e, inp) d = (res, d')" using assms(1) by (simp add: commit_at_def)
  show ?thesis
    using commit_op.retries_idle [OF 1 assms(2), of as] commit_op.retry [OF 1 assms(2), of "(e2, inp2)"]
    by (simp add: commit_at_def case_prod_unfold)
qed

definition demo_commit :: "int \<Rightarrow> commit_input" where
  "demo_commit n = \<lparr>ci_customer = ''ada'', ci_mode = Direct ''cloud_tokens'' (wh n),
     ci_limit = Some (wh 100), ci_period = ''2026-06'', ci_percents = [80, 100],
     ci_idem = ''call-1'', ci_corr = None\<rparr>"

definition demo_charge :: "(usage_error + commit_outcome) \<times> db" where
  "demo_charge = commit (demo_env ''u'' 300) (demo_commit 85) demo_db"

theorem commit_once_witness:
  "snd (commit (demo_env ''v'' 900) (demo_commit 10) (snd demo_charge)) = snd demo_charge"
proof -
  have "\<not> isl (fst demo_charge) \<and> (case projr (fst demo_charge) of Committed ev u ts \<Rightarrow> ts = [80] | _ \<Rightarrow> False)" by code_simp
  then obtain ev u ts where "fst demo_charge = Inr (Committed ev u ts)"
    by (cases "fst demo_charge") (auto split: commit_outcome.splits)
  then have "commit (demo_env ''u'' 300) (demo_commit 85) demo_db = (Inr (Committed ev u ts), snd demo_charge)"
    by (simp add: demo_charge_def prod_eq_iff)
  moreover have "(demo_commit 10)\<lparr>ci_customer := ci_customer (demo_commit 85), ci_idem := ci_idem (demo_commit 85)\<rparr>
      = demo_commit 10" by (simp add: demo_commit_def)
  ultimately show ?thesis
    using commit_once [of "demo_env ''u'' 300" "demo_commit 85" demo_db "Inr (Committed ev u ts)" "snd demo_charge" ev
        "[]" "demo_env ''v'' 900" "demo_commit 10"] by simp
qed

section \<open>Thresholds\<close>

text \<open>Over any sequence of totals that never decreases, each configured percentage is reported as
  crossed at most once, and it is reported in one of two consecutive steps exactly when it would
  be reported by the two taken as one, so neither splitting nor merging charges loses or repeats
  a threshold event.\<close>

theorem thresholds_fire_once:
  assumes "distinct ps" and "rising u vs" and "f64_le a b" and "f64_le b c"
  shows "distinct (crossings limit ps u vs)
    \<and> set (crossed_thresholds a c limit ps) = set (crossed_thresholds a b limit ps) \<union> set (crossed_thresholds b c limit ps)"
  using crossings_distinct [OF assms(1,2)] crossed_split [OF assms(3,4)] by blast

theorem thresholds_fire_once_witness:
  "distinct (crossings (Some (wh 100)) [80, 100] (wh 0) [wh 50, wh 85, wh 85, wh 100])
   \<and> crossings (Some (wh 100)) [80, 100] (wh 0) [wh 50, wh 85, wh 85, wh 100] = [80, 100]"
proof -
  have "rising (wh 0) [wh 50, wh 85, wh 85, wh 100]" "distinct [80, 100::int]"
    "f64_le (wh 0) (wh 50)" "f64_le (wh 50) (wh 85)"
    "crossings (Some (wh 100)) [80, 100] (wh 0) [wh 50, wh 85, wh 85, wh 100] = [80, 100]" by code_simp+
  with thresholds_fire_once [of "[80, 100]" "wh 0" "[wh 50, wh 85, wh 85, wh 100]" "wh 0" "wh 50" "wh 85" "Some (wh 100)"]
  show ?thesis by simp
qed

section \<open>The sweep drains\<close>

definition overdue_count :: "env \<Rightarrow> db \<Rightarrow> nat" where
  "overdue_count e d = length (filter (overdue e) (reservations d))"

lemma length_filter_in:
  assumes "distinct xs" and "set ys \<subseteq> set xs" and "distinct ys"
  shows "length (filter (\<lambda>x. x \<in> set ys) xs) = length ys"
proof -
  have "set (filter (\<lambda>x. x \<in> set ys) xs) = set ys" using assms(2) by auto
  then show ?thesis using assms(1,3) by (metis distinct_card distinct_filter)
qed

lemma length_filter_key:
  "length (filter (\<lambda>r. k r \<in> A) rs) = length (filter (\<lambda>x. x \<in> A) (map k rs))"
  by (induction rs) auto

lemma sweep_ids_facts:
  assumes ids: "distinct (map re_id (reservations d))"
  shows "distinct (sweep_ids e b d)" and "set (sweep_ids e b d) \<subseteq> set (map re_id (reservations d))"
    and "length (sweep_ids e b d) = min b (overdue_count e d)"
proof -
  let ?over = "filter (overdue e) (reservations d)"
  have "inj_on re_id (set ?over)"
    by (rule inj_on_subset [of re_id "set (reservations d)"]) (use ids in \<open>auto simp: distinct_map\<close>)
  moreover have "distinct ?over" using ids by (simp add: distinct_map)
  ultimately have "distinct (map re_id (order_by re_expires ?over))"
    by (simp add: distinct_map order_by_def)
  then show "distinct (sweep_ids e b d)" by (simp add: sweep_ids_def flip: take_map)
  show "set (sweep_ids e b d) \<subseteq> set (map re_id (reservations d))"
    unfolding sweep_ids_def by (auto dest!: in_set_takeD)
  show "length (sweep_ids e b d) = min b (overdue_count e d)"
    by (simp add: sweep_ids_def overdue_count_def order_by_def)
qed

lemma sweep_counts:
  assumes ids: "distinct (map re_id (reservations d))" and sw: "sweep_expired_reservations e b d = (n, d')"
  shows "n = min b (overdue_count e d) \<and> overdue_count e d' = overdue_count e d - n"
proof -
  let ?P = "\<lambda>r. re_id r \<in> set (sweep_ids e b d)"
  note f = sweep_ids_facts [OF ids, of e b]
  have over: "overdue e r" if h: "r \<in> set (reservations d)" "?P r" for r
  proof -
    obtain x where "x \<in> set (reservations d)" "re_id x = re_id r" "overdue e x"
      using in_sweep_ids [OF h(2)] by blast
    with distinct_key_eq [OF ids, of x r] h(1) show ?thesis by simp
  qed
  have n: "n = length (filter ?P (reservations d))"
    using sw by (simp add: sweep_expired_reservations_def Let_def)
  also have "\<dots> = length (filter (\<lambda>x. x \<in> set (sweep_ids e b d)) (map re_id (reservations d)))"
    by (rule length_filter_key)
  also have "\<dots> = min b (overdue_count e d)"
    by (simp only: length_filter_in [OF ids f(2,1)] f(3))
  finally have n_min: "n = min b (overdue_count e d)" .
  have "reservations d' = upd ?P (\<lambda>r. r\<lparr>re_status := ''expired''\<rparr>) (reservations d)"
    using sw by (auto simp: sweep_expired_reservations_def Let_def set_reservation_def)
  then have "filter (overdue e) (reservations d') = filter (\<lambda>r. overdue e r \<and> \<not> ?P r) (reservations d)"
    by (simp add: filter_upd_sub overdue_def)
  moreover have "filter ?P (reservations d) = filter (\<lambda>r. overdue e r \<and> ?P r) (reservations d)"
    using over by (auto intro: filter_cong)
  moreover have "length (filter Q rs) = length (filter (\<lambda>r. Q r \<and> R r) rs) + length (filter (\<lambda>r. Q r \<and> \<not> R r) rs)"
    for Q R and rs :: "reservation_row list"
    by (induction rs) auto
  ultimately have "overdue_count e d = n + overdue_count e d'"
    by (simp add: overdue_count_def n)
  with n_min show ?thesis by simp
qed

text \<open>Running the sweep \<open>k\<close> times at the same instant.\<close>

fun sweeps :: "env \<Rightarrow> nat \<Rightarrow> nat \<Rightarrow> db \<Rightarrow> db" where
  "sweeps e b 0 d = d"
| "sweeps e b (Suc k) d = sweeps e b k (snd (sweep_expired_reservations e b d))"

lemma sweep_ids_kept:
  "map re_id (reservations (snd (sweep_expired_reservations e b d))) = map re_id (reservations d)"
  by (simp add: sweep_expired_reservations_def Let_def set_reservation_def map_upd_key)

text \<open>The sweep drains: each run reclaims exactly as many overdue reservations as there are, up to
  the batch size, so after enough runs none is left, and a run on a drained table reclaims
  nothing.\<close>

theorem sweep_drains:
  assumes "distinct (map re_id (reservations d))" and "overdue_count e d \<le> k * b"
  shows "overdue_count e (sweeps e b k d) = 0
    \<and> fst (sweep_expired_reservations e b d) = min b (overdue_count e d)"
proof -
  have "overdue_count e (sweeps e b k d) = 0"
    using assms
  proof (induction k arbitrary: d)
    case (Suc k)
    obtain n d1 where sw: "sweep_expired_reservations e b d = (n, d1)"
      by (cases "sweep_expired_reservations e b d")
    have "overdue_count e d1 \<le> k * b"
      using sweep_counts [OF Suc.prems(1) sw] Suc.prems(2) by auto
    moreover have "distinct (map re_id (reservations d1))"
      using Suc.prems(1) sweep_ids_kept [of e b d] sw by simp
    ultimately show ?case using Suc.IH sw by simp
  qed simp
  then show ?thesis using sweep_counts [OF assms(1), of e b] by (cases "sweep_expired_reservations e b d") simp
qed

definition demo_stale :: db where
  "demo_stale = demo_db\<lparr>
     reservations := map (\<lambda>i. \<lparr>re_id = i, re_customer = ''ada'', re_meter = ''cloud_tokens'',
       re_amount = wh 10, re_idem = i, re_status = ''pending'', re_period = ''2026-06'',
       re_expires = 50\<rparr>) [''h1'', ''h2'', ''h3''],
     totals := [\<lparr>to_customer = ''ada'', to_meter = ''cloud_tokens'', to_period = ''2026-06'',
       to_used = wh 0, to_reserved = wh 30\<rparr>]\<rparr>"

theorem sweep_drains_witness:
  "overdue_count (demo_env ''s'' 100) (sweeps (demo_env ''s'' 100) 2 2 demo_stale) = 0
   \<and> overdue_count (demo_env ''s'' 100) demo_stale = 3"
proof -
  have "distinct (map re_id (reservations demo_stale))" "overdue_count (demo_env ''s'' 100) demo_stale = 3"
    by code_simp+
  with sweep_drains [of demo_stale "demo_env ''s'' 100" 2 2] show ?thesis by simp
qed

end
