(* ===== verification/Admin_Validation.thy ===== *)
theory Admin_Validation
  imports Cleaning Json
begin

text \<open>
  \<^verbatim>\<open>api/src/domain/admin.rs\<close>: validation of operator mutations (reasons, fleet and campaign
  controls, release and artifact metadata, device limits, usage adjustments, override
  values). The clock reading the period key needs is an argument.
\<close>

section \<open>Text fields\<close>

definition clean_reason :: "string \<Rightarrow> verr + string" where
  "clean_reason value =
     (let v = trim value
      in if length v < 3 then Inl (''reason'', ''must be at least 3 characters'')
         else if 500 < length v then Inl (''reason'', ''must be at most 500 characters'')
         else if has_control v then Inl (''reason'', ''must not contain control characters'')
         else Inr v)"

definition clean_optional_display_name :: "string option \<Rightarrow> verr + string option" where
  "clean_optional_display_name value =
     (case trim_opt value of
        Some v \<Rightarrow>
          (if 120 < length v then Inl (''display_name'', ''must be at most 120 characters'')
           else if has_control v
             then Inl (''display_name'', ''must not contain control characters'')
           else Inr (Some v))
      | None \<Rightarrow> Inr None)"

definition clean_update_ring :: "string \<Rightarrow> verr + string" where
  "clean_update_ring value =
     (let v = trim value
      in if one_of [''canary'', ''preview'', ''standard'', ''delayed''] v then Inr v
         else Inl (''update_ring'', ''must be canary, preview, standard, or delayed''))"

text \<open>Lowercase letters, digits, underscore and hyphen.\<close>

definition slug_chars :: "string \<Rightarrow> bool" where
  "slug_chars s \<longleftrightarrow> list_all (\<lambda>b. is_lower b \<or> is_digit b \<or> b = CHR ''_'' \<or> b = CHR ''-'') s"

definition clean_release_channel_key :: "string \<Rightarrow> verr + string" where
  "clean_release_channel_key value =
     (let v = trim value
      in if length v < 2 \<or> 40 < length v
         then Inl (''release_channel'', ''must be 2-40 characters'')
         else if \<not> slug_chars v
         then Inl (''release_channel'', ''must contain lowercase letters, digits, hyphen, or underscore'')
         else Inr v)"

definition clean_campaign_slug :: "string \<Rightarrow> verr + string" where
  "clean_campaign_slug value =
     (let v = trim value;
          valid_start = (case v of [] \<Rightarrow> False | b # _ \<Rightarrow> is_lower b \<or> is_digit b);
          valid_body = slug_chars v
      in if 3 \<le> length v \<and> length v \<le> 80 \<and> valid_start \<and> valid_body then Inr v
         else Inl (''campaign_slug'', ''must be 3-80 lowercase letters, digits, hyphen, or underscore''))"

definition clean_rollout_percentage :: "int \<Rightarrow> verr + int" where
  "clean_rollout_percentage value =
     (if \<not> (0 \<le> value \<and> value \<le> 100)
      then Inl (''rollout_percentage'', ''must be between 0 and 100'')
      else ok_or (i32_try_from value) (''rollout_percentage'', ''must be between 0 and 100''))"

text \<open>The part of a version before its pre-release or build suffix.\<close>

definition version_core :: "string \<Rightarrow> string" where
  "version_core s = takeWhile (\<lambda>c. c \<noteq> CHR ''-'' \<and> c \<noteq> CHR ''+'') s"

definition clean_release_version :: "string \<Rightarrow> verr + string" where
  "clean_release_version value =
     (let v = trim value
      in if 64 < length v then Inl (''version'', ''must be at most 64 characters'')
         else let nums = split_on (CHR ''.'') (version_core v)
           in if length nums \<noteq> 3 \<or> list_ex (\<lambda>p. p = []) nums
              then Inl (''version'', ''must be SemVer major.minor.patch'')
              else if list_ex (\<lambda>p. parse_u64 p = None) nums
              then Inl (''version'', ''must be SemVer major.minor.patch'')
              else if \<not> chars_ok ''.-_+'' v
              then Inl (''version'', ''must contain only letters, numbers, '.', '-', '_', or '+'' @ squote)
              else Inr v)"

definition clean_build_id_admin :: "string \<Rightarrow> verr + string" where
  "clean_build_id_admin value =
     (let v = trim value
      in if length v < 3 \<or> 120 < length v then Inl (''build_id'', ''must be 3-120 characters'')
         else if \<not> chars_ok ''.-_:'' v
         then Inl (''build_id'', ''must contain only letters, numbers, '.', '-', '_', or ':'' @ squote)
         else Inr v)"

definition clean_optional_markdown :: "string option \<Rightarrow> string \<Rightarrow> nat \<Rightarrow> verr + string option" where
  "clean_optional_markdown value field max_len =
     (case trim_opt value of
        None \<Rightarrow> Inr None
      | Some v \<Rightarrow>
          (if max_len < length v then Inl (field, ''is too long'')
           else if ctl [CHR 10, CHR 13, CHR 9] v
           then Inl (field, ''must not contain control characters'')
           else Inr (Some v)))"

section \<open>Artifact metadata\<close>

definition clean_artifact_role :: "string \<Rightarrow> verr + string" where
  "clean_artifact_role value =
     (let v = trim value
      in if one_of [''bootstrap'', ''updater'', ''recovery''] v then Inr v
         else Inl (''artifact_role'', ''must be bootstrap, updater, or recovery''))"

definition clean_artifact_platform :: "string \<Rightarrow> verr + string" where
  "clean_artifact_platform value =
     (let v = trim value
      in if one_of [''windows'', ''linux'', ''darwin''] v then Inr v
         else Inl (''platform'', ''must be windows, linux, or darwin''))"

definition clean_artifact_architecture :: "string \<Rightarrow> verr + string" where
  "clean_artifact_architecture value =
     (let v = trim value
      in if one_of [''x86_64'', ''aarch64'', ''i686'', ''armv7''] v then Inr v
         else Inl (''architecture'', ''must be x86_64, aarch64, i686, or armv7''))"

definition clean_package_format_admin :: "string \<Rightarrow> verr + string" where
  "clean_package_format_admin value =
     (let v = trim value
      in if 40 < length v then Inl (''package_format'', ''must be at most 40 characters'')
         else if v = [] \<or> \<not> chars_ok ''.-_'' v
         then Inl (''package_format'', ''must contain only letters, numbers, '.', '-', or '_'' @ squote)
         else Inr v)"

definition clean_storage_key :: "string \<Rightarrow> verr + string" where
  "clean_storage_key value =
     (let v = trim value
      in if length v < 3 \<or> 512 < length v then Inl (''storage_key'', ''must be 3-512 characters'')
         else if contains_str ''..'' v \<or> has_control v
         then Inl (''storage_key'', ''must be a bounded immutable object key'')
         else Inr v)"

definition clean_sha256 :: "string \<Rightarrow> verr + string" where
  "clean_sha256 value =
     (let v = to_lower (trim value)
      in if length v = 64 \<and> list_all is_hexdigit v then Inr v
         else Inl (''sha256'', ''must be a lowercase 64-character hex digest''))"

definition clean_signing_key_id :: "string \<Rightarrow> verr + string" where
  "clean_signing_key_id value =
     (let v = trim value
      in if length v < 3 \<or> 120 < length v then Inl (''signing_key_id'', ''must be 3-120 characters'')
         else if \<not> chars_ok ''.-_:'' v
         then Inl (''signing_key_id'', ''must contain only letters, numbers, '.', '-', '_', or ':'' @ squote)
         else Inr v)"

definition clean_tauri_signature :: "string option \<Rightarrow> verr + string option" where
  "clean_tauri_signature value =
     (case trim_opt value of
        None \<Rightarrow> Inr None
      | Some v \<Rightarrow>
          (if 2048 < length v then Inl (''tauri_signature'', ''must be at most 2048 characters'')
           else if has_control v
           then Inl (''tauri_signature'', ''must not contain control characters'')
           else Inr (Some v)))"

definition clean_os_signature_status :: "string \<Rightarrow> verr + string" where
  "clean_os_signature_status value =
     (let v = trim value
      in if one_of [''verified'', ''not_applicable''] v then Inr v
         else Inl (''os_signature_status'',
                   ''must be verified or not_applicable for validated artifact registration''))"

definition clean_size_bytes :: "int \<Rightarrow> verr + int" where
  "clean_size_bytes value = (if value \<le> 0 then Inl (''size_bytes'', ''must be positive'') else Inr value)"

section \<open>Numbers\<close>

definition clean_device_limit :: "int option \<Rightarrow> verr + int" where
  "clean_device_limit value =
     (let v = unwrap_or value 1
      in if \<not> (0 \<le> v \<and> v \<le> 10000) then Inl (''device_limit'', ''must be between 0 and 10000'')
         else ok_or (i32_try_from v) (''device_limit'', ''must be between 0 and 10000''))"

definition clean_adjustment_amount :: "f64 \<Rightarrow> verr + f64" where
  "clean_adjustment_amount value =
     (if \<not> f64_is_finite value then Inl (''amount'', ''must be a finite number'')
      else if f64_eq value (Fin 0) then Inl (''amount'', ''must be non-zero'')
      else if f64_lt (Fin (10 ^ 12)) (f64_abs value)
        then Inl (''amount'', ''must be at most 1e12 in magnitude'')
      else Inr value)"

section \<open>Period keys\<close>

definition clean_period_key :: "utc_now \<Rightarrow> string option \<Rightarrow> verr + string" where
  "clean_period_key now value =
     (case trim_opt value of
        None \<Rightarrow> Inr (un_month_key now)
      | Some v \<Rightarrow>
          (let well_formed = length v = 7 \<and> v ! 4 = CHR ''-''
                 \<and> list_all is_digit (take 4 v) \<and> list_all is_digit (drop 5 v)
           in if \<not> well_formed then Inl (''period_key'', ''must have the form YYYY-MM'')
              else let month = digits_val (drop 5 v); year = digits_val (take 4 v)
                in if \<not> (1 \<le> month \<and> month \<le> 12)
                   then Inl (''period_key'', ''month must be between 01 and 12'')
                   else if \<not> (un_year now - 5 \<le> year \<and> year \<le> un_year now + 1)
                   then Inl (''period_key'', ''year is outside the adjustable window'')
                   else Inr v))"

section \<open>Override values\<close>

datatype override_value = OvBool bool | OvNumber f64 | OvText string

fun override_columns :: "override_value \<Rightarrow> bool option \<times> f64 option \<times> string option" where
  "override_columns (OvBool v) = (Some v, None, None)"
| "override_columns (OvNumber v) = (None, Some v, None)"
| "override_columns (OvText v) = (None, None, Some v)"

fun clean_override_value :: "json \<Rightarrow> verr + override_value" where
  "clean_override_value (JBool b) = Inr (OvBool b)"
| "clean_override_value (JInt n) =
     (let x = f64_of_int n
      in if f64_is_finite x then Inr (OvNumber x) else Inl (''value'', ''must be a finite number''))"
| "clean_override_value (JFloat x) =
     (if f64_is_finite x then Inr (OvNumber x) else Inl (''value'', ''must be a finite number''))"
| "clean_override_value (JStr text) =
     (let t = trim text
      in if t = [] \<or> 200 < length t then Inl (''value'', ''must be 1-200 characters'')
         else Inr (OvText t))"
| "clean_override_value _ = Inl (''value'', ''must be a boolean, number, or string'')"

section \<open>What the validators accept\<close>

lemmas admin_clean_defs =
  clean_reason_def clean_optional_display_name_def clean_update_ring_def
  clean_release_channel_key_def clean_campaign_slug_def clean_release_version_def
  clean_build_id_admin_def clean_artifact_role_def clean_artifact_platform_def
  clean_artifact_architecture_def clean_package_format_admin_def clean_storage_key_def
  clean_signing_key_id_def clean_tauri_signature_def clean_os_signature_status_def

definition release_version_ok :: "string \<Rightarrow> bool" where
  "release_version_ok s \<longleftrightarrow> length s \<le> 64 \<and> chars_ok ''.-_+'' s
     \<and> length (split_on (CHR ''.'') (version_core s)) = 3
     \<and> list_all (\<lambda>p. p \<noteq> [] \<and> parse_u64 p \<noteq> None) (split_on (CHR ''.'') (version_core s))"

interpretation reason: cleaner clean_reason "\<lambda>s. 3 \<le> length s \<and> length s \<le> 500 \<and> \<not> has_control s"
  by unfold_locales (auto simp: admin_clean_defs Let_def)

interpretation display_name: opt_cleaner clean_optional_display_name
    "\<lambda>s. length s \<le> 120 \<and> \<not> has_control s"
  by unfold_locales (auto simp: admin_clean_defs split: option.splits)

interpretation update_ring: cleaner clean_update_ring
    "one_of [''canary'', ''preview'', ''standard'', ''delayed'']"
  by unfold_locales (auto simp: admin_clean_defs Let_def)

interpretation release_channel: cleaner clean_release_channel_key
    "\<lambda>s. 2 \<le> length s \<and> length s \<le> 40 \<and> slug_chars s"
  by unfold_locales (auto simp: admin_clean_defs Let_def)

interpretation campaign_slug: cleaner clean_campaign_slug
    "\<lambda>s. 3 \<le> length s \<and> length s \<le> 80 \<and> slug_chars s \<and> (is_lower (hd s) \<or> is_digit (hd s))"
  by unfold_locales (auto simp: admin_clean_defs Let_def split: list.splits)

interpretation release_version: cleaner clean_release_version release_version_ok
  by unfold_locales
    (auto simp: admin_clean_defs release_version_ok_def Let_def list_all_iff list_ex_iff)

interpretation build_id_admin: cleaner clean_build_id_admin
    "\<lambda>s. 3 \<le> length s \<and> length s \<le> 120 \<and> chars_ok ''.-_:'' s"
  by unfold_locales (auto simp: admin_clean_defs Let_def)

interpretation artifact_role: cleaner clean_artifact_role
    "one_of [''bootstrap'', ''updater'', ''recovery'']"
  by unfold_locales (auto simp: admin_clean_defs Let_def)

interpretation artifact_platform: cleaner clean_artifact_platform
    "one_of [''windows'', ''linux'', ''darwin'']"
  by unfold_locales (auto simp: admin_clean_defs Let_def)

interpretation artifact_architecture: cleaner clean_artifact_architecture
    "one_of [''x86_64'', ''aarch64'', ''i686'', ''armv7'']"
  by unfold_locales (auto simp: admin_clean_defs Let_def)

interpretation package_format_admin: cleaner clean_package_format_admin
    "\<lambda>s. s \<noteq> [] \<and> length s \<le> 40 \<and> chars_ok ''.-_'' s"
  by unfold_locales (auto simp: admin_clean_defs Let_def)

interpretation storage_key: cleaner clean_storage_key
    "\<lambda>s. 3 \<le> length s \<and> length s \<le> 512 \<and> \<not> contains_str ''..'' s \<and> \<not> has_control s"
  by unfold_locales (auto simp: admin_clean_defs Let_def)

interpretation signing_key_id: cleaner clean_signing_key_id
    "\<lambda>s. 3 \<le> length s \<and> length s \<le> 120 \<and> chars_ok ''.-_:'' s"
  by unfold_locales (auto simp: admin_clean_defs Let_def)

interpretation tauri_signature: opt_cleaner clean_tauri_signature
    "\<lambda>s. length s \<le> 2048 \<and> \<not> has_control s"
  by unfold_locales (auto simp: admin_clean_defs split: option.splits)

interpretation os_signature_status: cleaner clean_os_signature_status
    "one_of [''verified'', ''not_applicable'']"
  by unfold_locales (auto simp: admin_clean_defs Let_def)

interpretation markdown: opt_cleaner "\<lambda>v. clean_optional_markdown v field max_len"
    "\<lambda>s. length s \<le> max_len \<and> \<not> ctl [CHR 10, CHR 13, CHR 9] s" for field max_len
  by unfold_locales (auto simp: clean_optional_markdown_def split: option.splits)

lemma clean_sha256_iff:
  "clean_sha256 s = Inr t \<longleftrightarrow> t = to_lower (trim s) \<and> length t = 64 \<and> list_all is_hexdigit t"
  by (auto simp: clean_sha256_def Let_def)

lemma clean_sha256_idem: "clean_sha256 s = Inr t \<Longrightarrow> clean_sha256 t = Inr t"
  using trim_to_lower [of "trim s"] by (auto simp: clean_sha256_iff)

text \<open>Device limits and rollout percentages come out in range, and every value in range is
  accepted: the \<^verbatim>\<open>i32::try_from\<close> fallback is dead code.\<close>

lemma clean_device_limit_iff:
  "clean_device_limit v = Inr n \<longleftrightarrow> n = unwrap_or v 1 \<and> 0 \<le> n \<and> n \<le> 10000"
  by (auto simp: clean_device_limit_def Let_def i32_try_from_def in_i32_def i32_max_def)

lemma clean_rollout_percentage_iff:
  "clean_rollout_percentage v = Inr n \<longleftrightarrow> n = v \<and> 0 \<le> n \<and> n \<le> 100"
  by (auto simp: clean_rollout_percentage_def i32_try_from_def in_i32_def i32_max_def)

lemma clean_adjustment_amount_iff:
  "clean_adjustment_amount x = Inr y \<longleftrightarrow> y = x \<and> (\<exists>r. x = Fin r \<and> r \<noteq> 0 \<and> \<bar>r\<bar> \<le> 10 ^ 12)"
  by (cases x) (auto simp: clean_adjustment_amount_def not_less)

lemma clean_period_key_given:
  assumes "clean_period_key now (Some v) = Inr k" and "trim v \<noteq> []"
  shows "k = trim v" "length k = 7"
    "1 \<le> digits_val (drop 5 k)" "digits_val (drop 5 k) \<le> 12"
    "un_year now - 5 \<le> digits_val (take 4 k)" "digits_val (take 4 k) \<le> un_year now + 1"
  using assms by (auto simp: clean_period_key_def trim_opt_def Let_def split: if_splits)

end
