(* ===== verification/Update_Rules.thy ===== *)
theory Update_Rules
  imports Admin_Validation
begin

text \<open>
  \<^verbatim>\<open>api/src/domain/updates.rs\<close>: update-lookup validation, the rollout gate and the version
  comparison. A UUID is its canonical text; HMAC-SHA-256 comes from a crate and is a
  parameter that maps key and message to the 32-byte tag (\<open>None\<close> for a rejected key).
\<close>

section \<open>Field validation\<close>

definition clean_update_platform :: "string \<Rightarrow> verr + string" where
  "clean_update_platform value =
     (let v = trim value
      in if one_of [''windows'', ''linux'', ''darwin''] v then Inr v
         else Inl (''target'', ''must be windows, linux, or darwin''))"

definition clean_update_architecture :: "string \<Rightarrow> verr + string" where
  "clean_update_architecture value =
     (let v = trim value
      in if one_of [''x86_64'', ''aarch64'', ''i686'', ''armv7''] v then Inr v
         else Inl (''arch'', ''must be x86_64, aarch64, i686, or armv7''))"

definition clean_update_package_format :: "string option \<Rightarrow> verr + string" where
  "clean_update_package_format value =
     (let v = unwrap_or (trim_opt value) ''nsis''
      in if 40 < length v then Inl (''package_format'', ''must be at most 40 characters'')
         else if \<not> chars_ok ''.-_'' v
         then Inl (''package_format'', ''must contain only letters, numbers, '.', '-', or '_'' @ squote)
         else Inr v)"

definition UPDATE_EVENT_TYPES :: "string list" where
  "UPDATE_EVENT_TYPES =
     [''eligible'', ''offered'', ''download_started'', ''downloaded'', ''install_started'',
      ''install_completed'', ''relaunch_confirmed'', ''post_update_health_passed'',
      ''post_update_health_failed'', ''rejected'', ''failed'', ''recovery_required'']"

definition clean_update_event_type :: "string \<Rightarrow> verr + string" where
  "clean_update_event_type value =
     (let v = trim value
      in if one_of UPDATE_EVENT_TYPES v then Inr v
         else Inl (''event_type'', ''is not a supported update event type''))"

definition clean_update_failure_code :: "string option \<Rightarrow> string \<Rightarrow> verr + string option" where
  "clean_update_failure_code value field =
     (case trim_opt value of
        None \<Rightarrow> Inr None
      | Some v \<Rightarrow>
          (if 80 < length v then Inl (field, ''must be at most 80 characters'')
           else if \<not> chars_ok ''.-_:'' v
           then Inl (field, ''must contain only letters, numbers, '.', '-', '_', or ':'' @ squote)
           else Inr (Some v)))"

interpretation update_platform: cleaner clean_update_platform
    "one_of [''windows'', ''linux'', ''darwin'']"
  by unfold_locales (auto simp: clean_update_platform_def Let_def)

interpretation update_architecture: cleaner clean_update_architecture
    "one_of [''x86_64'', ''aarch64'', ''i686'', ''armv7'']"
  by unfold_locales (auto simp: clean_update_architecture_def Let_def)

interpretation update_event_type: cleaner clean_update_event_type "one_of UPDATE_EVENT_TYPES"
  by unfold_locales (auto simp: clean_update_event_type_def Let_def)

interpretation update_failure_code: opt_cleaner "\<lambda>v. clean_update_failure_code v field"
    "\<lambda>s. length s \<le> 80 \<and> chars_ok ''.-_:'' s" for field
  by unfold_locales (auto simp: clean_update_failure_code_def split: option.splits)

section \<open>Rollout\<close>


definition u64_from_be_bytes :: "string \<Rightarrow> int" where
  "u64_from_be_bytes bs = foldl (\<lambda>a c. 256 * a + byte c) 0 bs"

definition rollout_bucket ::
    "(string \<Rightarrow> string \<Rightarrow> string option) \<Rightarrow> string \<Rightarrow> uuid \<Rightarrow> uuid \<Rightarrow> verr + int" where
  "rollout_bucket hmac secret campaign_id installation_id =
     (if trim secret = [] then Inl (''update_rollout_secret'', ''is not configured'')
      else case hmac secret (campaign_id @ '':'' @ installation_id) of
        None \<Rightarrow> Inl (''update_rollout_secret'', ''is invalid'')
      | Some digest \<Rightarrow> Inr (u64_from_be_bytes (take 8 digest) mod 10000))"

definition rollout_allows ::
    "(string \<Rightarrow> string \<Rightarrow> string option) \<Rightarrow> string \<Rightarrow> uuid \<Rightarrow> uuid \<Rightarrow> int \<Rightarrow> verr + bool" where
  "rollout_allows hmac secret campaign_id installation_id rollout_percentage =
     (if trim secret = [] then Inl (''update_rollout_secret'', ''is not configured'')
      else if rollout_percentage \<le> 0 then Inr False
      else if 100 \<le> rollout_percentage then Inr True
      else bind_r (rollout_bucket hmac secret campaign_id installation_id) (\<lambda>bucket.
        Inr (bucket < rollout_percentage * 100)))"

lemma rollout_bucket_range:
  "rollout_bucket hmac secret c i = Inr b \<Longrightarrow> 0 \<le> b \<and> b < 10000"
  by (auto simp: rollout_bucket_def split: if_splits option.splits)

text \<open>
  One bucket decides every stage: raising the percentage never takes an update away, and
  lowering it never grants one.
\<close>

lemma rollout_sticky:
  "rollout_allows hmac secret c i p = Inr True \<Longrightarrow> p \<le> q \<Longrightarrow>
     rollout_allows hmac secret c i q = Inr True"
  using rollout_bucket_range [of hmac secret c i]
  by (auto simp: rollout_allows_def split: if_splits)

section \<open>Versions\<close>

datatype ordering = Less | Equal | Greater

definition version_parts :: "string \<Rightarrow> int list option" where
  "version_parts value =
     (let core = trim (version_core value)
      in if core = [] then None
         else let parts = map parse_u64 (split_on (CHR ''.'') core)
           in if None \<in> set parts then None else Some (map the parts))"

definition get0 :: "int list \<Rightarrow> nat \<Rightarrow> int" where
  "get0 xs i = (if i < length xs then xs ! i else 0)"

function cmp_loop :: "int list \<Rightarrow> int list \<Rightarrow> nat \<Rightarrow> nat \<Rightarrow> ordering" where
  "cmp_loop left right idx len =
     (if idx < len
      then if get0 left idx < get0 right idx then Less
           else if get0 right idx < get0 left idx then Greater
           else cmp_loop left right (Suc idx) len
      else Equal)"
  by pat_completeness auto
termination
  by (relation "measure (\<lambda>(l, r, idx, len). len - idx)") auto

declare cmp_loop.simps [simp del]

definition compare_parts :: "int list \<Rightarrow> int list \<Rightarrow> ordering" where
  "compare_parts left right =
     cmp_loop left right 0 (max (max (length left) (length right)) 3)"

definition version_greater :: "string \<Rightarrow> string \<Rightarrow> bool" where
  "version_greater target current =
     (case (version_parts target, version_parts current) of
        (Some t, Some c) \<Rightarrow> compare_parts t c = Greater
      | _ \<Rightarrow> False)"

definition version_at_least :: "string \<Rightarrow> string \<Rightarrow> bool" where
  "version_at_least value minimum =
     (case (version_parts value, version_parts minimum) of
        (Some v, Some m) \<Rightarrow> compare_parts v m \<noteq> Less
      | _ \<Rightarrow> False)"

text \<open>
  The specification: versions compare lexicographically as sequences padded with zeros.
\<close>

definition vless :: "int list \<Rightarrow> int list \<Rightarrow> bool" where
  "vless xs ys \<longleftrightarrow> (\<exists>i. get0 xs i < get0 ys i \<and> (\<forall>j < i. get0 xs j = get0 ys j))"

definition veq :: "int list \<Rightarrow> int list \<Rightarrow> bool" where
  "veq xs ys \<longleftrightarrow> (\<forall>i. get0 xs i = get0 ys i)"

lemma cmp_loop_cases:
  assumes "\<forall>j < idx. get0 l j = get0 r j" and "\<forall>j \<ge> len. get0 l j = get0 r j"
  shows "(cmp_loop l r idx len = Less \<and> vless l r) \<or> (cmp_loop l r idx len = Greater \<and> vless r l)
    \<or> (cmp_loop l r idx len = Equal \<and> veq l r)"
  using assms
proof (induction l r idx len rule: cmp_loop.induct)
  case (1 l r idx len)
  show ?case
  proof (cases "idx < len \<and> get0 l idx = get0 r idx")
    case True
    then have "\<forall>j < Suc idx. get0 l j = get0 r j" using "1.prems" by (auto simp: less_Suc_eq)
    then show ?thesis using 1 True by (simp add: cmp_loop.simps [of l r idx len])
  next
    case False
    then consider "\<not> idx < len" | "idx < len" "get0 l idx < get0 r idx"
      | "idx < len" "get0 r idx < get0 l idx" by fastforce
    then show ?thesis
    proof cases
      case 1
      then have "veq l r" using "1.prems" by (meson veq_def not_less order.trans le_cases)
      with 1 show ?thesis by (simp add: cmp_loop.simps [of l r idx len])
    next
      case 2
      with "1.prems" show ?thesis by (auto simp: cmp_loop.simps [of l r idx len] vless_def)
    next
      case 3
      with "1.prems" show ?thesis by (auto simp: cmp_loop.simps [of l r idx len] vless_def)
    qed
  qed
qed

lemma vless_asym: "vless xs ys \<Longrightarrow> \<not> vless ys xs \<and> \<not> veq xs ys"
proof -
  assume "vless xs ys"
  then obtain i where i: "get0 xs i < get0 ys i" "\<forall>j < i. get0 xs j = get0 ys j"
    by (auto simp: vless_def)
  have "\<not> vless ys xs"
  proof
    assume "vless ys xs"
    then obtain k where k: "get0 ys k < get0 xs k" "\<forall>j < k. get0 ys j = get0 xs j"
      by (auto simp: vless_def)
    consider "i < k" | "i = k" | "k < i" by linarith
    then show False using i k by cases force+
  qed
  moreover have "\<not> veq xs ys" using i by (metis veq_def less_irrefl)
  ultimately show ?thesis by blast
qed

lemma vless_trans: "vless xs ys \<Longrightarrow> vless ys zs \<Longrightarrow> vless xs zs"
proof -
  assume "vless xs ys" and "vless ys zs"
  then obtain i k where i: "get0 xs i < get0 ys i" "\<forall>j < i. get0 xs j = get0 ys j"
    and k: "get0 ys k < get0 zs k" "\<forall>j < k. get0 ys j = get0 zs j"
    by (auto simp: vless_def)
  have "get0 xs (min i k) < get0 zs (min i k)"
    using i k by (cases "i < k"; cases "i = k") (auto simp: min_def)
  moreover have "\<forall>j < min i k. get0 xs j = get0 zs j" using i k by simp
  ultimately show ?thesis by (auto simp: vless_def)
qed

lemma vless_veq: "vless xs ys \<Longrightarrow> veq ys zs \<Longrightarrow> vless xs zs" "veq xs ys \<Longrightarrow> vless ys zs \<Longrightarrow> vless xs zs"
  by (auto simp: vless_def veq_def)

lemma compare_parts_spec:
  "compare_parts l r = Less \<longleftrightarrow> vless l r"
  "compare_parts l r = Greater \<longleftrightarrow> vless r l"
  "compare_parts l r = Equal \<longleftrightarrow> veq l r"
proof -
  let ?n = "max (max (length l) (length r)) 3"
  have "\<forall>j \<ge> ?n. get0 l j = get0 r j" by (simp add: get0_def)
  then have "(compare_parts l r = Less \<and> vless l r) \<or> (compare_parts l r = Greater \<and> vless r l)
    \<or> (compare_parts l r = Equal \<and> veq l r)"
    unfolding compare_parts_def by (intro cmp_loop_cases) auto
  moreover have "veq l r \<Longrightarrow> veq r l" by (simp add: veq_def)
  ultimately show "compare_parts l r = Less \<longleftrightarrow> vless l r"
    "compare_parts l r = Greater \<longleftrightarrow> vless r l" "compare_parts l r = Equal \<longleftrightarrow> veq l r"
    using vless_asym [of l r] vless_asym [of r l] by (metis ordering.distinct)+
qed

lemma vless_total: "vless xs ys \<or> veq xs ys \<or> vless ys xs"
  using compare_parts_spec [of xs ys] by (cases "compare_parts xs ys") auto

lemma vless_neg_trans:
  assumes "\<not> vless y x" and "\<not> vless z y"
  shows "\<not> vless z x"
proof
  assume zx: "vless z x"
  from vless_total [of x y] assms(1) consider "vless x y" | "veq x y" by blast
  then show False
    using assms(2) zx vless_trans [of z x y] vless_veq(1) [of z x y] by cases auto
qed

lemma version_greater_iff:
  "version_greater t c \<longleftrightarrow>
     (\<exists>x y. version_parts t = Some x \<and> version_parts c = Some y \<and> vless y x)"
  by (auto simp: version_greater_def compare_parts_spec split: option.splits)

lemma version_at_least_iff:
  "version_at_least v m \<longleftrightarrow>
     (\<exists>x y. version_parts v = Some x \<and> version_parts m = Some y \<and> \<not> vless x y)"
  by (auto simp: version_at_least_def compare_parts_spec split: option.splits)

lemma version_greater_trans:
  "version_greater a b \<Longrightarrow> version_greater b c \<Longrightarrow> version_greater a c"
  using vless_trans by (fastforce simp: version_greater_iff)

lemma version_greater_asym: "version_greater a b \<Longrightarrow> \<not> version_greater b a"
  using vless_asym by (fastforce simp: version_greater_iff)

text \<open>On comparable versions the two tests are complementary.\<close>

lemma version_at_least_not_greater:
  assumes "version_parts a \<noteq> None" and "version_parts b \<noteq> None"
  shows "version_at_least a b \<longleftrightarrow> \<not> version_greater b a"
  using assms by (auto simp: version_at_least_iff version_greater_iff)

text \<open>Versions as a type of the library's preorders, so that its order lemmas apply.\<close>

datatype version = Version (parts: "int list")

instantiation version :: preorder
begin

definition less_eq_version :: "version \<Rightarrow> version \<Rightarrow> bool" where
  "less_eq_version a b \<longleftrightarrow> compare_parts (parts a) (parts b) \<noteq> Greater"

definition less_version :: "version \<Rightarrow> version \<Rightarrow> bool" where
  "less_version a b \<longleftrightarrow> compare_parts (parts a) (parts b) = Less"

instance
proof
  fix a b c :: version
  show "a < b \<longleftrightarrow> a \<le> b \<and> \<not> b \<le> a"
    using vless_asym [of "parts a" "parts b"]
    by (auto simp: less_eq_version_def less_version_def compare_parts_spec)
  show "a \<le> a"
    using vless_asym [of "parts a" "parts a"] by (auto simp: less_eq_version_def compare_parts_spec)
  show "a \<le> b \<Longrightarrow> b \<le> c \<Longrightarrow> a \<le> c"
    using vless_neg_trans by (simp add: less_eq_version_def compare_parts_spec)
qed

end

section \<open>Registered releases are comparable\<close>

lemma is_alnum_or_extra_plain:
  "is_alnum c \<or> c \<in> set ''.-_+'' \<Longrightarrow> plain c"
  using is_alnum_plain [of c] by (auto simp: plain_def byte_def)

lemma release_version_parts:
  assumes "clean_release_version v = Inr w"
  shows "\<exists>a b c. version_parts w = Some [a, b, c]"
proof -
  have ok: "release_version_ok w" using release_version.sound [OF assms] by simp
  let ?core = "version_core w"
  have "plain c" if "c \<in> set ?core" for c
  proof (rule is_alnum_or_extra_plain)
    from that have "c \<in> set w" by (auto simp: version_core_def dest: set_takeWhileD)
    moreover have "\<forall>c \<in> set w. is_alnum c \<or> c \<in> set ''.-_+''"
      using ok unfolding release_version_ok_def chars_ok_def list_all_iff by blast
    ultimately show "is_alnum c \<or> c \<in> set ''.-_+''" by blast
  qed
  then have "list_all plain ?core" by (simp add: list_all_iff)
  then have core: "trim ?core = ?core" by (rule trim_plain)
  have ne: "?core \<noteq> []"
    using ok by (auto simp: release_version_ok_def)
  let ?nums = "split_on (CHR ''.'') ?core"
  have "None \<notin> set (map parse_u64 ?nums)" "length ?nums = 3"
    using ok by (auto simp: release_version_ok_def list_all_iff)
  then have "version_parts w = Some (map the (map parse_u64 ?nums))"
    using core ne by (simp add: version_parts_def Let_def)
  moreover obtain a b c where "map the (map parse_u64 ?nums) = [a, b, c]"
    using \<open>length ?nums = 3\<close> by (auto simp: length_Suc_conv eval_nat_numeral)
  ultimately show ?thesis by simp
qed

end
