(* ===== verification/Entitlement_Rules.thy ===== *)
theory Entitlement_Rules
  imports F64 Rust_Str
begin

text \<open>
  \<^verbatim>\<open>api/src/domain/entitlement.rs\<close>: the layered evaluation of features and quotas. A
  \<^verbatim>\<open>BTreeMap\<close> is a map from keys to values.
\<close>

datatype feature_value = FBool bool | FNumber f64 | FText string

type_synonym features = "string \<rightharpoonup> feature_value"
type_synonym quotas = "string \<rightharpoonup> f64"

record entitlement_inputs =
  product_defaults :: features
  plan_version :: features
  license_grants :: features
  promotional_grants :: features
  admin_overrides :: features
  quota_limits :: quotas
  subscription_grants_cloud :: bool
  suspended :: bool
  revoked :: bool

record entitlement_result =
  er_features :: features
  er_quotas :: quotas

definition empty_inputs :: entitlement_inputs where
  "empty_inputs = \<lparr>product_defaults = Map.empty, plan_version = Map.empty,
     license_grants = Map.empty, promotional_grants = Map.empty, admin_overrides = Map.empty,
     quota_limits = Map.empty, subscription_grants_cloud = False, suspended = False,
     revoked = False\<rparr>"

definition is_cloud_feature :: "string \<Rightarrow> bool" where
  "is_cloud_feature key \<longleftrightarrow>
     ends_with ''.cloud.enabled'' key
     \<or> ends_with ''.deep_analysis.enabled'' key
     \<or> ends_with ''.premium.enabled'' key"

text \<open>\<^verbatim>\<open>for (k, v) in features.iter_mut() { if is_cloud_feature(k) { *v = Bool(false) } }\<close>.\<close>

definition deny_cloud :: "features \<Rightarrow> features" where
  "deny_cloud fs = (\<lambda>k. case fs k of
       None \<Rightarrow> None
     | Some v \<Rightarrow> Some (if is_cloud_feature k then FBool False else v))"

definition evaluate :: "entitlement_inputs \<Rightarrow> entitlement_result" where
  "evaluate inputs =
     (let fs0 = foldl (++) Map.empty
            [product_defaults inputs, plan_version inputs, license_grants inputs,
             promotional_grants inputs, admin_overrides inputs];
          fs1 = (if \<not> subscription_grants_cloud inputs then deny_cloud fs0 else fs0);
          fs2 = (if suspended inputs \<or> revoked inputs then deny_cloud fs1 else fs1)
      in \<lparr>er_features = fs2, er_quotas = quota_limits inputs\<rparr>)"

section \<open>Precedence and gating\<close>

text \<open>The first layer, from the highest precedence down, that has the key.\<close>

definition winning_value :: "entitlement_inputs \<Rightarrow> string \<Rightarrow> feature_value option" where
  "winning_value i k =
     (case admin_overrides i k of Some v \<Rightarrow> Some v | None \<Rightarrow>
     (case promotional_grants i k of Some v \<Rightarrow> Some v | None \<Rightarrow>
     (case license_grants i k of Some v \<Rightarrow> Some v | None \<Rightarrow>
     (case plan_version i k of Some v \<Rightarrow> Some v | None \<Rightarrow> product_defaults i k))))"

definition cloud_allowed :: "entitlement_inputs \<Rightarrow> bool" where
  "cloud_allowed i \<longleftrightarrow> subscription_grants_cloud i \<and> \<not> suspended i \<and> \<not> revoked i"

lemma deny_cloud_idem [simp]: "deny_cloud (deny_cloud fs) = deny_cloud fs"
  by (auto simp: deny_cloud_def fun_eq_iff split: option.splits)

lemma evaluate_features:
  "er_features (evaluate i) k =
     map_option (\<lambda>v. if is_cloud_feature k \<and> \<not> cloud_allowed i then FBool False else v)
       (winning_value i k)"
  by (auto simp: evaluate_def winning_value_def cloud_allowed_def deny_cloud_def Let_def
      map_add_def split: option.splits)

lemma evaluate_quotas: "er_quotas (evaluate i) = quota_limits i"
  by (simp add: evaluate_def Let_def)

text \<open>A cloud feature is on only with the cloud gate open.\<close>

lemma cloud_feature_on:
  "is_cloud_feature k \<Longrightarrow> er_features (evaluate i) k = Some (FBool True) \<Longrightarrow> cloud_allowed i"
  by (auto simp: evaluate_features split: if_splits)

lemma local_feature_kept:
  "\<not> is_cloud_feature k \<Longrightarrow> er_features (evaluate i) k = winning_value i k"
  by (simp add: evaluate_features option.map_ident)

end
