(* ===== verification/Rule_Properties.thy ===== *)
theory Rule_Properties
  imports Redaction License_Rules Validation Update_Rules Entitlement_Rules
begin

text \<open>
  The properties of the pure rules of \<^verbatim>\<open>api/src/domain\<close>: redaction, entitlement evaluation, the
  rollout gate and version order, and the input validators.
\<close>

section \<open>Redaction\<close>

text \<open>C29: Redaction is exact: the sanitized value has the leaves of the input whose path runs through
  no prohibited key, in the same order and unchanged; so nothing prohibited remains, DataForge
  never refuses it, and sanitizing again changes nothing.\<close>

theorem sanitize_exact:
  "leaves (sanitize v) = filter (\<lambda>l. path_allowed (fst l)) (leaves v)
   \<and> \<not> contains_prohibited (sanitize v) \<and> sanitize (sanitize v) = sanitize v
   \<and> publish post url event key (sanitize v) \<noteq> Inl ProhibitedPayload"
  by (simp add: leaves_sanitize sanitize_clean publish_sanitized)

section \<open>Entitlements\<close>

text \<open>C30: The evaluated value of a feature is the value of the highest layer that has it (admin override,
  promotional grant, licence grant, plan version, product default), except that a cloud feature is
  off unless the subscription grants cloud and the account is neither suspended nor revoked: no
  override opens the cloud gate.\<close>

theorem entitlement_precedence:
  "er_features (evaluate i) k = map_option
     (\<lambda>v. if is_cloud_feature k \<and> \<not> (subscription_grants_cloud i \<and> \<not> suspended i \<and> \<not> revoked i)
          then FBool False else v) (winning_value i k)
   \<and> er_quotas (evaluate i) = quota_limits i"
  by (simp add: evaluate_features evaluate_quotas cloud_allowed_def)

section \<open>Updates\<close>

text \<open>The rollout gate is monotone in the percentage: an installation a campaign reaches at one
  stage is reached at every later one, since one bucket of the keyed hash decides every stage; at
  100 percent everyone is reached and at 0 percent no one.\<close>

theorem rollout_monotone:
  assumes "rollout_allows hmac secret c i p = Inr True" and "p \<le> q"
  shows "rollout_allows hmac secret c i q = Inr True \<and> 0 < p
    \<and> rollout_allows hmac secret c j 100 = Inr True \<and> rollout_allows hmac secret c j 0 = Inr False"
  using rollout_sticky [OF assms] assms(1) by (auto simp: rollout_allows_def split: if_splits)

theorem rollout_monotone_witness:
  "rollout_allows (\<lambda>k m. Some (k @ m)) ''secret'' ''c'' ''i'' 95 = Inr True"
proof -
  have "rollout_allows (\<lambda>k m. Some (k @ m)) ''secret'' ''c'' ''i'' 90 = Inr True" by code_simp
  from rollout_monotone [OF this, of 95] show ?thesis by simp
qed

text \<open>Version comparison is the order of the version numbers read as sequences padded with zeros,
  an unparsable version is neither newer nor new enough, and of two registered release versions
  exactly one of newer, older and equal holds.\<close>

theorem version_order:
  "(version_greater a b \<longleftrightarrow> (\<exists>x y. version_parts a = Some x \<and> version_parts b = Some y \<and> vless y x))
   \<and> (version_at_least a b \<longleftrightarrow> (\<exists>x y. version_parts a = Some x \<and> version_parts b = Some y \<and> (vless y x \<or> veq y x)))
   \<and> \<not> (version_greater a b \<and> version_greater b a)"
proof -
  have "\<not> vless x y \<longleftrightarrow> vless y x \<or> veq y x" for x y
    using vless_total [of x y] vless_asym [of x y] vless_asym [of y x] by (auto simp: veq_def)
  then show ?thesis
    using version_greater_asym [of a b] by (auto simp: version_greater_iff version_at_least_iff)
qed

text \<open>Every release version the admin surface accepts has exactly three numeric parts, so two
  accepted releases always compare: the minimum-version gate refuses exactly the versions older
  than the minimum.\<close>

theorem registered_versions_comparable:
  assumes "clean_release_version s = Inr v" and "clean_release_version t = Inr w"
  shows "version_at_least v w \<longleftrightarrow> \<not> version_greater w v"
  using release_version_parts [OF assms(1)] release_version_parts [OF assms(2)]
  by (intro version_at_least_not_greater) auto

theorem registered_versions_comparable_witness:
  "version_at_least ''1.10.0'' ''1.9.3-beta'' \<and> \<not> version_greater ''1.9.3-beta'' ''1.10.0''"
proof -
  have "clean_release_version '' 1.10.0 '' = Inr ''1.10.0''" "clean_release_version ''1.9.3-beta'' = Inr ''1.9.3-beta''"
    "version_at_least ''1.10.0'' ''1.9.3-beta''" by code_simp+
  with registered_versions_comparable show ?thesis by blast
qed

section \<open>Validation\<close>

text \<open>Registration input is validated to a normal form: a client that sends back what was stored is
  accepted with exactly the same registration, device key and fingerprint included.\<close>

theorem registration_normal_form:
  assumes "codec_ok cd" and "validate_registration cd i = Inr r"
  shows "validate_registration cd (as_input r) = Inr r"
  by (rule validate_registration_idem [OF assms])

definition demo_input :: registration_input where
  "demo_input = \<lparr>ri_install_key = ''  install-1234 '', ri_product_key = None,
     ri_app_version = Some '' 1.2.3 '', ri_build_id = None, ri_platform = Some ''linux'',
     ri_architecture = Some ''x86_64'', ri_package_format = Some '' '', ri_updater_version = None,
     ri_device_public_key = Some ('' '' @ replicate 64 (CHR ''a'')), ri_device_label = Some '' laptop ''\<rparr>"

theorem registration_normal_form_witness:
  "\<exists>r. validate_registration hex_codec demo_input = Inr r \<and> vr_install_key r = ''install-1234''
     \<and> validate_registration hex_codec (as_input r) = Inr r"
proof -
  have "case validate_registration hex_codec demo_input of Inr r \<Rightarrow> vr_install_key r = ''install-1234'' | Inl _ \<Rightarrow> False"
    by code_simp
  then obtain r where "validate_registration hex_codec demo_input = Inr r" "vr_install_key r = ''install-1234''"
    by (auto split: sum.splits)
  with registration_normal_form [OF hex_codec_ok this(1)] show ?thesis by blast
qed

text \<open>A validated checkout only carries bounded identifier keys and bounded \<^verbatim>\<open>http\<close> or
  \<^verbatim>\<open>https\<close> redirect URLs, so no other scheme reaches Stripe.\<close>

theorem checkout_only_web_urls:
  assumes "validate_checkout_input i = Inr v"
  shows "key_ok (vc_product_key v) \<and> key_ok (vc_plan_key v) \<and> url_ok (vc_success_url v) \<and> url_ok (vc_cancel_url v)"
  using validate_checkout_sound [OF assms] by simp

theorem checkout_only_web_urls_witness:
  "\<exists>v. validate_checkout_input \<lparr>ci_product_key = None, ci_plan_key = ''authorforge_pro'',
       ci_success_url = '' https://forge.example/ok '', ci_cancel_url = ''http://forge.example/no''\<rparr> = Inr v
     \<and> url_ok (vc_success_url v)"
proof -
  have "\<not> isl (validate_checkout_input \<lparr>ci_product_key = None, ci_plan_key = ''authorforge_pro'',
       ci_success_url = '' https://forge.example/ok '', ci_cancel_url = ''http://forge.example/no''\<rparr>)" by code_simp
  then obtain v where v: "validate_checkout_input \<lparr>ci_product_key = None, ci_plan_key = ''authorforge_pro'',
       ci_success_url = '' https://forge.example/ok '', ci_cancel_url = ''http://forge.example/no''\<rparr> = Inr v"
    by (metis sum.collapse(2))
  with checkout_only_web_urls [OF v] show ?thesis by blast
qed


text \<open>An offline lease is valid exactly until its expiry plus the grace period, whichever of expiry
  and grace end is later, and never once revoked; so validity is lost for good as time passes.\<close>

theorem lease_valid_iff:
  "(validate_lease e r now g = Inr () \<longleftrightarrow> \<not> r \<and> now \<le> max e (e + secs g))
   \<and> (validate_lease e r now g = Inl LeaseRevoked \<longleftrightarrow> r) \<and> validate_lease e r now g \<noteq> Inl LeaseExpired"
  by (auto simp: validate_lease_ok) (auto simp: validate_lease_def Let_def split: if_splits)

end
