(* ===== verification/Stripe_Events.thy ===== *)
theory Stripe_Events
  imports Json License_Rules
begin

unbundle bit_operations_syntax

text \<open>
  \<^verbatim>\<open>api/src/integrations/stripe.rs\<close>: the Checkout form, the calls to Stripe's API, the extraction of
  webhook events, and the webhook signature. The JSON decoder, \<^verbatim>\<open>Uuid::parse_str\<close>,
  HMAC-SHA256 and the HTTP exchange are parameters.
\<close>

datatype webhook_error = MalformedHeader | TimestampOutOfTolerance | NoMatch | SigNotConfigured

datatype checkout_error =
    CheckoutNotConfigured
  | CheckoutTransport string
  | CheckoutApiStatus int
  | MissingSessionId
  | MissingCheckoutUrl

datatype stripe_event_error = MalformedPayload | MissingEventId | MissingEventType

datatype subscription_fetch_error =
    FetchNotConfigured
  | FetchTransport string
  | FetchApiStatus int
  | FetchMalformedResponse

section \<open>Calls to Stripe\<close>

record checkout_session_request =
  cs_price :: string
  cs_customer :: string
  cs_plan_version :: string
  cs_success_url :: string
  cs_cancel_url :: string

record checkout_session =
  ss_id :: string
  ss_url :: string

definition build_checkout_session_form :: "checkout_session_request \<Rightarrow> (string \<times> string) list" where
  "build_checkout_session_form r =
     [(''mode'', ''subscription''),
      (''success_url'', cs_success_url r),
      (''cancel_url'', cs_cancel_url r),
      (''line_items[0][price]'', cs_price r),
      (''line_items[0][quantity]'', ''1''),
      (''client_reference_id'', cs_customer r),
      (''metadata[forgecustomer_customer_id]'', cs_customer r),
      (''metadata[plan_version_id]'', cs_plan_version r),
      (''subscription_data[metadata][forgecustomer_customer_id]'', cs_customer r),
      (''subscription_data[metadata][plan_version_id]'', cs_plan_version r),
      (''allow_promotion_codes'', ''true'')]"

text \<open>\<^verbatim>\<open>trim_end_matches('/')\<close>.\<close>

definition trim_slashes :: "string \<Rightarrow> string" where
  "trim_slashes s = rev (dropWhile (\<lambda>c. c = CHR ''/'') (rev s))"

text \<open>\<^verbatim>\<open>idempotency_key.filter(|key| !key.trim().is_empty())\<close>, sent trimmed.\<close>

definition idempotency_header :: "string option \<Rightarrow> string option" where
  "idempotency_header key = trim_opt key"

text \<open>
  One request as it is sent: URL, bearer token, form (empty for a GET) and \<^verbatim>\<open>Idempotency-Key\<close>.
  The exchange answers with a transport error, or a status and the decoded body (an error text
  where the body does not decode).
\<close>

record http_request =
  rq_url :: string
  rq_bearer :: string
  rq_form :: "(string \<times> string) list"
  rq_idem :: "string option"

type_synonym http = "http_request \<Rightarrow> string + (int \<times> (string + json))"

definition is_success :: "int \<Rightarrow> bool" where
  "is_success s \<longleftrightarrow> 200 \<le> s \<and> s < 300"

text \<open>An \<^verbatim>\<open>Option<String>\<close> field of a derived \<^verbatim>\<open>Deserialize\<close>: absent or null is \<^verbatim>\<open>None\<close>, a value
  that is no string fails the decoding.\<close>

definition opt_string :: "string \<Rightarrow> json \<Rightarrow> (string option) option" where
  "opt_string k v = (case jget k v of
     None \<Rightarrow> Some None | Some JNull \<Rightarrow> Some None | Some (JStr s) \<Rightarrow> Some (Some s) | _ \<Rightarrow> None)"

fun is_object :: "json \<Rightarrow> bool" where
  "is_object (JObj _) = True"
| "is_object _ = False"

text \<open>\<open>bad\<close> is serde's message for a body of another shape.\<close>

definition decode_session :: "string \<Rightarrow> json \<Rightarrow> checkout_error + (string option \<times> string option)" where
  "decode_session bad v =
     (case (is_object v, opt_string ''id'' v, opt_string ''url'' v) of
        (True, Some i, Some u) \<Rightarrow> Inr (i, u)
      | _ \<Rightarrow> Inl (CheckoutTransport bad))"

definition create_checkout_session ::
    "string \<Rightarrow> http \<Rightarrow> string \<Rightarrow> string \<Rightarrow> checkout_session_request \<Rightarrow> string option
      \<Rightarrow> checkout_error + checkout_session" where
  "create_checkout_session bad http api_base secret_key request idem =
     (if secret_key = [] then Inl CheckoutNotConfigured
      else case http \<lparr>rq_url = trim_slashes api_base @ ''/v1/checkout/sessions'', rq_bearer = secret_key,
                      rq_form = build_checkout_session_form request, rq_idem = idempotency_header idem\<rparr> of
        Inl err \<Rightarrow> Inl (CheckoutTransport err)
      | Inr (status, body) \<Rightarrow>
          if \<not> is_success status then Inl (CheckoutApiStatus status)
          else case body of
            Inl err \<Rightarrow> Inl (CheckoutTransport err)
          | Inr v \<Rightarrow> bind_r (decode_session bad v) (\<lambda>(i, u).
              bind_r (ok_or i MissingSessionId) (\<lambda>i.
              bind_r (ok_or u MissingCheckoutUrl) (\<lambda>u. Inr \<lparr>ss_id = i, ss_url = u\<rparr>))))"

definition decode_portal :: "string \<Rightarrow> json \<Rightarrow> checkout_error + string option" where
  "decode_portal bad v =
     (case (is_object v, opt_string ''url'' v) of
        (True, Some u) \<Rightarrow> Inr u
      | _ \<Rightarrow> Inl (CheckoutTransport bad))"

definition create_billing_portal_session ::
    "string \<Rightarrow> http \<Rightarrow> string \<Rightarrow> string \<Rightarrow> string \<Rightarrow> string \<Rightarrow> string option \<Rightarrow> checkout_error + string" where
  "create_billing_portal_session bad http api_base secret_key stripe_customer return_url idem =
     (if secret_key = [] then Inl CheckoutNotConfigured
      else case http \<lparr>rq_url = trim_slashes api_base @ ''/v1/billing_portal/sessions'', rq_bearer = secret_key,
                      rq_form = [(''customer'', stripe_customer), (''return_url'', return_url)],
                      rq_idem = idempotency_header idem\<rparr> of
        Inl err \<Rightarrow> Inl (CheckoutTransport err)
      | Inr (status, body) \<Rightarrow>
          if \<not> is_success status then Inl (CheckoutApiStatus status)
          else case body of
            Inl err \<Rightarrow> Inl (CheckoutTransport err)
          | Inr v \<Rightarrow> bind_r (decode_portal bad v) (\<lambda>u. ok_or u MissingCheckoutUrl))"

section \<open>Webhook events\<close>

datatype receipt_status = ReceiptReceived | ReceiptIgnored

fun receipt_as_str :: "receipt_status \<Rightarrow> string" where
  "receipt_as_str ReceiptReceived = ''received''"
| "receipt_as_str ReceiptIgnored = ''ignored''"

record stripe_event =
  ev_id :: string
  ev_type :: string
  ev_created :: "int option"
  ev_object_id :: "string option"
  ev_object_type :: "string option"
  ev_object :: json
  ev_summary :: json
  ev_receipt :: receipt_status

record checkout_completed =
  cc_session :: string
  cc_customer :: "uuid option"
  cc_plan_version :: "uuid option"
  cc_stripe_customer :: "string option"
  cc_stripe_subscription :: "string option"

record subscription_change =
  sg_stripe_id :: string
  sg_stripe_customer :: "string option"
  sg_customer :: "uuid option"
  sg_plan_version :: "uuid option"
  sg_price :: "string option"
  sg_status :: subscription_status
  sg_period_start :: "time option"
  sg_period_end :: "time option"
  sg_cancel_at_end :: bool

record invoice_change =
  ic_invoice :: string
  ic_subscription :: string
  ic_status :: subscription_status
  ic_invoice_status :: string
  ic_amount :: "int option"
  ic_currency :: "string option"

definition is_supported_webhook_event :: "string \<Rightarrow> bool" where
  "is_supported_webhook_event t \<longleftrightarrow> t \<in> set
     [''checkout.session.completed'', ''customer.subscription.created'', ''customer.subscription.updated'',
      ''customer.subscription.deleted'', ''invoice.paid'', ''invoice.payment_failed'']"

definition string_field :: "json \<Rightarrow> string \<Rightarrow> string option" where
  "string_field v k = Option.bind (jget k v) as_str"

definition bool_field :: "json \<Rightarrow> string \<Rightarrow> bool option" where
  "bool_field v k = Option.bind (jget k v) as_bool"

definition integer_field :: "json \<Rightarrow> string \<Rightarrow> int option" where
  "integer_field v k = Option.bind (jget k v) as_i64"

text \<open>\<^verbatim>\<open>Uuid::parse_str\<close> of the text, as the canonical uuid.\<close>

type_synonym uuid_parser = "string \<Rightarrow> uuid option"

definition uuid_field :: "uuid_parser \<Rightarrow> json \<Rightarrow> string \<Rightarrow> uuid option" where
  "uuid_field up v k = Option.bind (string_field v k) up"

definition metadata_string :: "json \<Rightarrow> string \<Rightarrow> string option" where
  "metadata_string v k = Option.bind (jget ''metadata'' v) (\<lambda>m. string_field m k)"

definition metadata_uuid :: "uuid_parser \<Rightarrow> json \<Rightarrow> string \<Rightarrow> uuid option" where
  "metadata_uuid up v k = Option.bind (metadata_string v k) up"

text \<open>\<^verbatim>\<open>Utc.timestamp_opt(s, 0).single()\<close>: the seconds chrono's calendar reaches.\<close>

definition unix_seconds :: "int option \<Rightarrow> time option" where
  "unix_seconds v = Option.bind v (\<lambda>n.
     if - 8334601228800 \<le> n \<and> n \<le> 8210266876799 then Some (secs n) else None)"

definition first_subscription_item :: "json \<Rightarrow> json option" where
  "first_subscription_item v =
     Option.bind (jget ''items'' v) (\<lambda>i. Option.bind (jget ''data'' i) (\<lambda>dat.
     Option.bind (as_array dat) (\<lambda>xs. case xs of [] \<Rightarrow> None | x # _ \<Rightarrow> Some x)))"

text \<open>\<^verbatim>\<open>Option::or_else\<close>.\<close>

definition or_else :: "'a option \<Rightarrow> 'a option \<Rightarrow> 'a option" where
  "or_else a b = (case a of None \<Rightarrow> b | Some x \<Rightarrow> Some x)"

definition subscription_price_id :: "json \<Rightarrow> string option" where
  "subscription_price_id v =
     Option.bind (first_subscription_item v) (\<lambda>item.
       or_else (Option.bind (jget ''price'' item) (\<lambda>p. string_field p ''id''))
               (Option.bind (jget ''plan'' item) (\<lambda>p. string_field p ''id'')))"

definition subscription_period :: "json \<Rightarrow> string \<Rightarrow> time option" where
  "subscription_period v field =
     unix_seconds (or_else (integer_field v field)
       (Option.bind (first_subscription_item v) (\<lambda>item. integer_field item field)))"

definition invoice_subscription_id :: "json \<Rightarrow> string option" where
  "invoice_subscription_id v =
     (let direct = (case jget ''subscription'' v of Some JNull \<Rightarrow> None | r \<Rightarrow> r);
          parent = Option.bind (jget ''parent'' v) (\<lambda>p.
            Option.bind (Option.bind (jget ''type'' p) as_str) (\<lambda>t.
              if t = ''subscription_details''
              then Option.bind (jget ''subscription_details'' p) (jget ''subscription'') else None))
      in Option.bind (or_else direct parent) (\<lambda>r.
           or_else (case as_str r of Some s \<Rightarrow> (if s = [] then None else Some s) | None \<Rightarrow> None)
             (string_field r ''id'')))"

definition subscription_change_from_object ::
    "uuid_parser \<Rightarrow> json \<Rightarrow> string \<Rightarrow> subscription_change option" where
  "subscription_change_from_object up v default_status =
     (let raw_status = unwrap_or (string_field v ''status'') default_status
      in map_option (\<lambda>i. \<lparr>sg_stripe_id = i, sg_stripe_customer = string_field v ''customer'',
           sg_customer = metadata_uuid up v ''forgecustomer_customer_id'',
           sg_plan_version = metadata_uuid up v ''plan_version_id'',
           sg_price = subscription_price_id v,
           sg_status = normalize_stripe_status raw_status,
           sg_period_start = subscription_period v ''current_period_start'',
           sg_period_end = subscription_period v ''current_period_end'',
           sg_cancel_at_end = unwrap_or (bool_field v ''cancel_at_period_end'') False\<rparr>)
         (string_field v ''id''))"

definition fetch_subscription ::
    "uuid_parser \<Rightarrow> http \<Rightarrow> string \<Rightarrow> string \<Rightarrow> string \<Rightarrow> subscription_fetch_error + subscription_change" where
  "fetch_subscription up http api_base secret_key stripe_subscription_id =
     (if secret_key = [] then Inl FetchNotConfigured
      else case http \<lparr>rq_url = trim_slashes api_base @ ''/v1/subscriptions/'' @ stripe_subscription_id,
                      rq_bearer = secret_key, rq_form = [], rq_idem = None\<rparr> of
        Inl err \<Rightarrow> Inl (FetchTransport err)
      | Inr (status, body) \<Rightarrow>
          if \<not> is_success status then Inl (FetchApiStatus status)
          else case body of
            Inl err \<Rightarrow> Inl (FetchTransport err)
          | Inr v \<Rightarrow> ok_or (subscription_change_from_object up v ''incomplete'') FetchMalformedResponse)"

definition invoice_status :: "string \<Rightarrow> json \<Rightarrow> string" where
  "invoice_status event_type v =
     (let raw = unwrap_or (string_field v ''status'')
                  (if event_type = ''invoice.paid'' then ''paid'' else ''open'')
      in if raw \<in> set [''paid'', ''open'', ''void'', ''uncollectible'', ''draft''] then raw
         else if event_type = ''invoice.paid'' then ''paid'' else ''open'')"

text \<open>The event of a decoded payload, and the payload's bytes before.\<close>

definition event_of_json :: "json \<Rightarrow> stripe_event_error + stripe_event" where
  "event_of_json v =
     bind_r (ok_or (string_field v ''id'') MissingEventId) (\<lambda>i.
     bind_r (ok_or (string_field v ''type'') MissingEventType) (\<lambda>t.
     let created = Option.bind (jget ''created'' v) as_i64;
         obj = unwrap_or (Option.bind (jget ''data'' v) (jget ''object'')) JNull;
         object_id = string_field obj ''id'';
         object_type = string_field obj ''object''
     in Inr \<lparr>ev_id = i, ev_type = t, ev_created = created, ev_object_id = object_id,
             ev_object_type = object_type, ev_object = obj,
             ev_summary = JObj [(''event_id'', JStr i), (''event_type'', JStr t),
               (''created'', jopt JInt created), (''object_id'', jopt JStr object_id),
               (''object_type'', jopt JStr object_type)],
             ev_receipt = (if is_supported_webhook_event t then ReceiptReceived else ReceiptIgnored)\<rparr>))"

definition parse_event :: "(string \<Rightarrow> json option) \<Rightarrow> string \<Rightarrow> stripe_event_error + stripe_event" where
  "parse_event decode payload = bind_r (ok_or (decode payload) MalformedPayload) event_of_json"

definition ev_created_at :: "stripe_event \<Rightarrow> time option" where
  "ev_created_at ev = unix_seconds (ev_created ev)"

definition ev_checkout_completed :: "uuid_parser \<Rightarrow> stripe_event \<Rightarrow> checkout_completed option" where
  "ev_checkout_completed up ev =
     (if ev_type ev \<noteq> ''checkout.session.completed'' then None
      else map_option (\<lambda>i. \<lparr>cc_session = i,
             cc_customer = or_else (metadata_uuid up (ev_object ev) ''forgecustomer_customer_id'')
               (uuid_field up (ev_object ev) ''client_reference_id''),
             cc_plan_version = metadata_uuid up (ev_object ev) ''plan_version_id'',
             cc_stripe_customer = string_field (ev_object ev) ''customer'',
             cc_stripe_subscription = string_field (ev_object ev) ''subscription''\<rparr>)
        (string_field (ev_object ev) ''id''))"

definition ev_subscription_change :: "uuid_parser \<Rightarrow> stripe_event \<Rightarrow> subscription_change option" where
  "ev_subscription_change up ev =
     (if ev_type ev \<notin> set [''customer.subscription.created'', ''customer.subscription.updated'',
         ''customer.subscription.deleted''] then None
      else subscription_change_from_object up (ev_object ev)
        (if ev_type ev = ''customer.subscription.deleted'' then ''canceled'' else ''incomplete''))"

definition ev_invoice_change :: "stripe_event \<Rightarrow> invoice_change option" where
  "ev_invoice_change ev =
     (if ev_type ev \<notin> set [''invoice.paid'', ''invoice.payment_failed''] then None
      else Option.bind (string_field (ev_object ev) ''id'') (\<lambda>i.
           Option.bind (invoice_subscription_id (ev_object ev)) (\<lambda>s.
           Some \<lparr>ic_invoice = i, ic_subscription = s,
             ic_status = (if ev_type ev = ''invoice.paid'' then SubActive else PastDue),
             ic_invoice_status = invoice_status (ev_type ev) (ev_object ev),
             ic_amount = integer_field (ev_object ev) ''amount_due'',
             ic_currency = string_field (ev_object ev) ''currency''\<rparr>)))"

section \<open>The webhook signature\<close>

text \<open>The header's parts, left to right: the last \<^verbatim>\<open>t\<close> counts, every \<^verbatim>\<open>v1\<close> is a candidate.\<close>

fun parse_parts :: "string list \<Rightarrow> int option \<times> string list \<Rightarrow> webhook_error + (int option \<times> string list)" where
  "parse_parts [] acc = Inr acc"
| "parse_parts (p # ps) (ts, sigs) =
     (case split_once (CHR ''='') p of
        None \<Rightarrow> Inl MalformedHeader
      | Some (k, v) \<Rightarrow>
          if trim k = ''t''
          then (case parse_i64 (trim v) of None \<Rightarrow> Inl MalformedHeader
                | Some n \<Rightarrow> parse_parts ps (Some n, sigs))
          else if trim k = ''v1''
          then (case hex_decode (trim v) of None \<Rightarrow> Inl MalformedHeader
                | Some b \<Rightarrow> parse_parts ps (ts, sigs @ [b]))
          else parse_parts ps (ts, sigs))"

text \<open>\<^verbatim>\<open>(now_unix - ts).abs()\<close> on \<^verbatim>\<open>i64\<close>, wrapping as in a release build.\<close>

definition skew :: "int \<Rightarrow> int \<Rightarrow> int" where
  "skew now ts = (let x = (word_of_int now - word_of_int ts :: 64 word)
                  in if sint x < 0 then sint (- x) else sint x)"

text \<open>\<^verbatim>\<open>matched |= ct_eq(..)\<close> over the candidates of the right length.\<close>

definition any_match :: "string \<Rightarrow> string list \<Rightarrow> 8 word" where
  "any_match expected sigs =
     fold (\<lambda>s m. if length s = length expected then m OR (if s = expected then 1 else 0) else m) sigs 0"

definition verify_signature ::
    "(string \<Rightarrow> string \<Rightarrow> string option) \<Rightarrow> string \<Rightarrow> string \<Rightarrow> string \<Rightarrow> int \<Rightarrow> int \<Rightarrow> webhook_error + unit" where
  "verify_signature hmac payload sig_header secret now tolerance =
     (if secret = [] then Inl SigNotConfigured
      else bind_r (parse_parts (split_on (CHR '','') sig_header) (None, [])) (\<lambda>(timestamp, sigs).
      bind_r (ok_or timestamp MalformedHeader) (\<lambda>ts.
      if tolerance < skew now ts then Inl TimestampOutOfTolerance
      else if sigs = [] then Inl MalformedHeader
      else bind_r (ok_or (hmac secret (show_int ts @ ''.'' @ payload)) SigNotConfigured) (\<lambda>expected.
      if any_match expected sigs = 1 then Inr () else Inl NoMatch))))"

lemma any_match_iff: "any_match expected sigs = (if expected \<in> set sigs then 1 else 0)"
proof -
  have "fold (\<lambda>s m. if length s = length expected then m OR (if s = expected then 1 else 0) else m) sigs m
      = (if expected \<in> set sigs then 1 else m)" if "m = 0 \<or> m = 1" for m :: "8 word"
    using that
  proof (induction sigs arbitrary: m)
    case (Cons s sigs)
    then show ?case by (cases "s = expected") auto
  qed simp
  then show ?thesis by (simp add: any_match_def)
qed

text \<open>Away from the ends of \<^verbatim>\<open>i64\<close> the skew is the distance.\<close>

lemma skew_exact:
  assumes "\<bar>now - ts\<bar> < 2 ^ 63"
  shows "skew now ts = \<bar>now - ts\<bar>"
proof -
  have w: "word_of_int now - word_of_int ts = (word_of_int (now - ts) :: 64 word)"
    "- (word_of_int (now - ts)) = (word_of_int (ts - now) :: 64 word)" by simp_all
  have s: "sint (word_of_int n :: 64 word) = n" if "- (2 ^ 63) \<le> n" "n < 2 ^ 63" for n
    using that by (simp add: int_word_sint)
  have "sint (word_of_int (now - ts) :: 64 word) = now - ts" "sint (word_of_int (ts - now) :: 64 word) = ts - now"
    by (rule s; use assms in linarith)+
  then show ?thesis by (simp only: skew_def w Let_def) (auto simp: abs_if)
qed

lemma verify_signature_iff:
  "verify_signature hmac payload header secret now tol = Inr () \<longleftrightarrow>
     secret \<noteq> [] \<and> (\<exists>ts sigs mac. parse_parts (split_on (CHR '','') header) (None, []) = Inr (Some ts, sigs)
       \<and> skew now ts \<le> tol \<and> hmac secret (show_int ts @ ''.'' @ payload) = Some mac \<and> mac \<in> set sigs)"
proof
  assume "verify_signature hmac payload header secret now tol = Inr ()"
  then show "secret \<noteq> [] \<and> (\<exists>ts sigs mac. parse_parts (split_on (CHR '','') header) (None, []) = Inr (Some ts, sigs)
       \<and> skew now ts \<le> tol \<and> hmac secret (show_int ts @ ''.'' @ payload) = Some mac \<and> mac \<in> set sigs)"
    by (fastforce simp: verify_signature_def any_match_iff split: if_splits)
next
  assume "secret \<noteq> [] \<and> (\<exists>ts sigs mac. parse_parts (split_on (CHR '','') header) (None, []) = Inr (Some ts, sigs)
       \<and> skew now ts \<le> tol \<and> hmac secret (show_int ts @ ''.'' @ payload) = Some mac \<and> mac \<in> set sigs)"
  then obtain ts sigs mac where h: "secret \<noteq> []"
    "parse_parts (split_on (CHR '','') header) (None, []) = Inr (Some ts, sigs)" "skew now ts \<le> tol"
    "hmac secret (show_int ts @ ''.'' @ payload) = Some mac" "mac \<in> set sigs" by blast
  then have "sigs \<noteq> []" by auto
  with h show "verify_signature hmac payload header secret now tol = Inr ()"
    by (simp add: verify_signature_def any_match_iff del: bind_r_eq_Inr)
qed

end
