(* ===== verification/Commerce.thy ===== *)
theory Commerce
  imports Licensing Stripe_Events
begin

text \<open>
  \<^verbatim>\<open>api/src/repositories/commerce.rs\<close>: the checkout sessions, the exactly-once processing of
  Stripe webhook events, the subscription projection with its out-of-order guard, invoices, and
  the operator's resync. The foreign keys that event metadata can violate are explicit: a
  customer or plan version that does not exist fails the transaction.
\<close>

datatype apply_error =
    ApplyDb
  | MissingCheckoutFields
  | MissingSubscriptionFields
  | MissingInvoiceFields
  | MissingCustomer
  | MissingPlanVersion
  | MissingSubscription

section \<open>The commerce tables\<close>

record billing_row =
  ba_id :: uuid
  ba_customer :: uuid

record stripe_customer_row =
  sc_billing :: uuid
  sc_stripe :: string

record checkout_row =
  ck_id :: uuid
  ck_customer :: uuid
  ck_plan_version :: uuid
  ck_stripe :: string
  ck_status :: string

record invoice_row =
  iv_subscription :: uuid
  iv_stripe :: string
  iv_status :: string
  iv_amount :: "int option"
  iv_currency :: "string option"

record webhook_row =
  wr_id :: uuid
  wr_event :: string
  wr_type :: string
  wr_status :: string
  wr_processed :: "time option"
  wr_summary :: json

record shop =
  core :: db
  billing :: "billing_row list"
  stripe_customers :: "stripe_customer_row list"
  checkouts :: "checkout_row list"
  invoices :: "invoice_row list"
  webhooks :: "webhook_row list"

text \<open>\<^verbatim>\<open>ApplyStripeEventError::Db\<close> around a failed query.\<close>

definition db_result :: "db_error + 'a \<Rightarrow> apply_error + 'a" where
  "db_result r = map_sum (\<lambda>_. ApplyDb) id r"

lemma db_result_simps [simp]:
  "db_result (Inl x) = Inl ApplyDb" "db_result (Inr y) = Inr y" "db_result r = Inr z \<longleftrightarrow> r = Inr z"
  by (cases r; simp add: db_result_def)+

definition on_core :: "(db \<Rightarrow> db) \<Rightarrow> shop \<Rightarrow> shop" where
  "on_core f s = s\<lparr>core := f (core s)\<rparr>"

lemma on_core_simps [simp]:
  "core (on_core f s) = f (core s)" "billing (on_core f s) = billing s"
  "stripe_customers (on_core f s) = stripe_customers s" "checkouts (on_core f s) = checkouts s"
  "invoices (on_core f s) = invoices s" "webhooks (on_core f s) = webhooks s"
  by (simp_all add: on_core_def)

definition customer_known :: "uuid \<Rightarrow> db \<Rightarrow> bool" where
  "customer_known c d \<longleftrightarrow> list_ex (\<lambda>r. cu_id r = c) (customers d)"

definition plan_known :: "uuid \<Rightarrow> db \<Rightarrow> bool" where
  "plan_known v d \<longleftrightarrow> list_ex (\<lambda>r. pv_id r = v) (plan_versions d)"

section \<open>Checkout\<close>

record checkout_plan =
  cp_plan_version :: uuid
  cp_plan_key :: string
  cp_price :: "string option"

definition find_active_checkout_plan :: "string \<Rightarrow> string \<Rightarrow> db \<Rightarrow> checkout_plan option" where
  "find_active_checkout_plan product_key plan_key d =
     map_option (\<lambda>v. \<lparr>cp_plan_version = pv_id v, cp_plan_key = plan_key, cp_price = pv_stripe_price v\<rparr>)
       (find (\<lambda>v. pv_status v = ''active''
          \<and> (\<exists>pl \<in> set (plans d). pl_id pl = pv_plan v \<and> pl_key pl = plan_key \<and> pl_status pl = ''active''
             \<and> (\<exists>p \<in> set (products d). pr_id p = pl_product pl \<and> pr_key p = product_key
                  \<and> pr_status p = ''active''))) (plan_versions d))"

definition same_session :: "string \<Rightarrow> checkout_row \<Rightarrow> bool" where
  "same_session sid r \<longleftrightarrow> ck_stripe r = sid"

text \<open>An insert whose conflict clause changes nothing or sets the status.\<close>

definition upsert_checkout ::
    "env \<Rightarrow> uuid \<Rightarrow> uuid \<Rightarrow> string \<Rightarrow> string \<Rightarrow> (checkout_row \<Rightarrow> checkout_row) \<Rightarrow> shop
      \<Rightarrow> apply_error + checkout_row \<times> shop" where
  "upsert_checkout e c v sid status f s =
     (case find (same_session sid) (checkouts s) of
        Some r \<Rightarrow> Inr (f r, s\<lparr>checkouts := upd (same_session sid) f (checkouts s)\<rparr>)
      | None \<Rightarrow>
          if \<not> customer_known c (core s) \<or> \<not> plan_known v (core s) then Inl ApplyDb
          else (let r = \<lparr>ck_id = e_id e 1, ck_customer = c, ck_plan_version = v, ck_stripe = sid,
                        ck_status = status\<rparr>
                in Inr (r, s\<lparr>checkouts := checkouts s @ [r]\<rparr>)))"

definition record_checkout_session ::
    "env \<Rightarrow> uuid \<Rightarrow> uuid \<Rightarrow> string \<Rightarrow> shop \<Rightarrow> apply_error + checkout_row \<times> shop" where
  "record_checkout_session e c v sid s = upsert_checkout e c v sid ''created'' (\<lambda>r. r) s"

section \<open>Webhook receipts\<close>

datatype record_outcome = Inserted | Duplicate

record webhook_record =
  wk_outcome :: record_outcome
  wk_status :: string

definition receipt_of :: "string \<Rightarrow> shop \<Rightarrow> webhook_row option" where
  "receipt_of i s = find (\<lambda>r. wr_event r = i) (webhooks s)"

text \<open>\<^verbatim>\<open>insert ... on conflict (stripe_event_id) do nothing returning id, status\<close>.\<close>

definition insert_webhook_receipt :: "env \<Rightarrow> stripe_event \<Rightarrow> shop \<Rightarrow> webhook_row option \<times> shop" where
  "insert_webhook_receipt e ev s =
     (case receipt_of (ev_id ev) s of
        Some _ \<Rightarrow> (None, s)
      | None \<Rightarrow>
        (let r = \<lparr>wr_id = e_id e 0, wr_event = ev_id ev, wr_type = ev_type ev,
                  wr_status = receipt_as_str (ev_receipt ev),
                  wr_processed = (case ev_receipt ev of ReceiptReceived \<Rightarrow> None | ReceiptIgnored \<Rightarrow> Some (e_now e)),
                  wr_summary = ev_summary ev\<rparr>
         in (Some r, s\<lparr>webhooks := webhooks s @ [r]\<rparr>)))"

definition mark_webhook_processed :: "env \<Rightarrow> uuid \<Rightarrow> shop \<Rightarrow> shop" where
  "mark_webhook_processed e i s = s\<lparr>webhooks := upd (\<lambda>r. wr_id r = i)
     (\<lambda>r. r\<lparr>wr_status := ''processed'', wr_processed := Some (e_now e)\<rparr>) (webhooks s)\<rparr>"

text \<open>The receipt-only path kept for tooling.\<close>

definition record_stripe_webhook_event :: "env \<Rightarrow> stripe_event \<Rightarrow> shop \<Rightarrow> (apply_error + webhook_record) \<times> shop" where
  "record_stripe_webhook_event e ev s =
     (case insert_webhook_receipt e ev s of
        (Some r, s') \<Rightarrow> (Inr \<lparr>wk_outcome = Inserted, wk_status = wr_status r\<rparr>, s')
      | (None, s') \<Rightarrow>
          (case receipt_of (ev_id ev) s' of
             None \<Rightarrow> (Inl ApplyDb, s')
           | Some r \<Rightarrow> (Inr \<lparr>wk_outcome = Duplicate, wk_status = wr_status r\<rparr>, s')))"

section \<open>Audit and outbox of commerce\<close>

definition write_stripe_audit ::
    "stripe_event \<Rightarrow> string \<Rightarrow> uuid \<Rightarrow> string \<Rightarrow> string \<Rightarrow> json option \<Rightarrow> json option \<Rightarrow> shop \<Rightarrow> shop" where
  "write_stripe_audit ev event_type c target_type target before after = on_core (write_audit ''stripe''
     \<lparr>a_event = event_type, a_actor = ev_id ev, a_customer = Some c, a_target_type = target_type,
      a_target = target, a_reason = ev_type ev, a_before = before, a_after = after,
      a_correlation = Some (ev_id ev)\<rparr>)"

definition json_time :: "env \<Rightarrow> time option \<Rightarrow> json" where
  "json_time e = jopt (\<lambda>t. JStr (e_time e t))"

text \<open>\<^verbatim>\<open>existing_subscription_state\<close> and \<^verbatim>\<open>subscription_projection_state\<close> read the same columns.\<close>

definition subscription_state :: "env \<Rightarrow> subscription_row \<Rightarrow> json" where
  "subscription_state e r = JObj [(''subscription_id'', JStr (su_id r)), (''customer_id'', JStr (su_customer r)),
     (''plan_version_id'', JStr (su_plan_version r)), (''status'', JStr (su_status r)),
     (''current_period_end'', json_time e (su_period_end r)),
     (''cancel_at_period_end'', JBool (su_cancel_at_end r))]"

definition plan_descriptor :: "uuid \<Rightarrow> db \<Rightarrow> (string \<times> string) option" where
  "plan_descriptor v d = map_option (\<lambda>(_, product_key, plan_key). (product_key, plan_key)) (plan_context v d)"

definition write_subscription_outbox :: "env \<Rightarrow> string \<Rightarrow> time option \<Rightarrow> subscription_row \<Rightarrow> shop \<Rightarrow> shop" where
  "write_subscription_outbox e discriminator occurred r s =
     (let plan = plan_descriptor (su_plan_version r) (core s)
      in on_core (write_outbox e 4 ''subscription_changed''
           (''subscription_changed:'' @ su_id r @ '':'' @ discriminator)
           (JObj [(''customer_id'', JStr (su_customer r)), (''subscription_id'', JStr (su_id r)),
             (''plan_version_id'', JStr (su_plan_version r)),
             (''product'', jopt (\<lambda>p. JStr (fst p)) plan), (''plan_key'', jopt (\<lambda>p. JStr (snd p)) plan),
             (''status'', JStr (su_status r)),
             (''grants_cloud'', JBool (su_status r = ''trialing'' \<or> su_status r = ''active'')),
             (''cancel_at_period_end'', JBool (su_cancel_at_end r)),
             (''current_period_end'', json_time e (su_period_end r)),
             (''occurred_at'', json_time e occurred)])) s)"

section \<open>Resolving an event\<close>

definition is_stale_event :: "time option \<Rightarrow> time option \<Rightarrow> bool" where
  "is_stale_event incoming existing =
     (case (incoming, existing) of (Some i, Some x) \<Rightarrow> i < x | _ \<Rightarrow> False)"

definition find_subscription_by_stripe_id :: "string \<Rightarrow> shop \<Rightarrow> subscription_row option" where
  "find_subscription_by_stripe_id sid s = find (\<lambda>r. su_stripe_id r = Some sid) (subscriptions (core s))"

definition resolve_customer_id ::
    "uuid option \<Rightarrow> string option \<Rightarrow> subscription_row option \<Rightarrow> shop \<Rightarrow> uuid option" where
  "resolve_customer_id metadata stripe existing s =
     (case metadata of Some c \<Rightarrow> Some c | None \<Rightarrow>
     (case existing of Some r \<Rightarrow> Some (su_customer r) | None \<Rightarrow>
     (case stripe of None \<Rightarrow> None | Some sc \<Rightarrow>
        Option.bind (find (\<lambda>r. sc_stripe r = sc) (stripe_customers s)) (\<lambda>r.
          map_option ba_customer (find (\<lambda>b. ba_id b = sc_billing r) (billing s))))))"

definition resolve_plan_version_id ::
    "uuid option \<Rightarrow> string option \<Rightarrow> subscription_row option \<Rightarrow> shop \<Rightarrow> uuid option" where
  "resolve_plan_version_id metadata price existing s =
     (case metadata of Some v \<Rightarrow> Some v | None \<Rightarrow>
     (case existing of Some r \<Rightarrow> Some (su_plan_version r) | None \<Rightarrow>
     (case price of None \<Rightarrow> None | Some p \<Rightarrow>
        map_option pv_id (find (\<lambda>v. pv_stripe_price v = Some p \<and> pv_status v = ''active'')
          (plan_versions (core s))))))"

definition ensure_billing_account :: "env \<Rightarrow> uuid \<Rightarrow> shop \<Rightarrow> apply_error + uuid \<times> shop" where
  "ensure_billing_account e c s =
     (case find (\<lambda>b. ba_customer b = c) (billing s) of
        Some b \<Rightarrow> Inr (ba_id b, s)
      | None \<Rightarrow>
          if \<not> customer_known c (core s) then Inl ApplyDb
          else Inr (e_id e 2, s\<lparr>billing := billing s @ [\<lparr>ba_id = e_id e 2, ba_customer = c\<rparr>]\<rparr>))"

definition link_stripe_customer :: "uuid \<Rightarrow> string option \<Rightarrow> shop \<Rightarrow> shop" where
  "link_stripe_customer account stripe s =
     (case stripe of
        None \<Rightarrow> s
      | Some sc \<Rightarrow>
          if trim sc = [] \<or> find (\<lambda>r. sc_stripe r = sc) (stripe_customers s) \<noteq> None then s
          else s\<lparr>stripe_customers := stripe_customers s @ [\<lparr>sc_billing = account, sc_stripe = sc\<rparr>]\<rparr>)"

section \<open>Applying an event\<close>

definition checkout_state :: "checkout_row \<Rightarrow> checkout_completed \<Rightarrow> json" where
  "checkout_state r co = JObj [(''checkout_session_id'', JStr (ck_id r)),
     (''plan_version_id'', JStr (ck_plan_version r)), (''status'', JStr ''completed''),
     (''has_stripe_customer'', JBool (cc_stripe_customer co \<noteq> None)),
     (''has_stripe_subscription'', JBool (cc_stripe_subscription co \<noteq> None))]"

definition apply_checkout_completed ::
    "env \<Rightarrow> stripe_event \<Rightarrow> checkout_completed \<Rightarrow> shop \<Rightarrow> apply_error + shop" where
  "apply_checkout_completed e ev co s =
     (let complete = (\<lambda>r. r\<lparr>ck_status := ''completed''\<rparr>);
          row = (case (find (same_session (cc_session co)) (checkouts s), cc_customer co, cc_plan_version co) of
              (Some r, _, _) \<Rightarrow> Inr (Some (complete r),
                  s\<lparr>checkouts := upd (same_session (cc_session co)) complete (checkouts s)\<rparr>)
            | (None, Some c, Some v) \<Rightarrow>
                bind_r (upsert_checkout e c v (cc_session co) ''completed'' complete s) (\<lambda>(r, s'). Inr (Some r, s'))
            | _ \<Rightarrow> Inr (None, s))
      in bind_r row (\<lambda>(r, s1).
        case r of
          None \<Rightarrow> Inr s1
        | Some r \<Rightarrow>
            bind_r (ensure_billing_account e (ck_customer r) s1) (\<lambda>(account, s2).
            Inr (write_stripe_audit ev ''checkout_completed'' (ck_customer r) ''checkout_session'' (ck_id r)
              None (Some (checkout_state r co)) (link_stripe_customer account (cc_stripe_customer co) s2)))))"

text \<open>The row a change leaves in place of \<open>r\<close>.\<close>

definition projected_row :: "uuid \<Rightarrow> uuid \<Rightarrow> subscription_change \<Rightarrow> time option \<Rightarrow> subscription_row \<Rightarrow> subscription_row" where
  "projected_row account v ch event_at r = r\<lparr>su_billing := account, su_plan_version := v,
     su_status := sub_as_str (sg_status ch), su_period_start := sg_period_start ch,
     su_period_end := sg_period_end ch, su_cancel_at_end := sg_cancel_at_end ch, su_event_at := event_at\<rparr>"

definition new_subscription :: "env \<Rightarrow> uuid \<Rightarrow> subscription_change \<Rightarrow> subscription_row" where
  "new_subscription e c ch = \<lparr>su_id = e_id e 3, su_customer = c, su_billing = [], su_plan_version = [],
     su_stripe_id = Some (sg_stripe_id ch), su_status = [], su_period_start = None, su_period_end = None,
     su_cancel_at_end = False, su_event_at = None, su_created = e_now e\<rparr>"

definition upsert_subscription_projection ::
    "env \<Rightarrow> subscription_row option \<Rightarrow> uuid \<Rightarrow> uuid \<Rightarrow> uuid \<Rightarrow> subscription_change \<Rightarrow> time option \<Rightarrow> shop
      \<Rightarrow> apply_error + subscription_row \<times> shop" where
  "upsert_subscription_projection e existing c account v ch event_at s =
     (let project = projected_row account v ch event_at in
      if \<not> plan_known v (core s) then Inl ApplyDb
      else case existing of
        Some x \<Rightarrow> Inr (project x, on_core (\<lambda>d. d\<lparr>subscriptions :=
            upd (\<lambda>r. su_id r = su_id x) project (subscriptions d)\<rparr>) s)
      | None \<Rightarrow> (let r = project (new_subscription e c ch)
                in Inr (r, on_core (\<lambda>d. d\<lparr>subscriptions := subscriptions d @ [r]\<rparr>) s)))"

definition sync_license_from_subscription_truth ::
    "env \<Rightarrow> stripe_event \<Rightarrow> subscription_row \<Rightarrow> subscription_status \<Rightarrow> shop \<Rightarrow> apply_error + shop" where
  "sync_license_from_subscription_truth e ev r status s =
     bind_r (db_result (sync_license_for_subscription e 5 (su_customer r) (su_id r) (su_plan_version r) status
               (core s))) (\<lambda>(out, d). Inr (case out of
        None \<Rightarrow> s\<lparr>core := d\<rparr>
      | Some out \<Rightarrow> write_stripe_audit ev (so_audit_event out) (su_customer r) ''license''
            (so_license out) (so_before_state out) (Some (so_after_state out)) (s\<lparr>core := d\<rparr>)))"

text \<open>
  \<^verbatim>\<open>apply_subscription_change\<close> after its first statement, which reads the existing row without a
  lock.
\<close>

definition project_subscription ::
    "env \<Rightarrow> uuid \<Rightarrow> stripe_event \<Rightarrow> subscription_change \<Rightarrow> subscription_row option \<Rightarrow> shop \<Rightarrow> apply_error + shop" where
  "project_subscription e wid ev ch existing s =
     (if is_stale_event (ev_created_at ev) (Option.bind existing su_event_at)
      then Inr (case existing of
          Some x \<Rightarrow> write_stripe_audit ev ''subscription_event_skipped'' (su_customer x) ''subscription'' (su_id x)
            (Some (subscription_state e x))
            (Some (JObj [(''reason'', JStr ''out_of_order''), (''event_type'', JStr (ev_type ev))])) s
        | None \<Rightarrow> s)
      else
        bind_r (ok_or (resolve_customer_id (sg_customer ch) (sg_stripe_customer ch) existing s) MissingCustomer) (\<lambda>c.
        bind_r (ok_or (resolve_plan_version_id (sg_plan_version ch) (sg_price ch) existing s) MissingPlanVersion) (\<lambda>v.
        bind_r (ensure_billing_account e c s) (\<lambda>(account, s1).
        bind_r (upsert_subscription_projection e existing c account v ch (ev_created_at ev)
                  (link_stripe_customer account (sg_stripe_customer ch) s1)) (\<lambda>(r, s2).
        sync_license_from_subscription_truth e ev r (sg_status ch)
          (write_subscription_outbox e wid (ev_created_at ev) r
            (write_stripe_audit ev ''subscription_changed'' (su_customer r) ''subscription'' (su_id r)
              (map_option (subscription_state e) existing) (Some (subscription_state e r)) s2)))))))"

definition apply_subscription_change ::
    "env \<Rightarrow> uuid \<Rightarrow> stripe_event \<Rightarrow> subscription_change \<Rightarrow> shop \<Rightarrow> apply_error + shop" where
  "apply_subscription_change e wid ev ch s =
     project_subscription e wid ev ch (find_subscription_by_stripe_id (sg_stripe_id ch) s) s"

definition record_invoice_reference :: "uuid \<Rightarrow> invoice_change \<Rightarrow> shop \<Rightarrow> shop" where
  "record_invoice_reference sub bill s =
     (let r = \<lparr>iv_subscription = sub, iv_stripe = ic_invoice bill, iv_status = ic_invoice_status bill,
               iv_amount = ic_amount bill, iv_currency = ic_currency bill\<rparr>
      in s\<lparr>invoices := (if find (\<lambda>x. iv_stripe x = ic_invoice bill) (invoices s) \<noteq> None
                        then upd (\<lambda>x. iv_stripe x = ic_invoice bill) (\<lambda>_. r) (invoices s)
                        else invoices s @ [r])\<rparr>)"

definition invoiced_row :: "subscription_status \<Rightarrow> time option \<Rightarrow> subscription_row \<Rightarrow> subscription_row" where
  "invoiced_row status event_at r = r\<lparr>su_status := sub_as_str status, su_event_at := event_at\<rparr>"

definition update_subscription_status_from_invoice ::
    "subscription_row \<Rightarrow> subscription_status \<Rightarrow> time option \<Rightarrow> shop \<Rightarrow> subscription_row \<times> shop" where
  "update_subscription_status_from_invoice x status event_at s =
     (invoiced_row status event_at x, on_core (\<lambda>d. d\<lparr>subscriptions :=
        upd (\<lambda>r. su_id r = su_id x) (invoiced_row status event_at) (subscriptions d)\<rparr>) s)"

definition apply_invoice_change ::
    "env \<Rightarrow> uuid \<Rightarrow> stripe_event \<Rightarrow> invoice_change \<Rightarrow> shop \<Rightarrow> apply_error + shop" where
  "apply_invoice_change e wid ev bill s =
     bind_r (ok_or (find_subscription_by_stripe_id (ic_subscription bill) s) MissingSubscription) (\<lambda>x.
     let s1 = record_invoice_reference (su_id x) bill s;
         audit = (\<lambda>event_type before after. write_stripe_audit ev event_type (su_customer x) ''subscription'' (su_id x)
                    before (Some after));
         before = subscription_state e x
     in if is_stale_event (ev_created_at ev) (su_event_at x)
        then Inr (audit ''invoice_event_skipped'' (Some before)
          (JObj [(''reason'', JStr ''out_of_order''), (''invoice_status'', JStr (ic_invoice_status bill))]) s1)
        else if su_status x = sub_as_str Canceled \<and> ic_status bill = SubActive
        then Inr (audit ''invoice_recorded'' (Some before)
          (JObj [(''invoice_status'', JStr (ic_invoice_status bill)),
                 (''subscription_status_preserved'', JStr (su_status x))]) s1)
        else let (r, s2) = update_subscription_status_from_invoice x (ic_status bill) (ev_created_at ev) s1;
                 after = subscription_state e r
             in if before \<noteq> after
                then sync_license_from_subscription_truth e ev r (ic_status bill)
                  (write_subscription_outbox e wid (ev_created_at ev) r
                    (audit ''subscription_changed'' (Some before) after s2))
                else Inr (audit ''invoice_recorded'' None
                  (JObj [(''invoice_status'', JStr (ic_invoice_status bill))]) s2))"

definition apply_supported_event ::
    "env \<Rightarrow> uuid_parser \<Rightarrow> uuid \<Rightarrow> stripe_event \<Rightarrow> shop \<Rightarrow> apply_error + shop" where
  "apply_supported_event e up wid ev s =
     (if ev_type ev = ''checkout.session.completed''
      then bind_r (ok_or (ev_checkout_completed up ev) MissingCheckoutFields) (\<lambda>co.
             apply_checkout_completed e ev co s)
      else if ev_type ev \<in> set [''customer.subscription.created'', ''customer.subscription.updated'',
          ''customer.subscription.deleted'']
      then bind_r (ok_or (ev_subscription_change up ev) MissingSubscriptionFields) (\<lambda>ch.
             apply_subscription_change e wid ev ch s)
      else if ev_type ev \<in> set [''invoice.paid'', ''invoice.payment_failed'']
      then bind_r (ok_or (ev_invoice_change ev) MissingInvoiceFields) (\<lambda>bill.
             apply_invoice_change e wid ev bill s)
      else Inr s)"

text \<open>One transaction: an error leaves the tables as they were, the receipt included.\<close>

definition apply_and_mark :: "env \<Rightarrow> uuid_parser \<Rightarrow> uuid \<Rightarrow> stripe_event \<Rightarrow> record_outcome \<Rightarrow> shop
      \<Rightarrow> apply_error + webhook_record \<times> shop" where
  "apply_and_mark e up wid ev outcome s =
     bind_r (apply_supported_event e up wid ev s) (\<lambda>s'.
       Inr (\<lparr>wk_outcome = outcome, wk_status = ''processed''\<rparr>, mark_webhook_processed e wid s'))"

definition process_stripe_webhook_event ::
    "env \<Rightarrow> uuid_parser \<Rightarrow> stripe_event \<Rightarrow> shop \<Rightarrow> (apply_error + webhook_record) \<times> shop" where
  "process_stripe_webhook_event e up ev s =
     (case (case insert_webhook_receipt e ev s of
        (None, s1) \<Rightarrow>
          bind_r (ok_or (receipt_of (ev_id ev) s1) ApplyDb) (\<lambda>x.
            if wr_status x = ''received'' \<and> ev_receipt ev = ReceiptReceived
            then apply_and_mark e up (wr_id x) ev Duplicate s1
            else Inr (\<lparr>wk_outcome = Duplicate, wk_status = wr_status x\<rparr>, s1))
      | (Some r, s1) \<Rightarrow>
          if ev_receipt ev = ReceiptIgnored then Inr (\<lparr>wk_outcome = Inserted, wk_status = wr_status r\<rparr>, s1)
          else apply_and_mark e up (wr_id r) ev Inserted s1) of
        Inl err \<Rightarrow> (Inl err, s)
      | Inr (rec, s') \<Rightarrow> (Inr rec, s'))"

section \<open>Reads\<close>

record subscription_summary =
  sm_id :: uuid
  sm_product_key :: string
  sm_plan_key :: string
  sm_status :: string
  sm_grants_cloud :: bool
  sm_period_end :: "time option"
  sm_cancel_at_end :: bool
  sm_created :: time

definition list_customer_subscriptions :: "uuid \<Rightarrow> db \<Rightarrow> subscription_summary list" where
  "list_customer_subscriptions c d =
     List.map_filter (\<lambda>r. map_option (\<lambda>(product_key, plan_key).
         \<lparr>sm_id = su_id r, sm_product_key = product_key, sm_plan_key = plan_key, sm_status = su_status r,
          sm_grants_cloud = (su_status r = ''active'' \<or> su_status r = ''trialing''),
          sm_period_end = su_period_end r, sm_cancel_at_end = su_cancel_at_end r, sm_created = su_created r\<rparr>)
         (plan_descriptor (su_plan_version r) d))
       (order_by (\<lambda>r. - su_created r) (filter (\<lambda>r. su_customer r = c) (subscriptions d)))"

definition find_stripe_customer_id :: "uuid \<Rightarrow> shop \<Rightarrow> string option" where
  "find_stripe_customer_id c s =
     map_option sc_stripe (find (\<lambda>r. \<exists>b \<in> set (billing s). ba_id b = sc_billing r \<and> ba_customer b = c)
       (stripe_customers s))"

section \<open>Operator resync\<close>

text \<open>A row without a Stripe id does not decode.\<close>

definition find_subscription_for_resync :: "uuid \<Rightarrow> db \<Rightarrow> apply_error + (uuid \<times> string) option" where
  "find_subscription_for_resync i d =
     (case find (\<lambda>r. su_id r = i) (subscriptions d) of
        None \<Rightarrow> Inr None
      | Some r \<Rightarrow> bind_r (ok_or (su_stripe_id r) ApplyDb) (\<lambda>x. Inr (Some (su_id r, x))))"

record resync_outcome =
  rs_subscription :: uuid
  rs_customer :: uuid
  rs_status :: string
  rs_changed :: bool
  rs_license_change :: "string option"

definition operator_change ::
    "string \<Rightarrow> string \<Rightarrow> string option \<Rightarrow> string \<Rightarrow> uuid \<Rightarrow> string \<Rightarrow> uuid \<Rightarrow> json option \<Rightarrow> json option \<Rightarrow> db \<Rightarrow> db" where
  "operator_change operator reason corr event_type c target_type target before after =
     write_operator_audit \<lparr>a_event = event_type, a_actor = operator, a_customer = Some c,
       a_target_type = target_type, a_target = target, a_reason = reason, a_before = before,
       a_after = after, a_correlation = corr\<rparr>"

text \<open>\<open>nonce\<close> is \<^verbatim>\<open>Uuid::new_v4()\<close>.\<close>

definition record_resync ::
    "env \<Rightarrow> uuid \<Rightarrow> string \<Rightarrow> string \<Rightarrow> string option \<Rightarrow> subscription_row \<Rightarrow> subscription_row \<Rightarrow> shop \<Rightarrow> shop" where
  "record_resync e nonce operator reason corr x r s =
     (let before = subscription_state e x; after = subscription_state e r;
          s' = on_core (operator_change operator reason corr ''subscription_resynced'' (su_customer r)
                 ''subscription'' (su_id r) (Some before) (Some after)) s
      in if before \<noteq> after then write_subscription_outbox e (''resync:'' @ nonce) (Some (e_utc e 0)) r s'
         else s')"

definition audit_resync_license ::
    "string \<Rightarrow> string \<Rightarrow> string option \<Rightarrow> uuid \<Rightarrow> sync_outcome option \<Rightarrow> db \<Rightarrow> db" where
  "audit_resync_license operator reason corr c out d =
     (case out of None \<Rightarrow> d
      | Some o' \<Rightarrow> operator_change operator reason corr (so_audit_event o') c ''license'' (so_license o')
                    (so_before_state o') (Some (so_after_state o')) d)"

definition apply_admin_resync ::
    "env \<Rightarrow> uuid \<Rightarrow> uuid \<Rightarrow> subscription_change \<Rightarrow> string \<Rightarrow> string \<Rightarrow> string option \<Rightarrow> shop
      \<Rightarrow> (apply_error + resync_outcome option) \<times> shop" where
  "apply_admin_resync e nonce i ch operator reason corr s =
     (case find (\<lambda>r. su_id r = i) (subscriptions (core s)) of
        None \<Rightarrow> (Inr None, s)
      | Some x \<Rightarrow>
        (case
          bind_r (ok_or (resolve_customer_id (sg_customer ch) (sg_stripe_customer ch) (Some x) s) MissingCustomer) (\<lambda>c.
          bind_r (ok_or (resolve_plan_version_id (sg_plan_version ch) (sg_price ch) (Some x) s) MissingPlanVersion) (\<lambda>v.
          bind_r (ensure_billing_account e c s) (\<lambda>(account, s1).
          bind_r (upsert_subscription_projection e (Some x) c account v ch (Some (e_utc e 0))
                    (link_stripe_customer account (sg_stripe_customer ch) s1)) (\<lambda>(r, s2).
          let s3 = record_resync e nonce operator reason corr x r s2 in
          bind_r (db_result (sync_license_for_subscription e 5 (su_customer r) (su_id r) (su_plan_version r)
                    (sg_status ch) (core s3))) (\<lambda>(out, d).
          Inr (\<lparr>rs_subscription = su_id r, rs_customer = su_customer r, rs_status = su_status r,
                rs_changed = (subscription_state e x \<noteq> subscription_state e r),
                rs_license_change = map_option so_audit_event out\<rparr>,
               s3\<lparr>core := audit_resync_license operator reason corr (su_customer r) out d\<rparr>)))))) of
           Inl err \<Rightarrow> (Inl err, s)
         | Inr (out, s') \<Rightarrow> (Inr (Some out), s')))"

end
