(* ===== verification/Commerce_Facts.thy ===== *)
theory Commerce_Facts
  imports Commerce System
begin

text \<open>
  What the commerce operations keep: the unique keys of their tables, the receipts, and the
  invariants of the tables they share with licensing, usage and privacy.
\<close>

section \<open>Unique keys\<close>

text \<open>
  The unique constraints of the commerce tables. The code meets them by its conflict clauses and
  by looking a row up before inserting one.
\<close>

definition shop_keys :: "shop \<Rightarrow> bool" where
  "shop_keys s \<longleftrightarrow> distinct (map wr_event (webhooks s)) \<and> distinct (map ba_customer (billing s))
     \<and> distinct (map sc_stripe (stripe_customers s)) \<and> distinct (map ck_stripe (checkouts s))
     \<and> distinct (map iv_stripe (invoices s)) \<and> distinct (map su_id (subscriptions (core s)))
     \<and> distinct (List.map_filter su_stripe_id (subscriptions (core s)))"

lemma map_filter_append: "List.map_filter f (xs @ ys) = List.map_filter f xs @ List.map_filter f ys"
  by (simp add: List.map_filter_def)

lemma map_filter_upd:
  "(\<And>r. k (f r) = k r) \<Longrightarrow> List.map_filter k (upd P f rs) = List.map_filter k rs"
  by (induction rs) (simp_all add: List.map_filter_def)

lemma shop_keysD:
  assumes "shop_keys s"
  shows "distinct (map wr_event (webhooks s))" "distinct (map su_id (subscriptions (core s)))"
    "distinct (List.map_filter su_stripe_id (subscriptions (core s)))"
  using assms by (simp_all add: shop_keys_def)

section \<open>Tame changes\<close>

text \<open>
  A tame change leaves the receipts, the usage ledger, the deletion requests and the activations
  alone and keeps the invariants; a quiet one leaves the licences alone as well.
\<close>

definition catalog :: "db \<Rightarrow> product_row list \<times> plan_row list \<times> plan_version_row list" where
  "catalog d = (products d, plans d, plan_versions d)"

definition same_rest :: "db \<Rightarrow> db \<Rightarrow> bool" where
  "same_rest d d' \<longleftrightarrow> reservations d' = reservations d \<and> usage_events d' = usage_events d
     \<and> totals d' = totals d \<and> deletions d' = deletions d \<and> activations d' = activations d
     \<and> installations d' = installations d"

definition tame :: "shop \<Rightarrow> shop \<Rightarrow> bool" where
  "tame s s' \<longleftrightarrow> webhooks s' = webhooks s \<and> same_rest (core s) (core s')
     \<and> catalog (core s') = catalog (core s)
     \<and> (out_inv (core s) \<longrightarrow> out_inv (core s')) \<and> (lic_inv (core s) \<longrightarrow> lic_inv (core s'))
     \<and> (shop_keys s \<longrightarrow> shop_keys s')"

definition quiet :: "shop \<Rightarrow> shop \<Rightarrow> bool" where
  "quiet s s' \<longleftrightarrow> tame s s' \<and> licenses (core s') = licenses (core s)"

lemma tame_refl [simp]: "tame s s"
  by (simp add: tame_def same_rest_def)

lemma tame_trans: "tame s t \<Longrightarrow> tame t u \<Longrightarrow> tame s u"
  by (auto simp: tame_def same_rest_def)

lemma quiet_refl [simp]: "quiet s s"
  by (simp add: quiet_def)

lemma quiet_trans: "quiet s t \<Longrightarrow> quiet t u \<Longrightarrow> quiet s u"
  using tame_trans by (auto simp: quiet_def)

lemma quiet_tame: "quiet s t \<Longrightarrow> tame s t"
  by (simp add: quiet_def)

text \<open>A change outside the tables the invariants read.\<close>

lemma quietI:
  assumes "webhooks s' = webhooks s" "same_rest (core s) (core s')" "licenses (core s') = licenses (core s)"
    "catalog (core s') = catalog (core s)"
    "out_inv (core s) \<Longrightarrow> out_inv (core s')" "shop_keys s \<Longrightarrow> shop_keys s'"
  shows "quiet s s'"
  using assms lic_inv_cong [of "core s'" "core s"]
  by (simp add: quiet_def tame_def same_rest_def)

lemma plan_context_cong: "catalog d' = catalog d \<Longrightarrow> plan_context v d' = plan_context v d"
  by (simp add: catalog_def plan_context_def)

lemma write_audit_frame:
  "licenses (write_audit t r d) = licenses d" "same_rest d (write_audit t r d)"
  "catalog (write_audit t r d) = catalog d" "subscriptions (write_audit t r d) = subscriptions d"
  "outbox (write_audit t r d) = outbox d" "plan_context v (write_audit t r d) = plan_context v d"
  by (simp_all add: write_audit_def same_rest_def catalog_def plan_context_def)

lemma out_inv_write_audit: "out_inv d \<Longrightarrow> out_inv (write_audit t r d)"
  using write_audit_sanitized [of d t r] by (simp add: out_inv_def outbox_keys_distinct_def write_audit_frame)

lemma write_outbox_shop_frame:
  "same_rest d (write_outbox e n ev k p d)" "licenses (write_outbox e n ev k p d) = licenses d"
  "catalog (write_outbox e n ev k p d) = catalog d"
  "subscriptions (write_outbox e n ev k p d) = subscriptions d"
  "plan_context v (write_outbox e n ev k p d) = plan_context v d"
  by (simp_all add: write_outbox_def same_rest_def catalog_def plan_context_def)

lemma quiet_audit: "quiet s (write_stripe_audit ev t c tt tg b a s)"
  by (rule quietI) (simp_all add: write_stripe_audit_def write_audit_frame out_inv_write_audit shop_keys_def)

lemma quiet_outbox: "quiet s (write_subscription_outbox e k t r s)"
  by (rule quietI) (simp_all add: write_subscription_outbox_def Let_def write_outbox_shop_frame
      out_inv_write_outbox shop_keys_def)

lemma quiet_ensure: "ensure_billing_account e c s = Inr (a, s') \<Longrightarrow> quiet s s'"
  by (rule quietI)
    (auto simp: ensure_billing_account_def same_rest_def shop_keys_def find_eq_None split: option.splits if_splits)

lemma quiet_link: "quiet s (link_stripe_customer a sc s)"
  by (rule quietI)
    (auto simp: link_stripe_customer_def same_rest_def shop_keys_def find_eq_None split: option.splits)

lemma quiet_checkout:
  assumes "\<And>r. ck_stripe (f r) = ck_stripe r" "upsert_checkout e c v sid st f s = Inr (r, s')"
  shows "quiet s s'"
  using assms(2) by (intro quietI)
    (auto simp: upsert_checkout_def same_session_def same_rest_def shop_keys_def find_eq_None map_upd_key
      assms(1) Let_def split: option.splits if_splits)

lemma quiet_invoice: "quiet s (record_invoice_reference sub bill s)"
proof (rule quietI)
  assume "shop_keys s"
  then show "shop_keys (record_invoice_reference sub bill s)"
    by (auto simp: shop_keys_def record_invoice_reference_def Let_def map_upd_key find_eq_None)
qed (simp_all add: record_invoice_reference_def Let_def same_rest_def)

text \<open>The subscription table.\<close>

lemma out_inv_subscriptions [simp]: "out_inv (d\<lparr>subscriptions := x\<rparr>) = out_inv d"
  by (rule out_inv_cong) simp_all

lemma quiet_subscription_update:
  assumes "\<And>r. su_id (f r) = su_id r \<and> su_stripe_id (f r) = su_stripe_id r"
  shows "quiet s (on_core (\<lambda>d. d\<lparr>subscriptions := upd P f (subscriptions d)\<rparr>) s)"
  by (rule quietI) (simp_all add: same_rest_def catalog_def shop_keys_def map_upd_key map_filter_upd assms)

lemma quiet_subscription_insert:
  assumes "\<And>x. x \<in> set (subscriptions (core s)) \<Longrightarrow> su_id x \<noteq> su_id r"
    and "find_subscription_by_stripe_id sid s = None" "su_stripe_id r = Some sid"
  shows "quiet s (on_core (\<lambda>d. d\<lparr>subscriptions := subscriptions d @ [r]\<rparr>) s)"
proof (rule quietI)
  assume keys: "shop_keys s"
  have "distinct (map su_id (subscriptions (core s) @ [r]))"
    by (rule distinct_insert_new) (use keys assms(1) in \<open>simp_all add: shop_keys_def\<close>)
  moreover have "sid \<notin> set (List.map_filter su_stripe_id (subscriptions (core s)))"
    using assms(2) by (auto simp: find_subscription_by_stripe_id_def find_eq_None List.map_filter_def)
  ultimately show "shop_keys (on_core (\<lambda>d. d\<lparr>subscriptions := subscriptions d @ [r]\<rparr>) s)"
    using keys assms(3) by (simp add: shop_keys_def map_filter_append List.map_filter_simps)
qed (simp_all add: same_rest_def catalog_def)

lemma projected_row_keeps:
  "su_id (projected_row a v ch t r) = su_id r" "su_stripe_id (projected_row a v ch t r) = su_stripe_id r"
  "su_customer (projected_row a v ch t r) = su_customer r"
  by (simp_all add: projected_row_def)

lemma invoiced_row_keeps:
  "su_id (invoiced_row st t r) = su_id r" "su_stripe_id (invoiced_row st t r) = su_stripe_id r"
  "su_customer (invoiced_row st t r) = su_customer r"
  by (simp_all add: invoiced_row_def)

text \<open>New rows take uuids no row has.\<close>

definition fresh_rows_for :: "env \<Rightarrow> shop \<Rightarrow> bool" where
  "fresh_rows_for e s \<longleftrightarrow> list_all (\<lambda>r. su_id r \<noteq> e_id e 3) (subscriptions (core s))
     \<and> list_all (\<lambda>l. li_id l \<noteq> e_id e 5) (licenses (core s))"

lemma quiet_upsert:
  assumes up: "upsert_subscription_projection e existing c a v ch t s = Inr (r, s')"
    and none: "existing = None \<Longrightarrow> find_subscription_by_stripe_id (sg_stripe_id ch) s = None"
    and new: "\<And>x. x \<in> set (subscriptions (core s)) \<Longrightarrow> su_id x \<noteq> e_id e 3"
  shows "quiet s s'"
proof (cases existing)
  case None
  with up have s': "s' = on_core (\<lambda>d. d\<lparr>subscriptions := subscriptions d
      @ [projected_row a v ch t (new_subscription e c ch)]\<rparr>) s"
    by (auto simp: upsert_subscription_projection_def Let_def split: if_splits)
  show ?thesis unfolding s'
    by (rule quiet_subscription_insert [of s _ "sg_stripe_id ch"])
      (use none [OF None] new in \<open>simp_all add: projected_row_keeps new_subscription_def\<close>)
next
  case (Some x)
  with up have "s' = on_core (\<lambda>d. d\<lparr>subscriptions :=
      upd (\<lambda>r. su_id r = su_id x) (projected_row a v ch t) (subscriptions d)\<rparr>) s"
    by (simp add: upsert_subscription_projection_def Let_def split: if_splits)
  then show ?thesis by (simp add: quiet_subscription_update projected_row_keeps)
qed

text \<open>The licence sync with its audit row.\<close>

lemma sync_tame:
  assumes "sync_license_for_subscription e 5 c sub v st (core s) = Inr (out, d)"
    and "\<And>l. l \<in> set (licenses (core s)) \<Longrightarrow> li_id l \<noteq> e_id e 5"
  shows "tame s (s\<lparr>core := d\<rparr>)"
proof -
  have "same_rest (core s) d \<and> catalog d = catalog (core s) \<and> subscriptions d = subscriptions (core s)"
    using assms(1) by (rule sync_cases) (simp_all add: set_license_def catalog_def same_rest_def)
  moreover have "out_inv (core s) \<Longrightarrow> out_inv d" by (rule sync_out [OF assms(1)])
  moreover have "lic_inv (core s) \<Longrightarrow> lic_inv d" by (rule sync_inv_new [OF assms(1) _ assms(2)])
  ultimately show ?thesis by (simp add: tame_def shop_keys_def)
qed

lemma sync_truth_tame:
  assumes "sync_license_from_subscription_truth e ev r st s = Inr s'"
    and "\<And>l. l \<in> set (licenses (core s)) \<Longrightarrow> li_id l \<noteq> e_id e 5"
  shows "tame s s'"
  using assms sync_tame [of e "su_customer r" "su_id r" "su_plan_version r" st s]
    tame_trans [OF _ quiet_tame [OF quiet_audit]]
  by (auto simp: sync_license_from_subscription_truth_def split: sum.splits option.splits prod.splits)

section \<open>Every event is tame\<close>

lemma quiet_steps:
  "quiet s t \<Longrightarrow> quiet s (write_stripe_audit ev k c tt tg b a t)"
  "quiet s t \<Longrightarrow> quiet s (write_subscription_outbox e d w r t)"
  "quiet s t \<Longrightarrow> quiet s (link_stripe_customer ac sc t)"
  "ensure_billing_account e c t = Inr (ac, u) \<Longrightarrow> quiet s t \<Longrightarrow> quiet s u"
  by (rule quiet_trans, assumption, rule quiet_audit quiet_outbox quiet_link quiet_ensure, assumption?)+

lemma fresh_quiet:
  assumes "quiet s t" "fresh_rows_for e s"
  shows "l \<in> set (licenses (core t)) \<Longrightarrow> li_id l \<noteq> e_id e 5"
  using assms by (auto simp: quiet_def fresh_rows_for_def list_all_iff)

lemma checkout_tame:
  assumes "apply_checkout_completed e ev co s = Inr s'"
  shows "tame s s'"
proof -
  have upd: "quiet s (s\<lparr>checkouts := upd P (ck_status_update (\<lambda>_. ''completed'')) (checkouts s)\<rparr>)" for P
    by (rule quietI) (simp_all add: same_rest_def shop_keys_def map_upd_key)
  have ins: "quiet s s1" if "upsert_checkout e c v sid st (ck_status_update (\<lambda>_. ''completed'')) s = Inr (r, s1)"
    for c v sid st r s1 by (rule quiet_checkout [OF _ that]) simp
  from assms have "quiet s s'"
    by (auto simp: apply_checkout_completed_def Let_def intro!: quiet_steps(1,3) dest!: ins
        elim!: quiet_steps(4) intro: upd split: option.splits)
  then show ?thesis by (rule quiet_tame)
qed

lemma ensure_frame:
  "ensure_billing_account e c s = Inr (a, s1) \<Longrightarrow> core s1 = core s"
  "core (link_stripe_customer a sc s) = core s"
  by (auto simp: ensure_billing_account_def link_stripe_customer_def split: option.splits if_splits)

lemma subscription_tame:
  assumes "apply_subscription_change e wid ev ch s = Inr s'" and fr: "fresh_rows_for e s"
  shows "tame s s'"
proof (cases "is_stale_event (ev_created_at ev)
    (Option.bind (find_subscription_by_stripe_id (sg_stripe_id ch) s) su_event_at)")
  case True
  with assms(1) show ?thesis
    by (auto simp: apply_subscription_change_def project_subscription_def quiet_tame quiet_audit
        split: option.splits)
next
  case False
  let ?x = "find_subscription_by_stripe_id (sg_stripe_id ch) s"
  from assms(1) False obtain c v a s1 r s2 where
    e: "ensure_billing_account e c s = Inr (a, s1)" and
    u: "upsert_subscription_projection e ?x c a v ch (ev_created_at ev)
          (link_stripe_customer a (sg_stripe_customer ch) s1) = Inr (r, s2)" and
    y: "sync_license_from_subscription_truth e ev r (sg_status ch)
          (write_subscription_outbox e wid (ev_created_at ev) r
            (write_stripe_audit ev ''subscription_changed'' (su_customer r) ''subscription'' (su_id r)
              (map_option (subscription_state e) ?x) (Some (subscription_state e r)) s2)) = Inr s'"
    by (auto simp: apply_subscription_change_def project_subscription_def)
  let ?s1 = "link_stripe_customer a (sg_stripe_customer ch) s1"
  note core = ensure_frame(2) [of a "sg_stripe_customer ch" s1] ensure_frame(1) [OF e]
  have "quiet ?s1 s2"
    by (rule quiet_upsert [OF u])
      (use fr core in \<open>auto simp: find_subscription_by_stripe_id_def fresh_rows_for_def list_all_iff\<close>)
  then have "quiet s (write_subscription_outbox e wid (ev_created_at ev) r
            (write_stripe_audit ev ''subscription_changed'' (su_customer r) ''subscription'' (su_id r)
              (map_option (subscription_state e) ?x) (Some (subscription_state e r)) s2))"
    using quiet_trans [OF quiet_steps(3) [OF quiet_ensure [OF e]]] by (intro quiet_steps(1,2)) blast
  from tame_trans [OF quiet_tame [OF this] sync_truth_tame [OF y]] fresh_quiet [OF this fr]
  show ?thesis by blast
qed

lemma invoice_tame:
  assumes "apply_invoice_change e wid ev bill s = Inr s'" and fr: "fresh_rows_for e s"
  shows "tame s s'"
proof -
  from assms(1) obtain x where x: "find_subscription_by_stripe_id (ic_subscription bill) s = Some x"
    by (auto simp: apply_invoice_change_def)
  let ?s1 = "record_invoice_reference (su_id x) bill s"
  have q: "quiet s ?s1" by (rule quiet_invoice)
  have up: "quiet s s2" if "update_subscription_status_from_invoice x st t ?s1 = (r, s2)" for st t r s2
    using that quiet_trans [OF q quiet_subscription_update] invoiced_row_keeps
    by (auto simp: update_subscription_status_from_invoice_def)
  have sync: "tame s s'" if "quiet s s2" "sync_license_from_subscription_truth e ev r st
      (write_subscription_outbox e wid t r (write_stripe_audit ev k c tt tg b a s2)) = Inr s'"
    for s2 r st t k c tt tg b a
  proof -
    have "quiet s (write_subscription_outbox e wid t r (write_stripe_audit ev k c tt tg b a s2))"
      by (intro quiet_steps(1,2) that(1))
    from tame_trans [OF quiet_tame [OF this] sync_truth_tame [OF that(2)]] fresh_quiet [OF this fr]
    show ?thesis by blast
  qed
  from assms(1) show ?thesis
    by (auto simp: apply_invoice_change_def x Let_def intro: quiet_tame [OF quiet_steps(1)] q up sync
        split: if_splits prod.splits)
qed

lemma event_tame:
  assumes "apply_supported_event e up wid ev s = Inr s'" and "fresh_rows_for e s"
  shows "tame s s'"
  using assms by (auto simp: apply_supported_event_def intro: checkout_tame subscription_tame invoice_tame
      split: if_splits)

lemma event_keeps_receipts:
  assumes "apply_supported_event e up wid ev s = Inr s'" and "fresh_rows_for e s"
  shows "webhooks s' = webhooks s"
  using event_tame [OF assms] by (simp add: tame_def)

section \<open>When a change succeeds\<close>

text \<open>The plan version's device limit and the commercial policy decode.\<close>

definition limits_readable :: "env \<Rightarrow> uuid \<Rightarrow> db \<Rightarrow> bool" where
  "limits_readable e v d = (case plan_context v d of None \<Rightarrow> True
     | Some (pro, pk, plk) \<Rightarrow> \<not> isl (devices_max d v pk) \<and> \<not> isl (commercial_policy_device_limit e pk plk d))"

lemma sync_ok: "limits_readable e v d \<Longrightarrow> \<exists>out d'. sync_license_for_subscription e n c sub v st d = Inr (out, d')"
  by (auto simp: limits_readable_def sync_license_for_subscription_def bind_r_def Let_def isl_def
      split: option.splits sum.splits)

lemma limits_readable_cong:
  assumes "catalog d' = catalog d" "features_t d' = features_t d" "plan_features d' = plan_features d"
    "policies d' = policies d"
  shows "limits_readable e v d' = limits_readable e v d"
proof -
  have "plan_context v d' = plan_context v d" "devices_max d' v pk = devices_max d v pk"
    "effective_policy e pk d' = effective_policy e pk d" for pk
    using assms by (simp_all add: catalog_def plan_context_def devices_max_def effective_policy_def)
  then have "commercial_policy_device_limit e pk plk d' = commercial_policy_device_limit e pk plk d"
    "plan_context v d' = plan_context v d" "devices_max d' v pk = devices_max d v pk" for pk plk
    by (simp_all add: commercial_policy_device_limit_def split: option.split)
  then show ?thesis by (simp add: limits_readable_def split: option.split)
qed

lemma limits_readable_frame [simp]:
  "limits_readable e v (write_audit t r d) = limits_readable e v d"
  "limits_readable e v (write_outbox e' n k dk p d) = limits_readable e v d"
  "limits_readable e v (d\<lparr>subscriptions := x\<rparr>) = limits_readable e v d"
  "limits_readable e v (d\<lparr>licenses := y\<rparr>) = limits_readable e v d"
  by (rule limits_readable_cong; simp add: write_audit_def write_outbox_def catalog_def)+

lemma limits_readable_core [simp]:
  "limits_readable e v (core (write_stripe_audit ev k c tt tg b a s)) = limits_readable e v (core s)"
  "limits_readable e v (core (write_subscription_outbox e' dk w r s)) = limits_readable e v (core s)"
  by (simp_all add: write_stripe_audit_def write_subscription_outbox_def Let_def)

lemma sync_truth_ok:
  "limits_readable e (su_plan_version r) (core s) \<Longrightarrow>
     \<exists>s'. sync_license_from_subscription_truth e ev r st s = Inr s'"
  using sync_ok [of e "su_plan_version r" "core s" 5 "su_customer r" "su_id r" st]
  by (auto simp: sync_license_from_subscription_truth_def split: option.split)

lemma ensure_ok: "customer_known c (core s) \<Longrightarrow> \<exists>a s1. ensure_billing_account e c s = Inr (a, s1)"
  by (simp add: ensure_billing_account_def split: option.split)

lemma upsert_ok:
  assumes "plan_known v (core s)"
  obtains r s2 where "upsert_subscription_projection e x c a v ch t s = Inr (r, s2)"
    "su_plan_version r = v" "limits_readable e' w (core s2) = limits_readable e' w (core s)"
proof (cases x)
  case None
  then have "upsert_subscription_projection e x c a v ch t s = Inr (projected_row a v ch t (new_subscription e c ch),
      on_core (\<lambda>d. d\<lparr>subscriptions := subscriptions d @ [projected_row a v ch t (new_subscription e c ch)]\<rparr>) s)"
    using assms by (simp add: upsert_subscription_projection_def Let_def)
  then show ?thesis by (rule that) (simp_all add: projected_row_def)
next
  case (Some y)
  then have "upsert_subscription_projection e x c a v ch t s = Inr (projected_row a v ch t y, on_core
      (\<lambda>d. d\<lparr>subscriptions := upd (\<lambda>r. su_id r = su_id y) (projected_row a v ch t) (subscriptions d)\<rparr>) s)"
    using assms by (simp add: upsert_subscription_projection_def Let_def)
  then show ?thesis by (rule that) (simp_all add: projected_row_def)
qed

lemma subscription_ok:
  assumes x: "existing = find_subscription_by_stripe_id (sg_stripe_id ch) s"
    and "resolve_customer_id (sg_customer ch) (sg_stripe_customer ch) existing s = Some c"
      "resolve_plan_version_id (sg_plan_version ch) (sg_price ch) existing s = Some v"
    and known: "customer_known c (core s)" "plan_known v (core s)" "limits_readable e v (core s)"
  shows "\<exists>s'. apply_subscription_change e wid ev ch s = Inr s'"
proof (cases "is_stale_event (ev_created_at ev) (Option.bind existing su_event_at)")
  case False
  obtain a s1 where e: "ensure_billing_account e c s = Inr (a, s1)" using ensure_ok [OF known(1)] by blast
  let ?s1 = "link_stripe_customer a (sg_stripe_customer ch) s1"
  have c: "core ?s1 = core s" using ensure_frame(1) [OF e] ensure_frame(2) by simp
  have "plan_known v (core ?s1)" using known(2) c by simp
  then obtain r s2 where r: "upsert_subscription_projection e existing c a v ch (ev_created_at ev) ?s1 = Inr (r, s2)"
    "su_plan_version r = v" "limits_readable e v (core s2) = limits_readable e v (core ?s1)"
    using upsert_ok by blast
  have "\<exists>s'. sync_license_from_subscription_truth e ev r st (write_subscription_outbox e wid t r
      (write_stripe_audit ev k cu tt tg b af s2)) = Inr s'" for t k cu tt tg b af st
    using r(2,3) known(3) c by (intro sync_truth_ok) simp
  then show ?thesis
    using assms(2,3) False e r(1) by (simp add: apply_subscription_change_def project_subscription_def x)
qed (use x in \<open>simp add: apply_subscription_change_def project_subscription_def\<close>)

end
