(* ===== verification/Commerce_Properties.thy ===== *)
theory Commerce_Properties
  imports Commerce_Facts Demo
begin

text \<open>
  The commerce properties: every Stripe event takes effect at most once, the newest subscription
  event wins whatever the order of delivery, and what a paid invoice does to a canceled subscription.
\<close>

section \<open>Exactly once\<close>

text \<open>A receipt that is no longer \<^verbatim>\<open>received\<close> settles its event.\<close>

definition settled :: "string \<Rightarrow> shop \<Rightarrow> string option" where
  "settled i s = (case receipt_of i s of None \<Rightarrow> None
     | Some r \<Rightarrow> if wr_status r = ''received'' then None else Some (wr_status r))"

definition deliver :: "string \<Rightarrow> env \<times> uuid_parser \<times> stripe_event \<Rightarrow> shop
    \<Rightarrow> (apply_error + webhook_record) \<times> shop" where
  "deliver i = (\<lambda>(e, up, ev). process_stripe_webhook_event e up (ev\<lparr>ev_id := i\<rparr>))"

text \<open>No event touches the receipts; only the mark does.\<close>

lemma audit_receipts [simp]: "webhooks (write_stripe_audit ev k c tt tg b a s) = webhooks s"
  by (simp add: write_stripe_audit_def)

lemma outbox_receipts [simp]: "webhooks (write_subscription_outbox e d w r s) = webhooks s"
  by (simp add: write_subscription_outbox_def Let_def)

lemma link_receipts [simp]: "webhooks (link_stripe_customer a c s) = webhooks s"
  by (simp add: link_stripe_customer_def split: option.split)

lemma ensure_receipts: "ensure_billing_account e c s = Inr (a, s') \<Longrightarrow> webhooks s' = webhooks s"
  by (auto simp: ensure_billing_account_def split: option.splits if_splits)

lemma upsert_receipts:
  "upsert_subscription_projection e x c a v ch t s = Inr (r, s') \<Longrightarrow> webhooks s' = webhooks s"
  by (auto simp: upsert_subscription_projection_def Let_def split: option.splits if_splits)

lemma checkout_receipts: "upsert_checkout e c v i st f s = Inr (r, s') \<Longrightarrow> webhooks s' = webhooks s"
  by (auto simp: upsert_checkout_def Let_def split: option.splits if_splits)

lemma sync_receipts:
  "sync_license_from_subscription_truth e ev r st s = Inr s' \<Longrightarrow> webhooks s' = webhooks s"
  by (auto simp: sync_license_from_subscription_truth_def split: sum.splits option.splits prod.splits)

lemma invoice_receipts [simp]: "webhooks (record_invoice_reference i bill s) = webhooks s"
  by (simp add: record_invoice_reference_def Let_def)

lemmas receipts = ensure_receipts upsert_receipts checkout_receipts sync_receipts

lemma event_receipts: "apply_supported_event e up wid ev s = Inr s' \<Longrightarrow> webhooks s' = webhooks s"
  by (auto simp: apply_supported_event_def apply_checkout_completed_def apply_subscription_change_def
      project_subscription_def apply_invoice_change_def update_subscription_status_from_invoice_def Let_def
      dest!: receipts split: if_splits option.splits)

lemma settle_mark:
  assumes "receipt_of i s = Some r" "wr_id r = wid"
  shows "settled i (mark_webhook_processed e wid s) = Some ''processed''"
proof -
  have "receipt_of i (mark_webhook_processed e wid s) = Some (r\<lparr>wr_status := ''processed'', wr_processed := Some (e_now e)\<rparr>)"
    using assms by (simp add: receipt_of_def mark_webhook_processed_def find_upd_Q)
  then show ?thesis by (simp add: settled_def)
qed

lemma apply_and_mark_settles:
  assumes "apply_and_mark e up wid ev o' s = Inr (w, s')" "receipt_of i s = Some r" "wr_id r = wid"
  shows "wk_status w = ''processed''" "settled i s' = Some ''processed''"
  using assms event_receipts [of e up wid ev s] settle_mark [of i _ r wid e]
  by (auto simp: apply_and_mark_def receipt_of_def)

text \<open>The receipt the processing works on.\<close>

lemma process_cases:
  assumes "process_stripe_webhook_event e up ev s = (Inr w, s')"
  obtains (repeat) r where "receipt_of (ev_id ev) s = Some r" "s' = s" "wk_status w = wr_status r"
      "wk_outcome w = Duplicate" "wr_status r \<noteq> ''received'' \<or> ev_receipt ev = ReceiptIgnored"
  | (ignored) s1 r where "receipt_of (ev_id ev) s' = Some r" "wk_status w = ''ignored''" "wr_status r = ''ignored''"
      "ev_receipt ev = ReceiptIgnored"
  | (applied) s1 r o' where "receipt_of (ev_id ev) s1 = Some r" "ev_receipt ev = ReceiptReceived"
      "apply_and_mark e up (wr_id r) ev o' s1 = Inr (w, s')"
proof (cases "receipt_of (ev_id ev) s")
  case (Some r)
  with assms show ?thesis
    by (cases "wr_status r = ''received'' \<and> ev_receipt ev = ReceiptReceived")
      (auto simp: process_stripe_webhook_event_def insert_webhook_receipt_def split: sum.splits
        intro: repeat applied receipt_status.exhaust [of "ev_receipt ev"])
next
  case None
  let ?r = "\<lparr>wr_id = e_id e 0, wr_event = ev_id ev, wr_type = ev_type ev,
      wr_status = receipt_as_str (ev_receipt ev),
      wr_processed = (case ev_receipt ev of ReceiptReceived \<Rightarrow> None | ReceiptIgnored \<Rightarrow> Some (e_now e)),
      wr_summary = ev_summary ev\<rparr>"
  let ?s1 = "s\<lparr>webhooks := webhooks s @ [?r]\<rparr>"
  have r: "receipt_of (ev_id ev) ?s1 = Some ?r"
    using None by (simp add: receipt_of_def find_append)
  show ?thesis
  proof (cases "ev_receipt ev")
    case ReceiptIgnored
    with assms None r show ?thesis
      by (intro ignored [of ?r])
        (auto simp: process_stripe_webhook_event_def insert_webhook_receipt_def Let_def)
  next
    case ReceiptReceived
    with assms None r show ?thesis
      by (intro applied [of ?s1 ?r])
        (auto simp: process_stripe_webhook_event_def insert_webhook_receipt_def Let_def split: sum.splits)
  qed
qed

lemma process_settles:
  assumes "process_stripe_webhook_event e up ev s = (Inr w, s')" "wk_status w \<noteq> ''received''"
  shows "settled (ev_id ev) s' = Some (wk_status w)"
  using assms(1)
proof (cases rule: process_cases)
  case (applied s1 r o')
  then show ?thesis using apply_and_mark_settles [OF applied(3,1)] by simp
qed (use assms(2) in \<open>simp_all add: settled_def\<close>)

lemma process_settled:
  assumes "settled (ev_id ev) s = Some st"
  shows "process_stripe_webhook_event e up ev s = (Inr \<lparr>wk_outcome = Duplicate, wk_status = st\<rparr>, s)"
  using assms
  by (auto simp: settled_def process_stripe_webhook_event_def insert_webhook_receipt_def
      split: option.splits if_splits)

interpretation hook: idempotent_op settled deliver
    "\<lambda>st. Inr \<lparr>wk_outcome = Duplicate, wk_status = st\<rparr>"
    "\<lambda>res. case res of Inl _ \<Rightarrow> None | Inr w \<Rightarrow> if wk_status w = ''received'' then None else Some (wk_status w)"
proof unfold_locales
  show "deliver k a s = (Inr \<lparr>wk_outcome = Duplicate, wk_status = r\<rparr>, s)" if "settled k s = Some r" for k s r a
    using that process_settled [of "snd (snd a)\<lparr>ev_id := k\<rparr>" s] by (simp add: deliver_def case_prod_beta)
  show "settled k s' = Some r" if "deliver k a s = (res, s')"
    "(case res of Inl _ \<Rightarrow> None | Inr w \<Rightarrow> if wk_status w = ''received'' then None else Some (wk_status w)) = Some r"
    for k a s res s' r
    using that process_settles [of _ _ "snd (snd a)\<lparr>ev_id := k\<rparr>"]
    by (auto simp: deliver_def case_prod_beta split: sum.splits if_splits)
qed

text \<open>A supported event is settled by its first success.\<close>

lemma deliver_progress:
  assumes "deliver i (e, up, ev) s = (res, s')" "ev_receipt ev = ReceiptReceived"
  shows "(\<exists>err. res = Inl err) \<and> s' = s \<or> (\<exists>st. settled i s' = Some st)"
proof (cases res)
  case (Inl err)
  then show ?thesis using assms(1)
    by (auto simp: deliver_def process_stripe_webhook_event_def split: sum.splits prod.splits)
next
  case (Inr w)
  with assms have p: "process_stripe_webhook_event e up (ev\<lparr>ev_id := i\<rparr>) s = (Inr w, s')"
    by (simp add: deliver_def)
  then have "wk_status w \<noteq> ''received''"
    by (cases rule: process_cases) (use assms(2) apply_and_mark_settles(1) in auto)
  then show ?thesis using process_settles [OF p] by auto
qed

lemma process_new:
  assumes "receipt_of (ev_id ev) s = None" "ev_receipt ev = ReceiptReceived"
    and "\<And>r err. apply_supported_event e up (e_id e 0) ev (s\<lparr>webhooks := webhooks s @ [r]\<rparr>) \<noteq> Inl err"
  shows "\<exists>w s'. process_stripe_webhook_event e up ev s = (Inr w, s')"
  using assms by (auto simp: process_stripe_webhook_event_def insert_webhook_receipt_def Let_def apply_and_mark_def
      bind_r_def split: sum.split)

text \<open>C5: Every supported Stripe event takes effect at most once: however often it is delivered,
  by whichever retries, all the deliveries together leave the tables as they were or exactly as
  the one delivery that succeeded leaves them.\<close>

theorem webhook_exactly_once:
  assumes "list_all (\<lambda>(e, up, ev). ev_receipt ev = ReceiptReceived) xs"
    and "s' = fold (\<lambda>x t. snd (deliver i x t)) xs s"
  shows "s' = s \<or> (\<exists>x \<in> set xs. \<exists>w. deliver i x s = (Inr w, s'))"
  using assms
proof (induction xs)
  case (Cons x xs)
  obtain e up ev where x: "x = (e, up, ev)" by (cases x)
  obtain res t where d: "deliver i x s = (res, t)" by (cases "deliver i x s")
  have "(\<exists>err. res = Inl err) \<and> t = s \<or> (\<exists>st. settled i t = Some st)"
    using deliver_progress [of i e up ev s res t] d Cons.prems(1) by (simp add: x)
  then show ?case
  proof
    assume "(\<exists>err. res = Inl err) \<and> t = s"
    then show ?case using Cons d by auto
  next
    assume "\<exists>st. settled i t = Some st"
    then have "s' = t" using Cons.prems(2) d hook.retries_recorded by auto
    moreover have "t = s \<or> (\<exists>w. res = Inr w)"
      using d by (cases res) (auto simp: x deliver_def process_stripe_webhook_event_def
          split: sum.splits prod.splits)
    ultimately show ?case using d by (metis list.set_intros(1))
  qed
qed simp

definition demo_shop :: shop where
  "demo_shop = \<lparr>core = demo_db, billing = [], stripe_customers = [], checkouts = [], invoices = [],
     webhooks = []\<rparr>"

definition demo_object :: "string \<Rightarrow> json" where
  "demo_object st = JObj [(''id'', JStr ''sub_1''), (''status'', JStr st), (''customer'', JStr ''cus_1''),
     (''current_period_end'', JInt 2000), (''metadata'', JObj [(''forgecustomer_customer_id'', JStr ''ada''),
       (''plan_version_id'', JStr ''plan-v1'')])]"

definition demo_event :: "string \<Rightarrow> string \<Rightarrow> int \<Rightarrow> json \<Rightarrow> stripe_event" where
  "demo_event i t at_s obj = \<lparr>ev_id = i, ev_type = t, ev_created = Some at_s, ev_object_id = string_field obj ''id'',
     ev_object_type = None, ev_object = obj, ev_summary = JObj [], ev_receipt = ReceiptReceived\<rparr>"

definition demo_created :: "env \<times> uuid_parser \<times> stripe_event" where
  "demo_created = (demo_env ''h'' 500, Some, demo_event ''evt_1'' ''customer.subscription.created'' 10
     (demo_object ''active''))"

definition demo_change :: "subscription_status \<Rightarrow> subscription_change" where
  "demo_change st = \<lparr>sg_stripe_id = ''sub_1'', sg_stripe_customer = Some ''cus_1'',
     sg_customer = Some ''ada'', sg_plan_version = Some ''plan-v1'', sg_price = None, sg_status = st,
     sg_period_start = None, sg_period_end = Some (secs 2000), sg_cancel_at_end = False\<rparr>"

lemma demo_change_ok:
  assumes "core s = demo_db"
  shows "\<exists>s'. apply_subscription_change (demo_env ''h'' 500) wid ev (demo_change st) s = Inr s'"
proof (rule subscription_ok [OF refl, where c = "''ada''" and v = "''plan-v1''"])
  show "customer_known ''ada'' (core s)" "plan_known ''plan-v1'' (core s)"
    "limits_readable (demo_env ''h'' 500) ''plan-v1'' (core s)"
    unfolding assms by code_simp+
qed (simp_all add: demo_change_def resolve_customer_id_def resolve_plan_version_id_def)

lemma demo_created_applied: "\<exists>w s'. deliver ''evt_1'' demo_created demo_shop = (Inr w, s')"
proof -
  let ?ev = "demo_event ''evt_1'' ''customer.subscription.created'' 10 (demo_object ''active'')"
  have ch: "ev_subscription_change Some ?ev = Some (demo_change SubActive)" by code_simp
  have id: "?ev\<lparr>ev_id := ''evt_1''\<rparr> = ?ev" by (simp add: demo_event_def)
  have ev: "ev_type ?ev = ''customer.subscription.created''" "ev_receipt ?ev = ReceiptReceived"
    "ev_created_at ?ev = Some (secs 10)" by code_simp+
  have "\<exists>w s'. process_stripe_webhook_event (demo_env ''h'' 500) Some ?ev demo_shop = (Inr w, s')"
  proof (rule process_new)
    fix r err
    show "apply_supported_event (demo_env ''h'' 500) Some (e_id (demo_env ''h'' 500) 0) ?ev
        (demo_shop\<lparr>webhooks := webhooks demo_shop @ [r]\<rparr>) \<noteq> Inl err"
      using demo_change_ok [of "demo_shop\<lparr>webhooks := webhooks demo_shop @ [r]\<rparr>"
          "e_id (demo_env ''h'' 500) 0" ?ev SubActive]
      by (auto simp add: apply_supported_event_def ch ev demo_shop_def)
  qed (simp_all add: ev, simp add: demo_shop_def receipt_of_def)
  then show ?thesis by (simp add: deliver_def demo_created_def id)
qed

theorem webhook_exactly_once_witness:
  "\<exists>x \<in> set [demo_created, demo_created]. \<exists>w. deliver ''evt_1'' x demo_shop
     = (Inr w, fold (\<lambda>x t. snd (deliver ''evt_1'' x t)) [demo_created, demo_created] demo_shop)"
proof -
  let ?xs = "[demo_created, demo_created]"
  have 1: "list_all (\<lambda>(e, up, ev). ev_receipt ev = ReceiptReceived) ?xs" by code_simp
  obtain w s' where d: "deliver ''evt_1'' demo_created demo_shop = (Inr w, s')" using demo_created_applied by blast
  have "settled ''evt_1'' s' \<noteq> None"
    using deliver_progress [of "''evt_1''" "fst demo_created" "fst (snd demo_created)" "snd (snd demo_created)"
        demo_shop "Inr w" s'] d 1 by (auto simp: demo_created_def)
  then obtain st where st: "settled ''evt_1'' s' = Some st" by blast
  moreover have "settled ''evt_1'' demo_shop = None" by (simp add: settled_def receipt_of_def demo_shop_def)
  moreover have "fold (\<lambda>x t. snd (deliver ''evt_1'' x t)) ?xs demo_shop = s'"
    using d st hook.replays by simp
  ultimately show ?thesis using webhook_exactly_once [OF 1 refl, of "''evt_1''" demo_shop] by auto
qed

section \<open>The newest event wins\<close>

text \<open>The columns a subscription event projects, and the projection as a function on them.\<close>

type_synonym sub_view = "string \<times> time option \<times> time option \<times> bool \<times> time option"

definition row_view :: "subscription_row \<Rightarrow> sub_view" where
  "row_view r = (su_status r, su_period_start r, su_period_end r, su_cancel_at_end r, su_event_at r)"

definition change_view :: "subscription_change \<Rightarrow> time option \<Rightarrow> sub_view" where
  "change_view ch t = (sub_as_str (sg_status ch), sg_period_start ch, sg_period_end ch, sg_cancel_at_end ch, t)"

definition sub_view :: "string \<Rightarrow> shop \<Rightarrow> sub_view option" where
  "sub_view sid s = map_option row_view (find_subscription_by_stripe_id sid s)"

definition project_view :: "subscription_change \<Rightarrow> time option \<Rightarrow> sub_view option \<Rightarrow> sub_view option" where
  "project_view ch t v =
     (if is_stale_event t (Option.bind v (\<lambda>(_, _, _, _, x). x)) then v else Some (change_view ch t))"

lemma find_sub_cong:
  "subscriptions (core s') = subscriptions (core s) \<Longrightarrow>
     find_subscription_by_stripe_id sid s' = find_subscription_by_stripe_id sid s"
  by (simp add: find_subscription_by_stripe_id_def)

lemma audit_subs [simp]: "subscriptions (core (write_stripe_audit ev k c tt tg b a s)) = subscriptions (core s)"
  by (simp add: write_stripe_audit_def write_audit_frame)

lemma outbox_subs [simp]: "subscriptions (core (write_subscription_outbox e d w r s)) = subscriptions (core s)"
  by (simp add: write_subscription_outbox_def Let_def write_outbox_shop_frame)

lemma invoice_subs [simp]: "core (record_invoice_reference i bill s) = core s"
  by (simp add: record_invoice_reference_def Let_def)

lemma sync_truth_subs:
  "sync_license_from_subscription_truth e ev r st s = Inr s' \<Longrightarrow> subscriptions (core s') = subscriptions (core s)"
  by (auto simp: sync_license_from_subscription_truth_def set_license_def split: sum.splits option.splits
      elim!: sync_cases)

lemma upsert_view:
  assumes "upsert_subscription_projection e existing c a v ch t s = Inr (r, s')"
    and "existing = find_subscription_by_stripe_id (sg_stripe_id ch) s"
  shows "find_subscription_by_stripe_id (sg_stripe_id ch) s' = Some r" "row_view r = change_view ch t"
proof -
  have "find_subscription_by_stripe_id (sg_stripe_id ch) s' = Some r \<and> row_view r = change_view ch t"
  proof (cases existing)
    case None
    with assms show ?thesis
      by (auto simp: upsert_subscription_projection_def Let_def find_subscription_by_stripe_id_def find_append
          projected_row_def new_subscription_def row_view_def change_view_def split: if_splits)
  next
      case (Some x)
    with assms(1) have r: "r = projected_row a v ch t x" and s': "s' = on_core (\<lambda>d. d\<lparr>subscriptions :=
        upd (\<lambda>r. su_id r = su_id x) (projected_row a v ch t) (subscriptions d)\<rparr>) s"
      by (auto simp: upsert_subscription_projection_def Let_def split: if_splits)
    have "find (\<lambda>r. su_stripe_id r = Some (sg_stripe_id ch)) (subscriptions (core s)) = Some x"
      using assms(2) Some by (simp add: find_subscription_by_stripe_id_def)
    then show ?thesis
      by (simp add: r s' find_subscription_by_stripe_id_def find_upd_Q projected_row_keeps)
        (simp add: projected_row_def row_view_def change_view_def)
  qed
  then show "find_subscription_by_stripe_id (sg_stripe_id ch) s' = Some r" "row_view r = change_view ch t"
    by simp_all
qed

lemma subscription_refines:
  assumes "apply_subscription_change e wid ev ch s = Inr s'"
  shows "sub_view (sg_stripe_id ch) s' = project_view ch (ev_created_at ev) (sub_view (sg_stripe_id ch) s)"
proof -
  let ?x = "find_subscription_by_stripe_id (sg_stripe_id ch) s"
  have stale: "Option.bind (sub_view (sg_stripe_id ch) s) (\<lambda>(_, _, _, _, x). x) = Option.bind ?x su_event_at"
    by (cases ?x) (simp_all add: sub_view_def row_view_def)
  show ?thesis
  proof (cases "is_stale_event (ev_created_at ev) (Option.bind ?x su_event_at)")
    case True
    with assms stale show ?thesis
      by (auto simp: apply_subscription_change_def project_subscription_def project_view_def sub_view_def
          find_subscription_by_stripe_id_def split: option.splits)
  next
    case False
    from assms False obtain c v a s1 r s2 where
      e: "ensure_billing_account e c s = Inr (a, s1)" and
      u: "upsert_subscription_projection e ?x c a v ch (ev_created_at ev)
            (link_stripe_customer a (sg_stripe_customer ch) s1) = Inr (r, s2)" and
      y: "sync_license_from_subscription_truth e ev r (sg_status ch)
            (write_subscription_outbox e wid (ev_created_at ev) r
              (write_stripe_audit ev ''subscription_changed'' (su_customer r) ''subscription'' (su_id r)
                (map_option (subscription_state e) ?x) (Some (subscription_state e r)) s2)) = Inr s'"
      by (auto simp: apply_subscription_change_def project_subscription_def)
    have "?x = find_subscription_by_stripe_id (sg_stripe_id ch) (link_stripe_customer a (sg_stripe_customer ch) s1)"
      using ensure_frame(1) [OF e] ensure_frame(2) by (simp add: find_subscription_by_stripe_id_def)
    note view = upsert_view [OF u this]
    have "find_subscription_by_stripe_id (sg_stripe_id ch) s' = find_subscription_by_stripe_id (sg_stripe_id ch) s2"
      using sync_truth_subs [OF y] by (intro find_sub_cong) simp
    then show ?thesis using view False stale by (simp add: project_view_def) (simp add: sub_view_def)
  qed
qed

text \<open>A run of changes, each in a transaction of its own.\<close>

fun deliver_changes :: "(env \<times> uuid \<times> stripe_event \<times> subscription_change) list \<Rightarrow> shop \<Rightarrow> apply_error + shop" where
  "deliver_changes [] s = Inr s"
| "deliver_changes ((e, wid, ev, ch) # xs) s = bind_r (apply_subscription_change e wid ev ch s) (deliver_changes xs)"

lemma deliver_view:
  "deliver_changes xs s = Inr s' \<Longrightarrow> list_all (\<lambda>(e, wid, ev, ch). sg_stripe_id ch = sid) xs \<Longrightarrow>
     sub_view sid s' = fold (\<lambda>(e, wid, ev, ch). project_view ch (ev_created_at ev)) xs (sub_view sid s)"
proof (induction xs arbitrary: s)
  case (Cons x xs)
  then show ?case using subscription_refines by (cases x) fastforce
qed simp

lemma fold_newest:
  assumes "distinct (map t xs)" "x \<in> set xs" "\<forall>y \<in> set xs. t y \<le> t x"
  shows "fold (\<lambda>y. project_view (c y) (Some (t y))) xs None = Some (change_view (c x) (Some (t x)))"
  using assms
proof (induction xs arbitrary: x rule: rev_induct)
  case (snoc y ys)
  show ?case
  proof (cases "ys = []")
    case True
    with snoc.prems show ?thesis by (simp add: project_view_def is_stale_event_def)
  next
    case False
    then have "Max (t ` set ys) \<in> t ` set ys" by simp
    then obtain m where m: "m \<in> set ys" "t m = Max (t ` set ys)" by auto
    have top: "\<forall>z \<in> set ys. t z \<le> t m" by (simp add: m(2))
    have "t y \<notin> t ` set ys" using snoc.prems(1) by simp
    then have ne: "t m \<noteq> t y" using m(1) by (metis image_eqI)
    note ih = snoc.IH [OF _ m(1) top]
    show ?thesis
    proof (cases "x = y")
      case True
      then have "t m < t y" using snoc.prems(3) m(1) ne by fastforce
      then show ?thesis
        using ih snoc.prems(1) True by (simp add: project_view_def change_view_def is_stale_event_def)
    next
      case False
      then have "x \<in> set ys" using snoc.prems(2) by simp
      then have "t x = t m" using top snoc.prems(3) m(1) by (simp add: order_antisym)
      then have "x = m" using snoc.prems(1) m(1) \<open>x \<in> set ys\<close> distinct_key_eq [of t ys x m] by simp
      moreover have "t y < t m" using snoc.prems(3) \<open>t x = t m\<close> ne by fastforce
      ultimately show ?thesis
        using ih snoc.prems(1) by (simp add: project_view_def change_view_def is_stale_event_def)
    qed
  qed
qed simp

text \<open>C14: Out-of-order delivery is harmless: when the events of a new subscription carry pairwise
  different creation times, then whatever order they arrive in the row ends with the status, period
  and cancel flag of the newest one, so every order of delivery gives the same projection.\<close>

theorem newest_event_wins:
  assumes "deliver_changes xs s = Inr s'"
    and "list_all (\<lambda>(e, wid, ev, ch). sg_stripe_id ch = sid \<and> ev_created_at ev \<noteq> None) xs"
    and "distinct (map (\<lambda>(e, wid, ev, ch). the (ev_created_at ev)) xs)"
    and "find_subscription_by_stripe_id sid s = None"
    and "(e, wid, ev, ch) \<in> set xs"
    and "\<forall>(e', wid', ev', ch') \<in> set xs. the (ev_created_at ev') \<le> the (ev_created_at ev)"
  shows "\<exists>r. find_subscription_by_stripe_id sid s' = Some r \<and> su_status r = sub_as_str (sg_status ch)
    \<and> su_period_start r = sg_period_start ch \<and> su_period_end r = sg_period_end ch
    \<and> su_cancel_at_end r = sg_cancel_at_end ch \<and> su_event_at r = ev_created_at ev"
proof -
  have "fold (\<lambda>y. project_view (snd (snd (snd y))) (Some (the (ev_created_at (fst (snd (snd y))))))) xs None =
      Some (change_view ch (Some (the (ev_created_at ev))))"
    using fold_newest [of "\<lambda>y. the (ev_created_at (fst (snd (snd y))))" xs "(e, wid, ev, ch)" "\<lambda>y. snd (snd (snd y))"]
      assms(3,5,6) by (simp add: case_prod_unfold)
  moreover have "fold (\<lambda>(e, wid, ev, ch). project_view ch (ev_created_at ev)) xs v =
      fold (\<lambda>y. project_view (snd (snd (snd y))) (Some (the (ev_created_at (fst (snd (snd y))))))) xs v" for v
    using assms(2) by (induction xs arbitrary: v) (auto simp: case_prod_unfold)
  moreover have "sub_view sid s' = fold (\<lambda>(e, wid, ev, ch). project_view ch (ev_created_at ev)) xs None"
    using deliver_view [OF assms(1), of sid] assms(2,4)
    by (simp add: sub_view_def list_all_iff case_prod_unfold)
  moreover have "ev_created_at ev \<noteq> None" using assms(2,5) by (auto simp: list_all_iff)
  ultimately show ?thesis by (auto simp: sub_view_def row_view_def change_view_def)
qed

lemma demo_core: "core demo_shop = demo_db"
  by (simp add: demo_shop_def)

theorem newest_event_wins_witness:
  "\<exists>s' r. deliver_changes
      [(demo_env ''h'' 500, ''w1'', demo_event ''evt_2'' ''customer.subscription.deleted'' 20 JNull, demo_change Canceled),
       (demo_env ''h'' 500, ''w2'', demo_event ''evt_1'' ''customer.subscription.created'' 10 JNull, demo_change SubActive)]
      demo_shop = Inr s' \<and> find_subscription_by_stripe_id ''sub_1'' s' = Some r \<and> su_status r = ''canceled''"
proof -
  let ?new = "demo_event ''evt_2'' ''customer.subscription.deleted'' 20 JNull"
    and ?old = "demo_event ''evt_1'' ''customer.subscription.created'' 10 JNull"
    and ?e = "demo_env ''h'' 500"
  let ?xs = "[(?e, ''w1'', ?new, demo_change Canceled), (?e, ''w2'', ?old, demo_change SubActive)]"
  have none: "find_subscription_by_stripe_id ''sub_1'' demo_shop = None" by code_simp
  have id: "sg_stripe_id (demo_change st) = ''sub_1''" for st by (simp add: demo_change_def)
  obtain s1 where s1: "apply_subscription_change ?e ''w1'' ?new (demo_change Canceled) demo_shop = Inr s1"
    using demo_change_ok [of demo_shop] demo_core by blast
  have "sub_view ''sub_1'' s1 = Some (change_view (demo_change Canceled) (Some (secs 20)))"
    using subscription_refines [OF s1] none
    by (simp add: id sub_view_def project_view_def is_stale_event_def demo_event_def ev_created_at_def unix_seconds_def)
  then obtain x where x: "find_subscription_by_stripe_id ''sub_1'' s1 = Some x" "su_event_at x = Some (secs 20)"
    by (auto simp: sub_view_def row_view_def change_view_def)
  then obtain s' where s': "deliver_changes ?xs demo_shop = Inr s'"
    using s1 by (simp add: apply_subscription_change_def project_subscription_def id is_stale_event_def
        ev_created_at_def unix_seconds_def demo_event_def del: bind_r_eq_Inr)
  have "\<exists>r. find_subscription_by_stripe_id ''sub_1'' s' = Some r \<and> su_status r = sub_as_str (sg_status (demo_change Canceled))
    \<and> su_period_start r = sg_period_start (demo_change Canceled) \<and> su_period_end r = sg_period_end (demo_change Canceled)
    \<and> su_cancel_at_end r = sg_cancel_at_end (demo_change Canceled) \<and> su_event_at r = ev_created_at ?new"
    by (rule newest_event_wins [OF s', of _ ?e "''w1''"])
      (simp_all add: id none, simp_all add: demo_event_def ev_created_at_def unix_seconds_def secs_def)
  with s' show ?thesis by (auto simp: demo_change_def)
qed

section \<open>Invoices and cancellation\<close>

lemma invoice_recorded:
  "\<exists>r \<in> set (invoices (record_invoice_reference i bill s)). iv_stripe r = ic_invoice bill \<and> iv_subscription r = i
     \<and> iv_status r = ic_invoice_status bill"
proof (cases "find (\<lambda>x. iv_stripe x = ic_invoice bill) (invoices s)")
  case None
  then show ?thesis by (simp add: record_invoice_reference_def Let_def)
next
  case (Some y)
  let ?f = "\<lambda>x. if iv_stripe x = ic_invoice bill then \<lparr>iv_subscription = i, iv_stripe = ic_invoice bill,
      iv_status = ic_invoice_status bill, iv_amount = ic_amount bill, iv_currency = ic_currency bill\<rparr> else x"
  have "?f y \<in> set (invoices (record_invoice_reference i bill s))"
    using Some find_SomeD [OF Some] by (auto simp: record_invoice_reference_def Let_def set_upd)
  then show ?thesis using find_SomeD [OF Some] by (intro bexI [of _ "?f y"]) simp_all
qed

text \<open>A paid invoice never brings a canceled subscription back: whatever its time, it is
  recorded and audited, and the subscription rows and every licence stay as they are.\<close>

theorem paid_invoice_keeps_canceled:
  assumes "apply_invoice_change e wid ev bill s = Inr s'" and "ic_status bill = SubActive"
    and "find_subscription_by_stripe_id (ic_subscription bill) s = Some x" and "su_status x = ''canceled''"
  shows "subscriptions (core s') = subscriptions (core s) \<and> licenses (core s') = licenses (core s)
    \<and> outbox (core s') = outbox (core s)
    \<and> (\<exists>r \<in> set (invoices s'). iv_stripe r = ic_invoice bill \<and> iv_subscription r = su_id x
         \<and> iv_status r = ic_invoice_status bill)"
proof -
  let ?s1 = "record_invoice_reference (su_id x) bill s"
  have "\<exists>r \<in> set (invoices ?s1). iv_stripe r = ic_invoice bill \<and> iv_subscription r = su_id x
      \<and> iv_status r = ic_invoice_status bill" by (rule invoice_recorded)
  moreover have "\<exists>k c b a. s' = write_stripe_audit ev k c ''subscription'' (su_id x) b a ?s1"
    using assms by (auto simp: apply_invoice_change_def Let_def split: if_splits)
  ultimately show ?thesis
    by (auto simp: write_stripe_audit_def write_audit_def)
qed

definition demo_canceled :: shop where
  "demo_canceled = demo_shop\<lparr>core := demo_db\<lparr>subscriptions := [\<lparr>su_id = ''s1'', su_customer = ''ada'',
     su_billing = ''b1'', su_plan_version = ''plan-v1'', su_stripe_id = Some ''sub_1'', su_status = ''canceled'',
     su_period_start = None, su_period_end = None, su_cancel_at_end = False, su_event_at = Some (secs 20),
     su_created = 5\<rparr>], licenses := [\<lparr>li_id = ''lic'', li_customer = ''ada'', li_product = ''prod'',
     li_subscription = Some ''s1'', li_status = ''expired'', li_device_limit = 1, li_issued = 10,
     li_expires = Some 30\<rparr>]\<rparr>\<rparr>"

definition demo_invoice :: "subscription_status \<Rightarrow> invoice_change" where
  "demo_invoice st = \<lparr>ic_invoice = ''in_1'', ic_subscription = ''sub_1'', ic_status = st,
     ic_invoice_status = ''paid'', ic_amount = Some 900, ic_currency = Some ''usd''\<rparr>"

theorem paid_invoice_keeps_canceled_witness:
  "\<exists>s'. apply_invoice_change (demo_env ''h'' 500) ''w1'' (demo_event ''evt_3'' ''invoice.paid'' 30 JNull)
      (demo_invoice SubActive) demo_canceled = Inr s'
    \<and> subscriptions (core s') = subscriptions (core demo_canceled)
    \<and> licenses (core s') = licenses (core demo_canceled)"
proof -
  let ?ev = "demo_event ''evt_3'' ''invoice.paid'' 30 JNull"
  obtain x where x: "find_subscription_by_stripe_id (ic_subscription (demo_invoice SubActive)) demo_canceled = Some x"
    "su_status x = ''canceled''"
    by (simp add: demo_invoice_def demo_canceled_def find_subscription_by_stripe_id_def)
  have st: "ic_status (demo_invoice SubActive) = SubActive" by (simp add: demo_invoice_def)
  obtain s' where s': "apply_invoice_change (demo_env ''h'' 500) ''w1'' ?ev (demo_invoice SubActive) demo_canceled = Inr s'"
    by (cases "is_stale_event (ev_created_at ?ev) (su_event_at x)")
      (simp_all add: apply_invoice_change_def x st Let_def del: bind_r_eq_Inr)
  with paid_invoice_keeps_canceled [OF s' st x] show ?thesis by blast
qed

text \<open>
  The guard covers paid invoices only. A failed payment of a canceled subscription moves it to
  \<^verbatim>\<open>past_due\<close>, and the next paid invoice then makes it active and its licence with it.
\<close>

lemma invoice_moves:
  assumes "apply_invoice_change e wid ev bill s = Inr s'"
    and x: "find_subscription_by_stripe_id (ic_subscription bill) s = Some x"
    and fresh_event: "\<not> is_stale_event (ev_created_at ev) (su_event_at x)"
    and "\<not> (su_status x = ''canceled'' \<and> ic_status bill = SubActive)"
    and "su_status x \<noteq> sub_as_str (ic_status bill)" and "plan_context (su_plan_version x) (core s) \<noteq> None"
  shows "find_subscription_by_stripe_id (ic_subscription bill) s' = Some (invoiced_row (ic_status bill) (ev_created_at ev) x)"
    and "license_view (su_customer x) (su_id x) (core s')
      = sync_status (ic_status bill) (license_view (su_customer x) (su_id x) (core s))"
    and "plan_context v (core s') = plan_context v (core s)"
proof -
  let ?r = "invoiced_row (ic_status bill) (ev_created_at ev) x"
  let ?s2 = "on_core (\<lambda>d. d\<lparr>subscriptions := upd (\<lambda>r. su_id r = su_id x)
      (invoiced_row (ic_status bill) (ev_created_at ev)) (subscriptions d)\<rparr>) (record_invoice_reference (su_id x) bill s)"
  have ne: "subscription_state e x \<noteq> subscription_state e ?r"
    using assms(5) by (auto simp: subscription_state_def invoiced_row_def)
  obtain c tt tg b a where y: "sync_license_from_subscription_truth e ev ?r (ic_status bill)
      (write_subscription_outbox e wid (ev_created_at ev) ?r (write_stripe_audit ev ''subscription_changed'' c tt tg b a ?s2))
      = Inr s'" (is "sync_license_from_subscription_truth e ev ?r _ ?s3 = _")
    using assms(1,3,4) ne by (auto simp: apply_invoice_change_def x Let_def update_subscription_status_from_invoice_def)
  have "catalog (core ?s3) = catalog (core s)"
    by (simp add: write_subscription_outbox_def write_stripe_audit_def Let_def write_outbox_shop_frame write_audit_frame)
      (simp add: catalog_def)
  then have ctx: "plan_context v (core ?s3) = plan_context v (core s)" for v by (rule plan_context_cong)
  have lic: "licenses (core ?s3) = licenses (core s)"
    by (simp add: write_subscription_outbox_def write_stripe_audit_def Let_def write_outbox_def write_audit_def)
  have row: "su_customer ?r = su_customer x" "su_id ?r = su_id x" "su_plan_version ?r = su_plan_version x"
    by (simp_all add: invoiced_row_def)
  obtain out d where d: "sync_license_for_subscription e 5 (su_customer x) (su_id x) (su_plan_version x)
      (ic_status bill) (core ?s3) = Inr (out, d)" "licenses (core s') = licenses d" "catalog (core s') = catalog d"
    using y by (auto simp: sync_license_from_subscription_truth_def row write_stripe_audit_def write_audit_frame
        split: sum.splits option.splits)
  show "license_view (su_customer x) (su_id x) (core s')
      = sync_status (ic_status bill) (license_view (su_customer x) (su_id x) (core s))"
    using sync_refines [OF d(1)] assms(6) ctx lic d(2) by (simp add: license_view_def)
  show "plan_context v (core s') = plan_context v (core s)"
    using sync_plan_context [OF d(1), of v] ctx plan_context_cong [OF d(3)] by simp
  have "find_subscription_by_stripe_id (ic_subscription bill) s' = find_subscription_by_stripe_id (ic_subscription bill) ?s2"
    using sync_truth_subs [OF y] by (intro find_sub_cong) simp
  also have "\<dots> = Some ?r"
    using x by (simp add: find_subscription_by_stripe_id_def find_upd_Q invoiced_row_keeps)
  finally show "find_subscription_by_stripe_id (ic_subscription bill) s' = Some ?r" .
qed

theorem failed_then_paid_revives:
  assumes failed: "apply_invoice_change e w1 ev1 bill1 s = Inr s1" "ic_status bill1 = PastDue"
    "\<not> is_stale_event (ev_created_at ev1) (su_event_at x)"
    and paid: "apply_invoice_change e' w2 ev2 bill2 s1 = Inr s2" "ic_status bill2 = SubActive"
    "\<not> is_stale_event (ev_created_at ev2) (ev_created_at ev1)"
    and x: "find_subscription_by_stripe_id sid s = Some x" "su_status x = ''canceled''"
    and sids: "ic_subscription bill1 = sid" "ic_subscription bill2 = sid"
    and known: "plan_context (su_plan_version x) (core s) \<noteq> None"
    and "license_view (su_customer x) (su_id x) (core s) = Some Expired"
  shows "license_view (su_customer x) (su_id x) (core s2) = Some LicActive"
proof -
  let ?y = "invoiced_row PastDue (ev_created_at ev1) x"
  have x1: "find_subscription_by_stripe_id (ic_subscription bill1) s = Some x" using x sids by simp
  note m1 = invoice_moves [OF failed(1) x1 failed(3)]
  have y: "find_subscription_by_stripe_id (ic_subscription bill2) s1 = Some ?y"
    and l1: "license_view (su_customer x) (su_id x) (core s1) = Some Expired"
    and k: "plan_context (su_plan_version x) (core s1) \<noteq> None"
    using m1 x(2) failed(2) known assms(12) sids by (simp_all add: sync_status_table grants_cloud_def)
  have row: "su_status ?y = ''past_due''" "su_event_at ?y = ev_created_at ev1" "su_plan_version ?y = su_plan_version x"
    "su_customer ?y = su_customer x" "su_id ?y = su_id x" by (simp_all add: invoiced_row_def)
  show ?thesis
    using invoice_moves(2) [OF paid(1) y] paid(2,3) row k l1 by (simp add: sync_status_table grants_cloud_def)
qed

end
