(* ===== verification/Commerce_System.thy ===== *)
theory Commerce_System
  imports Commerce_Facts
begin

text \<open>
  The whole account with its shop: the steps of the licensing, privacy and usage repositories and
  of the commerce repository, and the invariant of every state they reach. The webhook, resync and
  checkout operations run with uuids no row has.
\<close>

definition shop_inv :: "shop \<Rightarrow> bool" where
  "shop_inv s \<longleftrightarrow> sys_inv (core s) \<and> shop_keys s"

lemma tame_inv: "tame s s' \<Longrightarrow> shop_inv s \<Longrightarrow> shop_inv s'"
  using usage_inv_cong(1) [of "core s'" "core s"]
  by (simp add: shop_inv_def sys_inv_def tame_def same_rest_def request_wf_def)

section \<open>Webhooks\<close>

lemma receipt_insert_inv:
  assumes "insert_webhook_receipt e ev s = (r, s')" "shop_inv s"
  shows "shop_inv s' \<and> core s' = core s"
proof (cases "receipt_of (ev_id ev) s")
  case None
  then have "ev_id ev \<notin> set (map wr_event (webhooks s))" by (auto simp: receipt_of_def find_eq_None)
  with None assms show ?thesis
    by (auto simp: insert_webhook_receipt_def shop_inv_def shop_keys_def Let_def)
qed (use assms in \<open>simp add: insert_webhook_receipt_def\<close>)

lemma mark_inv: "shop_inv s \<Longrightarrow> shop_inv (mark_webhook_processed e i s)"
  by (simp add: shop_inv_def shop_keys_def mark_webhook_processed_def map_upd_key)
lemma event_tame_core:
  assumes "apply_supported_event e up wid ev s = Inr s'" "core s = core t" "fresh_rows_for e t"
  shows "tame s s'"
proof -
  have "fresh_rows_for e s" using assms(2,3) by (simp add: fresh_rows_for_def)
  then show ?thesis by (rule event_tame [OF assms(1)])
qed

lemma process_inv:
  assumes "process_stripe_webhook_event e up ev s = (res, s')" "fresh_rows_for e s" "shop_inv s"
  shows "shop_inv s'"
proof -
  have ap: "shop_inv t'"
    if m: "apply_and_mark e up wid ev o' t = Inr (w, t')" "core t = core s" "shop_inv t" for t t' wid o' w
  proof -
    obtain u where u: "apply_supported_event e up wid ev t = Inr u" "t' = mark_webhook_processed e wid u"
      using m(1) by (auto simp: apply_and_mark_def)
    show ?thesis
      unfolding u(2) by (intro mark_inv tame_inv [OF event_tame_core [OF u(1) m(2) assms(2)] m(3)])
  qed
  obtain r s1 where r: "insert_webhook_receipt e ev s = (r, s1)" by (cases "insert_webhook_receipt e ev s")
  note s1 = receipt_insert_inv [OF r assms(3)]
  from assms(1) show ?thesis
    using s1 assms(3) ap
    by (auto simp: process_stripe_webhook_event_def r split: option.splits sum.splits if_splits)
qed

lemma receipt_only_inv:
  "record_stripe_webhook_event e ev s = (res, s') \<Longrightarrow> shop_inv s \<Longrightarrow> shop_inv s'"
  using receipt_insert_inv by (auto simp: record_stripe_webhook_event_def split: prod.splits option.splits)

section \<open>Checkout and resync\<close>

lemma checkout_inv:
  assumes "record_checkout_session e c v sid s = Inr (r, s')" "shop_inv s"
  shows "shop_inv s'"
  by (rule tame_inv [OF quiet_tame [OF quiet_checkout] assms(2)])
    (use assms(1) in \<open>simp_all add: record_checkout_session_def\<close>)

lemma quiet_operator: "quiet s (on_core (operator_change op reason corr k c tt tg b a) s)"
  by (rule quietI) (simp_all add: operator_change_def write_operator_audit_def write_audit_frame
      out_inv_write_audit shop_keys_def)

lemma operator_tame: "tame s (s\<lparr>core := d\<rparr>) \<Longrightarrow> tame s (s\<lparr>core := operator_change op reason corr k c tt tg b a d\<rparr>)"
  using tame_trans [OF _ quiet_tame [OF quiet_operator [of "s\<lparr>core := d\<rparr>"]]] by (simp add: on_core_def)

lemma resync_tame:
  assumes "apply_admin_resync e nonce i ch op reason corr s = (res, s')" and fr: "fresh_rows_for e s"
  shows "tame s s'"
proof (cases "find (\<lambda>r. su_id r = i) (subscriptions (core s))")
  case None
  with assms(1) show ?thesis by (simp add: apply_admin_resync_def)
next
  case (Some x)
  show ?thesis
  proof (cases res)
    case (Inl err)
    with assms(1) Some show ?thesis by (auto simp: apply_admin_resync_def split: sum.splits prod.splits)
  next
    case (Inr out)
    from assms(1) Some Inr obtain c v a s1 r s2 o' d where
      e: "ensure_billing_account e c s = Inr (a, s1)" and
      u: "upsert_subscription_projection e (Some x) c a v ch (Some (e_utc e 0))
            (link_stripe_customer a (sg_stripe_customer ch) s1) = Inr (r, s2)" and
      y: "sync_license_for_subscription e 5 (su_customer r) (su_id r) (su_plan_version r) (sg_status ch)
            (core (record_resync e nonce op reason corr x r s2)) = Inr (o', d)" and
      s': "s' = (record_resync e nonce op reason corr x r s2)
            \<lparr>core := audit_resync_license op reason corr (su_customer r) o' d\<rparr>"
      by (auto simp: apply_admin_resync_def Let_def split: sum.splits)
    let ?t = "record_resync e nonce op reason corr x r s2"
    have "quiet s s2"
      using quiet_trans [OF quiet_steps(3) [OF quiet_ensure [OF e]]] quiet_upsert [OF u] fr
        ensure_frame(1) [OF e] ensure_frame(2)
      by (simp add: fresh_rows_for_def list_all_iff)
    then have q: "quiet s ?t"
      by (auto simp: record_resync_def Let_def intro!: quiet_steps(2) intro: quiet_trans [OF _ quiet_operator])
    have "tame ?t (?t\<lparr>core := d\<rparr>)"
      by (rule sync_tame [OF y]) (rule fresh_quiet [OF q fr])
    then have "tame ?t s'" using operator_tame by (simp add: s' audit_resync_license_def split: option.split)
    then show ?thesis using tame_trans [OF quiet_tame [OF q]] by blast
  qed
qed

section \<open>Steps\<close>

inductive shop_step :: "(total_key \<Rightarrow> f64 option) \<Rightarrow> shop \<Rightarrow> shop \<Rightarrow> bool" for limits where
  account: "sys_step limits (core s) d \<Longrightarrow> shop_step limits s (s\<lparr>core := d\<rparr>)"
| webhook: "fresh_rows_for e s \<Longrightarrow> process_stripe_webhook_event e up ev s = (res, s') \<Longrightarrow> shop_step limits s s'"
| receipt: "record_stripe_webhook_event e ev s = (res, s') \<Longrightarrow> shop_step limits s s'"
| checkout: "record_checkout_session e c v sid s = Inr (r, s') \<Longrightarrow> shop_step limits s s'"
| resync: "fresh_rows_for e s \<Longrightarrow> apply_admin_resync e nonce i ch op reason corr s = (res, s') \<Longrightarrow>
    shop_step limits s s'"

lemma sys_step_subs: "sys_step limits d d' \<Longrightarrow> subscriptions d' = subscriptions d"
  using account_step_ledger ledger_step_core by (auto simp: sys_step_def same_defs)

lemma shop_step_inv: "shop_step limits s s' \<Longrightarrow> shop_inv s \<Longrightarrow> shop_inv s'"
proof (induction rule: shop_step.induct)
  case (account s d)
  then show ?case using sys_step_inv sys_step_subs by (simp add: shop_inv_def shop_keys_def)
next
  case (resync e s nonce i ch op reason corr res s')
  then show ?case using resync_tame tame_inv by blast
qed (use process_inv receipt_only_inv checkout_inv in blast)+

text \<open>The states reachable from one that satisfies the invariant.\<close>

definition shop_reachable :: "(total_key \<Rightarrow> f64 option) \<Rightarrow> shop \<Rightarrow> shop \<Rightarrow> bool" where
  "shop_reachable limits = (shop_step limits)\<^sup>*\<^sup>*"

interpretation shop_runs: preserved "shop_step limits" shop_inv for limits
  by unfold_locales (rule shop_step_inv)

lemma shop_reachable_inv: "shop_reachable limits s s' \<Longrightarrow> shop_inv s \<Longrightarrow> shop_inv s'"
  unfolding shop_reachable_def by (rule shop_runs.run_keeps)

end
