(* ===== verification/Resync.thy ===== *)
theory Resync
  imports Commerce_Properties Commerce_System
begin

text \<open>
  The operator's resync of one subscription from Stripe's state
  (\<^verbatim>\<open>repositories/commerce.rs\<close>, \<^verbatim>\<open>apply_admin_resync\<close>): what it reads and leaves alone, when it
  succeeds, and that repeating it changes nothing.
\<close>

text \<open>Syncing again with the same status and limits changes nothing.\<close>

lemma sync_idem:
  assumes sy: "sync_license_for_subscription e n c sub v st d = Inr (out, d')"
    and lic: "licenses d2 = licenses d'" and ctx: "plan_context v d2 = plan_context v d"
    and dm: "\<And>pk. devices_max d2 v pk = devices_max d v pk"
    and pol: "\<And>pk plk. commercial_policy_device_limit e2 pk plk d2 = commercial_policy_device_limit e pk plk d"
  shows "sync_license_for_subscription e2 n2 c sub v st d2 = Inr (None, d2)"
proof (cases "plan_context v d")
  case None
  then show ?thesis by (simp add: sync_license_for_subscription_def ctx)
next
  case (Some p)
  obtain pro pk plk where p: "plan_context v d = Some (pro, pk, plk)" using Some by (cases p) auto
  obtain dmax pl where r: "devices_max d v pk = Inr dmax" "commercial_policy_device_limit e pk plk d = Inr pl"
    using sy p by (auto simp: sync_license_for_subscription_def Let_def)
  define lim where "lim = unwrap_or pl (unwrap_or (i32_try_from (clamp (unwrap_or dmax 1) 0 i32_max)) 1)"
  let ?find = "find (synced_license c sub)"
  have settled: "sync_license_for_subscription e2 n2 c sub v st d2 = Inr (None, d2)"
    if "license_sync_action (map_option (\<lambda>l. lic_parse (li_status l)) (?find (licenses d2))) st = None"
      "\<And>l. ?find (licenses d2) = Some l \<Longrightarrow> li_status l = ''active'' \<Longrightarrow> grants_cloud st \<Longrightarrow> li_device_limit l = lim"
    using that p r
    by (cases "?find (licenses d2)") (simp_all add: sync_license_for_subscription_def ctx dm pol Let_def lim_def)
  show ?thesis
  proof (cases "?find (licenses d)")
    case None
    then show ?thesis
      using sy p r by (intro settled)
        (auto simp: sync_license_for_subscription_def Let_def lic find_append synced_license_def lic_parse_def
          lim_def [symmetric] grants_cloud_def split: if_splits)
  next
    case (Some l)
    have upd: "?find (licenses (set_license (li_id l) f d)) = Some (f l)"
      if "\<And>r. li_customer (f r) = li_customer r \<and> li_subscription (f r) = li_subscription r" for f
      using find_set_license [OF Some] that by blast
    show ?thesis
      using sy p r Some
      by (intro settled; cases "license_sync_action (Some (lic_parse (li_status l))) st" rule: option.exhaust)
        (auto simp: sync_license_for_subscription_def Let_def lic upd lim_def [symmetric] lic_parse_def grants_cloud_def
          split: if_splits sync_action.splits)
  qed
qed
lemma ensure_again:
  assumes "ensure_billing_account e c s = Inr (a, s1)" "billing s2 = billing s1"
  shows "ensure_billing_account e2 c s2 = Inr (a, s2)"
  using assms by (auto simp: ensure_billing_account_def find_append split: option.splits if_splits)

lemma link_again:
  assumes "stripe_customers s2 = stripe_customers (link_stripe_customer a sc s)"
  shows "link_stripe_customer a sc s2 = s2"
  using assms by (auto simp: link_stripe_customer_def find_append split: option.splits if_splits)

lemma limits_cong:
  assumes "catalog d' = catalog d" "features_t d' = features_t d" "plan_features d' = plan_features d"
    "policies d' = policies d"
  shows "plan_context v d' = plan_context v d" "devices_max d' v pk = devices_max d v pk"
    "commercial_policy_device_limit e pk plk d' = commercial_policy_device_limit e pk plk d"
proof -
  show "plan_context v d' = plan_context v d" by (rule plan_context_cong [OF assms(1)])
  show "devices_max d' v pk = devices_max d v pk" using assms by (simp add: devices_max_def)
  have "effective_policy e pk d' = effective_policy e pk d"
    using assms by (simp add: catalog_def effective_policy_def)
  then show "commercial_policy_device_limit e pk plk d' = commercial_policy_device_limit e pk plk d"
    by (simp add: commercial_policy_device_limit_def split: option.split)
qed

text \<open>The tables the operator's audit and outbox rows leave alone.\<close>

lemma operator_tables:
  "catalog (operator_change op rs co k c tt tg b a d) = catalog d"
  "features_t (operator_change op rs co k c tt tg b a d) = features_t d"
  "plan_features (operator_change op rs co k c tt tg b a d) = plan_features d"
  "policies (operator_change op rs co k c tt tg b a d) = policies d"
  "licenses (operator_change op rs co k c tt tg b a d) = licenses d"
  "subscriptions (operator_change op rs co k c tt tg b a d) = subscriptions d"
  "outbox (operator_change op rs co k c tt tg b a d) = outbox d"
  "plan_versions (operator_change op rs co k c tt tg b a d) = plan_versions d"
  by (simp_all add: operator_change_def write_operator_audit_def write_audit_def catalog_def)

lemma outbox_tables:
  "catalog (write_outbox e n k dk p d) = catalog d" "features_t (write_outbox e n k dk p d) = features_t d"
  "plan_features (write_outbox e n k dk p d) = plan_features d" "policies (write_outbox e n k dk p d) = policies d"
  "licenses (write_outbox e n k dk p d) = licenses d" "subscriptions (write_outbox e n k dk p d) = subscriptions d"
  "plan_versions (write_outbox e n k dk p d) = plan_versions d"
  by (simp_all add: write_outbox_def catalog_def)

lemma record_resync_tables:
  fixes e nonce op rs co x r s
  defines "t \<equiv> record_resync e nonce op rs co x r s"
  shows "catalog (core t) = catalog (core s)" "features_t (core t) = features_t (core s)"
    "plan_features (core t) = plan_features (core s)" "policies (core t) = policies (core s)"
    "licenses (core t) = licenses (core s)" "subscriptions (core t) = subscriptions (core s)"
    "plan_versions (core t) = plan_versions (core s)"
    "billing t = billing s" "stripe_customers t = stripe_customers s"
  by (simp_all add: t_def record_resync_def write_subscription_outbox_def Let_def operator_tables outbox_tables)

lemma record_resync_quiet:
  "subscription_state e x = subscription_state e r \<Longrightarrow>
     outbox (core (record_resync e nonce op rs co x r s)) = outbox (core s)"
  by (simp add: record_resync_def Let_def operator_tables)

lemma audit_resync_tables:
  fixes op rs co c out d
  defines "d' \<equiv> audit_resync_license op rs co c out d"
  shows "catalog d' = catalog d" "features_t d' = features_t d" "plan_features d' = plan_features d"
    "policies d' = policies d" "licenses d' = licenses d" "subscriptions d' = subscriptions d"
    "outbox d' = outbox d" "plan_versions d' = plan_versions d"
  by (simp_all add: d'_def audit_resync_license_def operator_tables split: option.split)

lemma sync_tables:
  assumes "sync_license_for_subscription e n c sub v st d = Inr (out, d')"
  shows "catalog d' = catalog d \<and> features_t d' = features_t d \<and> plan_features d' = plan_features d
    \<and> policies d' = policies d \<and> subscriptions d' = subscriptions d \<and> outbox d' = outbox d
    \<and> plan_versions d' = plan_versions d"
  using assms by (rule sync_cases) (simp_all add: set_license_def catalog_def)

text \<open>A successful resync, step by step.\<close>

lemma resync_run:
  assumes "apply_admin_resync e nonce i ch op rs co s = (Inr (Some o1), s')"
  obtains x c v a s1 r out d where "find (\<lambda>r. su_id r = i) (subscriptions (core s)) = Some x"
    "resolve_customer_id (sg_customer ch) (sg_stripe_customer ch) (Some x) s = Some c"
    "resolve_plan_version_id (sg_plan_version ch) (sg_price ch) (Some x) s = Some v"
    "ensure_billing_account e c s = Inr (a, s1)" "plan_known v (core s)"
    "r = projected_row a v ch (Some (e_utc e 0)) x"
    "sync_license_for_subscription e 5 (su_customer r) (su_id r) (su_plan_version r) (sg_status ch)
       (core (record_resync e nonce op rs co x r (on_core (\<lambda>d. d\<lparr>subscriptions :=
         upd (\<lambda>r. su_id r = su_id x) (projected_row a v ch (Some (e_utc e 0))) (subscriptions d)\<rparr>)
         (link_stripe_customer a (sg_stripe_customer ch) s1)))) = Inr (out, d)"
    "s' = (record_resync e nonce op rs co x r (on_core (\<lambda>d. d\<lparr>subscriptions :=
         upd (\<lambda>r. su_id r = su_id x) (projected_row a v ch (Some (e_utc e 0))) (subscriptions d)\<rparr>)
         (link_stripe_customer a (sg_stripe_customer ch) s1)))
       \<lparr>core := audit_resync_license op rs co (su_customer r) out d\<rparr>"
proof (cases "find (\<lambda>r. su_id r = i) (subscriptions (core s))")
  case (Some x)
  with assms that show ?thesis
    by (auto simp: apply_admin_resync_def upsert_subscription_projection_def Let_def ensure_frame
        split: sum.splits if_splits dest: ensure_frame(1))
qed (use assms in \<open>simp add: apply_admin_resync_def\<close>)

lemma resync_ok:
  assumes x: "find (\<lambda>r. su_id r = i) (subscriptions (core s)) = Some x"
    and "resolve_customer_id (sg_customer ch) (sg_stripe_customer ch) (Some x) s = Some c"
      "resolve_plan_version_id (sg_plan_version ch) (sg_price ch) (Some x) s = Some v"
    and known: "customer_known c (core s)" "plan_known v (core s)" "limits_readable e v (core s)"
  shows "\<exists>o1 s'. apply_admin_resync e nonce i ch op rs co s = (Inr (Some o1), s')"
proof -
  obtain a s1 where e: "ensure_billing_account e c s = Inr (a, s1)" using ensure_ok [OF known(1)] by blast
  let ?s1 = "link_stripe_customer a (sg_stripe_customer ch) s1"
  have c: "core ?s1 = core s" using ensure_frame(1) [OF e] ensure_frame(2) by simp
  have "plan_known v (core ?s1)" using known(2) c by simp
  then obtain r s2 where r: "upsert_subscription_projection e (Some x) c a v ch (Some (e_utc e 0)) ?s1 = Inr (r, s2)"
    "su_plan_version r = v" "limits_readable e v (core s2) = limits_readable e v (core ?s1)"
    using upsert_ok by blast
  let ?t = "record_resync e nonce op rs co x r s2"
  have "limits_readable e v (core ?t) = limits_readable e v (core s2)"
    using record_resync_tables [of e nonce op rs co x r s2] by (intro limits_readable_cong) auto
  then have "\<exists>out d. sync_license_for_subscription e 5 (su_customer r) (su_id r) (su_plan_version r) (sg_status ch) (core ?t)
      = Inr (out, d)"
    using r(2,3) known(3) c by (intro sync_ok) simp
  then obtain out d where "sync_license_for_subscription e 5 (su_customer r) (su_id r) (su_plan_version r) (sg_status ch)
      (core ?t) = Inr (out, d)" by blast
  then show ?thesis using assms(2,3) e r(1) by (simp add: apply_admin_resync_def x Let_def)
qed

lemma resolve_known:
  "resolve_customer_id m sc (Some x) s = Some (unwrap_or m (su_customer x))"
  "resolve_plan_version_id mv pr (Some x) s = Some (unwrap_or mv (su_plan_version x))"
  by (simp_all add: resolve_customer_id_def resolve_plan_version_id_def unwrap_or_def split: option.split)

text \<open>C31: An operator's resync converges: once a resync has succeeded, repeating it with the same
  state from Stripe succeeds, reports no change, touches no licence and queues no event, as long as
  the commercial policy in force gives the same limits.\<close>

theorem resync_converges:
  assumes run: "apply_admin_resync e nonce i ch op rs co s = (Inr (Some o1), s')"
    and pol: "\<forall>pk plk. commercial_policy_device_limit e2 pk plk (core s) = commercial_policy_device_limit e pk plk (core s)"
  shows "\<exists>o2 s2. apply_admin_resync e2 nonce2 i ch op2 rs2 co2 s' = (Inr (Some o2), s2)
    \<and> \<not> rs_changed o2 \<and> rs_license_change o2 = None
    \<and> licenses (core s2) = licenses (core s') \<and> outbox (core s2) = outbox (core s')"
  using run
proof (cases rule: resync_run)
  case (1 x c v a s1 r out d)
  define t where "t = on_core (\<lambda>d. d\<lparr>subscriptions := upd (\<lambda>r. su_id r = su_id x)
      (projected_row a v ch (Some (e_utc e 0))) (subscriptions d)\<rparr>) (link_stripe_customer a (sg_stripe_customer ch) s1)"
  note R = 1 [folded t_def]
  note rec = record_resync_tables [of e nonce op rs co x r t] and aud = audit_resync_tables [of op rs co "su_customer r" out d]
    and syn = sync_tables [OF R(7)]
  have core1: "core s1 = core s" by (rule ensure_frame(1) [OF R(4)])
  have tables: "catalog (core s') = catalog (core s)" "features_t (core s') = features_t (core s)"
    "plan_features (core s') = plan_features (core s)" "policies (core s') = policies (core s)"
    "plan_versions (core s') = plan_versions (core s)" "licenses (core s') = licenses d"
    using rec aud syn core1 by (simp_all add: R(8) t_def ensure_frame(2) catalog_def)
  have bill: "billing s' = billing s1" "stripe_customers s' = stripe_customers (link_stripe_customer a (sg_stripe_customer ch) s1)"
    using rec by (simp_all add: R(8) t_def) (simp add: link_stripe_customer_def split: option.split)
  have "subscriptions (core s') = upd (\<lambda>r. su_id r = su_id x) (projected_row a v ch (Some (e_utc e 0))) (subscriptions (core s))"
    using rec aud syn core1 by (simp add: R(8) t_def ensure_frame(2))
  then have found: "find (\<lambda>r. su_id r = i) (subscriptions (core s')) = Some r"
    using R(1,6) find_SomeD [OF R(1)] by (simp add: find_upd_Q projected_row_keeps)
  have row: "su_customer r = su_customer x" "su_plan_version r = v" by (simp_all add: R(6) projected_row_def)
  have who: "resolve_customer_id (sg_customer ch) (sg_stripe_customer ch) (Some r) s' = Some c"
    "resolve_plan_version_id (sg_plan_version ch) (sg_price ch) (Some r) s' = Some v"
    using R(2,3) row by (auto simp: resolve_known unwrap_or_def split: option.splits)
  let ?r2 = "projected_row a v ch (Some (e_utc e2 0)) r"
  have same: "subscription_state e2 r = subscription_state e2 ?r2"
    by (simp add: R(6) subscription_state_def projected_row_def)
  let ?u = "on_core (\<lambda>d. d\<lparr>subscriptions := upd (\<lambda>q. su_id q = su_id r) (projected_row a v ch (Some (e_utc e2 0)))
      (subscriptions d)\<rparr>) s'"
  let ?w = "record_resync e2 nonce2 op2 rs2 co2 r ?r2 ?u"
  have up: "upsert_subscription_projection e2 (Some r) c a v ch (Some (e_utc e2 0)) s' = Inr (?r2, ?u)"
    using R(5) tables(5) by (simp add: upsert_subscription_projection_def plan_known_def Let_def)
  have w: "licenses (core ?w) = licenses d" "catalog (core ?w) = catalog (core s)" "features_t (core ?w) = features_t (core s)"
    "plan_features (core ?w) = plan_features (core s)" "policies (core ?w) = policies (core s)"
    "outbox (core ?w) = outbox (core s')"
    using record_resync_tables [of e2 nonce2 op2 rs2 co2 r ?r2 ?u] tables record_resync_quiet [OF same]
    by (simp_all add: catalog_def)
  have "catalog (core (record_resync e nonce op rs co x r t)) = catalog (core s)"
    "features_t (core (record_resync e nonce op rs co x r t)) = features_t (core s)"
    "plan_features (core (record_resync e nonce op rs co x r t)) = plan_features (core s)"
    "policies (core (record_resync e nonce op rs co x r t)) = policies (core s)"
    using rec core1 by (simp_all add: t_def ensure_frame(2) catalog_def)
  note L = limits_cong [OF this]
  note L2 = limits_cong [OF w(2-5)]
  have "sync_license_for_subscription e2 5 (su_customer ?r2) (su_id ?r2) (su_plan_version ?r2) (sg_status ch) (core ?w)
      = Inr (None, core ?w)"
    using sync_idem [OF R(7), of "core ?w" e2 5] w(1) L L2 pol row
    by (simp add: projected_row_keeps) (simp add: projected_row_def R(6))
  then have "apply_admin_resync e2 nonce2 i ch op2 rs2 co2 s' = (Inr (Some \<lparr>rs_subscription = su_id ?r2,
      rs_customer = su_customer ?r2, rs_status = su_status ?r2, rs_changed = False, rs_license_change = None\<rparr>), ?w)"
    using found who ensure_again [OF R(4) bill(1)] link_again [OF bill(2)] up same
    by (simp add: apply_admin_resync_def audit_resync_license_def)
  then show ?thesis using w(1,6) tables(6) by simp
qed

theorem resync_converges_witness:
  "\<exists>o1 s1 o2 s2. apply_admin_resync (demo_env ''h'' 500) ''n1'' ''s1'' (demo_change Trialing) ''op'' ''drift'' None
        demo_canceled = (Inr (Some o1), s1)
    \<and> apply_admin_resync (demo_env ''h'' 500) ''n2'' ''s1'' (demo_change Trialing) ''op'' ''again'' None s1
        = (Inr (Some o2), s2) \<and> \<not> rs_changed o2"
proof -
  have "find (\<lambda>r. su_id r = ''s1'') (subscriptions (core demo_canceled)) = Some (hd (subscriptions (core demo_canceled)))"
    "customer_known ''ada'' (core demo_canceled)" "plan_known ''plan-v1'' (core demo_canceled)"
    "limits_readable (demo_env ''h'' 500) ''plan-v1'' (core demo_canceled)" by code_simp+
  note r = resync_ok [OF this(1) _ _ this(2-4), of "demo_change Trialing"]
  obtain o1 s1 where "apply_admin_resync (demo_env ''h'' 500) ''n1'' ''s1'' (demo_change Trialing) ''op'' ''drift'' None
        demo_canceled = (Inr (Some o1), s1)"
    using r [of "''n1''" "''op''" "''drift''" None]
    by (auto simp: demo_change_def resolve_customer_id_def resolve_plan_version_id_def)
  with resync_converges [OF this, of "demo_env ''h'' 500" "''n2''" "''op''" "''again''" None] show ?thesis by blast
qed

end
