(* ===== verification/Stripe_Properties.thy ===== *)
theory Stripe_Properties
  imports Stripe_Events
begin

text \<open>
  The boundary to Stripe: which webhook signatures are accepted, and that what a checkout is
  created with comes back in the events it causes.
\<close>

section \<open>The signature header\<close>

lemma split_on_last: "c \<notin> set p \<Longrightarrow> split_on c p = [p]"
  by (induction p) auto

lemma split_on_part: "c \<notin> set p \<Longrightarrow> split_on c (p @ c # q) = p # split_on c q"
  by (induction p) auto

lemma split_once_at: "c \<notin> set k \<Longrightarrow> split_once c (k @ c # v) = Some (k, v)"
  by (induction k) auto

lemma show_int_plain: "list_all plain (show_int n) \<and> CHR '','' \<notin> set (show_int n)"
proof -
  have "list_all (\<lambda>c. plain c \<and> c \<noteq> CHR '','') (show_nat k)" for k
  proof -
    have "plain c \<and> c \<noteq> CHR '',''" if "is_digit c" for c
      using that is_alnum_plain [of c] by (auto simp: is_alnum_def is_digit_def byte_def)
    then show ?thesis using show_nat_digits [of k] by (auto simp: list_all_iff)
  qed
  then show ?thesis by (auto simp: show_int_def list_all_iff plain_def byte_def)
qed

lemma hex_no_comma: "CHR '','' \<notin> set (hex_encode m)"
  using hex_encode_alnum [of m]
  by (auto simp: list_all_iff is_alnum_def is_digit_def is_upper_def is_lower_def byte_def)

lemma trim_t: "trim ''t'' = ''t''" "trim ''v1'' = ''v1''"
  by code_simp+

definition signature_header :: "int \<Rightarrow> string \<Rightarrow> string" where
  "signature_header ts mac = ''t='' @ show_int ts @ '',v1='' @ hex_encode mac"

lemma parse_signature_header:
  assumes "in_i64 ts"
  shows "parse_parts (split_on (CHR '','') (signature_header ts mac)) (None, []) = Inr (Some ts, [mac])"
proof -
  have "split_on (CHR '','') (signature_header ts mac) = [''t='' @ show_int ts, ''v1='' @ hex_encode mac]"
    using split_on_part [of "CHR '',''" "''t='' @ show_int ts" "''v1='' @ hex_encode mac"]
      split_on_last [of "CHR '',''" "''v1='' @ hex_encode mac"] show_int_plain [of ts] hex_no_comma [of mac]
    by (simp add: signature_header_def)
  moreover have "split_once (CHR ''='') (''t='' @ show_int ts) = Some (''t'', show_int ts)"
    "split_once (CHR ''='') (''v1='' @ hex_encode mac) = Some (''v1'', hex_encode mac)"
    using split_once_at [of "CHR ''=''" "''t''"] split_once_at [of "CHR ''=''" "''v1''"] by simp_all
  moreover have "trim (show_int ts) = show_int ts" using show_int_plain [of ts] trim_plain by blast
  ultimately show ?thesis using parse_i64_show [OF assms] by (simp add: trim_t)
qed



text \<open>
  The distance is taken before any check, in \<^verbatim>\<open>i64\<close>: with a timestamp \<open>2 ^ 63\<close> seconds away the
  subtraction leaves the range (a debug build panics) and the wrapped result is negative, so it is
  below every tolerance.
\<close>

theorem skew_wraps:
  assumes "now - ts = 2 ^ 63"
  shows "skew now ts = - (2 ^ 63)"
proof -
  have "now = ts + 2 ^ 63" using assms by simp
  then have "(word_of_int now - word_of_int ts :: 64 word) = word_of_int (2 ^ 63)" by (simp add: word_of_int_hom_syms)
  then show ?thesis by (simp add: skew_def int_word_sint)
qed

section \<open>Metadata\<close>

text \<open>
  Stripe reads a form's \<^verbatim>\<open>prefix[key]\<close> parameters as the entries of an object and echoes it as the
  metadata of the object created.
\<close>

definition form_object :: "string \<Rightarrow> (string \<times> string) list \<Rightarrow> json" where
  "form_object prefix form = JObj (List.map_filter (\<lambda>(k, v).
     map_option (\<lambda>i. (i, JStr v)) (Option.bind (strip_prefix (prefix @ ''['') k) (strip_suffix '']''))) form)"

lemma form_metadata:
  "form_object ''metadata'' (build_checkout_session_form r) = JObj [
     (''forgecustomer_customer_id'', JStr (cs_customer r)), (''plan_version_id'', JStr (cs_plan_version r))]"
  "form_object ''subscription_data[metadata]'' (build_checkout_session_form r) = JObj [
     (''forgecustomer_customer_id'', JStr (cs_customer r)), (''plan_version_id'', JStr (cs_plan_version r))]"
  by (simp_all add: form_object_def build_checkout_session_form_def List.map_filter_simps strip_prefix_def
      strip_suffix_def starts_with_def ends_with_def)

text \<open>C37: What a checkout is created with comes back: the completion event of the session and every
  event of the subscription it creates name the customer and the plan version the form was built
  from.\<close>

theorem checkout_metadata_returns:
  assumes "up (cs_customer r) = Some c" and "up (cs_plan_version r) = Some v"
    and "ev_type ev = ''checkout.session.completed''"
    and "jget ''metadata'' (ev_object ev) = Some (form_object ''metadata'' (build_checkout_session_form r))"
    and "string_field (ev_object ev) ''id'' = Some sid"
    and "jget ''metadata'' sub = Some (form_object ''subscription_data[metadata]'' (build_checkout_session_form r))"
    and "string_field sub ''id'' = Some sub_id"
  shows "(\<exists>co. ev_checkout_completed up ev = Some co \<and> cc_session co = sid \<and> cc_customer co = Some c
      \<and> cc_plan_version co = Some v)
    \<and> (\<exists>ch. subscription_change_from_object up sub st = Some ch \<and> sg_stripe_id ch = sub_id
      \<and> sg_customer ch = Some c \<and> sg_plan_version ch = Some v)"
proof -
  have m: "metadata_uuid up (ev_object ev) ''forgecustomer_customer_id'' = Some c"
    "metadata_uuid up (ev_object ev) ''plan_version_id'' = Some v"
    "metadata_uuid up sub ''forgecustomer_customer_id'' = Some c"
    "metadata_uuid up sub ''plan_version_id'' = Some v"
    using assms(1,2,4,6) by (simp_all add: form_metadata metadata_uuid_def metadata_string_def string_field_def)
  show ?thesis
    using assms(3,5,7) m
    by (simp add: ev_checkout_completed_def subscription_change_from_object_def Let_def or_else_def)
qed

definition demo_request_form :: checkout_session_request where
  "demo_request_form = \<lparr>cs_price = ''price_1'', cs_customer = ''ada'', cs_plan_version = ''plan-v1'',
     cs_success_url = ''https://example.org/ok'', cs_cancel_url = ''https://example.org/no''\<rparr>"

definition demo_completed :: stripe_event where
  "demo_completed = \<lparr>ev_id = ''evt'', ev_type = ''checkout.session.completed'', ev_created = None,
     ev_object_id = None, ev_object_type = None, ev_object = JObj [(''id'', JStr ''cs_1''),
       (''metadata'', form_object ''metadata'' (build_checkout_session_form demo_request_form))],
     ev_summary = JNull, ev_receipt = ReceiptReceived\<rparr>"

definition demo_subscription :: json where
  "demo_subscription = JObj [(''id'', JStr ''sub_1''),
     (''metadata'', form_object ''subscription_data[metadata]'' (build_checkout_session_form demo_request_form))]"

theorem checkout_metadata_returns_witness:
  "(\<exists>co. ev_checkout_completed Some demo_completed = Some co \<and> cc_session co = ''cs_1''
      \<and> cc_customer co = Some ''ada'' \<and> cc_plan_version co = Some ''plan-v1'')
    \<and> (\<exists>ch. subscription_change_from_object Some demo_subscription ''active'' = Some ch
      \<and> sg_stripe_id ch = ''sub_1'' \<and> sg_customer ch = Some ''ada'' \<and> sg_plan_version ch = Some ''plan-v1'')"
  by (rule checkout_metadata_returns [where r = demo_request_form])
    (simp_all add: demo_request_form_def demo_completed_def demo_subscription_def string_field_def)

end
