(* ===== verification/Outbox_Worker.thy ===== *)
theory Outbox_Worker
  imports System Redaction
begin

text \<open>
  \<^verbatim>\<open>api/src/workers/outbox.rs\<close>: the publisher that delivers the queued events to DataForge, with
  its backoff and its dead letters. The loop around \<open>tick\<close> only sleeps and logs.
\<close>

section \<open>One tick\<close>

definition backoff_for :: "int \<Rightarrow> int" where
  "backoff_for attempts = min (min (2 ^ nat (max attempts 0)) u64_max) 3600"

definition MAX_ATTEMPTS :: int where
  "MAX_ATTEMPTS = 12"

fun dataforge_text :: "dataforge_error \<Rightarrow> string" where
  "dataforge_text ProhibitedPayload = ''payload contains prohibited fields (PII/secret/content)''"
| "dataforge_text (Transport e) = ''transport error: '' @ e"
| "dataforge_text NotConfigured = ''not configured''"

text \<open>The batch one tick reads: the fifty oldest events that are pending and due.\<close>

definition ready :: "time \<Rightarrow> outbox_row \<Rightarrow> bool" where
  "ready now r \<longleftrightarrow> ob_status r = ''pending'' \<and> ob_next r \<le> now"

definition due_events :: "time \<Rightarrow> db \<Rightarrow> outbox_row list" where
  "due_events now d = take 50 (order_by ob_created (filter (ready now) (outbox d)))"

text \<open>
  The update after the attempt with the \<open>k\<close>-th row of the batch: a statement of its own, at its own
  time \<open>clock k\<close>. It counts from the attempts that were read.
\<close>

definition settle ::
    "(nat \<Rightarrow> time) \<Rightarrow> (json \<Rightarrow> string option) \<Rightarrow> string \<Rightarrow> nat \<times> outbox_row \<Rightarrow> outbox_row \<Rightarrow> outbox_row" where
  "settle clock post url p = (case p of (k, r) \<Rightarrow>
     (case publish post url (ob_event r) (ob_key r) (ob_payload r) of
        Inr _ \<Rightarrow> (\<lambda>x. x\<lparr>ob_status := ''delivered'', ob_delivered := Some (clock k)\<rparr>)
      | Inl err \<Rightarrow>
         (let attempts = ob_attempts r + 1;
              status = (if MAX_ATTEMPTS \<le> attempts then ''dead_letter'' else ''pending'')
          in (\<lambda>x. x\<lparr>ob_attempts := attempts, ob_status := status, ob_error := Some (dataforge_text err),
                   ob_next := clock k + secs (backoff_for attempts)\<rparr>))))"

definition tick ::
    "time \<Rightarrow> (nat \<Rightarrow> time) \<Rightarrow> (json \<Rightarrow> string option) \<Rightarrow> string \<Rightarrow> db \<Rightarrow> db" where
  "tick now clock post url d =
     fold (\<lambda>p d. d\<lparr>outbox := upd (\<lambda>x. ob_id x = ob_id (snd p)) (settle clock post url p) (outbox d)\<rparr>)
       (enumerate 0 (due_events now d)) d"

section \<open>What a tick does to each row\<close>

lemma backoff_bounds: "1 \<le> backoff_for n \<and> backoff_for n \<le> 3600"
  by (simp add: backoff_for_def u64_max_def)

lemma backoff_mono: "m \<le> n \<Longrightarrow> backoff_for m \<le> backoff_for n"
proof -
  assume "m \<le> n"
  then have "(2::int) ^ nat (max m 0) \<le> 2 ^ nat (max n 0)" by (intro power_increasing) auto
  then show ?thesis unfolding backoff_for_def by (intro min.mono) simp_all
qed

lemma fold_upd_rows:
  assumes "distinct (map (\<lambda>p. key (snd p)) ps)" and "\<And>p x. key (f p x) = key x"
  shows "fold (\<lambda>p. upd (\<lambda>x. key x = key (snd p)) (f p)) ps rows
    = map (\<lambda>r. case find (\<lambda>p. key (snd p) = key r) ps of None \<Rightarrow> r | Some p \<Rightarrow> f p r) rows"
  using assms(1)
proof (induction ps arbitrary: rows)
  case (Cons p ps)
  have none: "find (\<lambda>q. key (snd q) = key r) ps = None" if "key r = key (snd p)" for r
  proof -
    have "key r \<notin> (\<lambda>p. key (snd p)) ` set ps" using Cons.prems that by simp
    then show ?thesis by (simp add: find_eq_None) (metis image_eqI)
  qed
  show ?case
    using Cons by (auto simp: upd_def assms(2) none split: option.split)
qed simp

lemma settle_id [simp]: "ob_id (settle clock post url p x) = ob_id x"
  by (auto simp: settle_def Let_def split: prod.split sum.split)

lemma tick_outbox:
  "outbox (tick now clock post url d) = fold (\<lambda>p. upd (\<lambda>x. ob_id x = ob_id (snd p)) (settle clock post url p))
     (enumerate 0 (due_events now d)) (outbox d)"
  "tick now clock post url d = d\<lparr>outbox := outbox (tick now clock post url d)\<rparr>"
proof -
  have eq: "fold (\<lambda>p d. d\<lparr>outbox := upd (P p) (f p) (outbox d)\<rparr>) ps d =
      d\<lparr>outbox := fold (\<lambda>p. upd (P p) (f p)) ps (outbox d)\<rparr>" for ps d
    and P :: "nat \<times> outbox_row \<Rightarrow> outbox_row \<Rightarrow> bool" and f
    by (induction ps arbitrary: d) simp_all
  then show "outbox (tick now clock post url d) = fold (\<lambda>p. upd (\<lambda>x. ob_id x = ob_id (snd p)) (settle clock post url p))
     (enumerate 0 (due_events now d)) (outbox d)"
    "tick now clock post url d = d\<lparr>outbox := outbox (tick now clock post url d)\<rparr>"
    unfolding tick_def eq [of "\<lambda>p x. ob_id x = ob_id (snd p)"] by simp_all
qed

lemma due_sub: "set (due_events now d) \<subseteq> {r \<in> set (outbox d). ready now r}"
  unfolding due_events_def by (rule order_trans [OF set_take_subset]) auto

lemma dueD: "r \<in> set (due_events now d) \<Longrightarrow> r \<in> set (outbox d) \<and> ready now r \<and> ob_status r = ''pending''"
  using due_sub by (auto simp: ready_def)

lemma due_distinct:
  assumes "distinct (map ob_id (outbox d))"
  shows "distinct (map ob_id (due_events now d))"
proof -
  have "distinct (map ob_id (filter (ready now) (outbox d)))" using assms by (rule distinct_map_filter)
  then have "distinct (map ob_id (order_by ob_created (filter (ready now) (outbox d))))"
    by (simp add: order_by_def distinct_map)
  then have "distinct (take 50 (map ob_id (order_by ob_created (filter (ready now) (outbox d)))))"
    by (rule distinct_take)
  then show ?thesis by (simp add: due_events_def take_map)
qed

text \<open>Each row of the batch is settled once, with what was read of it; every other row stays.\<close>

lemma tick_rows:
  assumes ids: "distinct (map ob_id (outbox d))"
  obtains pos :: "outbox_row \<Rightarrow> nat" where "outbox (tick now clock post url d) =
    map (\<lambda>r. if r \<in> set (due_events now d) then settle clock post url (pos r, r) r else r) (outbox d)"
proof -
  let ?ps = "enumerate 0 (due_events now d)"
  have ps: "map (\<lambda>p. ob_id (snd p)) ?ps = map ob_id (due_events now d)"
    unfolding map_map [of ob_id snd, symmetric, unfolded comp_def] map_snd_enumerate ..
  define pos :: "outbox_row \<Rightarrow> nat" where "pos r = (case find (\<lambda>p. ob_id (snd p) = ob_id r) ?ps of None \<Rightarrow> 0 | Some p \<Rightarrow> fst p)" for r
  have row: "(case find (\<lambda>p. ob_id (snd p) = ob_id r) ?ps of None \<Rightarrow> r | Some p \<Rightarrow> settle clock post url p r)
      = (if r \<in> set (due_events now d) then settle clock post url (pos r, r) r else r)" if r: "r \<in> set (outbox d)" for r
  proof (cases "find (\<lambda>p. ob_id (snd p) = ob_id r) ?ps")
    case None
    then have "ob_id r \<notin> set (map (\<lambda>p. ob_id (snd p)) ?ps)" by (auto simp: find_eq_None)
    then have "r \<notin> set (due_events now d)" unfolding ps by auto
    then show ?thesis by (simp add: None)
  next
    case (Some p)
    then have p: "p \<in> set ?ps" "ob_id (snd p) = ob_id r" using find_SomeD [OF Some] by auto
    then have "snd p \<in> set (due_events now d)" by (metis image_eqI list.set_map map_snd_enumerate)
    moreover from this have "snd p = r" using due_sub distinct_key_eq [OF ids _ r p(2)] by blast
    ultimately show ?thesis using Some by (cases p) (simp add: pos_def)
  qed
  have "outbox (tick now clock post url d) =
      map (\<lambda>r. if r \<in> set (due_events now d) then settle clock post url (pos r, r) r else r) (outbox d)"
    unfolding tick_outbox(1)
    by (subst fold_upd_rows) (use due_distinct [OF ids] ps row in \<open>simp_all cong: map_cong\<close>)
  then show ?thesis by (rule that)
qed

section \<open>Every event comes to an end\<close>

definition row_wf :: "outbox_row \<Rightarrow> bool" where
  "row_wf r \<longleftrightarrow> 0 \<le> ob_attempts r \<and> (ob_status r = ''pending'' \<longrightarrow> ob_attempts r < MAX_ATTEMPTS)"

definition outbox_wf :: "db \<Rightarrow> bool" where
  "outbox_wf d \<longleftrightarrow> distinct (map ob_id (outbox d)) \<and> list_all row_wf (outbox d)"

lemma outbox_wf_write:
  assumes "outbox_wf d" "\<And>r. r \<in> set (outbox d) \<Longrightarrow> ob_id r \<noteq> e_id e n"
  shows "outbox_wf (write_outbox e n k dk p d)"
proof -
  have "e_id e n \<notin> ob_id ` set (outbox d)" using assms(2) by (metis imageE)
  then show ?thesis using assms(1) by (simp add: outbox_wf_def write_outbox_def row_wf_def MAX_ATTEMPTS_def)
qed

text \<open>How many attempts an event has left.\<close>

definition attempts_left :: "outbox_row \<Rightarrow> int" where
  "attempts_left r = (if ob_status r = ''pending'' then MAX_ATTEMPTS - ob_attempts r else 0)"

lemma attempts_left: "row_wf r \<Longrightarrow> 0 \<le> attempts_left r \<and> (attempts_left r = 0 \<longleftrightarrow> ob_status r \<noteq> ''pending'')"
  by (auto simp: attempts_left_def row_wf_def)

lemma settle_progress:
  assumes "row_wf r" "ob_status r = ''pending''"
  shows "row_wf (settle clock post url (k, r) r)"
    and "attempts_left (settle clock post url (k, r) r) < attempts_left r"
  using assms by (auto simp: settle_def row_wf_def attempts_left_def MAX_ATTEMPTS_def Let_def split: sum.split)

lemma due_iff:
  assumes "distinct (map ob_id (outbox d))" "r \<in> set (outbox d)"
  shows "ob_id r \<in> ob_id ` set (due_events now d) \<longleftrightarrow> r \<in> set (due_events now d)"
proof
  assume "ob_id r \<in> ob_id ` set (due_events now d)"
  then obtain x where x: "x \<in> set (due_events now d)" "ob_id x = ob_id r" by fastforce
  then have "x = r" using distinct_key_eq [OF assms(1) _ assms(2) x(2)] dueD [OF x(1)] by simp
  with x(1) show "r \<in> set (due_events now d)" by simp
qed simp

lemma tick_row:
  assumes wf: "outbox_wf d" and r: "r \<in> set (outbox d)"
  obtains r' where "r' \<in> set (outbox (tick now clock post url d))" "ob_id r' = ob_id r"
    "if ob_id r \<in> ob_id ` set (due_events now d) then attempts_left r' < attempts_left r else r' = r"
proof -
  have ids: "distinct (map ob_id (outbox d))" using wf by (simp add: outbox_wf_def)
  obtain pos where rows: "outbox (tick now clock post url d) =
    map (\<lambda>r. if r \<in> set (due_events now d) then settle clock post url (pos r, r) r else r) (outbox d)"
    using tick_rows [OF ids] .
  let ?r = "if r \<in> set (due_events now d) then settle clock post url (pos r, r) r else r"
  have "?r \<in> set (outbox (tick now clock post url d))" using r unfolding rows by auto
  moreover have "ob_id ?r = ob_id r" by simp
  moreover have "attempts_left ?r < attempts_left r" if "r \<in> set (due_events now d)"
    using that settle_progress(2) [of r] dueD [OF that] wf by (simp add: outbox_wf_def list_all_iff)
  ultimately show ?thesis using due_iff [OF ids r] by (intro that [of ?r]) (simp_all split: if_split)
qed

lemma tick_wf:
  assumes "outbox_wf d"
  shows "outbox_wf (tick now clock post url d)"
proof -
  have ids: "distinct (map ob_id (outbox d))" using assms by (simp add: outbox_wf_def)
  obtain pos where rows: "outbox (tick now clock post url d) =
    map (\<lambda>r. if r \<in> set (due_events now d) then settle clock post url (pos r, r) r else r) (outbox d)"
    using tick_rows [OF ids] .
  have "map ob_id (outbox (tick now clock post url d)) = map ob_id (outbox d)"
    unfolding rows by simp
  then have "distinct (map ob_id (outbox (tick now clock post url d)))" using ids by simp
  moreover have "row_wf (settle clock post url (pos r, r) r)" if "r \<in> set (due_events now d)" "r \<in> set (outbox d)" for r
    using settle_progress(1) [of r] dueD [OF that(1)] assms by (simp add: outbox_wf_def list_all_iff)
  then have "list_all row_wf (outbox (tick now clock post url d))"
    using assms unfolding rows by (auto simp: list_all_iff outbox_wf_def)
  ultimately show ?thesis by (simp add: outbox_wf_def)
qed

text \<open>A run of ticks, each with its time, clock, receiver and URL.\<close>

type_synonym tick_args = "time \<times> (nat \<Rightarrow> time) \<times> (json \<Rightarrow> string option) \<times> string"

definition tick_with :: "tick_args \<Rightarrow> db \<Rightarrow> db" where
  "tick_with x = (case x of (now, clock, post, url) \<Rightarrow> tick now clock post url)"

text \<open>How many ticks of the run attempt the event \<open>i\<close>.\<close>

fun tried :: "uuid \<Rightarrow> tick_args list \<Rightarrow> db \<Rightarrow> nat" where
  "tried i [] d = 0"
| "tried i (x # xs) d =
     (if i \<in> ob_id ` set (due_events (fst x) d) then 1 else 0) + tried i xs (tick_with x d)"

lemma run_wf: "outbox_wf d \<Longrightarrow> outbox_wf (fold tick_with xs d)"
  by (induction xs arbitrary: d) (auto simp: tick_with_def tick_wf split: prod.split)

lemma run_row:
  assumes "outbox_wf d" "r \<in> set (outbox d)"
  shows "\<exists>r' \<in> set (outbox (fold tick_with xs d)). ob_id r' = ob_id r
    \<and> int (tried (ob_id r) xs d) + attempts_left r' \<le> attempts_left r
    \<and> (tried (ob_id r) xs d = 0 \<longrightarrow> r' = r)"
  using assms
proof (induction xs arbitrary: d r)
  case (Cons x xs)
  obtain now clock post url where x: "x = (now, clock, post, url)" by (cases x)
  obtain r1 where r1: "r1 \<in> set (outbox (tick now clock post url d))" "ob_id r1 = ob_id r"
    "if ob_id r \<in> ob_id ` set (due_events now d) then attempts_left r1 < attempts_left r else r1 = r"
    using tick_row [OF Cons.prems] .
  let ?d = "tick now clock post url d"
  obtain r' where r': "r' \<in> set (outbox (fold tick_with xs ?d))"
    and rest: "ob_id r' = ob_id r1 \<and> int (tried (ob_id r1) xs ?d) + attempts_left r' \<le> attempts_left r1
      \<and> (tried (ob_id r1) xs ?d = 0 \<longrightarrow> r' = r1)"
    using Cons.IH [OF tick_wf [OF Cons.prems(1)] r1(1)] by (rule bexE)
  note r' = r' rest [unfolded r1(2), THEN conjunct1] rest [unfolded r1(2), THEN conjunct2, THEN conjunct1]
    rest [unfolded r1(2), THEN conjunct2, THEN conjunct2]
  have run: "fold tick_with (x # xs) d = fold tick_with xs ?d" by (simp add: x tick_with_def)
  show ?case
  proof (cases "ob_id r \<in> ob_id ` set (due_events now d)")
    case True
    then have t: "tried (ob_id r) (x # xs) d = Suc (tried (ob_id r) xs ?d)" by (simp add: x tick_with_def)
    have "attempts_left r1 < attempts_left r" using r1(3) True by presburger
    then show ?thesis unfolding run t using r'(3) by (intro bexI [OF _ r'(1)] conjI r'(2)) linarith+
  next
    case False
    then have t: "tried (ob_id r) (x # xs) d = tried (ob_id r) xs ?d" by (simp add: x tick_with_def)
    have "r1 = r" using r1(3) False by presburger
    then show ?thesis unfolding run t using r'(3,4) by (intro bexI [OF _ r'(1)] conjI r'(2)) blast+
  qed
qed auto

end
