(* ===== verification/Outbox_Properties.thy ===== *)
theory Outbox_Properties
  imports Outbox_Worker Demo
begin

text \<open>
  The delivery worker: every event is attempted a bounded number of times and comes to an end, and
  a working receiver gets every event that is due.
\<close>

section \<open>Termination\<close>

text \<open>C25: No event is retried for ever: whatever the receiver answers, however the clock runs, the
  worker attempts an event at most twelve times, an event attempted twelve times is delivered or
  dead-lettered, and an event that has come to an end is not touched again.\<close>

theorem delivery_ends:
  assumes "outbox_wf d" and "r \<in> set (outbox d)"
  shows "tried (ob_id r) xs d \<le> 12
    \<and> (\<exists>r' \<in> set (outbox (fold tick_with xs d)). ob_id r' = ob_id r
        \<and> (tried (ob_id r) xs d = 12 \<longrightarrow> ob_status r' \<noteq> ''pending'')
        \<and> (ob_status r \<noteq> ''pending'' \<longrightarrow> r' = r))"
proof -
  obtain r' where r': "r' \<in> set (outbox (fold tick_with xs d))" "ob_id r' = ob_id r"
    "int (tried (ob_id r) xs d) + attempts_left r' \<le> attempts_left r" "tried (ob_id r) xs d = 0 \<longrightarrow> r' = r"
    using run_row [OF assms, of xs] by (elim bexE conjE) simp
  have wf: "row_wf r" "row_wf r'" using assms run_wf [OF assms(1), of xs] r'(1) by (auto simp: outbox_wf_def list_all_iff)
  note left = attempts_left [OF wf(1)] attempts_left [OF wf(2)]
  have "attempts_left r \<le> 12" using wf(1) by (simp add: attempts_left_def row_wf_def MAX_ATTEMPTS_def)
  then have "tried (ob_id r) xs d \<le> 12" "tried (ob_id r) xs d = 12 \<longrightarrow> attempts_left r' = 0"
    "ob_status r \<noteq> ''pending'' \<longrightarrow> tried (ob_id r) xs d = 0" using left r'(3) by linarith+
  then show ?thesis using r' left by (intro conjI bexI [OF _ r'(1)]) auto
qed

definition demo_queue :: db where
  "demo_queue = demo_db\<lparr>outbox := map (\<lambda>(i, t). \<lparr>ob_id = i, ob_event = ''license_activated'', ob_key = i,
     ob_payload = JObj [], ob_status = ''pending'', ob_attempts = 10, ob_error = None, ob_next = t,
     ob_delivered = None, ob_created = t\<rparr>) [(''o1'', 5), (''o2'', 6)]\<rparr>"

definition demo_ticks :: "tick_args list" where
  "demo_ticks = map (\<lambda>t. (secs t, \<lambda>_. secs t, \<lambda>_. Some ''503'', ''https://sink'')) [10, 4000]"

theorem delivery_ends_witness:
  "tried ''o1'' demo_ticks demo_queue = 2
    \<and> (\<exists>r' \<in> set (outbox (fold tick_with demo_ticks demo_queue)). ob_id r' = ''o1'')"
proof -
  have wf: "outbox_wf demo_queue" by code_simp
  have r: "hd (outbox demo_queue) \<in> set (outbox demo_queue)" "ob_id (hd (outbox demo_queue)) = ''o1''"
    by (simp_all add: demo_queue_def)
  have "tried ''o1'' demo_ticks demo_queue = 2" by code_simp
  with delivery_ends [OF wf r(1), of demo_ticks] show ?thesis unfolding r(2) by blast
qed

section \<open>Delivery\<close>

definition ready_count :: "time \<Rightarrow> db \<Rightarrow> nat" where
  "ready_count now d = length (filter (ready now) (outbox d))"

lemma length_due: "length (due_events now d) = min 50 (ready_count now d)"
  by (simp add: due_events_def ready_count_def order_by_def min_def)

lemma filter_member_length:
  assumes "distinct (map k rs)" "distinct xs" "set xs \<subseteq> set rs"
  shows "length (filter (\<lambda>r. r \<in> set xs) rs) = length xs"
proof -
  have "distinct rs" using assms(1) by (simp add: distinct_map)
  then have "length (filter (\<lambda>r. r \<in> set xs) rs) = card (set rs \<inter> set xs)"
    using distinct_length_filter by (metis Collect_mem_eq Int_commute)
  also have "\<dots> = length xs" using assms(2,3) by (simp add: Int_absorb1 distinct_card)
  finally show ?thesis .
qed

text \<open>A tick against a receiver that accepts.\<close>

lemma tick_accepted:
  assumes ids: "distinct (map ob_id (outbox d))" and clean: "sanitized_db d" and url: "url \<noteq> []"
  shows "ready_count now (tick now clock (\<lambda>_. None) url d) = ready_count now d - min 50 (ready_count now d)"
    and "\<And>r. r \<in> set (due_events now d) \<Longrightarrow> \<exists>r' \<in> set (outbox (tick now clock (\<lambda>_. None) url d)).
      ob_id r' = ob_id r \<and> ob_status r' = ''delivered''"
    and "sanitized_db (tick now clock (\<lambda>_. None) url d)"
    and "distinct (map ob_id (outbox (tick now clock (\<lambda>_. None) url d)))"
    and "\<And>r. r \<in> set (outbox d) \<Longrightarrow> r \<notin> set (due_events now d) \<Longrightarrow>
      r \<in> set (outbox (tick now clock (\<lambda>_. None) url d))"
proof -
  let ?d = "tick now clock (\<lambda>_. None) url d"
  let ?due = "\<lambda>r. r \<in> set (due_events now d)"
  obtain pos where rows: "outbox ?d =
    map (\<lambda>r. if ?due r then settle clock (\<lambda>_. None) url (pos r, r) r else r) (outbox d)"
    using tick_rows [OF ids] .
  have ok: "settle clock (\<lambda>_. None) url (k, r) r = r\<lparr>ob_status := ''delivered'', ob_delivered := Some (clock k)\<rparr>"
    if "r \<in> set (outbox d)" for r k
    using that clean url by (simp add: settle_def publish_def sanitized_db_def list_all_iff)
  have rows: "outbox ?d = map (\<lambda>r. if ?due r
      then r\<lparr>ob_status := ''delivered'', ob_delivered := Some (clock (pos r))\<rparr> else r) (outbox d)"
    unfolding rows by (rule map_cong) (simp_all add: ok)
  have "filter (ready now) (outbox ?d) = filter (\<lambda>r. ready now r \<and> \<not> ?due r) (outbox d)"
  proof -
    have "filter (ready now) (map (\<lambda>r. if ?due r
        then r\<lparr>ob_status := ''delivered'', ob_delivered := Some (clock (pos r))\<rparr> else r) rs)
      = filter (\<lambda>r. ready now r \<and> \<not> ?due r) rs" for rs
      by (induction rs) (auto simp: ready_def)
    then show ?thesis by (simp only: rows)
  qed
  moreover have "filter ?due (outbox d) = filter (\<lambda>r. ready now r \<and> ?due r) (outbox d)"
    using dueD by (auto intro!: filter_cong)
  moreover have "length (filter P rs) = length (filter (\<lambda>r. P r \<and> Q r) rs) + length (filter (\<lambda>r. P r \<and> \<not> Q r) rs)"
    for P Q and rs :: "outbox_row list" by (induction rs) auto
  moreover have "length (filter ?due (outbox d)) = min 50 (ready_count now d)"
  proof -
    have "distinct (due_events now d)" using due_distinct [OF ids] by (simp add: distinct_map)
    moreover have "set (due_events now d) \<subseteq> set (outbox d)" using dueD by blast
    ultimately show ?thesis using filter_member_length [OF ids] length_due by simp
  qed
  ultimately show "ready_count now ?d = ready_count now d - min 50 (ready_count now d)"
    unfolding ready_count_def by (metis diff_add_inverse)
  show "\<exists>r' \<in> set (outbox ?d). ob_id r' = ob_id r \<and> ob_status r' = ''delivered''" if "?due r" for r
  proof (rule bexI)
    show "r\<lparr>ob_status := ''delivered'', ob_delivered := Some (clock (pos r))\<rparr> \<in> set (outbox ?d)"
      using dueD [OF that] that unfolding rows by force
  qed simp
  show "sanitized_db ?d"
  proof -
    have "audits ?d = audits d" by (subst tick_outbox(2)) simp
    then show ?thesis using clean by (auto simp: sanitized_db_def rows list_all_iff)
  qed
  show "distinct (map ob_id (outbox ?d))" using ids unfolding rows by (simp add: comp_def if_distrib cong: if_cong)
  show "r \<in> set (outbox ?d)" if "r \<in> set (outbox d)" "\<not> ?due r" for r
    using that unfolding rows by force
qed

text \<open>An event that is delivered stays delivered.\<close>

lemma delivered_stays:
  assumes "distinct (map ob_id (outbox d))" "r \<in> set (outbox d)" "ob_status r \<noteq> ''pending''"
    and "sanitized_db d" "url \<noteq> []"
  shows "r \<in> set (outbox ((tick now clock (\<lambda>_. None) url ^^ k) d))"
  using assms(1,2,4)
proof (induction k arbitrary: d)
  case (Suc k)
  have "r \<notin> set (due_events now d)" using dueD [of r now d] assms(3) by blast
  then show ?case
    using Suc.IH [OF tick_accepted(4) [OF Suc.prems(1,3) assms(5)] tick_accepted(5) [OF Suc.prems(1,3) assms(5) Suc.prems(2)]
        tick_accepted(3) [OF Suc.prems(1,3) assms(5)]]
    by (simp add: funpow_swap1)
qed simp

lemma no_ready: "ready_count now d = 0 \<Longrightarrow> r \<in> set (outbox d) \<Longrightarrow> \<not> ready now r"
  by (simp add: ready_count_def filter_empty_conv)

text \<open>C34: The queue drains: against a receiver that accepts, fifty events per tick are delivered
  until none is due, and nothing is refused, because every payload was sanitized when it was
  queued.\<close>

theorem outbox_drains:
  assumes "distinct (map ob_id (outbox d))" and "sanitized_db d" and "url \<noteq> []"
    and "ready_count now d \<le> 50 * k"
  shows "\<forall>r \<in> set (outbox d). ready now r \<longrightarrow>
    (\<exists>r' \<in> set (outbox ((tick now clock (\<lambda>_. None) url ^^ k) d)). ob_id r' = ob_id r \<and> ob_status r' = ''delivered'')"
  using assms(1,2,4)
proof (induction k arbitrary: d)
  case 0
  then show ?case using no_ready by auto
next
  case (Suc k)
  let ?t = "tick now clock (\<lambda>_. None) url"
  note T = tick_accepted [OF Suc.prems(1,2) assms(3)]
  have swap: "(?t ^^ Suc k) d = (?t ^^ k) (?t d)" by (simp add: funpow_swap1)
  have "ready_count now (?t d) \<le> 50 * k" using T(1) [of now clock] Suc.prems(3) by simp
  note ih = Suc.IH [OF T(4,3) this]
  show ?case unfolding swap
  proof (intro ballI impI)
    fix r assume r: "r \<in> set (outbox d)" "ready now r"
    show "\<exists>r' \<in> set (outbox ((?t ^^ k) (?t d))). ob_id r' = ob_id r \<and> ob_status r' = ''delivered''"
    proof (cases "r \<in> set (due_events now d)")
      case True
      then obtain r' where r': "r' \<in> set (outbox (?t d))" "ob_id r' = ob_id r" "ob_status r' = ''delivered''"
        using T(2) by blast
      then have "ob_status r' \<noteq> ''pending''" by simp
      with r' delivered_stays [OF T(4) r'(1) this T(3) assms(3)] show ?thesis by blast
    next
      case False
      then show ?thesis using ih T(5) [OF r(1)] r(2) by blast
    qed
  qed
qed

theorem outbox_drains_witness:
  "\<exists>r' \<in> set (outbox ((tick 10 (\<lambda>_. 11) (\<lambda>_. None) ''https://sink'' ^^ 1) demo_queue)).
     ob_id r' = ob_id (hd (outbox demo_queue)) \<and> ob_status r' = ''delivered''"
proof -
  have "distinct (map ob_id (outbox demo_queue))" "sanitized_db demo_queue"
    "''https://sink'' \<noteq> []" "ready_count 10 demo_queue \<le> 50 * 1"
    by code_simp+
  moreover have "hd (outbox demo_queue) \<in> set (outbox demo_queue) \<and> ready 10 (hd (outbox demo_queue))"
    by code_simp
  ultimately show ?thesis
    using outbox_drains [of demo_queue "''https://sink''" 10 1 "\<lambda>_. 11"] by blast
qed

end
