(* ===== verification/Commercial_Policy.thy ===== *)
theory Commercial_Policy
  imports Licensing
begin

text \<open>
  \<^verbatim>\<open>api/src/repositories/commercial_policy.rs\<close>: the versions of the global AuthorForge policy, the
  decoding of the one in force and the publication of the next. The product row's lock makes a
  publication one step.
\<close>

record policy_limits =
  pl_tokens :: int
  pl_analysis :: int
  pl_premium :: int
  pl_devices :: int

record policy_document =
  pd_included :: policy_limits
  pd_pro :: policy_limits

datatype policy_error =
    PolicyProductNotFound
  | NoActivePolicy
  | VersionConflict
  | EffectiveAtInPast
  | PolicyInvalid string
  | PolicyDb

section \<open>The document as JSON\<close>

text \<open>The derived codecs: every field, no other, each an \<^verbatim>\<open>i64\<close>.\<close>

definition i64_field :: "string \<Rightarrow> json \<Rightarrow> int option" where
  "i64_field k v = Option.bind (jget k v) (\<lambda>x.
     (case x of JInt n \<Rightarrow> (if in_i64 n then Some n else None) | _ \<Rightarrow> None))"

definition only_keys :: "string list \<Rightarrow> json \<Rightarrow> bool" where
  "only_keys ks v = (case v of JObj m \<Rightarrow> list_all (\<lambda>(k, _). k \<in> set ks) m | _ \<Rightarrow> False)"

definition decode_limits :: "json \<Rightarrow> policy_limits option" where
  "decode_limits v =
     (if \<not> only_keys [''cloud_tokens_per_month'', ''deep_analysis_runs_per_month'',
           ''premium_model_requests_per_month'', ''device_limit''] v then None
      else Option.bind (i64_field ''cloud_tokens_per_month'' v) (\<lambda>a.
           Option.bind (i64_field ''deep_analysis_runs_per_month'' v) (\<lambda>b.
           Option.bind (i64_field ''premium_model_requests_per_month'' v) (\<lambda>c.
           Option.bind (i64_field ''device_limit'' v) (\<lambda>n.
             Some \<lparr>pl_tokens = a, pl_analysis = b, pl_premium = c, pl_devices = n\<rparr>)))))"

definition decode_policy :: "json \<Rightarrow> policy_document option" where
  "decode_policy v =
     (if \<not> only_keys [''included'', ''pro''] v then None
      else Option.bind (Option.bind (jget ''included'' v) decode_limits) (\<lambda>i.
           Option.bind (Option.bind (jget ''pro'' v) decode_limits) (\<lambda>p.
             Some \<lparr>pd_included = i, pd_pro = p\<rparr>)))"

definition encode_limits :: "policy_limits \<Rightarrow> json" where
  "encode_limits l = JObj [(''cloud_tokens_per_month'', JInt (pl_tokens l)),
     (''deep_analysis_runs_per_month'', JInt (pl_analysis l)),
     (''premium_model_requests_per_month'', JInt (pl_premium l)), (''device_limit'', JInt (pl_devices l))]"

definition encode_policy :: "policy_document \<Rightarrow> json" where
  "encode_policy p = JObj [(''included'', encode_limits (pd_included p)), (''pro'', encode_limits (pd_pro p))]"

definition limits_fields :: "policy_limits \<Rightarrow> (string \<times> int) list" where
  "limits_fields l = [(''cloud_tokens_per_month'', pl_tokens l), (''deep_analysis_runs_per_month'', pl_analysis l),
     (''premium_model_requests_per_month'', pl_premium l), (''device_limit'', pl_devices l)]"

text \<open>The first negative field, in the order the code walks them.\<close>

definition validate_policy :: "policy_document \<Rightarrow> policy_error + unit" where
  "validate_policy p =
     (case find (\<lambda>(_, _, v). v < 0)
        (map (Pair ''included'') (limits_fields (pd_included p)) @ map (Pair ''pro'') (limits_fields (pd_pro p))) of
        None \<Rightarrow> Inr ()
      | Some (plan, field, _) \<Rightarrow> Inl (PolicyInvalid (plan @ ''.'' @ field @ '' must be non-negative'')))"

section \<open>Reading\<close>

definition active_document :: "env \<Rightarrow> db \<Rightarrow> db_error + policy_document option" where
  "active_document e d =
     (case effective_policy e ''authorforge'' d of
        None \<Rightarrow> Inr None
      | Some r \<Rightarrow> bind_r (ok_or (decode_policy (cp_policy r)) Db) (\<lambda>p. Inr (Some p)))"

record policy_version =
  pw_product_key :: string
  pw_plan_version :: string
  pw_effective :: time
  pw_policy :: json
  pw_reason :: string
  pw_published_by :: string
  pw_correlation :: "string option"
  pw_published_at :: time

definition to_policy_version :: "policy_row \<Rightarrow> policy_version" where
  "to_policy_version r = \<lparr>pw_product_key = ''authorforge'', pw_plan_version = show_int (cp_version r),
     pw_effective = cp_effective r, pw_policy = cp_policy r, pw_reason = cp_reason r, pw_published_by = cp_by r,
     pw_correlation = cp_corr r, pw_published_at = cp_created r\<rparr>"

definition read_active :: "env \<Rightarrow> db \<Rightarrow> policy_version option" where
  "read_active e d = map_option to_policy_version (effective_policy e ''authorforge'' d)"

section \<open>Publishing\<close>

record publish_input =
  pi_operator :: string
  pi_base :: string
  pi_effective :: time
  pi_policy :: policy_document
  pi_reason :: string
  pi_idem :: string
  pi_corr :: "string option"

definition active_policy :: "env \<Rightarrow> uuid \<Rightarrow> db \<Rightarrow> policy_row option" where
  "active_policy e pro d =
     first_by (\<lambda>r. (- cp_effective r, - cp_version r))
       (filter (\<lambda>r. cp_product r = pro \<and> cp_effective r \<le> e_now e) (policies d))"

definition version_of_product :: "uuid \<Rightarrow> db \<Rightarrow> int list" where
  "version_of_product pro d = map cp_version (filter (\<lambda>r. cp_product r = pro) (policies d))"

definition next_policy_version :: "uuid \<Rightarrow> db \<Rightarrow> int" where
  "next_policy_version pro d = (case version_of_product pro d of [] \<Rightarrow> 0 | v # vs \<Rightarrow> fold max vs v) + 1"

definition published_policy :: "env \<Rightarrow> uuid \<Rightarrow> publish_input \<Rightarrow> db \<Rightarrow> policy_row" where
  "published_policy e pro inp d = \<lparr>cp_product = pro, cp_version = next_policy_version pro d,
     cp_effective = pi_effective inp, cp_policy = encode_policy (pi_policy inp), cp_reason = pi_reason inp,
     cp_by = pi_operator inp, cp_idem = pi_idem inp, cp_corr = pi_corr inp, cp_created = e_now e\<rparr>"

definition record_policy :: "env \<Rightarrow> publish_input \<Rightarrow> policy_row \<Rightarrow> policy_row \<Rightarrow> db \<Rightarrow> db" where
  "record_policy e inp active r d =
     write_outbox e 0 ''commercial_policy_version_published''
       (''commercial-policy:authorforge:'' @ show_int (cp_version r))
       (JObj [(''product_key'', JStr ''authorforge''), (''plan_version'', JInt (cp_version r)),
          (''effective_at'', JStr (e_time e (cp_effective r)))])
     (write_operator_audit
        \<lparr>a_event = ''commercial_policy_version_published'', a_actor = pi_operator inp, a_customer = None,
         a_target_type = ''commercial_policy'', a_target = ''authorforge:'' @ show_int (cp_version r),
         a_reason = pi_reason inp,
         a_before = Some (JObj [(''plan_version'', JInt (cp_version active)), (''policy'', cp_policy active)]),
         a_after = Some (JObj [(''plan_version'', JInt (cp_version r)),
           (''effective_at'', JStr (e_time e (cp_effective r))), (''policy'', cp_policy r)]),
         a_correlation = pi_corr inp\<rparr> d)"

definition publish_policy :: "env \<Rightarrow> publish_input \<Rightarrow> db \<Rightarrow> (policy_error + policy_version) \<times> db" where
  "publish_policy e inp d =
     (case validate_policy (pi_policy inp) of
        Inl err \<Rightarrow> (Inl err, d)
      | Inr _ \<Rightarrow>
      if pi_effective inp < e_utc e 0 - secs 300 then (Inl EffectiveAtInPast, d)
      else case find (\<lambda>p. pr_key p = ''authorforge'' \<and> pr_status p = ''active'') (products d) of
        None \<Rightarrow> (Inl PolicyProductNotFound, d)
      | Some pro \<Rightarrow>
      (case find (\<lambda>r. cp_product r = pr_id pro \<and> cp_idem r = pi_idem inp) (policies d) of
        Some r \<Rightarrow> (Inr (to_policy_version r), d)
      | None \<Rightarrow>
      (case active_policy e (pr_id pro) d of
        None \<Rightarrow> (Inl NoActivePolicy, d)
      | Some active \<Rightarrow>
          if trim (pi_base inp) \<noteq> show_int (cp_version active) then (Inl VersionConflict, d)
          else (let r = published_policy e (pr_id pro) inp d
                in (Inr (to_policy_version r),
                    record_policy e inp active r (d\<lparr>policies := policies d @ [r]\<rparr>))))))"

end
