(* ===== verification/Signing.thy ===== *)
theory Signing
  imports Validation Entitlement_Rules "HOL-Library.AList"
begin

text \<open>
  \<^verbatim>\<open>api/src/services/signing.rs\<close>, the signed payloads of \<^verbatim>\<open>domain/snapshot.rs\<close> and
  \<^verbatim>\<open>domain/lease.rs\<close>, and the key ring that \<^verbatim>\<open>state.rs\<close> builds. Ed25519 and the JSON serializer are
  parameters.
\<close>

section \<open>Signer and key ring\<close>

text \<open>The curve: the public key of a seed, signing, which bytes are a public key, verification.\<close>

record ed25519 =
  ed_public :: "string \<Rightarrow> string"
  ed_sign :: "string \<Rightarrow> string \<Rightarrow> string"
  ed_is_public :: "string \<Rightarrow> bool"
  ed_verify :: "string \<Rightarrow> string \<Rightarrow> string \<Rightarrow> bool"

datatype key_fault = NotBase64 | WrongLength | NotOnCurve

datatype signing_error = InvalidKey key_fault | BadSignature | UnknownKeyId string | VerificationFailed

record signer =
  sk_id :: string
  sk_seed :: string

definition from_base64_seed :: "codec \<Rightarrow> string \<Rightarrow> string \<Rightarrow> signing_error + signer" where
  "from_base64_seed cd key_id b64_seed =
     bind_r (ok_or (b64_decode cd (trim b64_seed)) (InvalidKey NotBase64)) (\<lambda>raw.
       if length raw = 32 then Inr \<lparr>sk_id = key_id, sk_seed = raw\<rparr> else Inl (InvalidKey WrongLength))"

definition public_key_base64 :: "codec \<Rightarrow> ed25519 \<Rightarrow> signer \<Rightarrow> string" where
  "public_key_base64 cd ed sk = b64_encode cd (ed_public ed (sk_seed sk))"

definition sign_bytes :: "codec \<Rightarrow> ed25519 \<Rightarrow> signer \<Rightarrow> string \<Rightarrow> string" where
  "sign_bytes cd ed sk message = b64_encode cd (ed_sign ed (sk_seed sk) message)"

text \<open>The \<^verbatim>\<open>HashMap\<close> from key ids to verifying keys.\<close>

type_synonym key_ring = "(string \<times> string) list"

definition add_base64 :: "codec \<Rightarrow> ed25519 \<Rightarrow> string \<Rightarrow> string \<Rightarrow> key_ring \<Rightarrow> signing_error + key_ring" where
  "add_base64 cd ed key_id b64_pub ring =
     bind_r (ok_or (b64_decode cd (trim b64_pub)) (InvalidKey NotBase64)) (\<lambda>raw.
       if length raw \<noteq> 32 then Inl (InvalidKey WrongLength)
       else if \<not> ed_is_public ed raw then Inl (InvalidKey NotOnCurve)
       else Inr (AList.update key_id raw ring))"

definition add_signer :: "ed25519 \<Rightarrow> signer \<Rightarrow> key_ring \<Rightarrow> key_ring" where
  "add_signer ed sk ring = AList.update (sk_id sk) (ed_public ed (sk_seed sk)) ring"

definition published :: "codec \<Rightarrow> key_ring \<Rightarrow> (string \<times> string) list" where
  "published cd ring = map (\<lambda>(i, vk). (i, b64_encode cd vk)) ring"

definition ring_verify :: "codec \<Rightarrow> ed25519 \<Rightarrow> key_ring \<Rightarrow> string \<Rightarrow> string \<Rightarrow> string \<Rightarrow> signing_error + unit" where
  "ring_verify cd ed ring key_id message b64_sig =
     bind_r (ok_or (map_of ring key_id) (UnknownKeyId key_id)) (\<lambda>vk.
     bind_r (ok_or (b64_decode cd (trim b64_sig)) BadSignature) (\<lambda>raw.
       if length raw \<noteq> 64 then Inl BadSignature
       else if ed_verify ed vk message raw then Inr () else Inl VerificationFailed))"

text \<open>
  \<^verbatim>\<open>add_verify_keys\<close>: an entry under the active signer's id must carry the active key and is
  skipped, so it can never replace it.
\<close>

fun add_verify_keys ::
    "codec \<Rightarrow> ed25519 \<Rightarrow> signer \<Rightarrow> (string \<times> string) list \<Rightarrow> key_ring \<Rightarrow> string + key_ring" where
  "add_verify_keys cd ed sk [] ring = Inr ring"
| "add_verify_keys cd ed sk ((key_id, public_key) # entries) ring =
     (case add_base64 cd ed key_id public_key [] of
        Inl _ \<Rightarrow> Inl key_id
      | Inr probe \<Rightarrow>
          if key_id = sk_id sk
          then (if map snd (take 1 (published cd probe)) = [public_key_base64 cd ed sk]
                then add_verify_keys cd ed sk entries ring else Inl key_id)
          else (case add_base64 cd ed key_id public_key ring of
                  Inl _ \<Rightarrow> Inl key_id
                | Inr ring' \<Rightarrow> add_verify_keys cd ed sk entries ring'))"

definition build_ring :: "codec \<Rightarrow> ed25519 \<Rightarrow> signer \<Rightarrow> (string \<times> string) list \<Rightarrow> string + key_ring" where
  "build_ring cd ed sk entries = add_verify_keys cd ed sk entries (add_signer ed sk [])"

section \<open>Signed payloads\<close>

definition SCHEMA_VERSION :: string where "SCHEMA_VERSION = ''forge.entitlements.v1''"
definition LEASE_SCHEMA_VERSION :: string where "LEASE_SCHEMA_VERSION = ''forge.lease.v1''"

record snapshot =
  sn_schema :: string
  sn_customer :: string
  sn_installation :: "string option"
  sn_product :: string
  sn_issued :: string
  sn_expires :: string
  sn_features :: features
  sn_quotas :: quotas
  sn_key :: string
  sn_signature :: string

record offline_lease =
  ol_schema :: string
  ol_id :: string
  ol_customer :: string
  ol_license :: string
  ol_installation :: string
  ol_product :: string
  ol_issued :: string
  ol_expires :: string
  ol_key :: string
  ol_signature :: string

text \<open>\<open>ser\<close> is \<^verbatim>\<open>serde_json::to_vec\<close>; it does not fail on these types.\<close>

definition snapshot_bytes :: "(snapshot \<Rightarrow> string) \<Rightarrow> snapshot \<Rightarrow> string" where
  "snapshot_bytes ser s = ser (s\<lparr>sn_signature := []\<rparr>)"

definition lease_bytes :: "(offline_lease \<Rightarrow> string) \<Rightarrow> offline_lease \<Rightarrow> string" where
  "lease_bytes ser l = ser (l\<lparr>ol_signature := []\<rparr>)"

definition sign_snapshot :: "codec \<Rightarrow> ed25519 \<Rightarrow> (snapshot \<Rightarrow> string) \<Rightarrow> signer \<Rightarrow> snapshot \<Rightarrow> snapshot" where
  "sign_snapshot cd ed ser sk s =
     (let s' = s\<lparr>sn_key := sk_id sk, sn_signature := []\<rparr>
      in s'\<lparr>sn_signature := sign_bytes cd ed sk (snapshot_bytes ser s')\<rparr>)"

definition verify_snapshot ::
    "codec \<Rightarrow> ed25519 \<Rightarrow> (snapshot \<Rightarrow> string) \<Rightarrow> key_ring \<Rightarrow> snapshot \<Rightarrow> signing_error + unit" where
  "verify_snapshot cd ed ser ring s = ring_verify cd ed ring (sn_key s) (snapshot_bytes ser s) (sn_signature s)"

section \<open>Rotation\<close>

text \<open>What Ed25519 and base64 promise.\<close>

definition ed_ok :: "codec \<Rightarrow> ed25519 \<Rightarrow> bool" where
  "ed_ok cd ed \<longleftrightarrow> (\<forall>seed m. ed_verify ed (ed_public ed seed) m (ed_sign ed seed m)
     \<and> length (ed_sign ed seed m) = 64
     \<and> b64_decode cd (trim (b64_encode cd (ed_sign ed seed m))) = Some (ed_sign ed seed m))"

text \<open>Every key the configuration adds keeps the active key of the ring.\<close>

lemma add_verify_keys_active:
  "add_verify_keys cd ed sk entries ring = Inr ring' \<Longrightarrow> map_of ring (sk_id sk) = Some k \<Longrightarrow>
     map_of ring' (sk_id sk) = Some k"
  by (induction cd ed sk entries ring rule: add_verify_keys.induct)
    (auto simp: add_base64_def update_conv' split: sum.splits if_splits)

lemma build_ring_active:
  "build_ring cd ed sk entries = Inr ring \<Longrightarrow> map_of ring (sk_id sk) = Some (ed_public ed (sk_seed sk))"
  by (rule add_verify_keys_active) (auto simp: build_ring_def add_signer_def)

lemma ring_verify_own:
  assumes "ed_ok cd ed" and "build_ring cd ed sk entries = Inr ring"
  shows "ring_verify cd ed ring (sk_id sk) m (sign_bytes cd ed sk m) = Inr ()"
  using assms(1) build_ring_active [OF assms(2)]
  by (simp add: ring_verify_def sign_bytes_def ed_ok_def del: bind_r_eq_Inr)

lemma snapshot_verifies:
  assumes "ed_ok cd ed" and "build_ring cd ed sk entries = Inr ring"
  shows "verify_snapshot cd ed ser ring (sign_snapshot cd ed ser sk s) = Inr ()"
  using ring_verify_own [OF assms]
  by (simp add: verify_snapshot_def sign_snapshot_def Let_def snapshot_bytes_def)

end
