(* ===== verification/Entitlements.thy ===== *)
theory Entitlements
  imports Commercial_Policy Signing Usage_Ledger
begin

text \<open>
  \<^verbatim>\<open>api/src/repositories/entitlements.rs\<close>: the assembly of the evaluation inputs from the catalog,
  the subscription, grants and overrides; meters; snapshots; and the issue of offline leases. The
  statements of one assembly read at one instant.
\<close>

section \<open>The entitlement tables\<close>

record plan_quota_row =
  pq_version :: uuid
  pq_meter :: string
  pq_limit :: rat
  pq_cadence :: string

record license_grant_row =
  lg_license :: uuid
  lg_feature :: string
  lg_bool :: "bool option"
  lg_number :: "rat option"
  lg_string :: "string option"
  lg_created :: time

record entitlement_grant_row =
  eg_customer :: uuid
  eg_product :: uuid
  eg_feature :: "string option"
  eg_quota :: "string option"
  eg_bool :: "bool option"
  eg_number :: "rat option"
  eg_string :: "string option"
  eg_expires :: "time option"
  eg_created :: time

record snapshot_row =
  sr_id :: uuid
  sr_customer :: uuid
  sr_installation :: "uuid option"
  sr_product :: uuid
  sr_schema :: string
  sr_payload :: json
  sr_key :: string
  sr_signature :: string
  sr_expires :: time

record lease_row =
  ls_id :: uuid
  ls_license :: uuid
  ls_installation :: uuid
  ls_issued :: time
  ls_expires :: time
  ls_key :: string
  ls_signature :: string

record ent =
  acct :: db
  plan_quotas :: "plan_quota_row list"
  license_grants_t :: "license_grant_row list"
  entitlement_grants :: "entitlement_grant_row list"
  snapshots :: "snapshot_row list"
  leases :: "lease_row list"

text \<open>\<^verbatim>\<open>numeric::float8\<close>: the nearest double.\<close>

definition as_float8 :: "rat \<Rightarrow> f64" where
  "as_float8 x = f64_round x"

section \<open>Layers\<close>

definition feature_value_of :: "bool option \<Rightarrow> f64 option \<Rightarrow> string option \<Rightarrow> feature_value option" where
  "feature_value_of b n s =
     (case b of Some v \<Rightarrow> Some (FBool v) | None \<Rightarrow>
     (case n of Some v \<Rightarrow> Some (FNumber v) | None \<Rightarrow> map_option FText s))"

text \<open>\<^verbatim>\<open>collect()\<close> into a \<^verbatim>\<open>BTreeMap\<close>: a later entry replaces an earlier one.\<close>

definition collect :: "(string \<times> 'v) list \<Rightarrow> (string \<rightharpoonup> 'v)" where
  "collect kvs = foldl (\<lambda>m (k, v). m(k \<mapsto> v)) Map.empty kvs"

type_synonym grant = "string option \<times> string option \<times> feature_value option \<times> f64 option"

fun merge_grants :: "grant list \<Rightarrow> features \<times> quotas \<Rightarrow> features \<times> quotas" where
  "merge_grants [] acc = acc"
| "merge_grants ((Some key, _, v, _) # rows) (fs, qs) =
     merge_grants rows (case v of Some x \<Rightarrow> fs(key \<mapsto> x) | None \<Rightarrow> fs, qs)"
| "merge_grants ((None, Some key, _, n) # rows) (fs, qs) =
     merge_grants rows (fs, case n of Some x \<Rightarrow> qs(key \<mapsto> x) | None \<Rightarrow> qs)"
| "merge_grants ((None, None, _, _) # rows) (fs, qs) = merge_grants rows (fs, qs)"

definition plan_feature_layer :: "uuid \<Rightarrow> db \<Rightarrow> features" where
  "plan_feature_layer version d =
     collect (List.map_filter (\<lambda>pf. Option.bind (find (\<lambda>f. ft_id f = pf_feature pf) (features_t d)) (\<lambda>f.
         map_option (Pair (ft_key f))
           (feature_value_of (pf_bool pf) (map_option as_float8 (pf_number pf)) (pf_string pf))))
       (filter (\<lambda>pf. pf_version pf = version) (plan_features d)))"

definition plan_quota_layer :: "uuid \<Rightarrow> ent \<Rightarrow> (string \<times> f64 \<times> string) list" where
  "plan_quota_layer version t =
     map (\<lambda>q. (pq_meter q, as_float8 (pq_limit q), pq_cadence q))
       (filter (\<lambda>q. pq_version q = version) (plan_quotas t))"

definition included_plan_version :: "uuid \<Rightarrow> string \<Rightarrow> db \<Rightarrow> uuid option" where
  "included_plan_version pro product_key d =
     map_option pv_id (find (\<lambda>v. pv_status v = ''active''
       \<and> (\<exists>pl \<in> set (plans d). pl_id pl = pv_plan v \<and> pl_product pl = pro
            \<and> pl_key pl = product_key @ ''_included'' \<and> pl_status pl = ''active'')) (plan_versions d))"

text \<open>The plan a subscription is on, as the join reads it.\<close>

definition subscribed_plan :: "subscription_row \<Rightarrow> db \<Rightarrow> plan_row option" where
  "subscribed_plan s d =
     Option.bind (find (\<lambda>v. pv_id v = su_plan_version s) (plan_versions d)) (\<lambda>v.
       find (\<lambda>pl. pl_id pl = pv_plan v) (plans d))"

definition live_subscription :: "subscription_row \<Rightarrow> bool" where
  "live_subscription s \<longleftrightarrow> su_status s = ''active'' \<or> su_status s = ''trialing''"

definition current_subscription :: "uuid \<Rightarrow> uuid \<Rightarrow> db \<Rightarrow> subscription_row option" where
  "current_subscription customer pro d =
     first_by (\<lambda>s. (if live_subscription s then 0 else 1 :: nat,
                    (case su_event_at s of Some t \<Rightarrow> (0, - t) | None \<Rightarrow> (1 :: nat, 0)), - su_created s))
       (filter (\<lambda>s. su_customer s = customer \<and> su_status s \<noteq> ''canceled''
          \<and> map_option pl_product (subscribed_plan s d) = Some pro) (subscriptions d))"

definition apply_commercial_policy :: "policy_limits \<Rightarrow> features \<times> quotas \<Rightarrow> features \<times> quotas" where
  "apply_commercial_policy l x = (case x of (fs, qs) \<Rightarrow>
     (fs(''authorforge.cloud.enabled'' \<mapsto> FBool (0 < pl_tokens l),
         ''authorforge.deep_analysis.enabled'' \<mapsto> FBool (0 < pl_analysis l),
         ''authorforge.premium.enabled'' \<mapsto> FBool (0 < pl_premium l),
         ''authorforge.devices.max'' \<mapsto> FNumber (f64_of_int (pl_devices l))),
      qs(''cloud_tokens.monthly'' \<mapsto> f64_of_int (pl_tokens l),
         ''deep_analysis_runs.monthly'' \<mapsto> f64_of_int (pl_analysis l),
         ''premium_model_requests.monthly'' \<mapsto> f64_of_int (pl_premium l))))"

definition limits_for_plan :: "policy_document \<Rightarrow> string \<Rightarrow> policy_limits option" where
  "limits_for_plan policy plan_key =
     (if plan_key = ''authorforge_included'' then Some (pd_included policy)
      else if plan_key = ''authorforge_pro'' then Some (pd_pro policy) else None)"

text \<open>One plan's layer on the quotas and cadences so far.\<close>

definition plan_layer ::
    "uuid \<Rightarrow> policy_limits option \<Rightarrow> quotas \<times> (string \<rightharpoonup> string) \<times> string list \<Rightarrow> ent
      \<Rightarrow> features \<times> quotas \<times> (string \<rightharpoonup> string) \<times> string list" where
  "plan_layer version limits x t = (case x of (qs, cads, keys) \<Rightarrow>
     let rows = plan_quota_layer version t;
         qs' = foldl (\<lambda>m (k, l, _). m(k \<mapsto> l)) qs rows;
         cads' = foldl (\<lambda>m (k, _, c). m(k \<mapsto> c)) cads rows;
         layer = (plan_feature_layer version (acct t), qs');
         (fs, qs'') = (case limits of None \<Rightarrow> layer | Some l \<Rightarrow> apply_commercial_policy l layer)
     in (fs, qs'', cads', keys @ map fst rows))"

section \<open>Assembly\<close>

record loaded_entitlements =
  le_product :: uuid
  le_product_key :: string
  le_inputs :: entitlement_inputs
  le_status :: "subscription_status option"

definition unexpired :: "env \<Rightarrow> time option \<Rightarrow> bool" where
  "unexpired e t \<longleftrightarrow> (case t of None \<Rightarrow> True | Some x \<Rightarrow> e_now e < x)"

definition license_layer :: "env \<Rightarrow> uuid \<Rightarrow> uuid \<Rightarrow> ent \<Rightarrow> features" where
  "license_layer e customer pro t =
     collect (List.map_filter (\<lambda>g. map_option (Pair (lg_feature g))
         (feature_value_of (lg_bool g) (map_option as_float8 (lg_number g)) (lg_string g)))
       (order_by lg_created (filter (\<lambda>g. \<exists>l \<in> set (licenses (acct t)). li_id l = lg_license g
          \<and> li_customer l = customer \<and> li_product l = pro \<and> li_status l = ''active''
          \<and> unexpired e (li_expires l)) (license_grants_t t))))"

text \<open>The status of the effective licence.\<close>

definition effective_license :: "uuid \<Rightarrow> uuid \<Rightarrow> db \<Rightarrow> license_row option" where
  "effective_license customer pro d =
     first_by (\<lambda>l. (if li_status l = ''active'' then 0 else 1 :: nat, - li_issued l))
       (filter (\<lambda>l. li_customer l = customer \<and> li_product l = pro) (licenses d))"

definition promotional_rows :: "env \<Rightarrow> uuid \<Rightarrow> uuid \<Rightarrow> ent \<Rightarrow> grant list" where
  "promotional_rows e customer pro t =
     map (\<lambda>g. (eg_feature g, eg_quota g,
               feature_value_of (eg_bool g) (map_option as_float8 (eg_number g)) (eg_string g),
               map_option as_float8 (eg_number g)))
       (order_by eg_created (filter (\<lambda>g. eg_customer g = customer \<and> eg_product g = pro
          \<and> unexpired e (eg_expires g)) (entitlement_grants t)))"

definition override_rows :: "env \<Rightarrow> uuid \<Rightarrow> uuid \<Rightarrow> db \<Rightarrow> grant list" where
  "override_rows e customer pro d =
     map (\<lambda>g. (ov_feature g, ov_quota g,
               feature_value_of (ov_bool g) (map_option as_float8 (ov_number g)) (ov_string g),
               map_option as_float8 (ov_number g)))
       (order_by ov_created (filter (\<lambda>g. ov_customer g = customer \<and> ov_product g = pro \<and> ov_active g
          \<and> unexpired e (ov_expires g)) (overrides d)))"

definition monthly_base :: "string \<Rightarrow> string" where
  "monthly_base key = unwrap_or (strip_suffix ''.monthly'' key) key"

text \<open>\<^verbatim>\<open><meter>.used\<close> for the monthly meters; \<open>month\<close> is \<^verbatim>\<open>Utc::now().format("%Y-%m")\<close>.\<close>

definition used_entries :: "uuid \<Rightarrow> string \<Rightarrow> (string \<rightharpoonup> string) \<Rightarrow> string list \<Rightarrow> db \<Rightarrow> quotas" where
  "used_entries customer month cads keys d =
     collect (map (\<lambda>k. let base = monthly_base k in (base @ ''.used'',
         (case find (totals_for customer base month) (totals d) of None \<Rightarrow> Fin 0 | Some r \<Rightarrow> to_used r)))
       (filter (\<lambda>k. cads k = Some ''monthly'') (remdups keys)))"

definition load_entitlement_inputs ::
    "env \<Rightarrow> string \<Rightarrow> uuid \<Rightarrow> string \<Rightarrow> ent \<Rightarrow> db_error + loaded_entitlements option" where
  "load_entitlement_inputs e month customer product_key t =
     (let d = acct t in
      case find (\<lambda>p. pr_key p = product_key \<and> pr_status p = ''active'') (products d) of
        None \<Rightarrow> Inr None
      | Some p \<Rightarrow>
        bind_r (if product_key = ''authorforge'' then active_document e d else Inr None) (\<lambda>policy.
        let pro = pr_id p;
            (defaults, qs1, cads1, keys1) = (case included_plan_version pro product_key d of
                None \<Rightarrow> (Map.empty, Map.empty, Map.empty, [])
              | Some v \<Rightarrow> plan_layer v (map_option pd_included policy) (Map.empty, Map.empty, []) t);
            subscription = current_subscription customer pro d;
            status = map_option (\<lambda>s. normalize_stripe_status (su_status s)) subscription;
            (plan, qs2, cads2, keys2) = (case subscription of
                None \<Rightarrow> (Map.empty, qs1, cads1, keys1)
              | Some s \<Rightarrow> plan_layer (su_plan_version s)
                  (Option.bind policy (\<lambda>doc. Option.bind (subscribed_plan s d) (\<lambda>pl. limits_for_plan doc (pl_key pl))))
                  (qs1, cads1, keys1) t);
            (promo, qs3) = merge_grants (promotional_rows e customer pro t) (Map.empty, qs2);
            (over, qs4) = merge_grants (override_rows e customer pro d) (Map.empty, qs3)
        in Inr (Some \<lparr>le_product = pro, le_product_key = product_key,
             le_inputs = \<lparr>product_defaults = defaults, plan_version = plan,
               license_grants = license_layer e customer pro t, promotional_grants = promo,
               admin_overrides = over,
               quota_limits = qs4 ++ used_entries customer month cads2 keys2 d,
               subscription_grants_cloud = (case status of None \<Rightarrow> False | Some s \<Rightarrow> grants_cloud s),
               suspended = False,
               revoked = (map_option li_status (effective_license customer pro d) = Some ''revoked'')\<rparr>,
             le_status = status\<rparr>)))"

definition meter_usage :: "string \<Rightarrow> uuid \<Rightarrow> string \<Rightarrow> db \<Rightarrow> f64 \<times> f64" where
  "meter_usage month customer quota_key d =
     (case find (totals_for customer (monthly_base quota_key) month) (totals d) of
        None \<Rightarrow> (Fin 0, Fin 0) | Some r \<Rightarrow> (to_used r, to_reserved r))"

definition store_snapshot ::
    "env \<Rightarrow> uuid \<Rightarrow> uuid option \<Rightarrow> uuid \<Rightarrow> snapshot \<Rightarrow> json \<Rightarrow> time \<Rightarrow> ent \<Rightarrow> uuid \<times> ent" where
  "store_snapshot e customer inst pro s payload expires t =
     (e_id e 0, t\<lparr>snapshots := snapshots t @ [\<lparr>sr_id = e_id e 0, sr_customer = customer,
        sr_installation = inst, sr_product = pro, sr_schema = sn_schema s, sr_payload = payload,
        sr_key = sn_key s, sr_signature = sn_signature s, sr_expires = expires\<rparr>]\<rparr>)"

definition find_owned_installation :: "uuid \<Rightarrow> uuid \<Rightarrow> db \<Rightarrow> (uuid \<times> string) option" where
  "find_owned_installation customer inst d =
     Option.bind (find (\<lambda>i. in_id i = inst \<and> in_customer i = customer) (installations d)) (\<lambda>i.
       map_option (\<lambda>p. (in_id i, pr_key p)) (find (\<lambda>p. pr_id p = in_product i) (products d)))"

section \<open>Offline leases\<close>

datatype lease_error =
    LeaseInstallationNotFound
  | LeaseInstallationDeactivated
  | NoActiveActivation
  | LeaseLicenseNotActive string
  | LeaseRevocationBlocked

text \<open>The latest active activation of the installation whose licence the join finds.\<close>

definition lease_license :: "uuid \<Rightarrow> db \<Rightarrow> license_row option" where
  "lease_license inst d =
     Option.bind (first_by (\<lambda>a. - ac_activated a)
         (filter (\<lambda>a. ac_installation a = inst \<and> ac_status a = ''active'') (activations d)))
       (\<lambda>a. find (\<lambda>l. li_id l = ac_license a) (licenses d))"

definition lease_guards ::
    "env \<Rightarrow> uuid \<Rightarrow> uuid \<Rightarrow> db \<Rightarrow> lease_error + (license_row \<times> string)" where
  "lease_guards e customer inst d =
     bind_r (ok_or (Option.bind (find (\<lambda>i. in_id i = inst \<and> in_customer i = customer) (installations d))
         (\<lambda>i. map_option (Pair i) (find (\<lambda>p. pr_id p = in_product i) (products d)))) LeaseInstallationNotFound) (\<lambda>(i, p).
     if in_status i = ''deactivated'' then Inl LeaseInstallationDeactivated
     else if device_status (in_device i) d = Some ''revoked'' then Inl LeaseRevocationBlocked
     else bind_r (ok_or (lease_license inst d) NoActiveActivation) (\<lambda>l.
     if li_status l = ''revoked'' then Inl LeaseRevocationBlocked
     else if li_status l \<noteq> ''active'' then Inl (LeaseLicenseNotActive (li_status l))
     else if (case li_expires l of None \<Rightarrow> False | Some t \<Rightarrow> t \<le> e_utc e 0)
       then Inl (LeaseLicenseNotActive ''expired'')
     else if list_ex (revocation_blocks (li_id l) i) (revocations d) then Inl LeaseRevocationBlocked
     else Inr (l, pr_key p)))"

text \<open>\<open>rfc\<close> is the RFC 3339 text in whole seconds.\<close>

definition new_lease ::
    "env \<Rightarrow> (time \<Rightarrow> string) \<Rightarrow> signer \<Rightarrow> uuid \<Rightarrow> uuid \<Rightarrow> time \<Rightarrow> license_row \<Rightarrow> string \<Rightarrow> offline_lease" where
  "new_lease e rfc sk customer inst ttl l product_key =
     \<lparr>ol_schema = LEASE_SCHEMA_VERSION, ol_id = e_id e 0, ol_customer = customer, ol_license = li_id l,
      ol_installation = inst, ol_product = product_key, ol_issued = rfc (e_utc e 1),
      ol_expires = rfc (e_utc e 1 + ttl), ol_key = sk_id sk, ol_signature = []\<rparr>"

definition issue_offline_lease ::
    "codec \<Rightarrow> ed25519 \<Rightarrow> (offline_lease \<Rightarrow> string) \<Rightarrow> (time \<Rightarrow> string) \<Rightarrow> env \<Rightarrow> signer \<Rightarrow> uuid \<Rightarrow> uuid \<Rightarrow> time
      \<Rightarrow> string option \<Rightarrow> ent \<Rightarrow> (lease_error + offline_lease) \<times> ent" where
  "issue_offline_lease cd ed ser rfc e sk customer inst ttl corr t =
     (case lease_guards e customer inst (acct t) of
        Inl err \<Rightarrow> (Inl err, t)
      | Inr (l, product_key) \<Rightarrow>
        (let lease = new_lease e rfc sk customer inst ttl l product_key;
             signed = lease\<lparr>ol_signature := sign_bytes cd ed sk (lease_bytes ser lease)\<rparr>;
             row = \<lparr>ls_id = e_id e 0, ls_license = li_id l, ls_installation = inst, ls_issued = e_utc e 1,
                    ls_expires = e_utc e 1 + ttl, ls_key = ol_key signed, ls_signature = ol_signature signed\<rparr>
         in (Inr signed, t\<lparr>leases := leases t @ [row],
              acct := write_customer_audit
                \<lparr>a_event = ''lease_issued'', a_actor = customer, a_customer = Some customer,
                 a_target_type = ''license_lease'', a_target = e_id e 0, a_reason = ''offline_lease_request'',
                 a_before = None,
                 a_after = Some (JObj [(''license_id'', JStr (li_id l)), (''installation_id'', JStr inst),
                   (''expires_at'', JStr (ol_expires signed))]),
                 a_correlation = corr\<rparr> (acct t)\<rparr>)))"

end
