(* ===== verification/Entitlement_Properties.thy ===== *)
theory Entitlement_Properties
  imports Entitlements Deletion_Properties
begin

text \<open>
  The entitlement properties: no layer grants cloud features without a live subscription, an
  offline lease is signed only while the installation holds a usable licence, and a deleted
  customer gets none.
\<close>

section \<open>The cloud gate\<close>

lemma load_cases:
  assumes "load_entitlement_inputs e month c pk t = Inr (Some le)"
  shows "le_status le = map_option (\<lambda>s. normalize_stripe_status (su_status s)) (current_subscription c (le_product le) (acct t))"
    "subscription_grants_cloud (le_inputs le) = (case le_status le of None \<Rightarrow> False | Some s \<Rightarrow> grants_cloud s)"
    "revoked (le_inputs le) = (map_option li_status (effective_license c (le_product le) (acct t)) = Some ''revoked'')"
  using assms by (auto simp: load_entitlement_inputs_def Let_def case_prod_beta split: option.splits)

text \<open>C11: Nothing but a live subscription opens the cloud: if the evaluation of what was loaded for a
  customer and product gives any cloud feature a value other than false, then the customer has a
  subscription on a plan of that product whose status is active or trialing, and the effective
  licence is not revoked; no plan, policy, licence grant, promotion or override gets around it.\<close>

theorem cloud_requires_subscription:
  assumes "load_entitlement_inputs e month c pk t = Inr (Some le)"
    and "is_cloud_feature k" and "er_features (evaluate (le_inputs le)) k = Some v" and "v \<noteq> FBool False"
  shows "\<exists>s \<in> set (subscriptions (acct t)). su_customer s = c \<and> live_subscription s
    \<and> (\<exists>pl. subscribed_plan s (acct t) = Some pl \<and> pl_product pl = le_product le)
    \<and> (\<forall>l. effective_license c (le_product le) (acct t) = Some l \<longrightarrow> li_status l \<noteq> ''revoked'')"
proof -
  note L = load_cases [OF assms(1)]
  have "cloud_allowed (le_inputs le)"
    using assms(2-4) by (auto simp: evaluate_features split: if_splits)
  then have g: "subscription_grants_cloud (le_inputs le)" "\<not> revoked (le_inputs le)" by (simp_all add: cloud_allowed_def)
  then obtain s where s: "current_subscription c (le_product le) (acct t) = Some s"
    "grants_cloud (normalize_stripe_status (su_status s))"
    using L(1,2) by (auto split: option.splits)
  have "s \<in> set (filter (\<lambda>s. su_customer s = c \<and> su_status s \<noteq> ''canceled''
          \<and> map_option pl_product (subscribed_plan s (acct t)) = Some (le_product le)) (subscriptions (acct t)))"
    by (rule first_by_SomeD(1) [OF s(1) [unfolded current_subscription_def]])
  moreover have "live_subscription s" using s(2) by (auto simp: normalize_grants_iff live_subscription_def)
  moreover have "\<forall>l. effective_license c (le_product le) (acct t) = Some l \<longrightarrow> li_status l \<noteq> ''revoked''"
    using g(2) L(3) by auto
  ultimately show ?thesis by auto
qed

text \<open>The example account with a trial of the pro plan.\<close>

definition demo_ent :: ent where
  "demo_ent = \<lparr>acct = demo_db\<lparr>
       plans := [\<lparr>pl_id = ''plan'', pl_product = ''prod'', pl_key = ''authorforge_pro'', pl_status = ''active''\<rparr>],
       subscriptions := [\<lparr>su_id = ''s1'', su_customer = ''ada'', su_billing = ''b1'', su_plan_version = ''plan-v1'',
         su_stripe_id = Some ''sub_1'', su_status = ''trialing'', su_period_start = None, su_period_end = None,
         su_cancel_at_end = False, su_event_at = None, su_created = 5\<rparr>],
       activations := [\<lparr>ac_id = ''a0'', ac_license = ''lic'', ac_installation = ''laptop'',
         ac_device = None, ac_status = ''active'', ac_activated = 100, ac_deactivated = None\<rparr>]\<rparr>,
     plan_quotas = [\<lparr>pq_version = ''plan-v1'', pq_meter = ''cloud_tokens.monthly'', pq_limit = 10,
       pq_cadence = ''monthly''\<rparr>],
     license_grants_t = [], entitlement_grants = [], snapshots = [], leases = []\<rparr>"

definition demo_loaded :: "db_error + loaded_entitlements option" where
  "demo_loaded = load_entitlement_inputs (demo_env ''e'' 900) ''2026-06'' ''ada'' ''authorforge'' demo_ent"

theorem cloud_requires_subscription_witness:
  "\<exists>le. demo_loaded = Inr (Some le)
    \<and> er_features (evaluate (le_inputs le)) ''authorforge.cloud.enabled'' = Some (FBool True)
    \<and> (\<exists>s \<in> set (subscriptions (acct demo_ent)). su_customer s = ''ada'' \<and> live_subscription s)"
proof -
  have ok: "(case demo_loaded of Inr (Some le) \<Rightarrow>
      er_features (evaluate (le_inputs le)) ''authorforge.cloud.enabled'' = Some (FBool True) | _ \<Rightarrow> False)"
    by code_simp
  then obtain le where le: "demo_loaded = Inr (Some le)"
    "er_features (evaluate (le_inputs le)) ''authorforge.cloud.enabled'' = Some (FBool True)"
    by (auto split: sum.splits option.splits)
  have "is_cloud_feature ''authorforge.cloud.enabled''" by code_simp
  from cloud_requires_subscription [OF le(1) [unfolded demo_loaded_def] this le(2)] le show ?thesis by auto
qed

section \<open>Offline leases\<close>

text \<open>What an issued lease rests on.\<close>

definition lease_grounds :: "env \<Rightarrow> uuid \<Rightarrow> uuid \<Rightarrow> db \<Rightarrow> license_row \<Rightarrow> bool" where
  "lease_grounds e c inst d l \<longleftrightarrow> (\<exists>i \<in> set (installations d). in_id i = inst \<and> in_customer i = c
     \<and> in_status i \<noteq> ''deactivated'' \<and> device_status (in_device i) d \<noteq> Some ''revoked''
     \<and> (\<exists>a \<in> set (activations d). ac_installation a = inst \<and> ac_status a = ''active'' \<and> ac_license a = li_id l)
     \<and> l \<in> set (licenses d) \<and> li_status l = ''active''
     \<and> (\<forall>t. li_expires l = Some t \<longrightarrow> e_utc e 0 < t)
     \<and> (\<forall>r \<in> set (revocations d). \<not> revocation_blocks (li_id l) i r))"

lemma lease_license_facts:
  assumes "lease_license inst d = Some l"
  shows "l \<in> set (licenses d) \<and> (\<exists>a \<in> set (activations d). ac_installation a = inst \<and> ac_status a = ''active''
    \<and> ac_license a = li_id l)"
  using assms first_by_SomeD(1) find_SomeD by (fastforce simp: lease_license_def bind_eq_Some_conv)

lemma lease_guards_grounds:
  assumes "lease_guards e c inst d = Inr (l, pk)"
  shows "lease_grounds e c inst d l"
proof -
  from assms obtain i where i: "find (\<lambda>i. in_id i = inst \<and> in_customer i = c) (installations d) = Some i"
    "in_status i \<noteq> ''deactivated''" "device_status (in_device i) d \<noteq> Some ''revoked''"
    "lease_license inst d = Some l" "li_status l = ''active''"
    "\<not> (case li_expires l of None \<Rightarrow> False | Some t \<Rightarrow> t \<le> e_utc e 0)"
    "\<not> list_ex (revocation_blocks (li_id l) i) (revocations d)"
    by (auto simp: lease_guards_def bind_eq_Some_conv split: if_splits)
  then show ?thesis
    using find_SomeD [OF i(1)] lease_license_facts [OF i(4)]
    by (auto simp: lease_grounds_def list_ex_iff intro!: bexI [of _ i])
qed

text \<open>C13: An offline lease is signed only on live access: the installation is the customer's and not
  deactivated, its device not revoked, an active activation gives it an active unexpired licence, and
  no revocation is in scope. The lease names exactly these, its signature verifies on every key ring
  the configuration can build around the signer, and the row that is stored carries it.\<close>

theorem lease_needs_access:
  assumes "issue_offline_lease cd ed ser rfc e sk c inst ttl corr t = (Inr lease, t')"
    and "ed_ok cd ed" and "build_ring cd ed sk entries = Inr ring"
  shows "\<exists>l. lease_grounds e c inst (acct t) l \<and> ol_license lease = li_id l \<and> ol_installation lease = inst
      \<and> ol_customer lease = c \<and> ol_expires lease = rfc (e_utc e 1 + ttl)
      \<and> ring_verify cd ed ring (ol_key lease) (lease_bytes ser lease) (ol_signature lease) = Inr ()
      \<and> (\<exists>row. leases t' = leases t @ [row] \<and> ls_signature row = ol_signature lease
          \<and> ls_license row = li_id l \<and> ls_expires row = e_utc e 1 + ttl)"
proof -
  from assms(1) obtain l pk where g: "lease_guards e c inst (acct t) = Inr (l, pk)"
    by (auto simp: issue_offline_lease_def split: sum.splits)
  let ?lease = "new_lease e rfc sk c inst ttl l pk"
  have lease: "lease = ?lease\<lparr>ol_signature := sign_bytes cd ed sk (lease_bytes ser ?lease)\<rparr>"
    using assms(1) g by (simp add: issue_offline_lease_def Let_def)
  have "lease_bytes ser lease = lease_bytes ser ?lease" by (simp add: lease lease_bytes_def new_lease_def)
  then have "ring_verify cd ed ring (ol_key lease) (lease_bytes ser lease) (ol_signature lease) = Inr ()"
    using ring_verify_own [OF assms(2,3)] by (simp add: lease) (simp add: new_lease_def)
  moreover have "\<exists>row. leases t' = leases t @ [row] \<and> ls_signature row = ol_signature lease
          \<and> ls_license row = li_id l \<and> ls_expires row = e_utc e 1 + ttl"
    using assms(1) g lease by (auto simp: issue_offline_lease_def Let_def)
  ultimately show ?thesis
    using lease_guards_grounds [OF g] by (intro exI [of _ l]) (simp add: lease new_lease_def)
qed

text \<open>A stand-in for the curve that keeps its promises.\<close>

definition demo_curve :: ed25519 where
  "demo_curve = \<lparr>ed_public = rev, ed_sign = (\<lambda>seed m. take 64 (m @ seed @ replicate 64 (CHR ''.''))),
     ed_is_public = (\<lambda>_. True), ed_verify = (\<lambda>vk m s. s = take 64 (m @ rev vk @ replicate 64 (CHR ''.'')))\<rparr>"

lemma demo_curve_ok: "ed_ok hex_codec demo_curve"
  by (auto simp: ed_ok_def demo_curve_def hex_codec_def)

definition demo_signer :: signer where
  "demo_signer = \<lparr>sk_id = ''key-1'', sk_seed = replicate 32 (CHR ''k'')\<rparr>"

definition demo_lease :: "(lease_error + offline_lease) \<times> ent" where
  "demo_lease = issue_offline_lease hex_codec demo_curve ol_id show_int (demo_env ''e'' 900) demo_signer ''ada''
     ''laptop'' 1000 None demo_ent"

theorem lease_needs_access_witness:
  "\<exists>lease t'. demo_lease = (Inr lease, t') \<and> ol_license lease = ''lic''
    \<and> ring_verify hex_codec demo_curve (add_signer demo_curve demo_signer []) (ol_key lease)
        (lease_bytes ol_id lease) (ol_signature lease) = Inr ()"
proof -
  have "(case lease_guards (demo_env ''e'' 900) ''ada'' ''laptop'' (acct demo_ent) of
      Inr (l, _) \<Rightarrow> li_id l = ''lic'' | Inl _ \<Rightarrow> False)" by code_simp
  then obtain l pk where g: "lease_guards (demo_env ''e'' 900) ''ada'' ''laptop'' (acct demo_ent) = Inr (l, pk)"
    "li_id l = ''lic''" by (auto split: sum.splits)
  then obtain lease t' where d: "demo_lease = (Inr lease, t')" "ol_license lease = ''lic''"
    by (auto simp: demo_lease_def issue_offline_lease_def Let_def new_lease_def)
  have "build_ring hex_codec demo_curve demo_signer [] = Inr (add_signer demo_curve demo_signer [])"
    by (simp add: build_ring_def)
  from lease_needs_access [OF d(1) [unfolded demo_lease_def] demo_curve_ok this] d show ?thesis by blast
qed

text \<open>A deleted customer gets no lease: after an executed deletion, whatever requests come in between,
  every lease request of the customer is refused and nothing is stored.\<close>

theorem deleted_customer_gets_no_lease:
  assumes "execute_deletion e op i reason corr d = (Inr r', d1)" and "handler_step\<^sup>*\<^sup>* d1 (acct t)"
    and "lic_inv (acct t)"
  shows "\<exists>err. issue_offline_lease cd ed ser rfc e2 sk (dr_customer r') inst ttl corr2 t = (Inl err, t)"
proof (cases "lease_guards e2 (dr_customer r') inst (acct t)")
  case (Inl err)
  then show ?thesis by (simp add: issue_offline_lease_def)
next
  case (Inr x)
  obtain l pk where x: "x = (l, pk)" by (cases x)
  obtain j a where g: "j \<in> set (installations (acct t))" "in_id j = inst" "in_customer j = dr_customer r'"
    "a \<in> set (activations (acct t))" "ac_installation a = inst" "ac_status a = ''active''" "ac_license a = li_id l"
    "l \<in> set (licenses (acct t))" "li_status l = ''active''"
    using lease_guards_grounds [OF Inr [unfolded x]] unfolding lease_grounds_def by blast
  note I = lic_invD [OF assms(3)]
  obtain j' l' where s: "j' \<in> set (installations (acct t))" "l' \<in> set (licenses (acct t))"
    "in_id j' = ac_installation a" "li_id l' = ac_license a" "in_customer j' = li_customer l'"
    using I(5) [OF g(4)] g(6) by (auto simp: slot_ok_def is_active_def)
  have "j' = j" using distinct_key_eq [OF I(1) s(1) g(1)] s(3) g(2,5) by simp
  moreover have "l' = l" using distinct_key_eq [OF I(3) s(2) g(8)] s(4) g(7) by simp
  ultimately have "li_customer l = dr_customer r'" using s(5) g(3) by simp
  moreover have "all_revoked (dr_customer r') (acct t)"
    using handler_run_revoked [OF assms(2) closed_revoked [OF execute_closes(1) [OF assms(1)]]] .
  ultimately have "li_status l = ''revoked''" using g(8) by (simp add: all_revoked_def)
  with g(9) show ?thesis by simp
qed

theorem deleted_customer_gets_no_lease_witness:
  "\<exists>err. issue_offline_lease hex_codec demo_curve ol_id show_int (demo_env ''e'' 900) demo_signer ''ada''
     ''laptop'' 1000 None (demo_ent\<lparr>acct := snd demo_executed\<rparr>) = (Inl err, demo_ent\<lparr>acct := snd demo_executed\<rparr>)"
proof -
  obtain r where r: "execute_deletion (demo_env ''x'' 6000) ''operator'' ''q0'' ''verified'' None demo_processing
     = (Inr r, snd demo_executed)" "dr_customer r = ''ada''" using demo_executed_eq by blast
  have "lic_inv demo_processing" by code_simp
  then have "lic_inv (snd demo_executed)" using execute_lic_inv r(1) by blast
  then show ?thesis
    using deleted_customer_gets_no_lease [OF r(1), of "demo_ent\<lparr>acct := snd demo_executed\<rparr>"] r(2) by simp
qed

end
