(* ===== verification/App_Error.thy ===== *)
theory App_Error
  imports Json Licensing
begin

text \<open>
  \<^verbatim>\<open>api/src/error.rs\<close>: the one error contract of the service, with its stable codes, the HTTP
  status of each and the JSON body it renders to.
\<close>

datatype error_code =
    Unauthenticated | InvalidToken | TokenExpired | WrongAudience | Forbidden | BadRequest
  | CustomerSuspended | MfaRequired | NotFound | Conflict | NoBillingAccount | IdempotencyReplay
  | ValidationFailed | QuotaExceeded | DeviceLimit | Revoked | RateLimited | Internal
  | ServiceUnavailable | NotImplemented

fun code_as_str :: "error_code \<Rightarrow> string" where
  "code_as_str Unauthenticated = ''UNAUTHENTICATED''"
| "code_as_str InvalidToken = ''INVALID_TOKEN''"
| "code_as_str TokenExpired = ''TOKEN_EXPIRED''"
| "code_as_str WrongAudience = ''WRONG_AUDIENCE''"
| "code_as_str Forbidden = ''FORBIDDEN''"
| "code_as_str BadRequest = ''BAD_REQUEST''"
| "code_as_str CustomerSuspended = ''CUSTOMER_SUSPENDED''"
| "code_as_str MfaRequired = ''MFA_REQUIRED''"
| "code_as_str NotFound = ''NOT_FOUND''"
| "code_as_str Conflict = ''CONFLICT''"
| "code_as_str NoBillingAccount = ''NO_BILLING_ACCOUNT''"
| "code_as_str IdempotencyReplay = ''IDEMPOTENCY_REPLAY''"
| "code_as_str ValidationFailed = ''VALIDATION_FAILED''"
| "code_as_str QuotaExceeded = ''QUOTA_EXCEEDED''"
| "code_as_str DeviceLimit = ''DEVICE_LIMIT_REACHED''"
| "code_as_str Revoked = ''REVOKED''"
| "code_as_str RateLimited = ''RATE_LIMITED''"
| "code_as_str Internal = ''INTERNAL''"
| "code_as_str ServiceUnavailable = ''SERVICE_UNAVAILABLE''"
| "code_as_str NotImplemented = ''NOT_IMPLEMENTED''"

fun http_status :: "error_code \<Rightarrow> int" where
  "http_status Unauthenticated = 401"
| "http_status InvalidToken = 401"
| "http_status TokenExpired = 401"
| "http_status WrongAudience = 401"
| "http_status Forbidden = 403"
| "http_status CustomerSuspended = 403"
| "http_status Revoked = 403"
| "http_status MfaRequired = 403"
| "http_status BadRequest = 400"
| "http_status NotFound = 404"
| "http_status Conflict = 409"
| "http_status NoBillingAccount = 409"
| "http_status IdempotencyReplay = 409"
| "http_status ValidationFailed = 422"
| "http_status QuotaExceeded = 402"
| "http_status DeviceLimit = 402"
| "http_status RateLimited = 429"
| "http_status Internal = 500"
| "http_status ServiceUnavailable = 503"
| "http_status NotImplemented = 501"

record app_error =
  ae_code :: error_code
  ae_message :: string
  ae_correlation :: "string option"
  ae_details :: json

definition app_err :: "error_code \<Rightarrow> string \<Rightarrow> app_error" where
  "app_err code msg = \<lparr>ae_code = code, ae_message = msg, ae_correlation = None, ae_details = JObj []\<rparr>"

definition with_correlation :: "string \<Rightarrow> app_error \<Rightarrow> app_error" where
  "with_correlation i err = err\<lparr>ae_correlation := Some i\<rparr>"

definition with_details :: "json \<Rightarrow> app_error \<Rightarrow> app_error" where
  "with_details details err = err\<lparr>ae_details := details\<rparr>"

definition unauthenticated :: "string \<Rightarrow> app_error" where "unauthenticated = app_err Unauthenticated"
definition forbidden :: "string \<Rightarrow> app_error" where "forbidden = app_err Forbidden"
definition mfa_required_error :: "string \<Rightarrow> app_error" where "mfa_required_error = app_err MfaRequired"
definition bad_request :: "string \<Rightarrow> app_error" where "bad_request = app_err BadRequest"
definition not_found :: "string \<Rightarrow> app_error" where "not_found = app_err NotFound"
definition validation :: "string \<Rightarrow> app_error" where "validation = app_err ValidationFailed"
definition internal :: "string \<Rightarrow> app_error" where "internal = app_err Internal"

definition into_response :: "app_error \<Rightarrow> int \<times> json" where
  "into_response err = (http_status (ae_code err), JObj [(''error'', JObj [
     (''code'', JStr (code_as_str (ae_code err))), (''message'', JStr (ae_message err)),
     (''correlation_id'', jopt JStr (ae_correlation err)), (''details'', ae_details err)])])"

text \<open>A database error never shows its cause.\<close>

definition db_app_error :: app_error where
  "db_app_error = internal ''A database error occurred.''"

lemmas app_error_defs = app_err_def unauthenticated_def forbidden_def mfa_required_error_def bad_request_def
  not_found_def validation_def internal_def db_app_error_def with_details_def with_correlation_def

lemma code_as_str_inject: "code_as_str a = code_as_str b \<longleftrightarrow> a = b"
  by (cases a; cases b) simp_all

lemma status_is_error: "400 \<le> http_status c \<and> http_status c < 600"
  by (cases c) simp_all

end
