(* ===== verification/Customers.thy ===== *)
theory Customers
  imports Licensing
begin

text \<open>
  \<^verbatim>\<open>api/src/repositories/customers.rs\<close> and \<^verbatim>\<open>catalog.rs\<close>: the profile behind an authenticated user,
  its idempotent provisioning, and the public catalog. The second-factor columns a new profile
  takes are the defaults of migration 0014: required, with thirty days of grace.
\<close>

definition find_by_auth_user_id :: "uuid \<Rightarrow> db \<Rightarrow> customer_row option" where
  "find_by_auth_user_id auth_user d = find (\<lambda>r. cu_auth_user r = auth_user) (customers d)"

definition set_mfa_required :: "uuid \<Rightarrow> bool \<Rightarrow> db \<Rightarrow> db" where
  "set_mfa_required c required d =
     d\<lparr>customers := upd (\<lambda>r. cu_id r = c) (\<lambda>r. r\<lparr>cu_mfa_required := required\<rparr>) (customers d)\<rparr>"

section \<open>Provisioning\<close>

record provisioned_customer =
  pc_profile :: customer_row
  pc_fleet :: uuid
  pc_created :: bool

definition mfa_grace_days :: int where "mfa_grace_days = 30"

definition new_profile ::
    "env \<Rightarrow> uuid \<Rightarrow> string option \<Rightarrow> string option \<Rightarrow> string option \<Rightarrow> customer_row" where
  "new_profile e auth_user display country tz =
     \<lparr>cu_id = e_id e 0, cu_auth_user = auth_user, cu_type = ''individual'', cu_display_name = display,
      cu_status = ''active'', cu_country = country, cu_timezone = tz, cu_mfa_required = True,
      cu_mfa_grace = Some (e_now e + secs (mfa_grace_days * 86400)), cu_created = e_now e\<rparr>"

definition record_profile :: "env \<Rightarrow> customer_row \<Rightarrow> db \<Rightarrow> db" where
  "record_profile e p d =
     write_outbox e 2 ''customer_created'' (''customer_created:'' @ cu_id p)
       (JObj [(''customer_id'', JStr (cu_id p)), (''customer_type'', JStr (cu_type p)),
          (''occurred_at'', JStr (e_time e (cu_created p)))])
       (d\<lparr>customers := customers d @ [p],
          status_history := status_history d @
            [\<lparr>sh_id = e_id e 1, sh_customer = cu_id p, sh_from = None, sh_to = cu_status p,
              sh_reason = Some ''account_provisioned'', sh_actor_type = ''customer'',
              sh_actor = Some (cu_auth_user p)\<rparr>]\<rparr>)"

text \<open>PostgreSQL's one-argument \<^verbatim>\<open>trim\<close> removes spaces only.\<close>

definition pg_trim :: "string \<Rightarrow> string" where
  "pg_trim s = (let drop_spaces = dropWhile (\<lambda>c. c = CHR '' '') in rev (drop_spaces (rev (drop_spaces s))))"

definition fleet_name :: "string option \<Rightarrow> string" where
  "fleet_name display = (case map_option pg_trim display of
     Some n \<Rightarrow> (if n = [] then ''Default fleet'' else n) | None \<Rightarrow> ''Default fleet'')"

definition ensure_named_fleet :: "env \<Rightarrow> uuid \<Rightarrow> string option \<Rightarrow> db \<Rightarrow> uuid \<times> db" where
  "ensure_named_fleet e customer display d =
     (case find (default_fleet_of customer) (fleets d) of
        Some f \<Rightarrow> (fl_id f, d)
      | None \<Rightarrow> (e_id e 3, d\<lparr>fleets := fleets d @
          [\<lparr>fl_id = e_id e 3, fl_customer = customer, fl_name = fleet_name display, fl_type = ''default'',
            fl_status = ''active'', fl_ring = ''standard'',
            fl_channel = stable_channel d (\<lambda>p. pr_key p = ''authorforge''), fl_beta = False\<rparr>]\<rparr>))"

text \<open>
  The contact email is inserted unless the customer has a primary one or has it already
  (\<^verbatim>\<open>on conflict do nothing\<close> against the two unique indexes).
\<close>

definition add_primary_email :: "uuid \<Rightarrow> string \<Rightarrow> db \<Rightarrow> db" where
  "add_primary_email customer email d =
     (if list_ex (\<lambda>m. em_customer m = customer \<and> (em_primary m \<or> to_lower (em_email m) = to_lower email)) (emails d)
      then d
      else d\<lparr>emails := emails d @
        [\<lparr>em_customer = customer, em_email = email, em_primary = True, em_verified = None\<rparr>]\<rparr>)"

definition provision_for_auth_user ::
    "env \<Rightarrow> uuid \<Rightarrow> string option \<Rightarrow> string option \<Rightarrow> string option \<Rightarrow> string option \<Rightarrow> db
      \<Rightarrow> provisioned_customer \<times> db" where
  "provision_for_auth_user e auth_user email display country tz d =
     (let (profile, created, d1) =
            (case find_by_auth_user_id auth_user d of
               Some p \<Rightarrow> (p, False, d)
             | None \<Rightarrow> (let p = new_profile e auth_user display country tz in (p, True, record_profile e p d)));
          (fleet, d2) = ensure_named_fleet e (cu_id profile) (cu_display_name profile) d1;
          d3 = (case find (\<lambda>p. pr_key p = ''authorforge'') (products d2) of
                  Some p \<Rightarrow> ensure_fleet_app fleet (pr_id p) d2 | None \<Rightarrow> d2);
          d4 = (case email of Some m \<Rightarrow> add_primary_email (cu_id profile) m d3 | None \<Rightarrow> d3)
      in (\<lparr>pc_profile = profile, pc_fleet = fleet, pc_created = created\<rparr>, d4))"

section \<open>The public catalog\<close>

definition list_products :: "(product_row \<Rightarrow> nat) \<Rightarrow> db \<Rightarrow> product_row list" where
  "list_products rank d = order_by rank (filter (\<lambda>p. pr_status p = ''active'') (products d))"

definition list_plans :: "(plan_row \<Rightarrow> nat) \<Rightarrow> db \<Rightarrow> plan_row list" where
  "list_plans rank d = order_by rank (filter (\<lambda>p. pl_status p = ''active'') (plans d))"

section \<open>Provisioning twice\<close>

lemma ensure_named_fleet_frame [simp]:
  "customers (snd (ensure_named_fleet e c n d)) = customers d"
  "emails (snd (ensure_named_fleet e c n d)) = emails d"
  "products (snd (ensure_named_fleet e c n d)) = products d"
  "fleet_apps (snd (ensure_named_fleet e c n d)) = fleet_apps d"
  by (simp_all add: ensure_named_fleet_def split: option.split)

lemma ensure_fleet_app_more [simp]:
  "customers (ensure_fleet_app f p d) = customers d"
  "emails (ensure_fleet_app f p d) = emails d"
  "products (ensure_fleet_app f p d) = products d"
  by (simp_all add: ensure_fleet_app_def)

lemma add_primary_email_frame [simp]:
  "customers (add_primary_email c m d) = customers d"
  "fleets (add_primary_email c m d) = fleets d"
  "fleet_apps (add_primary_email c m d) = fleet_apps d"
  "products (add_primary_email c m d) = products d"
  by (simp_all add: add_primary_email_def)

text \<open>What a provisioning leaves behind.\<close>

definition provisioned :: "uuid \<Rightarrow> string option \<Rightarrow> customer_row \<Rightarrow> uuid \<Rightarrow> db \<Rightarrow> bool" where
  "provisioned auth_user email p fleet d \<longleftrightarrow> find_by_auth_user_id auth_user d = Some p
     \<and> (\<exists>f. find (default_fleet_of (cu_id p)) (fleets d) = Some f \<and> fl_id f = fleet)
     \<and> (\<forall>pr. find (\<lambda>x. pr_key x = ''authorforge'') (products d) = Some pr \<longrightarrow>
          find (\<lambda>a. fa_fleet a = fleet \<and> fa_product a = pr_id pr) (fleet_apps d) \<noteq> None)
     \<and> (\<forall>m. email = Some m \<longrightarrow> (\<exists>x \<in> set (emails d). em_customer x = cu_id p
          \<and> (em_primary x \<or> to_lower (em_email x) = to_lower m)))"

lemma ensure_named_fleet_found:
  assumes "ensure_named_fleet e c n d = (fleet, d')"
  shows "\<exists>f. find (default_fleet_of c) (fleets d') = Some f \<and> fl_id f = fleet"
  using assms by (auto simp: ensure_named_fleet_def find_append default_fleet_of_def split: option.splits)

lemma ensure_fleet_app_found:
  "find (\<lambda>a. fa_fleet a = f \<and> fa_product a = p) (fleet_apps (ensure_fleet_app f p d)) \<noteq> None"
  by (auto simp: ensure_fleet_app_def find_append split: option.split)

lemma add_primary_email_found:
  "\<exists>x \<in> set (emails (add_primary_email c m d)). em_customer x = c
     \<and> (em_primary x \<or> to_lower (em_email x) = to_lower m)"
  by (auto simp: add_primary_email_def list_ex_iff)

lemma provision_leaves:
  assumes "provision_for_auth_user e u email n co tz d = (r, d')"
  shows "provisioned u email (pc_profile r) (pc_fleet r) d'"
proof -
  obtain p created d1 where 1: "(case find_by_auth_user_id u d of
       Some p \<Rightarrow> (p, False, d)
     | None \<Rightarrow> (let p = new_profile e u n co tz in (p, True, record_profile e p d))) = (p, created, d1)"
    by (metis prod_cases3)
  then have p: "find_by_auth_user_id u d1 = Some p"
    by (auto simp: find_by_auth_user_id_def record_profile_def new_profile_def find_append Let_def
        split: option.splits)
  obtain fleet d2 where 2: "ensure_named_fleet e (cu_id p) (cu_display_name p) d1 = (fleet, d2)" by fastforce
  define d3 where "d3 = (case find (\<lambda>x. pr_key x = ''authorforge'') (products d2) of
       Some x \<Rightarrow> ensure_fleet_app fleet (pr_id x) d2 | None \<Rightarrow> d2)"
  define d4 where "d4 = (case email of Some m \<Rightarrow> add_primary_email (cu_id p) m d3 | None \<Rightarrow> d3)"
  have r: "r = \<lparr>pc_profile = p, pc_fleet = fleet, pc_created = created\<rparr>" "d' = d4"
    using assms unfolding d4_def d3_def by (simp_all add: provision_for_auth_user_def 1 2 Let_def)
  have d2: "customers d2 = customers d1" using ensure_named_fleet_frame(1) 2 by (metis snd_conv)
  have d3: "customers d3 = customers d1" "fleets d3 = fleets d2" "products d3 = products d2"
    using d2 by (auto simp: d3_def ensure_fleet_app_def split: option.split)
  have d4: "customers d4 = customers d3" "fleets d4 = fleets d3" "products d4 = products d3"
    "fleet_apps d4 = fleet_apps d3"
    by (simp_all add: d4_def split: option.split)
  have "\<exists>f. find (default_fleet_of (cu_id p)) (fleets d4) = Some f \<and> fl_id f = fleet"
    using ensure_named_fleet_found [OF 2] d3(2) d4(2) by simp
  moreover have "find (\<lambda>a. fa_fleet a = fleet \<and> fa_product a = pr_id x) (fleet_apps d4) \<noteq> None"
    if "find (\<lambda>x. pr_key x = ''authorforge'') (products d4) = Some x" for x
    using that d3(3) d4(3,4) ensure_fleet_app_found by (simp add: d3_def)
  moreover have "\<exists>x \<in> set (emails d4). em_customer x = cu_id p \<and> (em_primary x \<or> to_lower (em_email x) = to_lower m)"
    if "email = Some m" for m
    using add_primary_email_found that by (simp add: d4_def)
  moreover have "find_by_auth_user_id u d4 = Some p"
    using p d3(1) d4(1) by (simp add: find_by_auth_user_id_def)
  ultimately show ?thesis unfolding provisioned_def r by simp
qed

lemma provision_idle:
  assumes "provisioned u email p fleet d"
  shows "provision_for_auth_user e u email n co tz d = (\<lparr>pc_profile = p, pc_fleet = fleet, pc_created = False\<rparr>, d)"
proof -
  from assms obtain f where f: "find_by_auth_user_id u d = Some p"
    "find (default_fleet_of (cu_id p)) (fleets d) = Some f" "fl_id f = fleet" by (auto simp: provisioned_def)
  have "ensure_named_fleet e (cu_id p) (cu_display_name p) d = (fleet, d)"
    using f(2,3) by (simp add: ensure_named_fleet_def)
  moreover have "(case find (\<lambda>x. pr_key x = ''authorforge'') (products d) of
       Some x \<Rightarrow> ensure_fleet_app fleet (pr_id x) d | None \<Rightarrow> d) = d"
    using assms by (auto simp: provisioned_def ensure_fleet_app_def split: option.split)
  moreover have "(case email of Some m \<Rightarrow> add_primary_email (cu_id p) m d | None \<Rightarrow> d) = d"
    using assms by (auto simp: provisioned_def add_primary_email_def list_ex_iff split: option.split)
  ultimately show ?thesis by (simp add: provision_for_auth_user_def f(1) del: split_paired_Ex)
qed

end
