(* ===== verification/Auth.thy ===== *)
theory Auth
  imports App_Error Customers
begin

text \<open>
  \<^verbatim>\<open>api/src/auth/mod.rs\<close> and \<^verbatim>\<open>extract.rs\<close>: the claims of a token, the bearer header, the contexts a
  request runs in and the gates on them. Decoding and verifying a token is the crate
  \<^verbatim>\<open>jsonwebtoken\<close>: a parameter that maps a token to its claims or to the kind of failure.
\<close>

section \<open>Claims\<close>

record claims =
  cl_sub :: string
  cl_email :: "string option"
  cl_role :: "string option"
  cl_aal :: "string option"
  cl_roles :: "string list"
  cl_scope :: "string option"
  cl_exp :: int

definition is_aal2 :: "string option \<Rightarrow> bool" where
  "is_aal2 aal \<longleftrightarrow> aal = Some ''aal2''"

text \<open>\<^verbatim>\<open>str::split_whitespace\<close>: the maximal pieces without a white-space character.\<close>

function split_ws :: "string \<Rightarrow> string \<Rightarrow> string list" where
  "split_ws piece s =
     (if s = [] then (if piece = [] then [] else [piece])
      else if ws_len s = 0 then split_ws (piece @ [hd s]) (tl s)
      else (if piece = [] then [] else [piece]) @ split_ws [] (drop (ws_len s) s))"
  by pat_completeness auto
termination
  by (relation "measure (\<lambda>(piece, s). length s)") auto

declare split_ws.simps [simp del]

definition split_whitespace :: "string \<Rightarrow> string list" where
  "split_whitespace s = split_ws [] s"

definition operator_roles :: "claims \<Rightarrow> string list" where
  "operator_roles c =
     (if cl_roles c \<noteq> [] then cl_roles c
      else case cl_scope c of
        Some scope \<Rightarrow> map (\<lambda>t. if t = ''*'' then ''admin'' else t) (split_whitespace scope)
      | None \<Rightarrow> [])"

section \<open>Validators\<close>

datatype jwt_fault = ExpiredSignature | InvalidAudience | InvalidIssuer | InvalidSignature | OtherFault

fun map_jwt_error :: "jwt_fault \<Rightarrow> app_error" where
  "map_jwt_error ExpiredSignature = app_err TokenExpired ''The access token has expired.''"
| "map_jwt_error InvalidAudience = app_err WrongAudience ''The token audience is invalid.''"
| "map_jwt_error InvalidIssuer = app_err InvalidToken ''The token issuer is invalid.''"
| "map_jwt_error InvalidSignature = app_err InvalidToken ''The token signature is invalid.''"
| "map_jwt_error OtherFault = app_err InvalidToken ''The access token is invalid.''"

text \<open>
  What a validator was built from. \<open>decode alg key iss aud token\<close> is \<^verbatim>\<open>jsonwebtoken::decode\<close> with
  \<^verbatim>\<open>exp\<close>, \<^verbatim>\<open>aud\<close> and \<^verbatim>\<open>iss\<close> required and no leeway.
\<close>

datatype algorithm = HS256 | ES256 | EdDSA | OtherAlg

type_synonym jwt_decode = "algorithm \<Rightarrow> string \<Rightarrow> string \<Rightarrow> string \<Rightarrow> string \<Rightarrow> jwt_fault + claims"

record jwt_validator =
  jv_alg :: algorithm
  jv_key :: string
  jv_issuer :: string
  jv_audience :: string
  jv_configured :: bool

definition hs256 :: "string \<Rightarrow> string \<Rightarrow> string \<Rightarrow> jwt_validator" where
  "hs256 secret issuer audience = \<lparr>jv_alg = HS256, jv_key = secret, jv_issuer = issuer,
     jv_audience = audience, jv_configured = (secret \<noteq> [])\<rparr>"

text \<open>\<open>from_pem\<close> reads an Ed25519 public key from its PEM text.\<close>

definition eddsa :: "(string \<Rightarrow> string option) \<Rightarrow> string \<Rightarrow> string \<Rightarrow> string \<Rightarrow> jwt_validator" where
  "eddsa from_pem pem issuer audience =
     (case from_pem pem of
        Some key \<Rightarrow> \<lparr>jv_alg = EdDSA, jv_key = key, jv_issuer = issuer, jv_audience = audience,
          jv_configured = True\<rparr>
      | None \<Rightarrow> \<lparr>jv_alg = EdDSA, jv_key = [], jv_issuer = issuer, jv_audience = audience,
          jv_configured = False\<rparr>)"

definition validate_jwt :: "jwt_decode \<Rightarrow> jwt_validator \<Rightarrow> string \<Rightarrow> app_error + claims" where
  "validate_jwt decode v token =
     (if \<not> jv_configured v then Inl (app_err Internal ''token verification is not configured'')
      else case decode (jv_alg v) (jv_key v) (jv_issuer v) (jv_audience v) token of
        Inr c \<Rightarrow> Inr c
      | Inl fault \<Rightarrow> Inl (map_jwt_error fault))"

section \<open>The bearer header\<close>

definition bearer_token :: "string option \<Rightarrow> app_error + string" where
  "bearer_token header =
     bind_r (ok_or header (unauthenticated ''Missing Authorization header.'')) (\<lambda>value.
       (let rest = (case strip_prefix ''Bearer '' value of
              Some r \<Rightarrow> Some r
            | None \<Rightarrow> strip_prefix ''bearer '' value)
        in case map_option trim rest of
             Some t \<Rightarrow> (if t = [] then Inl (unauthenticated ''Malformed Authorization header.'') else Inr t)
           | None \<Rightarrow> Inl (unauthenticated ''Malformed Authorization header.'')))"

section \<open>The customer context\<close>

record customer_context =
  cx_auth_user :: string
  cx_customer :: "uuid option"
  cx_status :: "string option"
  cx_aal :: "string option"
  cx_mfa_required :: bool
  cx_grace :: "time option"

definition is_suspended :: "customer_context \<Rightarrow> bool" where
  "is_suspended x \<longleftrightarrow> cx_status x = Some ''suspended''"

definition mfa_grace_active :: "time \<Rightarrow> customer_context \<Rightarrow> bool" where
  "mfa_grace_active now x = (case cx_grace x of None \<Rightarrow> False | Some deadline \<Rightarrow> now < deadline)"

definition require_aal2 :: "customer_context \<Rightarrow> app_error + unit" where
  "require_aal2 x =
     (if is_aal2 (cx_aal x) then Inr ()
      else Inl (mfa_required_error ''This action requires a recent two-factor authentication challenge.''))"

definition require_active :: "time \<Rightarrow> customer_context \<Rightarrow> app_error + uuid" where
  "require_active now x =
     bind_r (ok_or (cx_customer x) (app_err Forbidden ''No customer profile is provisioned.'')) (\<lambda>i.
     if is_suspended x then Inl (app_err CustomerSuspended ''This customer account is suspended.'')
     else if cx_status x = Some ''anonymized'' \<or> cx_status x = Some ''closed''
     then Inl (app_err Forbidden ''This customer account is closed.'')
     else if cx_mfa_required x \<and> \<not> mfa_grace_active now x
     then bind_r (require_aal2 x) (\<lambda>_. Inr i)
     else Inr i)"

section \<open>The operator context\<close>

record admin_context =
  ax_operator :: string
  ax_roles :: "string list"

definition has_role :: "string \<Rightarrow> admin_context \<Rightarrow> bool" where
  "has_role role a \<longleftrightarrow> role \<in> set (ax_roles a)"

definition require_role :: "string \<Rightarrow> admin_context \<Rightarrow> app_error + unit" where
  "require_role role a =
     (if has_role role a then Inr ()
      else Inl (forbidden (''This operation requires the '' @ squote @ role @ squote @ '' operator role.'')))"

section \<open>Extractors\<close>

text \<open>
  The extractors resolve a context from the \<^verbatim>\<open>Authorization\<close> header; a correlation id of the request
  goes into every error.
\<close>

definition attach :: "string option \<Rightarrow> app_error + 'a \<Rightarrow> app_error + 'a" where
  "attach corr r = (case r of Inr a \<Rightarrow> Inr a
     | Inl err \<Rightarrow> Inl (case corr of Some i \<Rightarrow> with_correlation i err | None \<Rightarrow> err))"

definition subject_id :: "(string \<Rightarrow> uuid option) \<Rightarrow> claims \<Rightarrow> app_error + uuid" where
  "subject_id up c = ok_or (up (cl_sub c)) (app_err InvalidToken ''Token subject is not a valid user id.'')"

definition context_of :: "claims \<Rightarrow> customer_row option \<Rightarrow> customer_context" where
  "context_of c row = \<lparr>cx_auth_user = cl_sub c, cx_customer = map_option cu_id row,
     cx_status = map_option cu_status row, cx_aal = cl_aal c,
     cx_mfa_required = (case row of Some r \<Rightarrow> cu_mfa_required r | None \<Rightarrow> False),
     cx_grace = Option.bind row cu_mfa_grace\<rparr>"

text \<open>\<open>check\<close> is the validation of a token in the state the request finds.\<close>

definition customer_context_from ::
    "(string \<Rightarrow> app_error + claims) \<Rightarrow> (string \<Rightarrow> uuid option) \<Rightarrow> string option \<Rightarrow> string option \<Rightarrow> db
      \<Rightarrow> app_error + customer_context" where
  "customer_context_from check up corr header d = attach corr
     (bind_r (bearer_token header) (\<lambda>token.
      bind_r (check token) (\<lambda>c.
      bind_r (subject_id up c) (\<lambda>u.
        Inr (context_of c (find_by_auth_user_id u d))))))"

record auth_user_context =
  ux_auth_user :: uuid
  ux_email :: "string option"

definition auth_user_context_from ::
    "(string \<Rightarrow> app_error + claims) \<Rightarrow> (string \<Rightarrow> uuid option) \<Rightarrow> string option \<Rightarrow> string option
      \<Rightarrow> app_error + auth_user_context" where
  "auth_user_context_from check up corr header = attach corr
     (bind_r (bearer_token header) (\<lambda>token.
      bind_r (check token) (\<lambda>c.
      bind_r (subject_id up c) (\<lambda>u. Inr \<lparr>ux_auth_user = u, ux_email = cl_email c\<rparr>))))"

definition admin_context_from ::
    "jwt_decode \<Rightarrow> jwt_validator \<Rightarrow> string option \<Rightarrow> string option \<Rightarrow> app_error + admin_context" where
  "admin_context_from decode v corr header = attach corr
     (bind_r (bearer_token header) (\<lambda>token.
      bind_r (validate_jwt decode v token) (\<lambda>c.
        Inr \<lparr>ax_operator = cl_sub c, ax_roles = operator_roles c\<rparr>)))"

lemma attach_eq_Inr [simp]: "attach corr r = Inr a \<longleftrightarrow> r = Inr a"
  by (auto simp: attach_def split: sum.splits)

section \<open>The gates\<close>

lemma require_active_iff:
  "require_active now x = Inr i \<longleftrightarrow> cx_customer x = Some i
     \<and> cx_status x \<notin> {Some ''suspended'', Some ''anonymized'', Some ''closed''}
     \<and> (cx_mfa_required x \<longrightarrow> mfa_grace_active now x \<or> is_aal2 (cx_aal x))"
  by (auto simp: require_active_def require_aal2_def is_suspended_def simp del: bind_r_eq_Inr
      split: bind_r_split)

end
