(* ===== verification/Customer_Jwt.thy ===== *)
theory Customer_Jwt
  imports Auth
begin

text \<open>
  \<^verbatim>\<open>api/src/auth/customer.rs\<close>: customer tokens, signed with the legacy HS256 secret or with an ES256
  key the issuer publishes, and the single-flight cache of those keys. The header and JWKS decoders
  and the HTTP exchange are parameters; the mutex makes one validation one step on the cache.
\<close>

definition CACHE_TTL :: time where "CACHE_TTL = secs 600"
definition REFRESH_INTERVAL :: time where "REFRESH_INTERVAL = secs 60"
definition MAX_JWKS_BYTES :: nat where "MAX_JWKS_BYTES = 65536"
definition MAX_KEYS :: nat where "MAX_KEYS = 32"
definition MAX_TOKEN_BYTES :: nat where "MAX_TOKEN_BYTES = 16384"

definition invalid_token :: app_error where
  "invalid_token = app_err InvalidToken ''The access token is invalid.''"

definition unavailable :: app_error where
  "unavailable = app_err ServiceUnavailable ''Customer identity verification is temporarily unavailable.''"

section \<open>The published keys\<close>

text \<open>One JWK as the crate reads it; \<open>jk_material\<close> is what \<^verbatim>\<open>DecodingKey::from_jwk\<close> makes of it.\<close>

record jwk =
  jk_kid :: "string option"
  jk_alg :: "string option"
  jk_use :: "string option"
  jk_ops :: "string list option"
  jk_curve :: "string option"
  jk_material :: "string option"

type_synonym verification_key = "string \<times> string"

definition usable_kid :: "string option \<Rightarrow> bool" where
  "usable_kid k = (case k of None \<Rightarrow> False | Some s \<Rightarrow> s \<noteq> [] \<and> length s \<le> 128)"

definition signing_jwk :: "jwk \<Rightarrow> bool" where
  "signing_jwk j \<longleftrightarrow> jk_alg j = Some ''ES256'' \<and> (jk_use j = None \<or> jk_use j = Some ''sig'')
     \<and> (case jk_ops j of None \<Rightarrow> True | Some ops \<Rightarrow> ''verify'' \<in> set ops) \<and> jk_curve j = Some ''P-256''"

fun keys_loop :: "jwk list \<Rightarrow> string list \<Rightarrow> verification_key list \<Rightarrow> app_error + verification_key list" where
  "keys_loop [] seen keys = Inr keys"
| "keys_loop (j # js) seen keys =
     (if \<not> usable_kid (jk_kid j) then keys_loop js seen keys
      else let kid = the (jk_kid j)
      in if kid \<in> set seen then Inl unavailable
         else if \<not> signing_jwk j then keys_loop js (kid # seen) keys
         else case jk_material j of
           None \<Rightarrow> Inl unavailable
         | Some m \<Rightarrow> keys_loop js (kid # seen) (keys @ [(kid, m)]))"

definition parse_keys :: "(string \<Rightarrow> jwk list option) \<Rightarrow> string \<Rightarrow> app_error + verification_key list" where
  "parse_keys from_slice bytes =
     bind_r (ok_or (from_slice bytes) unavailable) (\<lambda>js.
       if MAX_KEYS < length js then Inl unavailable else keys_loop js [] [])"

section \<open>Fetching\<close>

text \<open>A response: its status, the announced length, and the chunks of its body (\<open>None\<close>: a broken read).\<close>

record jwks_response =
  jr_success :: bool
  jr_length :: "nat option"
  jr_chunks :: "string option list"

fun read_body :: "string option list \<Rightarrow> string \<Rightarrow> app_error + string" where
  "read_body [] bytes = Inr bytes"
| "read_body (None # cs) bytes = Inl unavailable"
| "read_body (Some chunk # cs) bytes =
     (if MAX_JWKS_BYTES < length bytes + length chunk then Inl unavailable else read_body cs (bytes @ chunk))"

record key_source =
  ks_get :: "string \<Rightarrow> jwks_response option"
  ks_parse :: "string \<Rightarrow> jwk list option"

definition fetch_keys :: "key_source \<Rightarrow> string option \<Rightarrow> app_error + verification_key list" where
  "fetch_keys src url =
     bind_r (ok_or url unavailable) (\<lambda>u.
     bind_r (ok_or (ks_get src u) unavailable) (\<lambda>resp.
       if \<not> jr_success resp \<or> (case jr_length resp of None \<Rightarrow> False | Some n \<Rightarrow> MAX_JWKS_BYTES < n)
       then Inl unavailable
       else bind_r (read_body (jr_chunks resp) []) (parse_keys (ks_parse src))))"

text \<open>The parts of a parsed URL the JWKS location is built from.\<close>

record url_parts =
  up_scheme :: string
  up_host :: "string option"
  up_username :: string
  up_password :: "string option"
  up_query :: "string option"
  up_fragment :: "string option"
  up_path :: string

definition trim_end_slashes :: "string \<Rightarrow> string" where
  "trim_end_slashes s = rev (dropWhile (\<lambda>c. c = CHR ''/'') (rev s))"

definition jwks_url :: "(string \<Rightarrow> url_parts option) \<Rightarrow> string \<Rightarrow> url_parts option" where
  "jwks_url parse issuer =
     Option.bind (parse issuer) (\<lambda>u.
       if up_scheme u \<noteq> ''https'' \<or> up_host u = None \<or> up_username u \<noteq> [] \<or> up_password u \<noteq> None
          \<or> up_query u \<noteq> None \<or> up_fragment u \<noteq> None
       then None
       else Some (u\<lparr>up_path := trim_end_slashes (up_path u) @ ''/.well-known/jwks.json''\<rparr>))"

section \<open>Validation\<close>

record key_cache =
  kc_keys :: "verification_key list"
  kc_fetched :: "time option"
  kc_attempted :: "time option"

definition empty_cache :: key_cache where
  "empty_cache = \<lparr>kc_keys = [], kc_fetched = None, kc_attempted = None\<rparr>"

record customer_validator =
  cv_legacy :: jwt_validator
  cv_issuer :: string
  cv_audience :: string
  cv_url :: "string option"

definition new_validator :: "(string \<Rightarrow> string option) \<Rightarrow> string \<Rightarrow> string \<Rightarrow> string \<Rightarrow> customer_validator" where
  "new_validator url secret issuer audience = \<lparr>cv_legacy = hs256 secret issuer audience,
     cv_issuer = issuer, cv_audience = audience, cv_url = url issuer\<rparr>"

text \<open>\<^verbatim>\<open>Instant::elapsed\<close> saturates at zero; \<open>clock k\<close> is the \<open>k\<close>-th reading in one validation.\<close>

definition elapsed_below :: "time \<Rightarrow> time \<Rightarrow> time option \<Rightarrow> bool" where
  "elapsed_below width now since = (case since of None \<Rightarrow> False | Some t \<Rightarrow> max 0 (now - t) < width)"

definition verify_es256 :: "jwt_decode \<Rightarrow> customer_validator \<Rightarrow> string \<Rightarrow> string \<Rightarrow> app_error + claims" where
  "verify_es256 decode v token key =
     (case decode ES256 key (cv_issuer v) (cv_audience v) token of
        Inr c \<Rightarrow> Inr c | Inl fault \<Rightarrow> Inl (map_jwt_error fault))"

record token_call =
  tc_source :: key_source
  tc_clock :: "nat \<Rightarrow> time"
  tc_token :: string

definition validate_es256 ::
    "jwt_decode \<Rightarrow> customer_validator \<Rightarrow> token_call \<Rightarrow> string \<Rightarrow> key_cache
      \<Rightarrow> (app_error + claims) \<times> key_cache" where
  "validate_es256 decode v x kid cache =
     (let fresh = elapsed_below CACHE_TTL (tc_clock x 0) (kc_fetched cache);
          known = map_of (kc_keys cache) kid
      in if fresh \<and> known \<noteq> None then (verify_es256 decode v (tc_token x) (the known), cache)
         else if elapsed_below REFRESH_INTERVAL (tc_clock x 1) (kc_attempted cache)
         then (Inl (if fresh then invalid_token else unavailable), cache)
         else let cache1 = cache\<lparr>kc_attempted := Some (tc_clock x 2)\<rparr>
         in case fetch_keys (tc_source x) (cv_url v) of
              Inl err \<Rightarrow> (Inl err, cache1)
            | Inr keys \<Rightarrow>
                (let cache2 = cache1\<lparr>kc_keys := keys, kc_fetched := Some (tc_clock x 3)\<rparr>
                 in (case map_of keys kid of
                       None \<Rightarrow> Inl invalid_token
                     | Some key \<Rightarrow> verify_es256 decode v (tc_token x) key, cache2)))"

definition validate_customer ::
    "jwt_decode \<Rightarrow> (string \<Rightarrow> (algorithm \<times> string option) option) \<Rightarrow> customer_validator \<Rightarrow> token_call
      \<Rightarrow> key_cache \<Rightarrow> (app_error + claims) \<times> key_cache" where
  "validate_customer decode decode_header v x cache =
     (if MAX_TOKEN_BYTES < length (tc_token x) then (Inl invalid_token, cache)
      else case decode_header (tc_token x) of
        None \<Rightarrow> (Inl invalid_token, cache)
      | Some (alg, kid) \<Rightarrow>
          (if alg = HS256 then (validate_jwt decode (cv_legacy v) (tc_token x), cache)
           else if alg \<noteq> ES256 \<or> \<not> usable_kid kid then (Inl invalid_token, cache)
           else validate_es256 decode v x (the kid) cache))"

section \<open>What the cache holds\<close>

text \<open>A key one of the sources served, under a kid, as an ES256 signing key on P-256.\<close>

definition served :: "key_source set \<Rightarrow> customer_validator \<Rightarrow> verification_key \<Rightarrow> bool" where
  "served srcs v k \<longleftrightarrow> (\<exists>src \<in> srcs. \<exists>url resp body js j. cv_url v = Some url \<and> ks_get src url = Some resp
     \<and> ks_parse src body = Some js \<and> j \<in> set js \<and> signing_jwk j
     \<and> jk_kid j = Some (fst k) \<and> jk_material j = Some (snd k))"

lemma keys_loop_sound:
  "keys_loop js seen keys = Inr ks \<Longrightarrow> k \<in> set ks \<Longrightarrow>
     k \<in> set keys \<or> (\<exists>j \<in> set js. signing_jwk j \<and> jk_kid j = Some (fst k) \<and> jk_material j = Some (snd k))"
proof (induction js seen keys rule: keys_loop.induct)
  case (2 j js seen keys)
  then show ?case
    by (fastforce simp: Let_def usable_kid_def split: if_splits option.splits)
qed simp

lemma fetch_keys_served:
  assumes "fetch_keys src (cv_url v) = Inr ks" and "k \<in> set ks" and "src \<in> srcs"
  shows "served srcs v k"
proof -
  from assms(1) obtain url resp body where f: "cv_url v = Some url" "ks_get src url = Some resp"
    "parse_keys (ks_parse src) body = Inr ks"
    by (auto simp: fetch_keys_def split: if_splits)
  then obtain js where js: "ks_parse src body = Some js" "keys_loop js [] [] = Inr ks"
    by (auto simp: parse_keys_def split: if_splits)
  from keys_loop_sound [OF js(2) assms(2)] f(1,2) js(1) assms(3) show ?thesis
    unfolding served_def by fastforce
qed

definition cache_served :: "key_source set \<Rightarrow> customer_validator \<Rightarrow> key_cache \<Rightarrow> bool" where
  "cache_served srcs v cache \<longleftrightarrow> (\<forall>k \<in> set (kc_keys cache). served srcs v k)"

lemma served_mono: "served A v k \<Longrightarrow> A \<subseteq> B \<Longrightarrow> served B v k"
  unfolding served_def by blast

text \<open>The cases of one validation, in terms of what it accepts and what it does to the cache.\<close>

lemma verify_accepts: "verify_es256 decode v t key = Inr c \<Longrightarrow> decode ES256 key (cv_issuer v) (cv_audience v) t = Inr c"
  by (auto simp: verify_es256_def split: sum.splits)

lemma validate_es256_sound:
  assumes "validate_es256 decode v x kid cache = (res, cache')" and "cache_served srcs v cache"
    and "tc_source x \<in> srcs"
  shows "cache_served srcs v cache'"
    and "res = Inr c \<Longrightarrow> \<exists>key. served srcs v (kid, key)
      \<and> decode ES256 key (cv_issuer v) (cv_audience v) (tc_token x) = Inr c"
proof -
  have new: "\<forall>k \<in> set ks. served srcs v k" if "fetch_keys (tc_source x) (cv_url v) = Inr ks" for ks
    using fetch_keys_served [OF that _ assms(3)] by blast
  show "cache_served srcs v cache'"
    using assms(1,2) new
    by (auto simp: validate_es256_def Let_def cache_served_def split: if_splits sum.splits)
  assume c: "res = Inr c"
  show "\<exists>key. served srcs v (kid, key) \<and> decode ES256 key (cv_issuer v) (cv_audience v) (tc_token x) = Inr c"
    using assms(1,2) new c
    by (auto simp: validate_es256_def Let_def cache_served_def dest!: verify_accepts map_of_SomeD
        split: if_splits sum.splits option.splits)
qed

section \<open>How often the keys are fetched\<close>

definition attempt :: "key_cache \<Rightarrow> key_cache \<Rightarrow> time list" where
  "attempt cache cache' =
     (if kc_attempted cache' = kc_attempted cache then [] else [the (kc_attempted cache')])"

lemma validate_attempt:
  assumes "validate_customer decode dh v x cache = (res, cache')" and "kc_attempted cache' \<noteq> kc_attempted cache"
  shows "kc_attempted cache' = Some (tc_clock x 2)"
    and "\<not> elapsed_below REFRESH_INTERVAL (tc_clock x 1) (kc_attempted cache)"
  using assms
  by (auto simp: validate_customer_def validate_es256_def Let_def split: if_splits option.splits sum.splits)

end
