(* ===== verification/Customer_Admin.thy ===== *)
theory Customer_Admin
  imports System Admin_Validation
begin

text \<open>
  The customer side of \<^verbatim>\<open>api/src/repositories/admin.rs\<close>: what an operator does to a customer's status,
  second factor, licences, overrides and usage. Every mutation writes one operator audit row; row
  locks make each a single step.
\<close>

datatype admin_error =
    AdmCustomerNotFound
  | AdmProductNotFound
  | AdmFleetNotFound
  | AdmReleaseNotFound
  | AdmCampaignNotFound
  | AdmArtifactNotFound
  | AdmFleetHoldNotFound
  | AdmInvalidState string
  | AdmLicenseNotFound
  | AdmMeterNotFound
  | AdmDb

text \<open>The audit row every mutation writes, from what varies.\<close>

definition operator_audit ::
    "string \<Rightarrow> string \<Rightarrow> uuid option \<Rightarrow> string \<Rightarrow> string \<Rightarrow> string \<Rightarrow> json option \<Rightarrow> json option
      \<Rightarrow> string option \<Rightarrow> db \<Rightarrow> db" where
  "operator_audit event op customer target_type target reason before after corr =
     write_operator_audit \<lparr>a_event = event, a_actor = op, a_customer = customer, a_target_type = target_type,
       a_target = target, a_reason = reason, a_before = before, a_after = after, a_correlation = corr\<rparr>"

section \<open>Listing\<close>

record customer_filter =
  cf_email :: "string option"
  cf_status :: "string option"
  cf_limit :: int
  cf_offset :: int

record admin_customer =
  av_id :: uuid
  av_type :: string
  av_name :: "string option"
  av_status :: string
  av_country :: "string option"
  av_email :: "string option"
  av_created :: time

definition admin_customer_of :: "db \<Rightarrow> customer_row \<Rightarrow> admin_customer" where
  "admin_customer_of d r = \<lparr>av_id = cu_id r, av_type = cu_type r, av_name = cu_display_name r,
     av_status = cu_status r, av_country = cu_country r,
     av_email = map_option em_email (find (\<lambda>m. em_customer m = cu_id r \<and> em_primary m) (emails d)),
     av_created = cu_created r\<rparr>"

definition customer_matches :: "customer_filter \<Rightarrow> db \<Rightarrow> customer_row \<Rightarrow> bool" where
  "customer_matches f d r \<longleftrightarrow>
     (case cf_email f of None \<Rightarrow> True
      | Some m \<Rightarrow> list_ex (\<lambda>x. em_customer x = cu_id r \<and> em_email x = m) (emails d))
     \<and> (case cf_status f of None \<Rightarrow> True | Some s \<Rightarrow> cu_status r = s)"

text \<open>\<open>rank\<close> is the order of the ids; a page is cut after sorting.\<close>

definition list_customers :: "(uuid \<Rightarrow> int) \<Rightarrow> customer_filter \<Rightarrow> db \<Rightarrow> admin_customer list" where
  "list_customers rank f d = map (admin_customer_of d)
     (take (nat (cf_limit f)) (drop (nat (cf_offset f))
       (order_by (\<lambda>r. (- cu_created r, - rank (cu_id r))) (filter (customer_matches f d) (customers d)))))"

section \<open>Status\<close>

record status_change_outcome =
  sc_customer :: uuid
  sc_from :: string
  sc_status :: string
  sc_changed :: bool

record status_change =
  ch_operator :: string
  ch_customer :: uuid
  ch_to :: string
  ch_event :: string
  ch_reason :: string
  ch_corr :: "string option"

definition record_status :: "env \<Rightarrow> status_change \<Rightarrow> string \<Rightarrow> db \<Rightarrow> db" where
  "record_status e x current d =
     write_outbox e 1 (ch_event x) (ch_event x @ '':'' @ e_id e 0)
       (JObj [(''customer_id'', JStr (ch_customer x)), (''status'', JStr (ch_to x)),
          (''occurred_at'', JStr (e_time e (e_utc e 0)))])
     (operator_audit (ch_event x) (ch_operator x) (Some (ch_customer x)) ''customer'' (ch_customer x)
       (ch_reason x) (Some (JObj [(''status'', JStr current)])) (Some (JObj [(''status'', JStr (ch_to x))]))
       (ch_corr x)
     (d\<lparr>customers := upd (\<lambda>r. cu_id r = ch_customer x) (\<lambda>r. r\<lparr>cu_status := ch_to x\<rparr>) (customers d),
        status_history := status_history d @
          [\<lparr>sh_id = e_id e 0, sh_customer = ch_customer x, sh_from = Some current, sh_to = ch_to x,
            sh_reason = Some (ch_reason x), sh_actor_type = ''operator'',
            sh_actor = Some (ch_operator x)\<rparr>]\<rparr>))"

definition set_customer_status ::
    "env \<Rightarrow> status_change \<Rightarrow> db \<Rightarrow> (admin_error + status_change_outcome) \<times> db" where
  "set_customer_status e x d =
     (case find (\<lambda>r. cu_id r = ch_customer x) (customers d) of
        None \<Rightarrow> (Inl AdmCustomerNotFound, d)
      | Some r \<Rightarrow>
          (if cu_status r = ch_to x
           then (Inr \<lparr>sc_customer = ch_customer x, sc_from = cu_status r, sc_status = cu_status r,
                   sc_changed = False\<rparr>, d)
           else (Inr \<lparr>sc_customer = ch_customer x, sc_from = cu_status r, sc_status = ch_to x,
                   sc_changed = True\<rparr>, record_status e x (cu_status r) d)))"

definition suspend_customer ::
    "env \<Rightarrow> string \<Rightarrow> uuid \<Rightarrow> string \<Rightarrow> string option \<Rightarrow> db \<Rightarrow> (admin_error + status_change_outcome) \<times> db" where
  "suspend_customer e op c reason corr = set_customer_status e
     \<lparr>ch_operator = op, ch_customer = c, ch_to = ''suspended'', ch_event = ''customer_suspended'',
      ch_reason = reason, ch_corr = corr\<rparr>"

definition restore_customer ::
    "env \<Rightarrow> string \<Rightarrow> uuid \<Rightarrow> string \<Rightarrow> string option \<Rightarrow> db \<Rightarrow> (admin_error + status_change_outcome) \<times> db" where
  "restore_customer e op c reason corr = set_customer_status e
     \<lparr>ch_operator = op, ch_customer = c, ch_to = ''active'', ch_event = ''customer_restored'',
      ch_reason = reason, ch_corr = corr\<rparr>"

section \<open>The second factor\<close>

record mfa_outcome =
  mo_customer :: uuid
  mo_from :: bool
  mo_required :: bool
  mo_changed :: bool

definition mfa_event :: "bool \<Rightarrow> string" where
  "mfa_event required = (if required then ''customer_mfa_required'' else ''customer_mfa_not_required'')"

definition record_mfa ::
    "env \<Rightarrow> string \<Rightarrow> uuid \<Rightarrow> bool \<Rightarrow> bool \<Rightarrow> string \<Rightarrow> string option \<Rightarrow> db \<Rightarrow> db" where
  "record_mfa e op c current required reason corr d =
     write_outbox e 1 (mfa_event required) (mfa_event required @ '':'' @ e_id e 0)
       (JObj [(''customer_id'', JStr c), (''mfa_required'', JBool required),
          (''occurred_at'', JStr (e_time e (e_utc e 0)))])
     (operator_audit (mfa_event required) op (Some c) ''customer'' c reason
       (Some (JObj [(''mfa_required'', JBool current)])) (Some (JObj [(''mfa_required'', JBool required)])) corr
     (d\<lparr>customers := upd (\<lambda>r. cu_id r = c) (\<lambda>r. r\<lparr>cu_mfa_required := required\<rparr>) (customers d),
        mfa_history := mfa_history d @
          [\<lparr>mh_id = e_id e 0, mh_customer = c, mh_from = current, mh_to = required, mh_reason = reason,
            mh_actor_type = ''operator'', mh_actor = Some op\<rparr>]\<rparr>))"

definition set_customer_mfa_requirement ::
    "env \<Rightarrow> string \<Rightarrow> uuid \<Rightarrow> bool \<Rightarrow> string \<Rightarrow> string option \<Rightarrow> db \<Rightarrow> (admin_error + mfa_outcome) \<times> db" where
  "set_customer_mfa_requirement e op c required reason corr d =
     (case find (\<lambda>r. cu_id r = c) (customers d) of
        None \<Rightarrow> (Inl AdmCustomerNotFound, d)
      | Some r \<Rightarrow>
          (if cu_mfa_required r = required
           then (Inr \<lparr>mo_customer = c, mo_from = required, mo_required = required, mo_changed = False\<rparr>, d)
           else (Inr \<lparr>mo_customer = c, mo_from = cu_mfa_required r, mo_required = required, mo_changed = True\<rparr>,
                 record_mfa e op c (cu_mfa_required r) required reason corr d)))"

section \<open>Licences\<close>

record issue_license_input =
  il_operator :: string
  il_customer :: uuid
  il_product_key :: string
  il_device_limit :: int
  il_expires :: "time option"
  il_reason :: string
  il_corr :: "string option"

definition active_product :: "string \<Rightarrow> db \<Rightarrow> product_row option" where
  "active_product key d = find (\<lambda>p. pr_key p = key \<and> pr_status p = ''active'') (products d)"

definition customer_exists :: "uuid \<Rightarrow> db \<Rightarrow> bool" where
  "customer_exists c d \<longleftrightarrow> list_ex (\<lambda>r. cu_id r = c) (customers d)"

definition issued_license :: "env \<Rightarrow> issue_license_input \<Rightarrow> product_row \<Rightarrow> license_row" where
  "issued_license e inp p = \<lparr>li_id = e_id e 0, li_customer = il_customer inp, li_product = pr_id p,
     li_subscription = None, li_status = ''active'', li_device_limit = il_device_limit inp,
     li_issued = e_now e, li_expires = il_expires inp\<rparr>"

definition issue_license ::
    "env \<Rightarrow> issue_license_input \<Rightarrow> db \<Rightarrow> (admin_error + license_row \<times> string) \<times> db" where
  "issue_license e inp d =
     (if \<not> customer_exists (il_customer inp) d then (Inl AdmCustomerNotFound, d)
      else case active_product (il_product_key inp) d of
        None \<Rightarrow> (Inl AdmProductNotFound, d)
      | Some p \<Rightarrow>
          (let l = issued_license e inp p
           in (Inr (l, pr_key p),
               operator_audit ''license_issued'' (il_operator inp) (Some (il_customer inp)) ''license'' (li_id l)
                 (il_reason inp) None
                 (Some (JObj [(''license_status'', JStr ''active''), (''product'', JStr (pr_key p)),
                    (''device_limit'', JInt (il_device_limit inp)),
                    (''expires_at'', jopt (\<lambda>t. JStr (e_time e t)) (il_expires inp))]))
                 (il_corr inp) (d\<lparr>licenses := licenses d @ [l]\<rparr>))))"

record revocation_outcome =
  ro_license :: uuid
  ro_customer :: uuid
  ro_status :: string
  ro_changed :: bool

definition record_revocation ::
    "env \<Rightarrow> string \<Rightarrow> license_row \<Rightarrow> string \<Rightarrow> string option \<Rightarrow> db \<Rightarrow> db" where
  "record_revocation e op l reason corr d =
     write_outbox e 1 ''license_revoked'' (''license_revoked:'' @ e_id e 0)
       (JObj [(''customer_id'', JStr (li_customer l)), (''license_id'', JStr (li_id l)),
          (''occurred_at'', JStr (e_time e (e_utc e 0)))])
     (operator_audit ''license_revoked'' op (Some (li_customer l)) ''license'' (li_id l) reason
       (Some (JObj [(''license_status'', JStr (li_status l))]))
       (Some (JObj [(''license_status'', JStr ''revoked'')])) corr
     (d\<lparr>licenses := upd (\<lambda>r. li_id r = li_id l) (\<lambda>r. r\<lparr>li_status := ''revoked''\<rparr>) (licenses d),
        revocations := revocations d @
          [\<lparr>rv_license = Some (li_id l), rv_device = None, rv_installation = None, rv_reason = reason,
            rv_actor = Some op\<rparr>]\<rparr>))"

definition revoke_license ::
    "env \<Rightarrow> string \<Rightarrow> uuid \<Rightarrow> string \<Rightarrow> string option \<Rightarrow> db \<Rightarrow> (admin_error + revocation_outcome) \<times> db" where
  "revoke_license e op i reason corr d =
     (case find (\<lambda>l. li_id l = i) (licenses d) of
        None \<Rightarrow> (Inl AdmLicenseNotFound, d)
      | Some l \<Rightarrow>
          (if li_status l = ''revoked''
           then (Inr \<lparr>ro_license = i, ro_customer = li_customer l, ro_status = ''revoked'', ro_changed = False\<rparr>, d)
           else (Inr \<lparr>ro_license = i, ro_customer = li_customer l, ro_status = ''revoked'', ro_changed = True\<rparr>,
                 record_revocation e op l reason corr d)))"

section \<open>Entitlement overrides\<close>

record override_input =
  oi_customer :: uuid
  oi_product_key :: string
  oi_feature :: "string option"
  oi_quota :: "string option"
  oi_value :: "override_value option"
  oi_expires :: "time option"
  oi_reason :: string

record override_outcome =
  oo_override :: "uuid option"
  oo_cleared :: nat

fun override_json :: "override_value \<Rightarrow> json" where
  "override_json (OvBool v) = JBool v"
| "override_json (OvNumber v) = json_f64 v"
| "override_json (OvText v) = JStr v"

definition same_override :: "override_input \<Rightarrow> uuid \<Rightarrow> override_row \<Rightarrow> bool" where
  "same_override inp pro r \<longleftrightarrow> ov_customer r = oi_customer inp \<and> ov_product r = pro \<and> ov_active r
     \<and> ov_feature r = oi_feature inp \<and> ov_quota r = oi_quota inp"

text \<open>\<open>num\<close> is PostgreSQL's \<^verbatim>\<open>float8\<close> to \<^verbatim>\<open>numeric\<close>.\<close>

definition new_override ::
    "(f64 \<Rightarrow> rat) \<Rightarrow> env \<Rightarrow> string \<Rightarrow> override_input \<Rightarrow> uuid \<Rightarrow> override_value \<Rightarrow> override_row" where
  "new_override num e op inp pro v = (case override_columns v of (b, n, s) \<Rightarrow>
     \<lparr>ov_id = e_id e 0, ov_customer = oi_customer inp, ov_product = pro, ov_feature = oi_feature inp,
      ov_quota = oi_quota inp, ov_bool = b, ov_number = map_option num n, ov_string = s,
      ov_reason = oi_reason inp, ov_actor = op, ov_active = True, ov_expires = oi_expires inp,
      ov_created = e_now e\<rparr>)"

definition audit_override ::
    "env \<Rightarrow> string \<Rightarrow> override_input \<Rightarrow> nat \<Rightarrow> uuid option \<Rightarrow> string option \<Rightarrow> db \<Rightarrow> db" where
  "audit_override e op inp cleared i corr =
     (let key = unwrap_or (case oi_feature inp of Some k \<Rightarrow> Some k | None \<Rightarrow> oi_quota inp) []
      in operator_audit (if i \<noteq> None then ''entitlement_override_set'' else ''entitlement_override_cleared'')
           op (Some (oi_customer inp)) ''entitlement_override'' (unwrap_or i key) (oi_reason inp)
           (Some (JObj [(''deactivated_overrides'', JInt (int cleared))]))
           (Some (JObj [(''key'', JStr key), (''value'', jopt override_json (oi_value inp)),
              (''expires_at'', jopt (\<lambda>t. JStr (e_time e t)) (oi_expires inp))])) corr)"

definition set_entitlement_override ::
    "(f64 \<Rightarrow> rat) \<Rightarrow> env \<Rightarrow> string \<Rightarrow> override_input \<Rightarrow> string option \<Rightarrow> db
      \<Rightarrow> (admin_error + override_outcome) \<times> db" where
  "set_entitlement_override num e op inp corr d =
     (if \<not> customer_exists (oi_customer inp) d then (Inl AdmCustomerNotFound, d)
      else case active_product (oi_product_key inp) d of
        None \<Rightarrow> (Inl AdmProductNotFound, d)
      | Some p \<Rightarrow>
          (let cleared = rows_affected (same_override inp (pr_id p)) (overrides d);
               kept = upd (same_override inp (pr_id p)) (\<lambda>r. r\<lparr>ov_active := False\<rparr>) (overrides d);
               new = map_option (new_override num e op inp (pr_id p)) (oi_value inp);
               rows = (case new of Some r \<Rightarrow> kept @ [r] | None \<Rightarrow> kept);
               i = map_option ov_id new
           in (Inr \<lparr>oo_override = i, oo_cleared = cleared\<rparr>,
               audit_override e op inp cleared i corr (d\<lparr>overrides := rows\<rparr>))))"

section \<open>Usage adjustment\<close>

record adjustment_input =
  ai_operator :: string
  ai_customer :: uuid
  ai_meter :: string
  ai_amount :: f64
  ai_period :: string
  ai_idem :: string
  ai_reason :: string
  ai_corr :: "string option"

record adjustment_outcome =
  ao_event :: uuid
  ao_customer :: uuid
  ao_meter :: string
  ao_period :: string
  ao_amount :: f64
  ao_replayed :: bool

definition replayed_adjustment :: "usage_event_row \<Rightarrow> adjustment_outcome" where
  "replayed_adjustment ev = \<lparr>ao_event = ue_id ev, ao_customer = ue_customer ev, ao_meter = ue_meter ev,
     ao_period = ue_period ev, ao_amount = ue_amount ev, ao_replayed = True\<rparr>"

definition adjustment_event :: "env \<Rightarrow> adjustment_input \<Rightarrow> usage_event_row" where
  "adjustment_event e inp = \<lparr>ue_id = e_id e 0, ue_customer = ai_customer inp, ue_meter = ai_meter inp,
     ue_amount = e_col e (ai_amount inp), ue_period = ai_period inp, ue_idem = ai_idem inp,
     ue_reservation = None, ue_kind = ''adjustment''\<rparr>"

text \<open>\<^verbatim>\<open>on conflict do update set used = used + excluded.used\<close>.\<close>

definition add_used :: "env \<Rightarrow> adjustment_input \<Rightarrow> db \<Rightarrow> db" where
  "add_used e inp d =
     (let same = totals_for (ai_customer inp) (ai_meter inp) (ai_period inp)
      in if find same (totals d) \<noteq> None
         then d\<lparr>totals := upd same (\<lambda>t. t\<lparr>to_used := e_col e (f64_add (to_used t) (ai_amount inp))\<rparr>) (totals d)\<rparr>
         else d\<lparr>totals := totals d @ [\<lparr>to_customer = ai_customer inp, to_meter = ai_meter inp,
           to_period = ai_period inp, to_used = e_col e (ai_amount inp), to_reserved = Fin 0\<rparr>]\<rparr>)"

definition adjust_usage ::
    "env \<Rightarrow> adjustment_input \<Rightarrow> db \<Rightarrow> (admin_error + adjustment_outcome) \<times> db" where
  "adjust_usage e inp d =
     (if \<not> customer_exists (ai_customer inp) d then (Inl AdmCustomerNotFound, d)
      else if \<not> list_ex (\<lambda>m. me_key m = ai_meter inp) (meters d) then (Inl AdmMeterNotFound, d)
      else case event_of (ai_customer inp) (ai_idem inp) d of
        Some ev \<Rightarrow> (Inr (replayed_adjustment ev), d)
      | None \<Rightarrow>
          (let ev = adjustment_event e inp
           in (Inr \<lparr>ao_event = ue_id ev, ao_customer = ai_customer inp, ao_meter = ai_meter inp,
                 ao_period = ai_period inp, ao_amount = ai_amount inp, ao_replayed = False\<rparr>,
               operator_audit ''usage_adjusted'' (ai_operator inp) (Some (ai_customer inp)) ''usage_event'' (ue_id ev)
                 (ai_reason inp) None
                 (Some (JObj [(''meter_key'', JStr (ai_meter inp)), (''period_key'', JStr (ai_period inp)),
                    (''amount'', json_f64 (ai_amount inp)), (''kind'', JStr ''adjustment'')]))
                 (ai_corr inp)
                 (add_used e inp (d\<lparr>usage_events := usage_events d @ [ev]\<rparr>)))))"

end
