(* ===== verification/Desk_Facts.thy ===== *)
theory Desk_Facts
  imports Customer_Admin Customers Commercial_Policy Outbox_Worker Commerce_System
begin

text \<open>
  The operations beside the shop: an operator's mutations of a customer, provisioning, the second
  factor, publication of a policy and the outbox worker. Each keeps the invariant of the shop, so
  the whole service does.
\<close>

section \<open>What they leave alone\<close>

lemma operator_audit_frame [simp]:
  "customers (operator_audit ev op c tt tg r b a co d) = customers d"
  "emails (operator_audit ev op c tt tg r b a co d) = emails d"
  "products (operator_audit ev op c tt tg r b a co d) = products d"
  "subscriptions (operator_audit ev op c tt tg r b a co d) = subscriptions d"
  "licenses (operator_audit ev op c tt tg r b a co d) = licenses d"
  "devices (operator_audit ev op c tt tg r b a co d) = devices d"
  "fleets (operator_audit ev op c tt tg r b a co d) = fleets d"
  "fleet_apps (operator_audit ev op c tt tg r b a co d) = fleet_apps d"
  "installations (operator_audit ev op c tt tg r b a co d) = installations d"
  "activations (operator_audit ev op c tt tg r b a co d) = activations d"
  "revocations (operator_audit ev op c tt tg r b a co d) = revocations d"
  "overrides (operator_audit ev op c tt tg r b a co d) = overrides d"
  "reservations (operator_audit ev op c tt tg r b a co d) = reservations d"
  "usage_events (operator_audit ev op c tt tg r b a co d) = usage_events d"
  "totals (operator_audit ev op c tt tg r b a co d) = totals d"
  "meters (operator_audit ev op c tt tg r b a co d) = meters d"
  "policies (operator_audit ev op c tt tg r b a co d) = policies d"
  "outbox (operator_audit ev op c tt tg r b a co d) = outbox d"
  "deletions (operator_audit ev op c tt tg r b a co d) = deletions d"
  by (simp_all add: operator_audit_def)

lemma operator_audit_out: "out_inv d \<Longrightarrow> out_inv (operator_audit ev op c tt tg r b a co d)"
  by (simp add: operator_audit_def out_inv_audit)

lemma out_inv_more [simp]:
  "out_inv (d\<lparr>customers := x1\<rparr>) = out_inv d" "out_inv (d\<lparr>status_history := x2\<rparr>) = out_inv d"
  "out_inv (d\<lparr>mfa_history := x3\<rparr>) = out_inv d" "out_inv (d\<lparr>revocations := x4\<rparr>) = out_inv d"
  "out_inv (d\<lparr>overrides := x5\<rparr>) = out_inv d" "out_inv (d\<lparr>fleets := x6\<rparr>) = out_inv d"
  "out_inv (d\<lparr>fleet_apps := x7\<rparr>) = out_inv d" "out_inv (d\<lparr>emails := x8\<rparr>) = out_inv d"
  "out_inv (d\<lparr>policies := x9\<rparr>) = out_inv d"
  by (simp_all add: out_inv_def sanitized_db_def outbox_keys_distinct_def)

text \<open>Neither the licences nor the ledger, the requests or the subscriptions.\<close>

definition beside :: "db \<Rightarrow> db \<Rightarrow> bool" where
  "beside d d' \<longleftrightarrow> same_core d d' \<and> same_ledger d d' \<and> (out_inv d \<longrightarrow> out_inv d')"

lemma beside_inv: "beside d d' \<Longrightarrow> sys_inv d \<Longrightarrow> sys_inv d'"
  using lic_inv_cong [of d' d] usage_inv_same [of d d'] request_wf_same [of d d']
  by (auto simp: beside_def sys_inv_def same_core_def same_requests_def)

lemmas beside_defs = beside_def same_core_def same_ledger_def

lemma status_beside: "set_customer_status e x d = (res, d') \<Longrightarrow> beside d d'"
  by (auto simp: set_customer_status_def record_status_def beside_defs
      intro!: out_inv_write_outbox operator_audit_out split: option.splits if_splits)

lemma mfa_beside: "set_customer_mfa_requirement e op c q reason corr d = (res, d') \<Longrightarrow> beside d d'"
  by (auto simp: set_customer_mfa_requirement_def record_mfa_def beside_defs
      intro!: out_inv_write_outbox operator_audit_out split: option.splits if_splits)

lemma override_beside: "set_entitlement_override num e op inp corr d = (res, d') \<Longrightarrow> beside d d'"
  by (auto simp: set_entitlement_override_def audit_override_def Let_def beside_defs
      intro!: operator_audit_out split: option.splits if_splits)

lemma self_mfa_beside: "beside d (set_mfa_required c q d)"
  by (simp add: set_mfa_required_def beside_defs)

lemma record_profile_beside: "beside d (record_profile e p d)"
  by (auto simp: record_profile_def beside_defs intro!: out_inv_write_outbox)

lemma beside_trans: "beside d d' \<Longrightarrow> beside d' d'' \<Longrightarrow> beside d d''"
  by (simp add: beside_defs)

lemma beside_refl [simp]: "beside d d"
  by (simp add: beside_defs)

lemma fleet_beside:
  "beside d (snd (ensure_named_fleet e c n d))" "beside d (ensure_fleet_app f p d)"
  "beside d (add_primary_email c m d)"
  by (auto simp: ensure_named_fleet_def ensure_fleet_app_def add_primary_email_def beside_defs split: option.splits)

lemma provision_beside:
  assumes "provision_for_auth_user e u m n co tz d = (r, d')"
  shows "beside d d'"
proof -
  obtain p created d1 where 1: "(case find_by_auth_user_id u d of
       Some p \<Rightarrow> (p, False, d)
     | None \<Rightarrow> (let p = new_profile e u n co tz in (p, True, record_profile e p d))) = (p, created, d1)"
    by (metis prod_cases3)
  have b1: "beside d d1"
    using 1 record_profile_beside by (auto simp: Let_def split: option.splits)
  obtain fleet d2 where 2: "ensure_named_fleet e (cu_id p) (cu_display_name p) d1 = (fleet, d2)" by fastforce
  have b2: "beside d d2" using beside_trans [OF b1] fleet_beside(1) 2 by (metis snd_conv)
  have "beside d (case find (\<lambda>x. pr_key x = ''authorforge'') (products d2) of
       Some x \<Rightarrow> ensure_fleet_app fleet (pr_id x) d2 | None \<Rightarrow> d2)"
    using beside_trans [OF b2] fleet_beside(2) b2 by (auto split: option.split)
  then show ?thesis
    using assms beside_trans fleet_beside(3)
    by (auto simp: provision_for_auth_user_def 1 2 Let_def split: option.splits)
qed

lemma publish_beside: "publish_policy e inp d = (res, d') \<Longrightarrow> beside d d'"
  by (auto simp: publish_policy_def record_policy_def Let_def beside_defs
      intro!: out_inv_write_outbox out_inv_audit(2) split: sum.splits option.splits if_splits)

lemma settle_payload:
  "ob_payload (settle clock post url p x) = ob_payload x \<and> ob_key (settle clock post url p x) = ob_key x"
  by (auto simp: settle_def Let_def split: prod.split sum.split)

lemma tick_beside: "beside d (tick now clock post url d)"
proof -
  let ?f = "\<lambda>p d. d\<lparr>outbox := upd (\<lambda>x. ob_id x = ob_id (snd p)) (settle clock post url p) (outbox d)\<rparr>"
  have one: "beside d (?f p d)" for p d
    by (auto simp: beside_defs out_inv_def sanitized_db_def outbox_keys_distinct_def list_all_iff set_upd
        settle_payload map_upd_key)
  have "beside d0 (fold ?f ps d0)" for ps d0
  proof (induction ps arbitrary: d0)
    case (Cons p ps)
    show ?case using beside_trans [OF one [of d0 p] Cons] by simp
  qed simp
  then show ?thesis by (simp add: tick_def)
qed

section \<open>Licences\<close>

lemma revoke_inv:
  assumes "revoke_license e op i reason corr d = (res, d')" and "sys_inv d"
  shows "sys_inv d' \<and> subscriptions d' = subscriptions d"
proof (cases "find (\<lambda>l. li_id l = i) (licenses d)")
  case None
  with assms show ?thesis by (simp add: revoke_license_def)
next
  case (Some l)
  show ?thesis
  proof (cases "li_status l = ''revoked''")
    case True
    with Some assms show ?thesis by (simp add: revoke_license_def)
  next
    case False
    have d': "d' = record_revocation e op l reason corr d"
      using Some False assms(1) by (simp add: revoke_license_def)
    have lic: "installations d' = upd (\<lambda>_. False) id (installations d)"
      "licenses d' = upd (\<lambda>r. li_id r = li_id l) (\<lambda>r. r\<lparr>li_status := ''revoked''\<rparr>) (licenses d)"
      "activations d' = upd (\<lambda>_. False) id (activations d)"
      by (simp_all add: d' record_revocation_def)
    have "lic_inv d'"
      by (rule lic_inv_update [OF _ lic]) (use assms(2) in \<open>simp_all add: sys_inv_def\<close>)
    moreover have "out_inv d'"
      using assms(2) by (auto simp: d' record_revocation_def sys_inv_def intro!: out_inv_write_outbox operator_audit_out)
    moreover have "same_ledger d d'" "deletions d' = deletions d" "subscriptions d' = subscriptions d"
      by (simp_all add: d' record_revocation_def same_ledger_def)
    ultimately show ?thesis
      using assms(2) usage_inv_same [of d d'] by (simp add: sys_inv_def request_wf_def)
  qed
qed

lemma issue_inv:
  assumes "issue_license e inp d = (res, d')" and "fresh e d" and "sys_inv d"
  shows "sys_inv d' \<and> subscriptions d' = subscriptions d"
proof (cases "customer_exists (il_customer inp) d \<and> active_product (il_product_key inp) d \<noteq> None")
  case False
  with assms show ?thesis by (auto simp: issue_license_def split: option.splits if_splits)
next
  case True
  then obtain p where p: "active_product (il_product_key inp) d = Some p" by blast
  let ?l = "issued_license e inp p"
  have lic: "installations d' = installations d" "licenses d' = licenses d @ [?l]" "activations d' = activations d"
    and rest: "same_ledger d d'" "deletions d' = deletions d" "subscriptions d' = subscriptions d"
    using assms(1) True p by (auto simp: issue_license_def Let_def same_ledger_def)
  have new: "li_id l \<noteq> li_id ?l" if "l \<in> set (licenses d)" for l
    using fresh_rows(2) [OF assms(2) _ that, of 0] by (simp add: issued_license_def)
  have I: "lic_inv d" using assms(3) by (simp add: sys_inv_def)
  have "lic_inv d'"
    using I distinct_insert_new [OF lic_invD(3) [OF I] new]
    by (auto simp: lic_inv_def lic slot_ok_def) blast
  moreover have "out_inv d'"
    using assms True p by (auto simp: issue_license_def Let_def sys_inv_def intro!: operator_audit_out)
  ultimately show ?thesis
    using assms(3) rest usage_inv_same [of d d'] by (simp add: sys_inv_def request_wf_def)
qed

section \<open>Adjustments\<close>

lemma add_used_totals:
  assumes num: "numeric_column (e_col e) (e_sum e)" and n: "ai_amount inp = wh n" "whole_ok n"
  shows "totals (add_used e inp d) =
    upd (totals_for (ai_customer inp) (ai_meter inp) (ai_period inp))
      (\<lambda>t. t\<lparr>to_used := e_col e (f64_add (to_used t) (wh n))\<rparr>)
      (totals (ensure_total (ai_customer inp) (ai_meter inp) (ai_period inp) d))"
proof (cases "find (totals_for (ai_customer inp) (ai_meter inp) (ai_period inp)) (totals d)")
  case None
  have "e_col e (f64_add (wh 0) (wh n)) = wh n" "e_col e (wh n) = wh n"
    using numeric_column.col_add [OF num, of 0 n] numeric_column.col_whole [OF num n(2)] n(2) by simp_all
  moreover have "upd (totals_for (ai_customer inp) (ai_meter inp) (ai_period inp)) f (totals d) = totals d" for f
    using None by (intro upd_idle) (simp add: find_eq_None)
  ultimately show ?thesis
    using None by (simp add: add_used_def ensure_total_def n(1) Let_def totals_for_def flip: wh_zero)
next
  case (Some t)
  then show ?thesis by (simp add: add_used_def ensure_total_def n(1) Let_def)
qed

text \<open>A whole, non-negative correction that leaves room keeps the ledger exact.\<close>

lemma adjust_inv:
  assumes num: "numeric_column (e_col e) (e_sum e)" and inv: "usage_inv d"
    and n: "ai_amount inp = wh n" "0 \<le> n"
    and room: "load (ai_customer inp, ai_meter inp, ai_period inp) d + n < 10 ^ 15"
    and ad: "adjust_usage e inp d = (res, d')"
  shows "usage_inv d'"
    and "ao_replayed out = False \<Longrightarrow> res = Inr out \<Longrightarrow>
      load (ai_customer inp, ai_meter inp, ai_period inp) d' = load (ai_customer inp, ai_meter inp, ai_period inp) d + n"
proof -
  let ?k = "(ai_customer inp, ai_meter inp, ai_period inp)"
  have "usage_inv d' \<and> (ao_replayed out = False \<longrightarrow> res = Inr out \<longrightarrow> load ?k d' = load ?k d + n)"
  proof (cases "customer_exists (ai_customer inp) d \<and> list_ex (\<lambda>m. me_key m = ai_meter inp) (meters d)
      \<and> event_of (ai_customer inp) (ai_idem inp) d = None")
    case False
    with ad inv show ?thesis
      by (auto simp: adjust_usage_def replayed_adjustment_def Let_def split: if_splits option.splits)
  next
    case True
    define ev where "ev = adjustment_event e inp"
    define D where "D = ensure_total (ai_customer inp) (ai_meter inp) (ai_period inp) d"
    note E = ensure_total_inv [OF inv, where c = "ai_customer inp" and m = "ai_meter inp" and p = "ai_period inp", folded D_def]
    note lr = load_range [OF E(1,2)]
    have wn: "whole_ok n" using room n(2) lr(1,2) E(3) [of ?k] by (simp add: whole_ok_def load_def)
    have evk: "ue_key ev = ?k" "ue_amount ev = wh n"
      using numeric_column.col_whole [OF num wn] by (simp_all add: ev_def adjustment_event_def ue_key_def n(1))
    have d': "reservations d' = reservations D" "usage_events d' = usage_events D @ [ev]"
      "totals d' = upd (totals_for (ai_customer inp) (ai_meter inp) (ai_period inp))
         (\<lambda>t. t\<lparr>to_used := e_col e (f64_add (to_used t) (wh n))\<rparr>) (totals D)"
      using ad True add_used_totals [OF num n(1) wn, of "d\<lparr>usage_events := usage_events d @ [ev]\<rparr>"]
      by (auto simp: adjust_usage_def Let_def E(4,5) D_def ev_def add_used_def ensure_total_def
          split: if_splits option.splits)
    have oh: "on_hold j d' = on_hold j D" for j by (simp add: on_hold_def d'(1))
    have ch: "charged j d' = charged j D + (if j = ?k then n else 0)" for j
      using charged_snoc [OF d'(2), of j] evk by auto
    have keys: "map to_key (totals d') = map to_key (totals D)"
      unfolding d'(3) by (rule map_upd_key) (simp add: to_key_def)
    have ld: "load j d' = load j D + (if j = ?k then n else 0)" for j by (simp add: load_def oh ch)
    have "charged ?k D + n < 10 ^ 15" using room lr(1) E(3) [of ?k] by (simp add: load_def)
    then have sum: "e_col e (f64_add (wh (charged ?k D)) (wh n)) = wh (charged ?k D + n)"
      using numeric_column.col_add [OF num, of "charged ?k D" n] n(2) lr(2) by (simp add: whole_ok_def)
    have "balanced d'"
      using usage_invD(2) [OF E(1)] sum by (auto simp: off_by_def d'(3) set_upd oh ch totals_for_key to_key_def)
    moreover have "rows_ok d'"
    proof -
      have "distinct (map (\<lambda>u. (ue_customer u, ue_idem u)) (usage_events D @ [ev]))"
        using usage_invD(1) [OF E(1)] True
        by (intro distinct_insert_new)
          (auto simp: rows_ok_def event_of_def find_eq_None ev_def adjustment_event_def E(5))
      then show ?thesis
        using usage_invD(1) [OF E(1)] E(2) keys keys_set [OF keys] n(2) evk
        by (simp add: rows_ok_def amounts_whole_def d'(1,2))
    qed
    moreover have "within_range d'"
      using usage_invD(3) [OF E(1)] room E(3) [of ?k] keys_set [OF keys]
      by (auto simp: within_range_keys ld)
    ultimately show ?thesis using ld [of ?k] E(3) [of ?k] by (simp add: usage_inv_def)
  qed
  then show "usage_inv d'" and "ao_replayed out = False \<Longrightarrow> res = Inr out \<Longrightarrow> load ?k d' = load ?k d + n"
    by simp_all
qed

lemma adjust_sys_inv:
  assumes "numeric_column (e_col e) (e_sum e)" and "sys_inv d" and "ai_amount inp = wh n" and "0 \<le> n"
    and "load (ai_customer inp, ai_meter inp, ai_period inp) d + n < 10 ^ 15"
    and ad: "adjust_usage e inp d = (res, d')"
  shows "sys_inv d' \<and> subscriptions d' = subscriptions d"
proof -
  have "same_core d d' \<and> (out_inv d \<longrightarrow> out_inv d')"
    using ad by (auto simp: adjust_usage_def add_used_def Let_def same_core_def intro!: operator_audit_out
        split: if_splits option.splits)
  moreover have "usage_inv d'" using adjust_inv(1) [OF assms(1) _ assms(3-5) ad] assms(2) by (simp add: sys_inv_def)
  ultimately show ?thesis
    using assms(2) lic_inv_cong [of d' d] by (auto simp: sys_inv_def same_core_def request_wf_def)
qed

section \<open>Steps\<close>

inductive desk_step :: "db \<Rightarrow> db \<Rightarrow> bool" where
  status: "set_customer_status e x d = (r1, d') \<Longrightarrow> desk_step d d'"
| operator_mfa: "set_customer_mfa_requirement e op c q reason corr d = (r2, d') \<Longrightarrow> desk_step d d'"
| self_mfa: "desk_step d (set_mfa_required c q d)"
| issue: "fresh e d \<Longrightarrow> issue_license e inp1 d = (r3, d') \<Longrightarrow> desk_step d d'"
| revoke: "revoke_license e op i reason corr d = (r4, d') \<Longrightarrow> desk_step d d'"
| override: "set_entitlement_override num e op inp2 corr d = (r5, d') \<Longrightarrow> desk_step d d'"
| adjust: "numeric_column (e_col e) (e_sum e) \<Longrightarrow> ai_amount inp3 = wh n \<Longrightarrow> 0 \<le> n \<Longrightarrow>
    load (ai_customer inp3, ai_meter inp3, ai_period inp3) d + n < 10 ^ 15 \<Longrightarrow>
    adjust_usage e inp3 d = (r6, d') \<Longrightarrow> desk_step d d'"
| provision: "provision_for_auth_user e u m dn co tz d = (r7, d') \<Longrightarrow> desk_step d d'"
| publish: "publish_policy e inp4 d = (r8, d') \<Longrightarrow> desk_step d d'"
| deliver: "desk_step d (tick now clock post url d)"

inductive_cases desk_stepE: "desk_step d d'"

lemma beside_step: "beside d d' \<Longrightarrow> sys_inv d \<Longrightarrow> sys_inv d' \<and> subscriptions d' = subscriptions d"
  using beside_inv by (auto simp: beside_defs)

lemma desk_step_inv: "desk_step d d' \<Longrightarrow> sys_inv d \<Longrightarrow> sys_inv d' \<and> subscriptions d' = subscriptions d"
proof (induction rule: desk_step.induct)
  case (issue e d inp1 r3 d')
  then show ?case by (intro issue_inv)
next
  case (revoke e op i reason corr d r4 d')
  then show ?case by (intro revoke_inv)
next
  case (adjust e inp3 n d r6 d')
  then show ?case by (intro adjust_sys_inv)
qed (intro beside_step status_beside mfa_beside self_mfa_beside override_beside provision_beside
    publish_beside tick_beside, assumption+)+

text \<open>The whole service: the shop and the desk.\<close>

inductive service_step :: "(total_key \<Rightarrow> f64 option) \<Rightarrow> shop \<Rightarrow> shop \<Rightarrow> bool" for limits where
  shop: "shop_step limits s s' \<Longrightarrow> service_step limits s s'"
| desk: "desk_step (core s) d \<Longrightarrow> service_step limits s (s\<lparr>core := d\<rparr>)"

definition service_reachable :: "(total_key \<Rightarrow> f64 option) \<Rightarrow> shop \<Rightarrow> shop \<Rightarrow> bool" where
  "service_reachable limits = (service_step limits)\<^sup>*\<^sup>*"

lemma service_step_inv: "service_step limits s s' \<Longrightarrow> shop_inv s \<Longrightarrow> shop_inv s'"
proof (induction rule: service_step.induct)
  case (desk s d)
  then show ?case using desk_step_inv [of "core s" d] by (simp add: shop_inv_def shop_keys_def)
qed (rule shop_step_inv)

interpretation service_runs: preserved "service_step limits" shop_inv for limits
  by unfold_locales (rule service_step_inv)

lemma service_reachable_inv: "service_reachable limits s s' \<Longrightarrow> shop_inv s \<Longrightarrow> shop_inv s'"
  unfolding service_reachable_def by (rule service_runs.run_keeps)

end
