(* ===== verification/Access_Properties.thy ===== *)
theory Access_Properties
  imports Customer_Jwt Deletion_Properties Desk_Facts
begin

text \<open>
  Who gets in: which tokens are accepted and under which keys, how often the issuer is asked for
  them, and the gate that a deleted customer cannot pass again.
\<close>

section \<open>Accepted tokens\<close>

definition run_tokens ::
    "jwt_decode \<Rightarrow> (string \<Rightarrow> (algorithm \<times> string option) option) \<Rightarrow> customer_validator \<Rightarrow> token_call list
      \<Rightarrow> key_cache \<Rightarrow> key_cache" where
  "run_tokens decode dh v xs cache = fold (\<lambda>x k. snd (validate_customer decode dh v x k)) xs cache"

lemma validate_served:
  assumes "cache_served srcs v cache" and "tc_source x \<in> srcs"
  shows "cache_served srcs v (snd (validate_customer decode dh v x cache))"
proof -
  obtain kid res cache' where e: "validate_es256 decode v x kid cache = (res, cache')" by fastforce
  have "cache_served srcs v (snd (validate_es256 decode v x k cache))" for k
    using validate_es256_sound(1) [of decode v x k cache _ _ srcs] assms by (metis surjective_pairing)
  then show ?thesis using assms by (auto simp: validate_customer_def split: option.split)
qed

lemma run_tokens_served:
  assumes "cache_served srcs v cache" and "tc_source ` set xs \<subseteq> srcs"
  shows "cache_served srcs v (run_tokens decode dh v xs cache)"
  using assms unfolding run_tokens_def
  by (induction xs arbitrary: cache) (simp_all add: validate_served)


text \<open>An issuer with one key, and a verifier that knows its tokens.\<close>

definition demo_claims :: claims where
  "demo_claims = \<lparr>cl_sub = ''auth-ada'', cl_email = Some ''ada@example.org'', cl_role = None,
     cl_aal = Some ''aal1'', cl_roles = [], cl_scope = None, cl_exp = 1000\<rparr>"

definition demo_decode :: jwt_decode where
  "demo_decode alg key iss aud token =
     (if alg = ES256 \<and> key = ''point'' \<and> iss = ''iss'' \<and> token = ''tok'' then Inr demo_claims
      else Inl InvalidSignature)"

definition demo_source :: key_source where
  "demo_source = \<lparr>ks_get = (\<lambda>u. if u = ''jwks'' then Some \<lparr>jr_success = True, jr_length = None,
       jr_chunks = [Some ''body'']\<rparr> else None),
     ks_parse = (\<lambda>_. Some [\<lparr>jk_kid = Some ''k1'', jk_alg = Some ''ES256'', jk_use = Some ''sig'',
       jk_ops = None, jk_curve = Some ''P-256'', jk_material = Some ''point''\<rparr>])\<rparr>"

definition demo_call :: "time \<Rightarrow> token_call" where
  "demo_call t = \<lparr>tc_source = demo_source, tc_clock = (\<lambda>_. t), tc_token = ''tok''\<rparr>"

definition demo_header :: "string \<Rightarrow> (algorithm \<times> string option) option" where
  "demo_header _ = Some (ES256, Some ''k1'')"

definition demo_validator :: customer_validator where
  "demo_validator = new_validator (\<lambda>_. Some ''jwks'') [] ''iss'' ''aud''"

definition demo_validation :: "(app_error + claims) \<times> key_cache" where
  "demo_validation = validate_customer demo_decode demo_header demo_validator (demo_call 5)
     (run_tokens demo_decode demo_header demo_validator [] empty_cache)"

lemmas demo_token_defs = run_tokens_def validate_customer_def validate_es256_def fetch_keys_def parse_keys_def
  verify_es256_def signing_jwk_def usable_kid_def elapsed_below_def empty_cache_def demo_header_def demo_call_def
  demo_source_def demo_validator_def new_validator_def demo_decode_def MAX_TOKEN_BYTES_def MAX_JWKS_BYTES_def
  MAX_KEYS_def REFRESH_INTERVAL_def CACHE_TTL_def Let_def


section \<open>Key fetches\<close>

fun fetches ::
    "jwt_decode \<Rightarrow> (string \<Rightarrow> (algorithm \<times> string option) option) \<Rightarrow> customer_validator \<Rightarrow> token_call list
      \<Rightarrow> key_cache \<Rightarrow> time list" where
  "fetches decode dh v [] cache = []"
| "fetches decode dh v (x # xs) cache =
     (let cache' = snd (validate_customer decode dh v x cache)
      in attempt cache cache' @ fetches decode dh v xs cache')"

lemma attempt_later:
  assumes "validate_customer decode dh v x cache = (res, cache')" and "tc_clock x 1 \<le> tc_clock x 2"
    and "t \<in> set (attempt cache cache')" and "kc_attempted cache = Some a"
  shows "a + REFRESH_INTERVAL \<le> t"
proof -
  from assms(3) have "kc_attempted cache' \<noteq> kc_attempted cache" "t = the (kc_attempted cache')"
    by (auto simp: attempt_def split: if_splits)
  with validate_attempt [OF assms(1)] assms(2,4) show ?thesis
    by (simp add: elapsed_below_def REFRESH_INTERVAL_def secs_def)
qed

lemma fetches_later:
  assumes "\<forall>x \<in> set xs. tc_clock x 1 \<le> tc_clock x 2" and "t \<in> set (fetches decode dh v xs cache)"
    and "kc_attempted cache = Some a"
  shows "a + REFRESH_INTERVAL \<le> t"
  using assms
proof (induction xs arbitrary: cache a)
  case (Cons x xs)
  obtain res cache' where v: "validate_customer decode dh v x cache = (res, cache')" by fastforce
  note later = attempt_later [OF v _ _ Cons.prems(3)]
  show ?case
  proof (cases "t \<in> set (attempt cache cache')")
    case True
    with later Cons.prems(1) show ?thesis by simp
  next
    case False
    with Cons.prems(2) v have t: "t \<in> set (fetches decode dh v xs cache')" by (simp add: Let_def)
    show ?thesis
    proof (cases "kc_attempted cache' = kc_attempted cache")
      case True
      with Cons.IH [OF _ t] Cons.prems show ?thesis by simp
    next
      case changed: False
      then obtain b where b: "kc_attempted cache' = Some b" using validate_attempt(1) [OF v] by simp
      with changed have "b \<in> set (attempt cache cache')" by (simp add: attempt_def)
      with later Cons.prems(1) have "a + REFRESH_INTERVAL \<le> b" by simp
      moreover have "b + REFRESH_INTERVAL \<le> t" using Cons.IH [OF _ t b] Cons.prems(1) by simp
      ultimately show ?thesis by (simp add: REFRESH_INTERVAL_def secs_def)
    qed
  qed
qed simp



section \<open>The gate\<close>

text \<open>Every request by anyone other than an operator's change of a status.\<close>

inductive open_step :: "db \<Rightarrow> db \<Rightarrow> bool" where
  handler: "handler_step d d' \<Longrightarrow> open_step d d'"
| provision: "e_id e 0 \<notin> cu_id ` set (customers d) \<Longrightarrow> provision_for_auth_user e u m n co tz d = (r, d') \<Longrightarrow>
    open_step d d'"
| mfa: "open_step d (set_mfa_required c q d)"

inductive_cases open_stepE: "open_step d d'"

definition anonymized :: "uuid \<Rightarrow> db \<Rightarrow> bool" where
  "anonymized c d \<longleftrightarrow> c \<in> cu_id ` set (customers d)
     \<and> (\<forall>r \<in> set (customers d). cu_id r = c \<longrightarrow> cu_status r = ''anonymized'')"

lemma register_customers: "register_installation e c inp d = (res, d') \<Longrightarrow> customers d' = customers d"
  by (auto simp: register_installation_def upsert_device_def ensure_fleet_def ensure_fleet_app_def Let_def
      split: option.splits if_splits prod.splits)

lemma activate_customers: "activate_installation e c i w corr d = (res, d') \<Longrightarrow> customers d' = customers d"
  by (erule activate_cases) auto

lemma handler_customers:
  "heartbeat_installation e c i v d = (res1, d') \<Longrightarrow> customers d' = customers d"
  "deactivate_installation e c i corr d = (res2, d') \<Longrightarrow> customers d' = customers d"
  "request_deletion e c reason corr d = (res3, d') \<Longrightarrow> customers d' = customers d"
  "cancel_request c corr d = (Inr r4, d') \<Longrightarrow> customers d' = customers d"
  "advance_request e op i co reason2 corr2 d = (Inr r5, d') \<Longrightarrow> customers d' = customers d"
  "reject_request op i reason2 corr2 d = (Inr r6, d') \<Longrightarrow> customers d' = customers d"
  by (auto simp: heartbeat_installation_def deactivate_installation_def request_deletion_def
      cancel_request_def advance_request_def reject_request_def set_request_status_def Let_def
      split: option.splits if_splits)

lemma execute_customers:
  "execute_deletion e op i reason corr d = (Inr r, d') \<Longrightarrow>
     customers d' = upd (\<lambda>x. cu_id x = dr_customer r) anonymize_profile (customers d)
     \<and> dr_customer r \<in> cu_id ` set (customers d)"
  by (auto simp: execute_deletion_def freeze_customer_def erase_profile_def revoke_devices_def
      revoke_licenses_def retire_installations_def drop_overrides_def transact_def completed_row_def Let_def
      intro!: rev_image_eqI dest!: find_SomeD split: if_splits prod.splits sum.splits)

lemma provision_customers:
  assumes "provision_for_auth_user e u m n co tz d = (r, d')"
  shows "customers d' = customers d \<or> customers d' = customers d @ [new_profile e u n co tz]"
proof -
  obtain p created d1 where 1: "(case find_by_auth_user_id u d of
       Some p \<Rightarrow> (p, False, d)
     | None \<Rightarrow> (let p = new_profile e u n co tz in (p, True, record_profile e p d))) = (p, created, d1)"
    by (metis prod_cases3)
  obtain fleet d2 where 2: "ensure_named_fleet e (cu_id p) (cu_display_name p) d1 = (fleet, d2)" by fastforce
  then have "customers d2 = customers d1" using ensure_named_fleet_frame(1) by (metis snd_conv)
  then have "customers d' = customers d1"
    using assms by (auto simp: provision_for_auth_user_def 1 2 Let_def split: option.splits)
  moreover have "customers d1 = customers d \<or> customers d1 = customers d @ [new_profile e u n co tz]"
    using 1 by (auto simp: record_profile_def Let_def split: option.splits)
  ultimately show ?thesis by simp
qed

lemma anonymized_keep: "customers d' = customers d \<Longrightarrow> anonymized c d \<Longrightarrow> anonymized c d'"
  by (simp add: anonymized_def)

lemma anonymized_upd:
  assumes "customers d' = upd P f (customers d)" and "anonymized c d"
    and "\<And>r. cu_id (f r) = cu_id r" and "\<And>r. cu_status r = ''anonymized'' \<Longrightarrow> cu_status (f r) = ''anonymized''"
  shows "anonymized c d'"
proof -
  have "map cu_id (customers d') = map cu_id (customers d)"
    unfolding assms(1) by (rule map_upd_key) (rule assms(3))
  then have "cu_id ` set (customers d') = cu_id ` set (customers d)" by (metis set_map)
  with assms show ?thesis by (auto simp: anonymized_def set_upd)
qed

lemma execute_keeps_anonymized:
  assumes "execute_deletion e op i reason corr d = (Inr r, d')" and "anonymized c d"
  shows "anonymized c d'"
  by (rule anonymized_upd [OF conjunct1 [OF execute_customers [OF assms(1)]] assms(2)])
    (simp_all add: anonymize_profile_def)

lemma handler_step_anonymized: "handler_step d d' \<Longrightarrow> anonymized c d \<Longrightarrow> anonymized c d'"
  by (erule handler_stepE)
    (erule (1) execute_keeps_anonymized | erule (1) anonymized_keep [OF register_customers]
      anonymized_keep [OF activate_customers] anonymized_keep [OF handler_customers(1)]
      anonymized_keep [OF handler_customers(2)] anonymized_keep [OF handler_customers(3)]
      anonymized_keep [OF handler_customers(4)] anonymized_keep [OF handler_customers(5)]
      anonymized_keep [OF handler_customers(6)])+

lemma open_step_anonymized: "open_step d d' \<Longrightarrow> anonymized c d \<Longrightarrow> anonymized c d'"
proof (erule open_stepE)
  show "handler_step d d' \<Longrightarrow> anonymized c d \<Longrightarrow> anonymized c d'" by (rule handler_step_anonymized)
next
  fix e :: env and u m n co tz r
  assume "provision_for_auth_user e u m n co tz d = (r, d')" "e_id e 0 \<notin> cu_id ` set (customers d)"
    and "anonymized c d"
  with provision_customers show "anonymized c d'"
    by (fastforce simp: anonymized_def new_profile_def)
next
  fix c' q
  assume "d' = set_mfa_required c' q d" and "anonymized c d"
  then have "customers d' = upd (\<lambda>r. cu_id r = c') (cu_mfa_required_update (\<lambda>_. q)) (customers d)"
    by (simp add: set_mfa_required_def)
  then show "anonymized c d'" by (rule anonymized_upd) (simp_all add: \<open>anonymized c d\<close>)
qed

interpretation anonymized_runs: preserved open_step "anonymized c" for c
  by unfold_locales (rule open_step_anonymized)

lemmas open_run_anonymized = anonymized_runs.run_keeps

lemma execute_anonymizes:
  assumes "execute_deletion e op i reason corr d = (Inr r, d')"
  shows "anonymized (dr_customer r) d'"
proof -
  note E = execute_customers [OF assms]
  then obtain p where "p \<in> set (customers d)" "cu_id p = dr_customer r" by force
  then have "anonymize_profile p \<in> set (customers d')" "cu_id (anonymize_profile p) = dr_customer r"
    using E by (auto simp: set_upd anonymize_profile_def intro!: rev_image_eqI [of p])
  then have "dr_customer r \<in> cu_id ` set (customers d')" by (metis imageI)
  moreover have "\<forall>x \<in> set (customers d'). cu_id x = dr_customer r \<longrightarrow> cu_status x = ''anonymized''"
    using E by (auto simp: set_upd anonymize_profile_def)
  ultimately show ?thesis by (simp add: anonymized_def)
qed

definition closed_error :: app_error where
  "closed_error = app_err Forbidden ''This customer account is closed.''"


definition demo_context :: "db \<Rightarrow> app_error + customer_context" where
  "demo_context d = customer_context_from (\<lambda>_. Inr demo_claims) Some None (Some ''Bearer tok'') d"


section \<open>What the gate does not cover\<close>

text \<open>An operator's restore does not look at the status it leaves: it reopens a deleted account.\<close>

lemma restore_reopens_deleted:
  assumes "find (\<lambda>p. cu_id p = c) (customers d) = Some r" and "cu_status r = ''anonymized''"
  shows "\<exists>d'. restore_customer e op c reason corr d
      = (Inr \<lparr>sc_customer = c, sc_from = ''anonymized'', sc_status = ''active'', sc_changed = True\<rparr>, d')
    \<and> (\<exists>r'. find (\<lambda>p. cu_id p = c) (customers d') = Some r' \<and> cu_status r' = ''active'')"
proof -
  have "find (\<lambda>p. cu_id p = c) (upd (\<lambda>r. cu_id r = c) (\<lambda>r. r\<lparr>cu_status := ''active''\<rparr>) (customers d))
      = Some (r\<lparr>cu_status := ''active''\<rparr>)"
    using assms(1) find_SomeD [OF assms(1)]
      find_upd_Q [of "\<lambda>r. cu_id r = c" "\<lambda>p. cu_id p = c" "\<lambda>r. r\<lparr>cu_status := ''active''\<rparr>" "customers d"]
    by simp
  then show ?thesis
    using assms by (simp add: restore_customer_def set_customer_status_def record_status_def)
qed

text \<open>
  Provisioning asks for no open account: a deleted user who signs in again has the erased contact
  address stored again.
\<close>

lemma provision_restores_email:
  assumes "find_by_auth_user_id u d = Some p" and "\<forall>m \<in> set (emails d). em_customer m \<noteq> cu_id p"
    and "provision_for_auth_user e u (Some email) n co tz d = (r, d')"
  shows "\<exists>m \<in> set (emails d'). em_customer m = cu_id p \<and> em_email m = email"
proof -
  obtain fleet d2 where 2: "ensure_named_fleet e (cu_id p) (cu_display_name p) d = (fleet, d2)" by fastforce
  then have "emails d2 = emails d" using ensure_named_fleet_frame(2) by (metis snd_conv)
  moreover define d3 where "d3 = (case find (\<lambda>x. pr_key x = ''authorforge'') (products d2) of
       Some x \<Rightarrow> ensure_fleet_app fleet (pr_id x) d2 | None \<Rightarrow> d2)"
  then have "emails d3 = emails d2" by (simp split: option.split)
  moreover have "d' = add_primary_email (cu_id p) email d3"
    using assms(1,3) by (simp add: provision_for_auth_user_def 2 d3_def)
  ultimately show ?thesis using assms(2) by (auto simp: add_primary_email_def list_ex_iff)
qed

text \<open>
  An operator's second-factor requirement is not immediate for an account inside its grace window:
  the flag is set, the window stays, and a session without a second factor still passes.
\<close>

lemma forced_mfa_waits_for_grace:
  assumes "find (\<lambda>r. cu_id r = c) (customers d) = Some r" and "cu_auth_user r = u"
    and "find_by_auth_user_id u d = Some r" and "cu_status r = ''active''" and "\<not> cu_mfa_required r"
    and "cu_mfa_grace r = Some t" and "now < t"
    and "set_customer_mfa_requirement e op c True reason corr d = (res, d')"
  shows "\<exists>r'. find_by_auth_user_id u d' = Some r' \<and> cu_mfa_required r'
    \<and> require_active now (context_of cl (Some r')) = Inr c"
proof -
  have "customers d' = upd (\<lambda>r. cu_id r = c) (\<lambda>r. r\<lparr>cu_mfa_required := True\<rparr>) (customers d)"
    using assms(1,5,8) by (auto simp: set_customer_mfa_requirement_def record_mfa_def)
  then have "find_by_auth_user_id u d' = Some (r\<lparr>cu_mfa_required := True\<rparr>)"
    using assms(3) find_SomeD [OF assms(1)]
      find_upd_Q [of "\<lambda>r. cu_id r = c" "\<lambda>r. cu_auth_user r = u" "\<lambda>r. r\<lparr>cu_mfa_required := True\<rparr>" "customers d"]
    by (simp add: find_by_auth_user_id_def)
  then show ?thesis
    using assms(4,6,7) find_SomeD [OF assms(1)]
    by (auto simp: require_active_iff context_of_def mfa_grace_active_def)
qed

end
