(* ===== verification/Releases.thy ===== *)
theory Releases
  imports Customer_Admin Customers
begin

text \<open>
  The release side of \<^verbatim>\<open>api/src/repositories/admin.rs\<close>: fleets and their policy, releases and their
  artifacts, campaigns with rollout and holds, quarantine. A release goes through draft,
  artifacts pending, validated and published; blocking is final. A transaction locks the row it
  changes, so each operation is one step. The \<^verbatim>\<open>check\<close> constraints of migration 0011 that
  the inputs can violate fail the transaction with \<open>AdmDb\<close>; the columns \<^verbatim>\<open>created_at\<close> and
  \<^verbatim>\<open>updated_at\<close> of a fleet and \<^verbatim>\<open>updated_at\<close> of the other tables are left out.
\<close>

section \<open>Tables\<close>

record release_row =
  rl_id :: uuid
  rl_product :: uuid
  rl_version :: string
  rl_build :: string
  rl_channel :: uuid
  rl_status :: string
  rl_changelog :: "string option"
  rl_min_supported :: "string option"
  rl_min_updater :: "string option"
  rl_by :: string
  rl_created :: time
  rl_validated :: "time option"
  rl_published :: "time option"

record artifact_row =
  ar_id :: uuid
  ar_release :: uuid
  ar_platform :: string
  ar_arch :: string
  ar_format :: string
  ar_role :: string
  ar_storage :: string
  ar_size :: int
  ar_sha :: string
  ar_signature :: "string option"
  ar_key :: string
  ar_os_status :: string
  ar_status :: string
  ar_created :: time

record campaign_row =
  ca_id :: uuid
  ca_product :: uuid
  ca_release :: uuid
  ca_slug :: string
  ca_status :: string
  ca_channel :: uuid
  ca_ring :: string
  ca_rollout :: int
  ca_emergency :: bool
  ca_starts :: "time option"
  ca_completed :: "time option"
  ca_by :: string
  ca_created :: time

record hold_row =
  ho_id :: uuid
  ho_campaign :: uuid
  ho_fleet :: uuid
  ho_reason :: string
  ho_by :: string
  ho_created :: time

record ticket_row =
  ti_token :: uuid
  ti_installation :: uuid
  ti_campaign :: uuid
  ti_release :: uuid
  ti_expires :: time
  ti_issued :: time

record update_event_row =
  uv_id :: uuid
  uv_installation :: "uuid option"
  uv_campaign :: "uuid option"
  uv_release :: "uuid option"
  uv_ticket :: "uuid option"
  uv_type :: string
  uv_code :: "string option"
  uv_class :: "string option"
  uv_from :: "string option"
  uv_to :: "string option"
  uv_occurred :: time
  uv_received :: time

record rel_db =
  svc :: db
  releases :: "release_row list"
  artifacts :: "artifact_row list"
  campaigns :: "campaign_row list"
  holds :: "hold_row list"
  tickets :: "ticket_row list"
  update_events :: "update_event_row list"

definition release_audit ::
    "string \<Rightarrow> string \<Rightarrow> uuid option \<Rightarrow> string \<Rightarrow> string \<Rightarrow> string \<Rightarrow> json option \<Rightarrow> json option
      \<Rightarrow> string option \<Rightarrow> rel_db \<Rightarrow> rel_db" where
  "release_audit event op customer tt target reason before after corr t =
     t\<lparr>svc := operator_audit event op customer tt target reason before after corr (svc t)\<rparr>"

definition status_json :: "string \<Rightarrow> json option" where
  "status_json s = Some (JObj [(''status'', JStr s)])"

definition channel_for :: "uuid \<Rightarrow> string \<Rightarrow> db \<Rightarrow> channel_row option" where
  "channel_for pro key d = find (\<lambda>c. rc_product c = pro \<and> rc_key c = key) (channels d)"

definition channel_key_of :: "db \<Rightarrow> uuid \<Rightarrow> string option" where
  "channel_key_of d i = map_option rc_key (find (\<lambda>c. rc_id c = i) (channels d))"

section \<open>Fleets\<close>

record admin_fleet =
  af_row :: fleet_row
  af_channel_key :: "string option"
  af_installations :: nat
  af_holds :: nat

definition fleet_view :: "rel_db \<Rightarrow> fleet_row \<Rightarrow> admin_fleet" where
  "fleet_view t f = \<lparr>af_row = f, af_channel_key = Option.bind (fl_channel f) (channel_key_of (svc t)),
     af_installations = length (filter (\<lambda>i. in_fleet i = Some (fl_id f)) (installations (svc t))),
     af_holds = length (filter (\<lambda>h. ho_fleet h = fl_id f) (holds t))\<rparr>"

text \<open>\<open>stamp\<close> gives a fleet's \<^verbatim>\<open>updated_at\<close> and \<^verbatim>\<open>created_at\<close>.\<close>

definition list_fleets :: "(fleet_row \<Rightarrow> time \<times> time) \<Rightarrow> rel_db \<Rightarrow> admin_fleet list" where
  "list_fleets stamp t = map (fleet_view t)
     (take 200 (order_by (\<lambda>f. (- fst (stamp f), - snd (stamp f)))
       (filter (\<lambda>f. fl_status f \<noteq> ''deleted'') (fleets (svc t)))))"

definition live_fleet :: "uuid \<Rightarrow> db \<Rightarrow> fleet_row option" where
  "live_fleet i d = find (\<lambda>f. fl_id f = i \<and> fl_status f \<noteq> ''deleted'') (fleets d)"

definition read_fleet :: "uuid \<Rightarrow> rel_db \<Rightarrow> admin_fleet option" where
  "read_fleet i t = map_option (fleet_view t) (live_fleet i (svc t))"

record fleet_policy_input =
  fi_operator :: string
  fi_fleet :: uuid
  fi_name :: "string option"
  fi_ring :: "string option"
  fi_channel_key :: "string option"
  fi_beta :: "bool option"
  fi_reason :: string
  fi_corr :: "string option"

definition RINGS :: "string list" where
  "RINGS = [''canary'', ''preview'', ''standard'', ''delayed'']"

text \<open>The channel of the AuthorForge product with the given key.\<close>

definition authorforge_channel :: "string \<Rightarrow> db \<Rightarrow> channel_row option" where
  "authorforge_channel key d = find (\<lambda>c. rc_key c = key
     \<and> list_ex (\<lambda>p. pr_id p = rc_product c \<and> pr_key p = ''authorforge'') (products d)) (channels d)"

definition policy_channel :: "string option \<Rightarrow> db \<Rightarrow> admin_error + uuid option" where
  "policy_channel key d = (case key of None \<Rightarrow> Inr None
     | Some k \<Rightarrow> (case authorforge_channel k d of None \<Rightarrow> Inl AdmProductNotFound
                    | Some c \<Rightarrow> Inr (Some (rc_id c))))"

definition with_policy :: "fleet_policy_input \<Rightarrow> uuid option \<Rightarrow> fleet_row \<Rightarrow> fleet_row" where
  "with_policy inp ch f = f\<lparr>fl_name := unwrap_or (fi_name inp) (fl_name f),
     fl_ring := unwrap_or (fi_ring inp) (fl_ring f), fl_channel := coalesce ch (fl_channel f),
     fl_beta := unwrap_or (fi_beta inp) (fl_beta f)\<rparr>"

definition fleet_json :: "admin_fleet \<Rightarrow> json" where
  "fleet_json v = JObj [(''display_name'', JStr (fl_name (af_row v))), (''update_ring'', JStr (fl_ring (af_row v))),
     (''release_channel'', jopt JStr (af_channel_key v)), (''beta_enrolled'', JBool (fl_beta (af_row v)))]"

definition update_fleet_policy :: "fleet_policy_input \<Rightarrow> rel_db \<Rightarrow> (admin_error + admin_fleet) \<times> rel_db" where
  "update_fleet_policy inp t =
     (case live_fleet (fi_fleet inp) (svc t) of
        None \<Rightarrow> (Inl AdmFleetNotFound, t)
      | Some f \<Rightarrow>
          (case policy_channel (fi_channel_key inp) (svc t) of
             Inl err \<Rightarrow> (Inl err, t)
           | Inr ch \<Rightarrow>
               (let g = with_policy inp ch f;
                    t' = t\<lparr>svc := (svc t)\<lparr>fleets := upd (\<lambda>x. fl_id x = fi_fleet inp) (with_policy inp ch)
                                     (fleets (svc t))\<rparr>\<rparr>
                in if \<not> one_of RINGS (fl_ring g) then (Inl AdmDb, t)
                   else (Inr (fleet_view t' g),
                     release_audit ''fleet_policy_updated'' (fi_operator inp) (Some (fl_customer g)) ''fleet''
                       (fi_fleet inp) (fi_reason inp) (Some (fleet_json (fleet_view t f)))
                       (Some (fleet_json (fleet_view t' g))) (fi_corr inp) t'))))"

section \<open>Releases\<close>

record admin_release =
  lr_row :: release_row
  lr_product_key :: string
  lr_channel_key :: string
  lr_artifacts :: nat
  lr_validated :: nat

definition artifacts_of :: "uuid \<Rightarrow> rel_db \<Rightarrow> artifact_row list" where
  "artifacts_of i t = filter (\<lambda>a. ar_release a = i) (artifacts t)"

definition validated_of :: "uuid \<Rightarrow> rel_db \<Rightarrow> artifact_row list" where
  "validated_of i t = filter (\<lambda>a. ar_status a = ''validated'') (artifacts_of i t)"

definition release_view :: "rel_db \<Rightarrow> release_row \<Rightarrow> admin_release option" where
  "release_view t r =
     (case (product_key_of (svc t) (rl_product r), channel_key_of (svc t) (rl_channel r)) of
        (Some p, Some c) \<Rightarrow> Some \<lparr>lr_row = r, lr_product_key = p, lr_channel_key = c,
          lr_artifacts = length (artifacts_of (rl_id r) t), lr_validated = length (validated_of (rl_id r) t)\<rparr>
      | _ \<Rightarrow> None)"

definition list_releases :: "rel_db \<Rightarrow> admin_release list" where
  "list_releases t = take 200 (List.map_filter (release_view t) (order_by (\<lambda>r. - rl_created r) (releases t)))"

definition release_of :: "uuid \<Rightarrow> rel_db \<Rightarrow> release_row option" where
  "release_of i t = find (\<lambda>r. rl_id r = i) (releases t)"

definition read_release :: "uuid \<Rightarrow> rel_db \<Rightarrow> admin_release option" where
  "read_release i t = Option.bind (release_of i t) (release_view t)"

text \<open>After the commit the row is read again.\<close>

definition shown_release :: "uuid \<Rightarrow> rel_db \<Rightarrow> (admin_error + admin_release) \<times> rel_db" where
  "shown_release i t = (ok_or (read_release i t) AdmReleaseNotFound, t)"

record create_release_input =
  nr_operator :: string
  nr_product_key :: string
  nr_version :: string
  nr_build :: string
  nr_channel_key :: string
  nr_changelog :: "string option"
  nr_min_supported :: "string option"
  nr_min_updater :: "string option"
  nr_reason :: string
  nr_corr :: "string option"

definition new_release :: "env \<Rightarrow> create_release_input \<Rightarrow> uuid \<Rightarrow> uuid \<Rightarrow> release_row" where
  "new_release e inp pro ch = \<lparr>rl_id = e_id e 0, rl_product = pro, rl_version = nr_version inp,
     rl_build = nr_build inp, rl_channel = ch, rl_status = ''draft'', rl_changelog = nr_changelog inp,
     rl_min_supported = nr_min_supported inp, rl_min_updater = nr_min_updater inp,
     rl_by = nr_operator inp, rl_created = e_now e, rl_validated = None, rl_published = None\<rparr>"

definition record_release :: "create_release_input \<Rightarrow> release_row \<Rightarrow> rel_db \<Rightarrow> rel_db" where
  "record_release inp r t =
     release_audit ''release_registered'' (nr_operator inp) None ''product_release'' (rl_id r) (nr_reason inp)
       None (Some (JObj [(''product_key'', JStr (nr_product_key inp)), (''version'', JStr (nr_version inp)),
          (''build_id'', JStr (nr_build inp)), (''release_channel'', JStr (nr_channel_key inp)),
          (''status'', JStr ''draft'')])) (nr_corr inp)
     (t\<lparr>releases := releases t @ [r]\<rparr>)"

definition create_release :: "env \<Rightarrow> create_release_input \<Rightarrow> rel_db \<Rightarrow> (admin_error + admin_release) \<times> rel_db" where
  "create_release e inp t =
     (case active_product (nr_product_key inp) (svc t) of
        None \<Rightarrow> (Inl AdmProductNotFound, t)
      | Some p \<Rightarrow>
     (case channel_for (pr_id p) (nr_channel_key inp) (svc t) of
        None \<Rightarrow> (Inl AdmProductNotFound, t)
      | Some c \<Rightarrow>
     (case find (\<lambda>r. rl_product r = pr_id p \<and> rl_version r = nr_version inp \<and> rl_build r = nr_build inp)
             (releases t) of
        None \<Rightarrow> (let r = new_release e inp (pr_id p) (rc_id c)
                  in shown_release (rl_id r) (record_release inp r t))
      | Some r \<Rightarrow>
          (if rl_channel r \<noteq> rc_id c
           then (Inl (AdmInvalidState ''release already exists with a different channel''), t)
           else shown_release (rl_id r) t))))"

section \<open>Artifacts\<close>

record artifact_input =
  fr_operator :: string
  fr_release :: uuid
  fr_platform :: string
  fr_arch :: string
  fr_format :: string
  fr_role :: string
  fr_storage :: string
  fr_size :: int
  fr_sha :: string
  fr_signature :: "string option"
  fr_key :: string
  fr_os_status :: string
  fr_reason :: string
  fr_corr :: "string option"

definition new_artifact :: "env \<Rightarrow> artifact_input \<Rightarrow> artifact_row" where
  "new_artifact e inp = \<lparr>ar_id = e_id e 0, ar_release = fr_release inp, ar_platform = fr_platform inp,
     ar_arch = fr_arch inp, ar_format = fr_format inp, ar_role = fr_role inp, ar_storage = fr_storage inp,
     ar_size = fr_size inp, ar_sha = fr_sha inp, ar_signature = fr_signature inp, ar_key = fr_key inp,
     ar_os_status = fr_os_status inp, ar_status = ''validated'', ar_created = e_now e\<rparr>"

text \<open>The \<^verbatim>\<open>check\<close> constraints of \<^verbatim>\<open>release_artifacts\<close>.\<close>

definition artifact_checks :: "artifact_row \<Rightarrow> bool" where
  "artifact_checks a \<longleftrightarrow> one_of [''windows'', ''linux'', ''darwin''] (ar_platform a)
     \<and> one_of [''x86_64'', ''aarch64'', ''i686'', ''armv7''] (ar_arch a)
     \<and> one_of [''bootstrap'', ''updater'', ''recovery''] (ar_role a) \<and> 0 < ar_size a
     \<and> length (ar_sha a) = 64 \<and> list_all (\<lambda>c. c \<in> set ''0123456789abcdef'') (ar_sha a)
     \<and> one_of [''pending'', ''verified'', ''not_applicable'', ''failed''] (ar_os_status a)
     \<and> one_of [''pending'', ''validated'', ''quarantined'', ''retired''] (ar_status a)"

definition same_tuple :: "artifact_input \<Rightarrow> artifact_row \<Rightarrow> bool" where
  "same_tuple inp a \<longleftrightarrow> ar_release a = fr_release inp \<and> ar_platform a = fr_platform inp \<and> ar_arch a = fr_arch inp
     \<and> ar_format a = fr_format inp \<and> ar_role a = fr_role inp"

definition same_metadata :: "artifact_input \<Rightarrow> artifact_row \<Rightarrow> bool" where
  "same_metadata inp a \<longleftrightarrow> ar_storage a = fr_storage inp \<and> ar_size a = fr_size inp \<and> ar_sha a = fr_sha inp
     \<and> ar_signature a = fr_signature inp \<and> ar_key a = fr_key inp \<and> ar_os_status a = fr_os_status inp"

definition record_artifact :: "artifact_input \<Rightarrow> string \<Rightarrow> artifact_row \<Rightarrow> rel_db \<Rightarrow> rel_db" where
  "record_artifact inp status a t =
     release_audit ''release_artifact_registered'' (fr_operator inp) None ''release_artifact'' (ar_id a)
       (fr_reason inp) None
       (Some (JObj [(''release_id'', JStr (fr_release inp)), (''platform'', JStr (fr_platform inp)),
          (''architecture'', JStr (fr_arch inp)), (''package_format'', JStr (fr_format inp)),
          (''artifact_role'', JStr (fr_role inp)), (''storage_key'', JStr (fr_storage inp)),
          (''size_bytes'', JInt (fr_size inp)), (''sha256'', JStr (fr_sha inp)),
          (''signing_key_id'', JStr (fr_key inp)), (''os_signature_status'', JStr (fr_os_status inp)),
          (''status'', JStr ''validated'')])) (fr_corr inp)
     (t\<lparr>artifacts := artifacts t @ [a],
        releases := (if status = ''draft''
          then upd (\<lambda>r. rl_id r = fr_release inp) (\<lambda>r. r\<lparr>rl_status := ''artifacts_pending''\<rparr>) (releases t)
          else releases t)\<rparr>)"

definition register_artifact :: "env \<Rightarrow> artifact_input \<Rightarrow> rel_db \<Rightarrow> (admin_error + artifact_row) \<times> rel_db" where
  "register_artifact e inp t =
     (if fr_role inp = ''updater'' \<and> fr_signature inp = None
      then (Inl (AdmInvalidState ''updater artifacts require a Tauri signature''), t)
      else case release_of (fr_release inp) t of
        None \<Rightarrow> (Inl AdmReleaseNotFound, t)
      | Some r \<Rightarrow>
          (if one_of [''published'', ''blocked'', ''retired''] (rl_status r)
           then (Inl (AdmInvalidState ''published, blocked, or retired releases are immutable''), t)
           else let a = new_artifact e inp
             in if \<not> artifact_checks a then (Inl AdmDb, t)
                else case find (same_tuple inp) (artifacts t) of
                  None \<Rightarrow> (Inr a, record_artifact inp (rl_status r) a t)
                | Some b \<Rightarrow>
                    (if same_metadata inp b then (Inr b, t)
                     else (Inl (AdmInvalidState
                       ''artifact tuple already exists with different immutable metadata''), t))))"

section \<open>The life of a release\<close>

definition lock_release_status :: "uuid \<Rightarrow> rel_db \<Rightarrow> admin_error + uuid \<times> string \<times> uuid" where
  "lock_release_status i t = (case release_of i t of None \<Rightarrow> Inl AdmReleaseNotFound
     | Some r \<Rightarrow> Inr (rl_product r, rl_status r, rl_channel r))"

definition set_release :: "uuid \<Rightarrow> (release_row \<Rightarrow> release_row) \<Rightarrow> rel_db \<Rightarrow> rel_db" where
  "set_release i f t = t\<lparr>releases := upd (\<lambda>r. rl_id r = i) f (releases t)\<rparr>"

definition pause_campaigns :: "uuid \<Rightarrow> rel_db \<Rightarrow> rel_db" where
  "pause_campaigns i t = t\<lparr>campaigns := upd (\<lambda>c. ca_release c = i \<and> ca_status c = ''active'')
     (\<lambda>c. c\<lparr>ca_status := ''paused''\<rparr>) (campaigns t)\<rparr>"

definition release_status_audit ::
    "string \<Rightarrow> string \<Rightarrow> uuid \<Rightarrow> string \<Rightarrow> string \<Rightarrow> string \<Rightarrow> string option \<Rightarrow> rel_db \<Rightarrow> rel_db" where
  "release_status_audit event op i reason before after corr =
     release_audit event op None ''product_release'' i reason (status_json before) (status_json after) corr"

definition validate_release ::
    "env \<Rightarrow> string \<Rightarrow> uuid \<Rightarrow> string \<Rightarrow> string option \<Rightarrow> rel_db \<Rightarrow> (admin_error + admin_release) \<times> rel_db" where
  "validate_release e op i reason corr t =
     (case lock_release_status i t of
        Inl err \<Rightarrow> (Inl err, t)
      | Inr (_, status, _) \<Rightarrow>
          (if one_of [''blocked'', ''retired''] status
           then (Inl (AdmInvalidState ''blocked or retired releases cannot be validated''), t)
           else if one_of [''validated'', ''published''] status then shown_release i t
           else if length (validated_of i t) = 0
           then (Inl (AdmInvalidState ''at least one validated artifact is required''), t)
           else shown_release i
             (release_status_audit ''release_validated'' op i reason status ''validated'' corr
               (set_release i (\<lambda>r. r\<lparr>rl_status := ''validated'',
                  rl_validated := coalesce (rl_validated r) (Some (e_now e))\<rparr>) t))))"

definition publish_release ::
    "env \<Rightarrow> string \<Rightarrow> uuid \<Rightarrow> string \<Rightarrow> string option \<Rightarrow> rel_db \<Rightarrow> (admin_error + admin_release) \<times> rel_db" where
  "publish_release e op i reason corr t =
     (case lock_release_status i t of
        Inl err \<Rightarrow> (Inl err, t)
      | Inr (_, status, _) \<Rightarrow>
          (if status = ''published'' then shown_release i t
           else if status = ''validated'' then shown_release i
             (release_status_audit ''release_published'' op i reason status ''published'' corr
               (set_release i (\<lambda>r. r\<lparr>rl_status := ''published'',
                  rl_published := coalesce (rl_published r) (Some (e_now e))\<rparr>) t))
           else (Inl (AdmInvalidState ''only validated releases can be published''), t)))"

definition block_release ::
    "string \<Rightarrow> uuid \<Rightarrow> string \<Rightarrow> string option \<Rightarrow> rel_db \<Rightarrow> (admin_error + admin_release) \<times> rel_db" where
  "block_release op i reason corr t =
     (case lock_release_status i t of
        Inl err \<Rightarrow> (Inl err, t)
      | Inr (_, status, _) \<Rightarrow>
          (if status = ''blocked'' then shown_release i t
           else if status = ''retired''
           then (Inl (AdmInvalidState ''retired releases cannot be blocked''), t)
           else shown_release i
             (release_status_audit ''release_blocked'' op i reason status ''blocked'' corr
               (pause_campaigns i (set_release i (\<lambda>r. r\<lparr>rl_status := ''blocked''\<rparr>) t)))))"

section \<open>Campaigns\<close>

record admin_campaign =
  lc_row :: campaign_row
  lc_product_key :: string
  lc_channel_key :: string
  lc_holds :: nat

definition campaign_view :: "rel_db \<Rightarrow> campaign_row \<Rightarrow> admin_campaign option" where
  "campaign_view t c =
     (case (product_key_of (svc t) (ca_product c), channel_key_of (svc t) (ca_channel c)) of
        (Some p, Some k) \<Rightarrow> Some \<lparr>lc_row = c, lc_product_key = p, lc_channel_key = k,
          lc_holds = length (filter (\<lambda>h. ho_campaign h = ca_id c) (holds t))\<rparr>
      | _ \<Rightarrow> None)"

definition campaign_of :: "uuid \<Rightarrow> rel_db \<Rightarrow> campaign_row option" where
  "campaign_of i t = find (\<lambda>c. ca_id c = i) (campaigns t)"

definition read_campaign :: "uuid \<Rightarrow> rel_db \<Rightarrow> admin_campaign option" where
  "read_campaign i t = Option.bind (campaign_of i t) (campaign_view t)"

definition shown_campaign :: "uuid \<Rightarrow> rel_db \<Rightarrow> (admin_error + admin_campaign) \<times> rel_db" where
  "shown_campaign i t = (ok_or (read_campaign i t) AdmCampaignNotFound, t)"

record create_campaign_input =
  ki_operator :: string
  ki_product_key :: string
  ki_release :: uuid
  ki_slug :: string
  ki_channel_key :: string
  ki_ring :: string
  ki_starts :: "time option"
  ki_emergency :: bool
  ki_reason :: string
  ki_corr :: "string option"

definition new_campaign :: "env \<Rightarrow> create_campaign_input \<Rightarrow> uuid \<Rightarrow> uuid \<Rightarrow> campaign_row" where
  "new_campaign e inp pro ch = \<lparr>ca_id = e_id e 0, ca_product = pro, ca_release = ki_release inp,
     ca_slug = ki_slug inp, ca_status = ''draft'', ca_channel = ch, ca_ring = ki_ring inp, ca_rollout = 0,
     ca_emergency = ki_emergency inp, ca_starts = ki_starts inp, ca_completed = None,
     ca_by = ki_operator inp, ca_created = e_now e\<rparr>"

text \<open>The \<^verbatim>\<open>check\<close> constraints of \<^verbatim>\<open>update_campaigns\<close>.\<close>

definition slug_ok :: "string \<Rightarrow> bool" where
  "slug_ok s \<longleftrightarrow> 3 \<le> length s \<and> length s \<le> 80
     \<and> list_all (\<lambda>c. c \<in> set ''abcdefghijklmnopqrstuvwxyz0123456789'') (take 1 s)
     \<and> list_all (\<lambda>c. c \<in> set ''abcdefghijklmnopqrstuvwxyz0123456789_-'') s"

definition campaign_checks :: "campaign_row \<Rightarrow> bool" where
  "campaign_checks c \<longleftrightarrow> slug_ok (ca_slug c) \<and> one_of RINGS (ca_ring c) \<and> 0 \<le> ca_rollout c \<and> ca_rollout c \<le> 100
     \<and> one_of [''draft'', ''active'', ''paused'', ''completed'', ''revoked''] (ca_status c)"

definition record_campaign :: "create_campaign_input \<Rightarrow> campaign_row \<Rightarrow> rel_db \<Rightarrow> rel_db" where
  "record_campaign inp c t =
     release_audit ''update_campaign_created'' (ki_operator inp) None ''update_campaign'' (ca_id c) (ki_reason inp)
       None (Some (JObj [(''campaign_slug'', JStr (ki_slug inp)), (''target_release_id'', JStr (ki_release inp)),
          (''status'', JStr ''draft''), (''rollout_percentage'', JInt 0)])) (ki_corr inp)
     (t\<lparr>campaigns := campaigns t @ [c]\<rparr>)"

definition create_campaign :: "env \<Rightarrow> create_campaign_input \<Rightarrow> rel_db \<Rightarrow> (admin_error + admin_campaign) \<times> rel_db" where
  "create_campaign e inp t =
     (case active_product (ki_product_key inp) (svc t) of
        None \<Rightarrow> (Inl AdmProductNotFound, t)
      | Some p \<Rightarrow>
     (case channel_for (pr_id p) (ki_channel_key inp) (svc t) of
        None \<Rightarrow> (Inl AdmProductNotFound, t)
      | Some ch \<Rightarrow>
     (case release_of (ki_release inp) t of
        None \<Rightarrow> (Inl AdmReleaseNotFound, t)
      | Some r \<Rightarrow>
          (if rl_product r \<noteq> pr_id p
           then (Inl (AdmInvalidState ''campaign release must belong to the product''), t)
           else if one_of [''blocked'', ''retired''] (rl_status r)
           then (Inl (AdmInvalidState ''blocked or retired releases cannot be targeted''), t)
           else let c = new_campaign e inp (pr_id p) (rc_id ch)
             in if \<not> campaign_checks c then (Inl AdmDb, t)
                else case find (\<lambda>x. ca_product x = pr_id p \<and> ca_slug x = ki_slug inp) (campaigns t) of
                  None \<Rightarrow> shown_campaign (ca_id c) (record_campaign inp c t)
                | Some x \<Rightarrow> shown_campaign (ca_id x) t))))"

definition set_campaign :: "uuid \<Rightarrow> (campaign_row \<Rightarrow> campaign_row) \<Rightarrow> rel_db \<Rightarrow> rel_db" where
  "set_campaign i f t = t\<lparr>campaigns := upd (\<lambda>c. ca_id c = i) f (campaigns t)\<rparr>"

definition release_published :: "uuid \<Rightarrow> rel_db \<Rightarrow> bool" where
  "release_published i t \<longleftrightarrow> list_ex (\<lambda>r. rl_id r = i \<and> rl_status r = ''published'') (releases t)"

definition campaign_status_mutation ::
    "string \<Rightarrow> uuid \<Rightarrow> string \<Rightarrow> string \<Rightarrow> string \<Rightarrow> string option \<Rightarrow> rel_db
      \<Rightarrow> (admin_error + admin_campaign) \<times> rel_db" where
  "campaign_status_mutation op i to_status event reason corr t =
     (case campaign_of i t of
        None \<Rightarrow> (Inl AdmCampaignNotFound, t)
      | Some c \<Rightarrow>
          (if ca_status c = to_status then shown_campaign i t
           else if to_status = ''active'' \<and> \<not> release_published (ca_release c) t
           then (Inl (AdmInvalidState ''only campaigns targeting published releases can resume''), t)
           else if ca_status c = ''revoked''
           then (Inl (AdmInvalidState ''revoked campaigns cannot transition''), t)
           else shown_campaign i
             (release_audit event op None ''update_campaign'' i reason (status_json (ca_status c))
               (status_json to_status) corr
               (set_campaign i (\<lambda>c. c\<lparr>ca_status := to_status\<rparr>) t))))"

definition pause_campaign ::
    "string \<Rightarrow> uuid \<Rightarrow> string \<Rightarrow> string option \<Rightarrow> rel_db \<Rightarrow> (admin_error + admin_campaign) \<times> rel_db" where
  "pause_campaign op i = campaign_status_mutation op i ''paused'' ''update_campaign_paused''"

definition resume_campaign ::
    "string \<Rightarrow> uuid \<Rightarrow> string \<Rightarrow> string option \<Rightarrow> rel_db \<Rightarrow> (admin_error + admin_campaign) \<times> rel_db" where
  "resume_campaign op i = campaign_status_mutation op i ''active'' ''update_campaign_resumed''"

definition revoke_campaign ::
    "string \<Rightarrow> uuid \<Rightarrow> string \<Rightarrow> string option \<Rightarrow> rel_db \<Rightarrow> (admin_error + admin_campaign) \<times> rel_db" where
  "revoke_campaign op i = campaign_status_mutation op i ''revoked'' ''update_campaign_revoked''"

definition rollout_json :: "int \<Rightarrow> json option" where
  "rollout_json n = Some (JObj [(''rollout_percentage'', JInt n)])"

definition set_campaign_rollout ::
    "string \<Rightarrow> uuid \<Rightarrow> int \<Rightarrow> string \<Rightarrow> string option \<Rightarrow> rel_db \<Rightarrow> (admin_error + admin_campaign) \<times> rel_db" where
  "set_campaign_rollout op i pct reason corr t =
     (case campaign_of i t of
        None \<Rightarrow> (Inl AdmCampaignNotFound, t)
      | Some c \<Rightarrow>
          (if ca_status c = ''revoked''
           then (Inl (AdmInvalidState ''revoked campaigns cannot change rollout''), t)
           else if ca_rollout c = pct then shown_campaign i t
           else if pct < 0 \<or> 100 < pct then (Inl AdmDb, t)
           else shown_campaign i
             (release_audit ''update_campaign_rollout_changed'' op None ''update_campaign'' i reason
               (rollout_json (ca_rollout c)) (rollout_json pct) corr
               (set_campaign i (\<lambda>c. c\<lparr>ca_rollout := pct\<rparr>) t))))"

section \<open>Holds\<close>

definition hold_json :: "uuid \<Rightarrow> uuid \<Rightarrow> json option" where
  "hold_json campaign fleet = Some (JObj [(''campaign_id'', JStr campaign), (''fleet_id'', JStr fleet)])"

definition on_hold_at :: "uuid \<Rightarrow> uuid \<Rightarrow> hold_row \<Rightarrow> bool" where
  "on_hold_at campaign fleet h \<longleftrightarrow> ho_campaign h = campaign \<and> ho_fleet h = fleet"

text \<open>\<^verbatim>\<open>on conflict (campaign_id, fleet_id) do update\<close>.\<close>

definition upsert_hold :: "env \<Rightarrow> string \<Rightarrow> uuid \<Rightarrow> uuid \<Rightarrow> string \<Rightarrow> rel_db \<Rightarrow> hold_row \<times> rel_db" where
  "upsert_hold e op campaign fleet reason t =
     (case find (on_hold_at campaign fleet) (holds t) of
        Some h \<Rightarrow> (h\<lparr>ho_reason := reason, ho_by := op\<rparr>,
          t\<lparr>holds := upd (on_hold_at campaign fleet) (\<lambda>h. h\<lparr>ho_reason := reason, ho_by := op\<rparr>) (holds t)\<rparr>)
      | None \<Rightarrow> (let h = \<lparr>ho_id = e_id e 0, ho_campaign = campaign, ho_fleet = fleet, ho_reason = reason,
                     ho_by = op, ho_created = e_now e\<rparr>
                 in (h, t\<lparr>holds := holds t @ [h]\<rparr>)))"

definition add_fleet_hold ::
    "env \<Rightarrow> string \<Rightarrow> uuid \<Rightarrow> uuid \<Rightarrow> string \<Rightarrow> string option \<Rightarrow> rel_db \<Rightarrow> (admin_error + hold_row) \<times> rel_db" where
  "add_fleet_hold e op campaign fleet reason corr t =
     (if campaign_of campaign t = None then (Inl AdmCampaignNotFound, t)
      else case live_fleet fleet (svc t) of
        None \<Rightarrow> (Inl AdmFleetNotFound, t)
      | Some f \<Rightarrow>
          (if length (pg_trim reason) < 3 then (Inl AdmDb, t)
           else let (h, t') = upsert_hold e op campaign fleet reason t
             in (Inr h, release_audit ''fleet_hold_added'' op (Some (fl_customer f)) ''update_campaign_hold''
                   (ho_id h) reason None (hold_json campaign fleet) corr t')))"

definition remove_fleet_hold ::
    "string \<Rightarrow> uuid \<Rightarrow> uuid \<Rightarrow> string \<Rightarrow> string option \<Rightarrow> rel_db \<Rightarrow> (admin_error + hold_row) \<times> rel_db" where
  "remove_fleet_hold op campaign fleet reason corr t =
     (case find (on_hold_at campaign fleet) (holds t) of
        None \<Rightarrow> (Inl AdmFleetHoldNotFound, t)
      | Some h \<Rightarrow> (Inr h,
          release_audit ''fleet_hold_removed'' op
            (map_option fl_customer (find (\<lambda>f. fl_id f = fleet) (fleets (svc t)))) ''update_campaign_hold'' (ho_id h)
            reason (hold_json campaign fleet) None corr
            (t\<lparr>holds := filter (\<lambda>h. \<not> on_hold_at campaign fleet h) (holds t)\<rparr>)))"

section \<open>Failures and quarantine\<close>

definition FAILURE_EVENTS :: "string list" where
  "FAILURE_EVENTS = [''post_update_health_failed'', ''failed'', ''recovery_required'']"

text \<open>Each failed update with the fleet its installation is in now.\<close>

definition list_update_failures :: "rel_db \<Rightarrow> (update_event_row \<times> uuid option) list" where
  "list_update_failures t =
     map (\<lambda>v. (v, Option.bind (find (\<lambda>i. Some (in_id i) = uv_installation v) (installations (svc t))) in_fleet))
       (take 200 (order_by (\<lambda>v. - uv_received v)
         (filter (\<lambda>v. one_of FAILURE_EVENTS (uv_type v)) (update_events t))))"

record quarantine_outcome =
  qo_artifact :: uuid
  qo_release :: uuid
  qo_status :: string
  qo_paused :: nat

definition quarantine_artifact ::
    "string \<Rightarrow> uuid \<Rightarrow> string \<Rightarrow> string option \<Rightarrow> rel_db \<Rightarrow> (admin_error + quarantine_outcome) \<times> rel_db" where
  "quarantine_artifact op i reason corr t =
     (case find (\<lambda>a. ar_id a = i) (artifacts t) of
        None \<Rightarrow> (Inl AdmArtifactNotFound, t)
      | Some a \<Rightarrow>
          (let paused = rows_affected (\<lambda>c. ca_release c = ar_release a \<and> ca_status c = ''active'') (campaigns t);
               marked = (if ar_status a \<noteq> ''quarantined''
                 then t\<lparr>artifacts := upd (\<lambda>x. ar_id x = i) (\<lambda>x. x\<lparr>ar_status := ''quarantined''\<rparr>) (artifacts t)\<rparr>
                 else t)
           in (Inr \<lparr>qo_artifact = i, qo_release = ar_release a, qo_status = ''quarantined'', qo_paused = paused\<rparr>,
               release_audit ''release_artifact_quarantined'' op None ''release_artifact'' i reason
                 (status_json (ar_status a))
                 (Some (JObj [(''status'', JStr ''quarantined''), (''paused_campaigns'', JInt (int paused))])) corr
                 (pause_campaigns (ar_release a) marked))))"

section \<open>The audit trail\<close>

record audit_filter =
  xf_customer :: "uuid option"
  xf_event :: "string option"
  xf_limit :: int

text \<open>The trail is kept oldest first; an operator reads it newest first.\<close>

definition list_audit_events :: "audit_filter \<Rightarrow> db \<Rightarrow> audit_row list" where
  "list_audit_events f d = take (nat (xf_limit f)) (rev (filter (\<lambda>a.
     (case xf_customer f of None \<Rightarrow> True | Some c \<Rightarrow> au_customer a = Some c)
     \<and> (case xf_event f of None \<Rightarrow> True | Some ev \<Rightarrow> au_event a = ev)) (audits d)))"

end
