(* ===== verification/Http_Util.thy ===== *)
theory Http_Util
  imports Auth Customer_Admin Commercial_Policy Stripe_Events Usage_Ledger Entitlements Update_Rules Commerce
begin

text \<open>
  What the handlers of \<^verbatim>\<open>api/src/routes\<close> share: headers, path ids, timestamps and keys of a
  request, and the mapping of every repository error to the error contract. \<open>hs\<close> gives a
  header's value where it is visible ASCII; \<open>up\<close> is \<^verbatim>\<open>Uuid::parse_str\<close> and \<open>rfc\<close> chrono's RFC 3339
  parser, both from crates.
\<close>

type_synonym headers = "string \<Rightarrow> string option"

section \<open>Reading a request\<close>

definition field_detail :: "string \<Rightarrow> json" where
  "field_detail f = JObj [(''field'', JStr f)]"

definition map_err :: "('e \<Rightarrow> 'f) \<Rightarrow> 'e + 'a \<Rightarrow> 'f + 'a" where
  "map_err f r = (case r of Inl e \<Rightarrow> Inl (f e) | Inr a \<Rightarrow> Inr a)"

lemma map_err_simps [simp]: "map_err f (Inl e) = Inl (f e)" "map_err f (Inr a) = Inr a"
  by (simp_all add: map_err_def)

lemma map_err_eq_Inr [simp]: "map_err f r = Inr a \<longleftrightarrow> r = Inr a"
  by (cases r) simp_all

text \<open>
  A handler runs \<^verbatim>\<open>?\<close> on every check before it calls a repository: a failed check ends it with the
  state it found.
\<close>

definition checked :: "'e + 'a \<Rightarrow> ('a \<Rightarrow> 's \<Rightarrow> ('e + 'b) \<times> 's) \<Rightarrow> 's \<Rightarrow> ('e + 'b) \<times> 's" where
  "checked r f s = (case r of Inl err \<Rightarrow> (Inl err, s) | Inr a \<Rightarrow> f a s)"

lemma checked_simps [simp]: "checked (Inl err) f s = (Inl err, s)" "checked (Inr a) f s = f a s"
  by (simp_all add: checked_def)

lemma checked_Inr: "checked r f s = (Inr b, s') \<longleftrightarrow> (\<exists>a. r = Inr a \<and> f a s = (Inr b, s'))"
  by (cases r) simp_all

definition answered :: "('e \<Rightarrow> 'f) \<Rightarrow> ('a \<Rightarrow> 'b) \<Rightarrow> ('e + 'a) \<times> 's \<Rightarrow> ('f + 'b) \<times> 's" where
  "answered err ok x = (case x of (r, s) \<Rightarrow> (case r of Inl e \<Rightarrow> Inl (err e) | Inr a \<Rightarrow> Inr (ok a), s))"

lemma answered_simps [simp]:
  "answered err ok (Inl e, s) = (Inl (err e), s)" "answered err ok (Inr a, s) = (Inr (ok a), s)"
  "snd (answered err ok x) = snd x"
  by (simp_all add: answered_def split: prod.split)

lemma answered_Inr: "answered err ok x = (Inr b, s) \<longleftrightarrow> (\<exists>a. x = (Inr a, s) \<and> b = ok a)"
  by (auto simp: answered_def split: prod.splits sum.splits)

definition idempotency_key :: "headers \<Rightarrow> string option" where
  "idempotency_key hs = trim_opt (hs ''idempotency-key'')"

definition parse_path_id :: "(string \<Rightarrow> uuid option) \<Rightarrow> string \<Rightarrow> app_error + uuid" where
  "parse_path_id up raw = ok_or (up raw) (bad_request ''Path id must be a UUID.'')"

definition required_header :: "headers \<Rightarrow> string \<Rightarrow> app_error + string" where
  "required_header hs name = ok_or (trim_opt (hs name))
     (with_details (field_detail name) (bad_request (name @ '' header is required.'')))"

definition optional_header :: "headers \<Rightarrow> string \<Rightarrow> string option" where
  "optional_header hs name = trim_opt (hs name)"

definition parse_uuid_header :: "(string \<Rightarrow> uuid option) \<Rightarrow> string \<Rightarrow> string \<Rightarrow> app_error + uuid" where
  "parse_uuid_header up value field = ok_or (up value)
     (with_details (field_detail field) (bad_request ''header must be a UUID''))"

definition parse_rfc3339 :: "(string \<Rightarrow> time option) \<Rightarrow> string option \<Rightarrow> string \<Rightarrow> app_error + time option" where
  "parse_rfc3339 rfc value field =
     (case trim_opt value of
        None \<Rightarrow> Inr None
      | Some raw \<Rightarrow> (case rfc raw of
            Some t \<Rightarrow> Inr (Some t)
          | None \<Rightarrow> Inl (with_details (field_detail field) (validation ''must be an RFC 3339 timestamp''))))"

section \<open>Validation errors\<close>

definition installation_validation_error :: "verr \<Rightarrow> app_error" where
  "installation_validation_error err = with_details (field_detail (fst err)) (validation (snd err))"

definition update_validation_error :: "verr \<Rightarrow> app_error" where
  "update_validation_error err = with_details (field_detail (fst err)) (validation (snd err))"

definition admin_validation_error :: "verr \<Rightarrow> app_error" where
  "admin_validation_error err = with_details (field_detail (fst err)) (validation (snd err))"

text \<open>The key and amount cleaners return a message; the handler names the field.\<close>

definition message_error :: "string \<Rightarrow> string \<Rightarrow> app_error" where
  "message_error field msg = with_details (field_detail field) (validation msg)"

definition clean_meter_key :: "string \<Rightarrow> app_error + string" where
  "clean_meter_key value = map_err (message_error ''meter_key'') (clean_entitlement_key value)"

definition clean_amount :: "f64 \<Rightarrow> app_error + f64" where
  "clean_amount value = map_err (message_error ''amount'') (clean_usage_amount value)"

definition clean_optional_update_version :: "string option \<Rightarrow> string \<Rightarrow> app_error + string option" where
  "clean_optional_update_version value field =
     map_err (\<lambda>err. with_details (field_detail field) (validation (snd err))) (clean_app_version value)"

definition clean_public_release_channel :: "string option \<Rightarrow> app_error + string" where
  "clean_public_release_channel value =
     map_err admin_validation_error (clean_release_channel_key (unwrap_or value ''stable''))"

text \<open>\<^verbatim>\<open>routes/entitlements.rs\<close>: the product defaults to AuthorForge.\<close>

definition clean_route_product :: "string option \<Rightarrow> app_error + string" where
  "clean_route_product value =
     (case trim_opt value of
        None \<Rightarrow> Inr ''authorforge''
      | Some v \<Rightarrow> (if 120 < length v \<or> \<not> chars_ok ''_'' v
          then Inl (with_details (field_detail ''product_key'')
             (validation ''product_key must contain only letters, numbers, and underscores''))
          else Inr v))"

text \<open>An optional text whose blank value counts as absent.\<close>

definition clean_opt :: "(string \<Rightarrow> app_error + 'a) \<Rightarrow> string option \<Rightarrow> app_error + 'a option" where
  "clean_opt f value = (case value of None \<Rightarrow> Inr None | Some v \<Rightarrow> bind_r (f v) (\<lambda>a. Inr (Some a)))"

definition parse_id :: "(string \<Rightarrow> uuid option) \<Rightarrow> string \<Rightarrow> string \<Rightarrow> app_error + uuid" where
  "parse_id up raw field =
     ok_or (up (trim raw)) (with_details (field_detail field) (validation ''must be a UUID''))"

section \<open>Repository errors\<close>

fun registration_app_error :: "registration_error \<Rightarrow> app_error" where
  "registration_app_error UnknownProduct = not_found ''Unknown or inactive product.''"
| "registration_app_error ProductMismatch =
     app_err Conflict ''This install key is already registered for a different product.''"
| "registration_app_error RegDb = db_app_error"

fun activation_app_error :: "activation_error \<Rightarrow> app_error" where
  "activation_app_error InstallationNotFound = not_found ''Installation not found.''"
| "activation_app_error InstallationDeactivated =
     app_err Conflict ''Installation is deactivated; register it again before activating.''"
| "activation_app_error LicenseNotFound = not_found ''License not found.''"
| "activation_app_error NoActiveLicense = not_found ''No active license covers this product.''"
| "activation_app_error (LicenseNotActive status) =
     with_details (JObj [(''license_status'', JStr status)]) (forbidden ''License is not active.'')"
| "activation_app_error RevocationBlocked =
     app_err Revoked ''Activation is blocked by an explicit revocation.''"
| "activation_app_error (DeviceLimitReached limit used) =
     with_details (JObj [(''device_limit'', JInt limit), (''active_devices'', JInt used)])
       (app_err DeviceLimit ''Device limit reached; deactivate another installation to free a slot.'')"
| "activation_app_error ActDb = db_app_error"

fun deletion_app_error :: "deletion_error \<Rightarrow> app_error" where
  "deletion_app_error DelNotFound = not_found ''Deletion request not found.''"
| "deletion_app_error (InvalidState status) =
     with_details (JObj [(''request_status'', JStr status)])
       (app_err Conflict ''The deletion request is not in a state that allows this transition.'')"
| "deletion_app_error CoolingOffActive = app_err Conflict ''The cooling-off period has not elapsed yet.''"
| "deletion_app_error SubscriptionStillActive = app_err Conflict
     (''Cancel the customer'' @ squote @ ''s subscriptions at Stripe (and resync) before executing deletion.'')"
| "deletion_app_error DelDb = db_app_error"

fun usage_app_error :: "usage_error \<Rightarrow> app_error" where
  "usage_app_error MeterNotFound = not_found ''Unknown usage meter.''"
| "usage_app_error ReservationNotFound = not_found ''Reservation not found.''"
| "usage_app_error (ReservationNotCommittable status) =
     with_details (JObj [(''reservation_status'', JStr status)])
       (app_err Conflict ''Reservation can no longer be committed.'')"
| "usage_app_error UsageDb = db_app_error"

text \<open>\<open>why\<close> is the text a decision gives as its reason.\<close>

definition quota_exceeded :: "(quota_reason \<Rightarrow> string) \<Rightarrow> denied_decision \<Rightarrow> app_error" where
  "quota_exceeded why dn = with_details (JObj [
       (''reason'', JStr (why (dn_reason dn))),
       (''limit'', jopt json_f64 (dn_limit dn)), (''used'', json_f64 (dn_used dn)),
       (''reserved'', json_f64 (dn_reserved dn)), (''remaining_before'', json_f64 (dn_remaining dn))])
     (app_err QuotaExceeded ''The requested amount exceeds the remaining quota.'')"

fun lease_app_error :: "lease_error \<Rightarrow> app_error" where
  "lease_app_error LeaseInstallationNotFound = not_found ''Installation not found.''"
| "lease_app_error LeaseInstallationDeactivated =
     app_err Conflict ''Installation is deactivated; register it again first.''"
| "lease_app_error NoActiveActivation =
     app_err Conflict ''Installation has no active license activation; activate it first.''"
| "lease_app_error (LeaseLicenseNotActive status) =
     with_details (JObj [(''license_status'', JStr status)]) (forbidden ''License is not active; no new lease.'')"
| "lease_app_error LeaseRevocationBlocked =
     app_err Revoked ''Lease issuance is blocked by an explicit revocation.''"

fun admin_app_error :: "admin_error \<Rightarrow> app_error" where
  "admin_app_error AdmCustomerNotFound = not_found ''Customer not found.''"
| "admin_app_error AdmProductNotFound = not_found ''Unknown or inactive product.''"
| "admin_app_error AdmFleetNotFound = not_found ''Fleet not found.''"
| "admin_app_error AdmReleaseNotFound = not_found ''Release not found.''"
| "admin_app_error AdmCampaignNotFound = not_found ''Update campaign not found.''"
| "admin_app_error AdmArtifactNotFound = not_found ''Release artifact not found.''"
| "admin_app_error AdmFleetHoldNotFound = not_found ''Fleet hold not found.''"
| "admin_app_error (AdmInvalidState msg) = app_err Conflict msg"
| "admin_app_error AdmLicenseNotFound = not_found ''License not found.''"
| "admin_app_error AdmMeterNotFound = not_found ''Unknown usage meter.''"
| "admin_app_error AdmDb = db_app_error"

fun policy_app_error :: "policy_error \<Rightarrow> app_error" where
  "policy_app_error PolicyProductNotFound = not_found ''AuthorForge product not found.''"
| "policy_app_error NoActivePolicy = not_found ''No active AuthorForge commercial policy exists.''"
| "policy_app_error VersionConflict =
     app_err Conflict ''The global commercial policy changed; refresh and review the active version.''"
| "policy_app_error EffectiveAtInPast = validation ''effective_at must not be more than five minutes in the past''"
| "policy_app_error (PolicyInvalid msg) = validation (''invalid commercial policy: '' @ msg)"
| "policy_app_error PolicyDb = db_app_error"

section \<open>Stripe\<close>

definition reason_detail :: "string \<Rightarrow> json" where
  "reason_detail msg = JObj [(''reason'', JStr msg)]"

fun webhook_error_text :: "webhook_error \<Rightarrow> string" where
  "webhook_error_text MalformedHeader = ''malformed Stripe-Signature header''"
| "webhook_error_text TimestampOutOfTolerance = ''signature timestamp outside tolerance''"
| "webhook_error_text NoMatch = ''no matching signature''"
| "webhook_error_text SigNotConfigured = ''webhook secret not configured''"

definition stripe_webhook_app_error :: "webhook_error \<Rightarrow> app_error" where
  "stripe_webhook_app_error err =
     (if err = SigNotConfigured then app_err Internal ''Stripe webhook verification is not configured.''
      else with_details (reason_detail (webhook_error_text err)) (bad_request ''Invalid Stripe webhook signature.''))"

fun event_error_text :: "stripe_event_error \<Rightarrow> string" where
  "event_error_text MalformedPayload = ''malformed Stripe event payload''"
| "event_error_text MissingEventId = ''missing Stripe event id''"
| "event_error_text MissingEventType = ''missing Stripe event type''"

definition stripe_event_app_error :: "stripe_event_error \<Rightarrow> app_error" where
  "stripe_event_app_error err =
     with_details (reason_detail (event_error_text err)) (bad_request ''Malformed Stripe event payload.'')"

fun checkout_app_error :: "checkout_error \<Rightarrow> app_error" where
  "checkout_app_error CheckoutNotConfigured = app_err Internal ''Stripe Checkout is not configured.''"
| "checkout_app_error (CheckoutApiStatus n) =
     with_details (reason_detail (''Stripe Checkout returned status '' @ show_int n))
       (app_err ServiceUnavailable ''Stripe Checkout is currently unavailable.'')"
| "checkout_app_error (CheckoutTransport msg) =
     with_details (reason_detail (''Stripe transport error: '' @ msg))
       (app_err ServiceUnavailable ''Stripe Checkout is currently unavailable.'')"
| "checkout_app_error MissingSessionId = internal ''Stripe Checkout returned an incomplete response.''"
| "checkout_app_error MissingCheckoutUrl = internal ''Stripe Checkout returned an incomplete response.''"

definition stripe_apply_app_error :: "apply_error \<Rightarrow> app_error" where
  "stripe_apply_app_error err = app_err ServiceUnavailable ''Stripe webhook event could not be applied.''"

fun fetch_app_error :: "subscription_fetch_error \<Rightarrow> app_error" where
  "fetch_app_error FetchNotConfigured = app_err Internal ''Stripe API access is not configured.''"
| "fetch_app_error (FetchApiStatus n) =
     (if n = 404 then not_found ''Stripe no longer knows this subscription.''
      else with_details (reason_detail (''Stripe subscriptions API returned status '' @ show_int n))
        (app_err ServiceUnavailable ''Stripe is currently unavailable for resync.''))"
| "fetch_app_error (FetchTransport msg) =
     with_details (reason_detail (''Stripe transport error: '' @ msg))
       (app_err ServiceUnavailable ''Stripe is currently unavailable for resync.'')"
| "fetch_app_error FetchMalformedResponse = internal ''Stripe returned an unusable subscription payload.''"

end
