(* ===== verification/Update_Lookup.thy ===== *)
theory Update_Lookup
  imports Releases Http_Util
begin

text \<open>
  \<^verbatim>\<open>api/src/repositories/updates.rs\<close> and the update handlers of \<^verbatim>\<open>routes/mod.rs\<close>: the campaign lookup of
  an installation, the offer it is made, the ticket behind an offer, the public release and
  download reads, and the receipts an updater reports with its ticket.
\<close>

section \<open>Candidates\<close>

record candidate =
  cd_campaign :: uuid
  cd_release :: uuid
  cd_version :: string
  cd_build :: string
  cd_changelog :: "string option"
  cd_published :: "time option"
  cd_min_supported :: "string option"
  cd_min_updater :: "string option"
  cd_storage :: string
  cd_signature :: "string option"
  cd_rollout :: int

record lookup_input =
  lu_customer :: uuid
  lu_installation :: uuid
  lu_product :: string
  lu_platform :: string
  lu_arch :: string
  lu_format :: string

definition candidate_of :: "campaign_row \<times> release_row \<times> artifact_row \<Rightarrow> candidate" where
  "candidate_of x = (case x of (c, r, a) \<Rightarrow>
     \<lparr>cd_campaign = ca_id c, cd_release = rl_id r, cd_version = rl_version r, cd_build = rl_build r,
      cd_changelog = rl_changelog r, cd_published = rl_published r, cd_min_supported = rl_min_supported r,
      cd_min_updater = rl_min_updater r, cd_storage = ar_storage a, cd_signature = ar_signature a,
      cd_rollout = ca_rollout c\<rparr>)"

text \<open>The fleet application that targets the installation, with its fleet's id and its product's.\<close>

definition targets :: "lookup_input \<Rightarrow> db \<Rightarrow> (uuid \<times> uuid \<times> fleet_app_row) list" where
  "targets inp d = [(fl_id f, pr_id p, fa).
     i \<leftarrow> installations d, in_id i = lu_installation inp \<and> in_customer i = lu_customer inp \<and> in_status i = ''active'',
     f \<leftarrow> fleets d, Some (fl_id f) = in_fleet i \<and> fl_customer f = in_customer i \<and> fl_status f = ''active'',
     p \<leftarrow> products d, pr_key p = lu_product inp \<and> pr_status p = ''active'',
     fa \<leftarrow> fleet_apps d, fa_fleet fa = fl_id f \<and> fa_product fa = pr_id p \<and> fa_status fa = ''active'']"

definition campaign_targets :: "time \<Rightarrow> uuid \<Rightarrow> fleet_app_row \<Rightarrow> campaign_row \<Rightarrow> bool" where
  "campaign_targets now pro fa c \<longleftrightarrow> ca_product c = pro \<and> fa_channel fa = Some (ca_channel c)
     \<and> ca_ring c = fa_ring fa \<and> ca_status c = ''active''
     \<and> (case ca_starts c of None \<Rightarrow> True | Some s \<Rightarrow> s \<le> now)"

definition release_targets :: "campaign_row \<Rightarrow> uuid \<Rightarrow> release_row \<Rightarrow> bool" where
  "release_targets c pro r \<longleftrightarrow> rl_id r = ca_release c \<and> rl_product r = pro \<and> rl_channel r = ca_channel c
     \<and> rl_status r = ''published''"

definition artifact_fits :: "lookup_input \<Rightarrow> release_row \<Rightarrow> artifact_row \<Rightarrow> bool" where
  "artifact_fits inp r a \<longleftrightarrow> ar_release a = rl_id r \<and> ar_status a = ''validated'' \<and> ar_role a = ''updater''
     \<and> ar_platform a = lu_platform inp \<and> ar_arch a = lu_arch inp \<and> ar_format a = lu_format inp"

definition matching_rows ::
    "time \<Rightarrow> lookup_input \<Rightarrow> rel_db \<Rightarrow> (campaign_row \<times> release_row \<times> artifact_row) list" where
  "matching_rows now inp t = [(c, r, a).
     (fleet, pro, fa) \<leftarrow> targets inp (svc t),
     c \<leftarrow> campaigns t, campaign_targets now pro fa c \<and> \<not> list_ex (on_hold_at (ca_id c) fleet) (holds t),
     r \<leftarrow> releases t, release_targets c pro r,
     a \<leftarrow> artifacts t, artifact_fits inp r a]"

definition candidate_rows :: "time \<Rightarrow> lookup_input \<Rightarrow> rel_db \<Rightarrow> candidate list" where
  "candidate_rows now inp t = map candidate_of
     (take 20 (order_by (\<lambda>(c, _, _). (\<not> ca_emergency c, - ca_created c)) (matching_rows now inp t)))"

section \<open>Tickets\<close>

definition same_ticket :: "uuid \<Rightarrow> uuid \<Rightarrow> uuid \<Rightarrow> ticket_row \<Rightarrow> bool" where
  "same_ticket inst campaign rel x \<longleftrightarrow> ti_installation x = inst \<and> ti_campaign x = campaign \<and> ti_release x = rel"

text \<open>One hour from now; the token of a combination stays.\<close>

definition issue_update_ticket :: "env \<Rightarrow> uuid \<Rightarrow> uuid \<Rightarrow> uuid \<Rightarrow> rel_db \<Rightarrow> uuid \<times> rel_db" where
  "issue_update_ticket e inst campaign rel t =
     (let until = e_now e + secs 3600
      in case find (same_ticket inst campaign rel) (tickets t) of
        Some x \<Rightarrow> (ti_token x, t\<lparr>tickets := upd (same_ticket inst campaign rel)
          (\<lambda>x. x\<lparr>ti_expires := until, ti_issued := e_now e\<rparr>) (tickets t)\<rparr>)
      | None \<Rightarrow> (e_id e 0, t\<lparr>tickets := tickets t @
          [\<lparr>ti_token = e_id e 0, ti_installation = inst, ti_campaign = campaign, ti_release = rel,
            ti_expires = until, ti_issued = e_now e\<rparr>]\<rparr>))"

section \<open>Public reads\<close>

record public_release =
  ub_product_key :: string
  ub_version :: string
  ub_build :: string
  ub_channel_key :: string
  ub_notes :: "string option"
  ub_published :: "time option"

text \<open>\<^verbatim>\<open>published_at desc nulls last, created_at desc\<close>.\<close>

definition newest_key :: "release_row \<Rightarrow> bool \<times> time \<times> time" where
  "newest_key r = (rl_published r = None, - unwrap_or (rl_published r) 0, - rl_created r)"

definition public_releases :: "string \<Rightarrow> string \<Rightarrow> rel_db \<Rightarrow> release_row list" where
  "public_releases product_key channel_key t = filter (\<lambda>r. rl_status r = ''published''
     \<and> list_ex (\<lambda>p. pr_id p = rl_product r \<and> pr_key p = product_key \<and> pr_status p = ''active'') (products (svc t))
     \<and> list_ex (\<lambda>c. rc_id c = rl_channel r \<and> rc_key c = channel_key) (channels (svc t))) (releases t)"

definition latest_published_release :: "string \<Rightarrow> string \<Rightarrow> rel_db \<Rightarrow> public_release option" where
  "latest_published_release product_key channel_key t =
     map_option (\<lambda>r. \<lparr>ub_product_key = product_key, ub_version = rl_version r, ub_build = rl_build r,
         ub_channel_key = channel_key, ub_notes = rl_changelog r, ub_published = rl_published r\<rparr>)
       (first_by newest_key (public_releases product_key channel_key t))"

record bootstrap_row =
  bo_product_key :: string
  bo_channel_key :: string
  bo_release :: release_row
  bo_artifact :: artifact_row

record bootstrap_input =
  bi_product_key :: string
  bi_channel_key :: string
  bi_platform :: string
  bi_arch :: string
  bi_format :: "string option"

definition bootstrap_fits :: "bootstrap_input \<Rightarrow> artifact_row \<Rightarrow> bool" where
  "bootstrap_fits inp a \<longleftrightarrow> ar_status a = ''validated'' \<and> ar_role a = ''bootstrap''
     \<and> ar_platform a = bi_platform inp \<and> ar_arch a = bi_arch inp
     \<and> (case bi_format inp of None \<Rightarrow> True | Some f \<Rightarrow> ar_format a = f)"

text \<open>\<open>rank\<close> is the order of package formats under the database's collation.\<close>

definition bootstrap_download :: "(string \<Rightarrow> nat) \<Rightarrow> bootstrap_input \<Rightarrow> rel_db \<Rightarrow> bootstrap_row option" where
  "bootstrap_download rank inp t =
     map_option (\<lambda>(r, a). \<lparr>bo_product_key = bi_product_key inp, bo_channel_key = bi_channel_key inp,
         bo_release = r, bo_artifact = a\<rparr>)
       (first_by (\<lambda>(r, a). (newest_key r, rank (ar_format a)))
         [(r, a). r \<leftarrow> public_releases (bi_product_key inp) (bi_channel_key inp) t,
            a \<leftarrow> artifacts_of (rl_id r) t, bootstrap_fits inp a])"

section \<open>Receipts\<close>

datatype update_event_error = EventInstallationNotFound | InvalidUpdateTicket | EventDb

record update_event_input =
  ei_event :: uuid
  ei_customer :: uuid
  ei_installation :: uuid
  ei_ticket :: uuid
  ei_type :: string
  ei_code :: "string option"
  ei_class :: "string option"
  ei_occurred :: time

record update_receipt =
  ur_event :: uuid
  ur_type :: string
  ur_received :: bool

definition live_ticket :: "env \<Rightarrow> update_event_input \<Rightarrow> rel_db \<Rightarrow> ticket_row option" where
  "live_ticket e inp t = find (\<lambda>x. ti_token x = ei_ticket inp \<and> ti_installation x = ei_installation inp
     \<and> e_now e < ti_expires x) (tickets t)"

definition update_event_of :: "env \<Rightarrow> update_event_input \<Rightarrow> ticket_row \<Rightarrow> update_event_row" where
  "update_event_of e inp x = \<lparr>uv_id = ei_event inp, uv_installation = Some (ei_installation inp),
     uv_campaign = Some (ti_campaign x), uv_release = Some (ti_release x), uv_ticket = Some (ei_ticket inp),
     uv_type = ei_type inp, uv_code = ei_code inp, uv_class = ei_class inp, uv_from = None, uv_to = None,
     uv_occurred = ei_occurred inp, uv_received = e_now e\<rparr>"

definition record_update_event ::
    "env \<Rightarrow> update_event_input \<Rightarrow> rel_db \<Rightarrow> (update_event_error + update_receipt) \<times> rel_db" where
  "record_update_event e inp t =
     (if \<not> list_ex (\<lambda>i. in_id i = ei_installation inp \<and> in_customer i = ei_customer inp) (installations (svc t))
      then (Inl EventInstallationNotFound, t)
      else case live_ticket e inp t of
        None \<Rightarrow> (Inl InvalidUpdateTicket, t)
      | Some x \<Rightarrow>
          (if \<not> one_of UPDATE_EVENT_TYPES (ei_type inp) then (Inl EventDb, t)
           else let seen = list_ex (\<lambda>v. uv_id v = ei_event inp) (update_events t)
             in (Inr \<lparr>ur_event = ei_event inp, ur_type = ei_type inp, ur_received = \<not> seen\<rparr>,
                 if seen then t else t\<lparr>update_events := update_events t @ [update_event_of e inp x]\<rparr>)))"

section \<open>The update check\<close>

text \<open>\<^verbatim>\<open>config.update_rollout_secret\<close> and \<^verbatim>\<open>config.release_artifact_base_url\<close>.\<close>

record update_config =
  uc_secret :: string
  uc_base :: string

definition artifact_url :: "string \<Rightarrow> string \<Rightarrow> app_error + string" where
  "artifact_url base_url storage_key =
     (let key = trim storage_key
      in if starts_with ''https://'' key \<or> starts_with ''http://'' key then Inr key
         else let base = trim base_url
           in if base = [] then Inl (app_err ServiceUnavailable ''Release artifact URL base is not configured.'')
              else Inr (trim_slashes base @ ''/'' @ dropWhile (\<lambda>c. c = CHR ''/'') key))"

record tauri_response =
  tr_version :: string
  tr_url :: string
  tr_signature :: string
  tr_notes :: "string option"
  tr_pub_date :: string
  tr_ticket :: uuid

record update_query =
  qu_lookup :: lookup_input
  qu_version :: string
  qu_updater :: "string option"
  qu_build :: "string option"

definition parse_update_check ::
    "(string \<Rightarrow> uuid option) \<Rightarrow> update_config \<Rightarrow> time \<Rightarrow> customer_context \<Rightarrow> headers \<Rightarrow> string \<times> string \<times> string
      \<Rightarrow> app_error + update_query" where
  "parse_update_check up cfg now x hs path = (case path of (target, arch, version) \<Rightarrow>
     bind_r (require_active now x) (\<lambda>customer.
     if trim (uc_secret cfg) = []
     then Inl (app_err ServiceUnavailable ''Update rollout secret is not configured.'')
     else
     bind_r (required_header hs ''x-forge-installation-id'') (\<lambda>raw.
     bind_r (parse_uuid_header up raw ''x-forge-installation-id'') (\<lambda>inst.
     bind_r (map_err update_validation_error
       (clean_update_failure_code (optional_header hs ''x-forge-build-id'') ''x-forge-build-id'')) (\<lambda>build.
     bind_r (clean_optional_update_version (optional_header hs ''x-forge-updater-version'')
       ''x-forge-updater-version'') (\<lambda>updater.
     bind_r (map_err update_validation_error
       (clean_update_package_format (optional_header hs ''x-forge-package-format''))) (\<lambda>pkg.
     bind_r (map_err update_validation_error (clean_update_platform target)) (\<lambda>platform.
     bind_r (map_err update_validation_error (clean_update_architecture arch)) (\<lambda>architecture.
     bind_r (bind_r (clean_optional_update_version (Some version) ''current_version'') (\<lambda>v.
       ok_or v (with_details (field_detail ''current_version'') (validation ''current_version is required''))))
       (\<lambda>current.
       Inr \<lparr>qu_lookup = \<lparr>lu_customer = customer, lu_installation = inst, lu_product = ''authorforge'',
              lu_platform = platform, lu_arch = architecture, lu_format = pkg\<rparr>,
            qu_version = current, qu_updater = updater, qu_build = build\<rparr>))))))))))"

text \<open>The signature and publication of a candidate this installation can take, rollout apart.\<close>

definition offerable :: "update_query \<Rightarrow> candidate \<Rightarrow> (string \<times> time) option" where
  "offerable q c =
     (case (trim_opt (cd_signature c), cd_published c) of
        (Some sign, Some pub) \<Rightarrow>
          (if version_greater (cd_version c) (qu_version q)
              \<and> (case cd_min_supported c of None \<Rightarrow> True | Some m \<Rightarrow> version_at_least (qu_version q) m)
              \<and> (case cd_min_updater c of None \<Rightarrow> True
                 | Some m \<Rightarrow> (case qu_updater q of None \<Rightarrow> False | Some u \<Rightarrow> version_at_least u m))
              \<and> qu_build q \<noteq> Some (cd_build c)
           then Some (sign, pub) else None)
      | _ \<Rightarrow> None)"

definition tauri_of :: "(time \<Rightarrow> string) \<Rightarrow> candidate \<Rightarrow> string \<Rightarrow> time \<Rightarrow> string \<Rightarrow> uuid \<Rightarrow> tauri_response" where
  "tauri_of rfc3339 c sign pub url ticket = \<lparr>tr_version = cd_version c, tr_url = url, tr_signature = sign,
     tr_notes = cd_changelog c, tr_pub_date = rfc3339 pub, tr_ticket = ticket\<rparr>"

fun offer_loop ::
    "(string \<Rightarrow> string \<Rightarrow> string option) \<Rightarrow> (time \<Rightarrow> string) \<Rightarrow> update_config \<Rightarrow> env \<Rightarrow> update_query \<Rightarrow> candidate list
      \<Rightarrow> rel_db \<Rightarrow> (app_error + tauri_response option) \<times> rel_db" where
  "offer_loop hmac rfc3339 cfg e q [] t = (Inr None, t)"
| "offer_loop hmac rfc3339 cfg e q (c # cs) t =
     (let inst = lu_installation (qu_lookup q)
      in case offerable q c of
        None \<Rightarrow> offer_loop hmac rfc3339 cfg e q cs t
      | Some (sign, pub) \<Rightarrow>
          (case rollout_allows hmac (trim (uc_secret cfg)) (cd_campaign c) inst (cd_rollout c) of
             Inl err \<Rightarrow> (Inl (update_validation_error err), t)
           | Inr allowed \<Rightarrow>
               (if \<not> allowed then offer_loop hmac rfc3339 cfg e q cs t
                else let (ticket, t') = issue_update_ticket e inst (cd_campaign c) (cd_release c) t
                  in (bind_r (artifact_url (uc_base cfg) (cd_storage c)) (\<lambda>url.
                        Inr (Some (tauri_of rfc3339 c sign pub url ticket))), t'))))"

text \<open>\<open>None\<close> is the answer 204 No Content.\<close>

definition authorforge_update_check ::
    "(string \<Rightarrow> uuid option) \<Rightarrow> (string \<Rightarrow> string \<Rightarrow> string option) \<Rightarrow> (time \<Rightarrow> string) \<Rightarrow> update_config \<Rightarrow> env
      \<Rightarrow> customer_context \<Rightarrow> headers \<Rightarrow> string \<times> string \<times> string \<Rightarrow> rel_db
      \<Rightarrow> (app_error + tauri_response option) \<times> rel_db" where
  "authorforge_update_check up hmac rfc3339 cfg e x hs path t =
     (case parse_update_check up cfg (e_utc e 0) x hs path of
        Inl err \<Rightarrow> (Inl err, t)
      | Inr q \<Rightarrow> offer_loop hmac rfc3339 cfg e q (candidate_rows (e_now e) (qu_lookup q) t) t)"

section \<open>The receipt and the public reads\<close>

fun update_event_app_error :: "update_event_error \<Rightarrow> app_error" where
  "update_event_app_error EventInstallationNotFound = not_found ''Installation not found.''"
| "update_event_app_error InvalidUpdateTicket = app_err Conflict
     ''Update ticket is invalid, expired, or does not belong to this installation.''"
| "update_event_app_error EventDb = db_app_error"

record update_event_request =
  eq_ticket :: uuid
  eq_type :: string
  eq_code :: "string option"
  eq_class :: "string option"
  eq_occurred :: "string option"

definition parse_update_event ::
    "(string \<Rightarrow> uuid option) \<Rightarrow> (string \<Rightarrow> time option) \<Rightarrow> env \<Rightarrow> customer_context \<Rightarrow> headers \<Rightarrow> string
      \<Rightarrow> update_event_request \<Rightarrow> app_error + update_event_input" where
  "parse_update_event up rfc e x hs path req =
     bind_r (require_active (e_utc e 0) x) (\<lambda>customer.
     bind_r (parse_path_id up path) (\<lambda>inst.
     bind_r (ok_or (idempotency_key hs) (bad_request ''Update events require an Idempotency-Key header.'')) (\<lambda>raw.
     bind_r (ok_or (up raw) (with_details (field_detail ''idempotency-key'')
       (bad_request ''Idempotency-Key must be the update event UUID.''))) (\<lambda>event.
     bind_r (map_err update_validation_error (clean_update_event_type (eq_type req))) (\<lambda>ty.
     bind_r (map_err update_validation_error (clean_update_failure_code (eq_code req) ''failure_code'')) (\<lambda>code.
     bind_r (map_err update_validation_error (clean_update_failure_code (eq_class req) ''failure_class'')) (\<lambda>cls.
     bind_r (parse_rfc3339 rfc (eq_occurred req) ''occurred_at'') (\<lambda>occurred.
       Inr \<lparr>ei_event = event, ei_customer = customer, ei_installation = inst, ei_ticket = eq_ticket req,
            ei_type = ty, ei_code = code, ei_class = cls,
            ei_occurred = unwrap_or occurred (e_utc e 1)\<rparr>))))))))"

definition installation_update_event ::
    "(string \<Rightarrow> uuid option) \<Rightarrow> (string \<Rightarrow> time option) \<Rightarrow> env \<Rightarrow> customer_context \<Rightarrow> headers \<Rightarrow> string
      \<Rightarrow> update_event_request \<Rightarrow> rel_db \<Rightarrow> (app_error + update_receipt) \<times> rel_db" where
  "installation_update_event up rfc e x hs path req t =
     (case parse_update_event up rfc e x hs path req of
        Inl err \<Rightarrow> (Inl err, t)
      | Inr inp \<Rightarrow> (case record_update_event e inp t of (res, t') \<Rightarrow> (map_err update_event_app_error res, t')))"

definition public_latest_release ::
    "string \<Rightarrow> string option \<Rightarrow> rel_db \<Rightarrow> app_error + public_release" where
  "public_latest_release product channel t =
     bind_r (clean_route_product (Some product)) (\<lambda>p.
     bind_r (clean_public_release_channel channel) (\<lambda>c.
       ok_or (latest_published_release p c t) (not_found ''Published release not found.'')))"

definition public_bootstrap_download ::
    "(string \<Rightarrow> nat) \<Rightarrow> string \<Rightarrow> string \<Rightarrow> string option \<Rightarrow> string \<Rightarrow> string \<Rightarrow> string option \<Rightarrow> rel_db
      \<Rightarrow> app_error + bootstrap_row \<times> string" where
  "public_bootstrap_download rank base product channel platform arch pkg t =
     bind_r (clean_route_product (Some product)) (\<lambda>p.
     bind_r (clean_public_release_channel channel) (\<lambda>c.
     bind_r (map_err admin_validation_error (clean_artifact_platform platform)) (\<lambda>pf.
     bind_r (map_err admin_validation_error (clean_artifact_architecture arch)) (\<lambda>ac.
     bind_r (case pkg of None \<Rightarrow> Inr None
       | Some v \<Rightarrow> map_err admin_validation_error
           (bind_r (clean_package_format_admin v) (\<lambda>f. Inr (Some f)))) (\<lambda>fmt.
     bind_r (ok_or (bootstrap_download rank \<lparr>bi_product_key = p, bi_channel_key = c, bi_platform = pf, bi_arch = ac,
         bi_format = fmt\<rparr> t) (not_found ''Bootstrap download not found.'')) (\<lambda>row.
     bind_r (artifact_url base (ar_storage (bo_artifact row))) (\<lambda>url. Inr (row, url))))))))"

end
