(* ===== verification/Release_Machine.thy ===== *)
theory Release_Machine
  imports Update_Lookup
begin

text \<open>
  The abstract machine behind the release operations: what can happen to releases, artifacts and
  campaigns, without inputs, audits and answers. Every operation refines it, so what
  the machine keeps, the code keeps.
\<close>

type_synonym catalog = "release_row list \<times> artifact_row list \<times> campaign_row list"

definition catalog_of :: "rel_db \<Rightarrow> catalog" where
  "catalog_of t = (releases t, artifacts t, campaigns t)"

definition with_id :: "uuid \<Rightarrow> release_row list \<Rightarrow> release_row option" where
  "with_id i rs = find (\<lambda>r. rl_id r = i) rs"

definition closed_status :: "string \<Rightarrow> bool" where
  "closed_status s \<longleftrightarrow> one_of [''published'', ''blocked'', ''retired''] s"

text \<open>The status changes of a release other than blocking.\<close>

definition forward :: "string \<Rightarrow> string \<Rightarrow> bool" where
  "forward s s' \<longleftrightarrow> (s' = ''validated'' \<and> \<not> closed_status s \<and> s \<noteq> ''validated'')
     \<or> (s' = ''published'' \<and> s = ''validated'')"

definition content :: "release_row \<Rightarrow> release_row" where
  "content r = r\<lparr>rl_status := [], rl_validated := None, rl_published := None\<rparr>"

definition paused :: "uuid \<Rightarrow> campaign_row list \<Rightarrow> campaign_row list" where
  "paused i = upd (\<lambda>c. ca_release c = i \<and> ca_status c = ''active'') (\<lambda>c. c\<lparr>ca_status := ''paused''\<rparr>)"

definition published_in :: "uuid \<Rightarrow> release_row list \<Rightarrow> bool" where
  "published_in i rs \<longleftrightarrow> (\<exists>r \<in> set rs. rl_id r = i \<and> rl_status r = ''published'')"

inductive catalog_step :: "catalog \<Rightarrow> catalog \<Rightarrow> bool" where
  idle: "catalog_step k k"
| new_release: "rl_id r \<notin> rl_id ` set rs \<Longrightarrow> rl_status r = ''draft'' \<Longrightarrow>
    catalog_step (rs, fs, cs) (rs @ [r], fs, cs)"
| new_artifact: "ar_id a \<notin> ar_id ` set fs \<Longrightarrow> ar_status a = ''validated'' \<Longrightarrow> artifact_checks a \<Longrightarrow>
    (ar_role a = ''updater'' \<Longrightarrow> ar_signature a \<noteq> None) \<Longrightarrow>
    with_id (ar_release a) rs = Some r \<Longrightarrow> \<not> closed_status (rl_status r) \<Longrightarrow>
    rs' = (if rl_status r = ''draft''
      then upd (\<lambda>x. rl_id x = ar_release a) (\<lambda>x. x\<lparr>rl_status := ''artifacts_pending''\<rparr>) rs else rs) \<Longrightarrow>
    catalog_step (rs, fs, cs) (rs', fs @ [a], cs)"
| advance: "with_id i rs = Some r \<Longrightarrow> forward (rl_status r) s \<Longrightarrow>
    (\<And>x. content (f x) = content x \<and> rl_status (f x) = s) \<Longrightarrow>
    catalog_step (rs, fs, cs) (upd (\<lambda>x. rl_id x = i) f rs, fs, cs)"
| block: "with_id i rs = Some r \<Longrightarrow> rl_status r \<noteq> ''retired'' \<Longrightarrow>
    catalog_step (rs, fs, cs)
      (upd (\<lambda>x. rl_id x = i) (\<lambda>x. x\<lparr>rl_status := ''blocked''\<rparr>) rs, fs, paused i cs)"
| new_campaign: "ca_id c \<notin> ca_id ` set cs \<Longrightarrow> ca_status c = ''draft'' \<Longrightarrow> campaign_checks c \<Longrightarrow>
    catalog_step (rs, fs, cs) (rs, fs, cs @ [c])"
| move: "find (\<lambda>c. ca_id c = i) cs = Some c \<Longrightarrow> ca_status c \<noteq> ''revoked'' \<Longrightarrow>
    one_of [''active'', ''paused'', ''revoked''] s \<Longrightarrow> (s = ''active'' \<Longrightarrow> published_in (ca_release c) rs) \<Longrightarrow>
    catalog_step (rs, fs, cs) (rs, fs, upd (\<lambda>c. ca_id c = i) (\<lambda>c. c\<lparr>ca_status := s\<rparr>) cs)"
| rollout: "find (\<lambda>c. ca_id c = i) cs = Some c \<Longrightarrow> ca_status c \<noteq> ''revoked'' \<Longrightarrow> 0 \<le> pct \<Longrightarrow> pct \<le> 100 \<Longrightarrow>
    catalog_step (rs, fs, cs) (rs, fs, upd (\<lambda>c. ca_id c = i) (\<lambda>c. c\<lparr>ca_rollout := pct\<rparr>) cs)"
| quarantine: "find (\<lambda>a. ar_id a = i) fs = Some a \<Longrightarrow>
    fs' = (if ar_status a = ''quarantined'' then fs
      else upd (\<lambda>a. ar_id a = i) (\<lambda>a. a\<lparr>ar_status := ''quarantined''\<rparr>) fs) \<Longrightarrow>
    catalog_step (rs, fs, cs) (rs, fs', paused (ar_release a) cs)"

inductive_cases catalog_stepE: "catalog_step k k'"

section \<open>The operations\<close>

text \<open>One call of the release side; \<open>other\<close> is any operation of the rest of the service.\<close>

inductive rel_step :: "rel_db \<Rightarrow> rel_db \<Rightarrow> bool" where
  other: "rel_step t (t\<lparr>svc := d\<rparr>)"
| fleet_policy: "update_fleet_policy fin t = (r0, t') \<Longrightarrow> rel_step t t'"
| create: "e_id e 0 \<notin> rl_id ` set (releases t) \<Longrightarrow> create_release e rin t = (r1, t') \<Longrightarrow> rel_step t t'"
| register: "e_id e 0 \<notin> ar_id ` set (artifacts t) \<Longrightarrow> register_artifact e ain t = (r2, t') \<Longrightarrow> rel_step t t'"
| validate: "validate_release e op i reason corr t = (r3, t') \<Longrightarrow> rel_step t t'"
| publish: "publish_release e op i reason corr t = (r4, t') \<Longrightarrow> rel_step t t'"
| block: "block_release op i reason corr t = (r5, t') \<Longrightarrow> rel_step t t'"
| campaign: "e_id e 0 \<notin> ca_id ` set (campaigns t) \<Longrightarrow> create_campaign e cin t = (r6, t') \<Longrightarrow> rel_step t t'"
| pause: "pause_campaign op i reason corr t = (r7, t') \<Longrightarrow> rel_step t t'"
| resume: "resume_campaign op i reason corr t = (r8, t') \<Longrightarrow> rel_step t t'"
| revoke: "revoke_campaign op i reason corr t = (r9, t') \<Longrightarrow> rel_step t t'"
| rollout: "set_campaign_rollout op i pct reason corr t = (r10, t') \<Longrightarrow> rel_step t t'"
| hold: "add_fleet_hold e op i fl reason corr t = (r11, t') \<Longrightarrow> rel_step t t'"
| unhold: "remove_fleet_hold op i fl reason corr t = (r12, t') \<Longrightarrow> rel_step t t'"
| quarantine: "quarantine_artifact op i reason corr t = (r13, t') \<Longrightarrow> rel_step t t'"
| check: "authorforge_update_check up hmac rfc cfg e x hs path t = (r14, t') \<Longrightarrow> rel_step t t'"
| receipt: "installation_update_event up rf e x hs p req t = (r15, t') \<Longrightarrow> rel_step t t'"

inductive_cases rel_stepE: "rel_step t t'"

section \<open>Frames\<close>

lemma release_audit_frame [simp]:
  "releases (release_audit ev op c tt tg r b a co t) = releases t"
  "artifacts (release_audit ev op c tt tg r b a co t) = artifacts t"
  "campaigns (release_audit ev op c tt tg r b a co t) = campaigns t"
  "holds (release_audit ev op c tt tg r b a co t) = holds t"
  "tickets (release_audit ev op c tt tg r b a co t) = tickets t"
  "update_events (release_audit ev op c tt tg r b a co t) = update_events t"
  by (simp_all add: release_audit_def)

lemma catalog_audit [simp]: "catalog_of (release_audit ev op c tt tg r b a co t) = catalog_of t"
  by (simp add: catalog_of_def)

lemma catalog_status_audit [simp]: "catalog_of (release_status_audit ev op i r b a co t) = catalog_of t"
  by (simp add: release_status_audit_def)

lemma issue_ticket_frame [simp]:
  "catalog_of (snd (issue_update_ticket e i c r t)) = catalog_of t"
  "holds (snd (issue_update_ticket e i c r t)) = holds t"
  "update_events (snd (issue_update_ticket e i c r t)) = update_events t"
  "svc (snd (issue_update_ticket e i c r t)) = svc t"
  by (simp_all add: issue_update_ticket_def catalog_of_def Let_def split: option.split)

lemma offer_loop_effect:
  "snd (offer_loop hmac rfc cfg e q cs t) = t
   \<or> (\<exists>c \<in> set cs. snd (offer_loop hmac rfc cfg e q cs t)
        = snd (issue_update_ticket e (lu_installation (qu_lookup q)) (cd_campaign c) (cd_release c) t))"
proof (induction cs)
  case (Cons c cs)
  show ?case
  proof (cases "offerable q c")
    case None
    with Cons show ?thesis by auto
  next
    case (Some x)
    obtain sign pub where x: "x = (sign, pub)" by (cases x)
    show ?thesis
    proof (cases "rollout_allows hmac (trim (uc_secret cfg)) (cd_campaign c) (lu_installation (qu_lookup q)) (cd_rollout c)")
      case (Inr allowed)
      with Cons Some x show ?thesis by (cases allowed) (auto simp: Let_def split: prod.split)
    qed (simp add: Some x)
  qed
qed simp

lemma update_check_effect:
  assumes "authorforge_update_check up hmac rfc cfg e x hs path t = (r, t')"
  shows "t' = t \<or> (\<exists>i c l. t' = snd (issue_update_ticket e i c l t))"
proof (cases "parse_update_check up cfg (e_utc e 0) x hs path")
  case (Inr q)
  have "t' = snd (offer_loop hmac rfc cfg e q (candidate_rows (e_now e) (qu_lookup q) t) t)"
    using assms Inr by (simp add: authorforge_update_check_def)
  with offer_loop_effect show ?thesis by metis
qed (use assms in \<open>simp add: authorforge_update_check_def\<close>)

section \<open>Refinement\<close>

lemmas catalog_simps = catalog_of_def set_release_def set_campaign_def pause_campaigns_def paused_def
  release_status_audit_def shown_release_def shown_campaign_def with_id_def release_of_def campaign_of_def

lemma release_published_iff: "release_published i t \<longleftrightarrow> published_in i (releases t)"
  by (simp add: release_published_def published_in_def list_ex_iff)

lemma create_release_step:
  assumes "create_release e inp t = (r, t')" and "e_id e 0 \<notin> rl_id ` set (releases t)"
  shows "catalog_step (catalog_of t) (catalog_of t')"
  using assms
  by (auto simp: create_release_def shown_release_def record_release_def Let_def catalog_of_def new_release_def
      intro!: catalog_step.idle catalog_step.new_release split: option.splits if_splits)

lemma register_artifact_step:
  assumes "register_artifact e inp t = (r, t')" and "e_id e 0 \<notin> ar_id ` set (artifacts t)"
  shows "catalog_step (catalog_of t) (catalog_of t')"
proof (cases "t' = t")
  case False
  then obtain l where l: "release_of (fr_release inp) t = Some l" "\<not> closed_status (rl_status l)"
    "artifact_checks (new_artifact e inp)" "fr_role inp = ''updater'' \<Longrightarrow> fr_signature inp \<noteq> None"
    "t' = record_artifact inp (rl_status l) (new_artifact e inp) t"
    using assms(1) by (auto simp: register_artifact_def Let_def closed_status_def split: option.splits if_splits)
  have "catalog_step (releases t, artifacts t, campaigns t)
      (if rl_status l = ''draft''
       then upd (\<lambda>x. rl_id x = ar_release (new_artifact e inp)) (\<lambda>x. x\<lparr>rl_status := ''artifacts_pending''\<rparr>) (releases t)
       else releases t, artifacts t @ [new_artifact e inp], campaigns t)"
    by (rule catalog_step.new_artifact [where r = l])
      (use assms(2) l in \<open>auto simp: new_artifact_def with_id_def release_of_def\<close>)
  moreover have "ar_release (new_artifact e inp) = fr_release inp" by (simp add: new_artifact_def)
  ultimately show ?thesis by (simp add: catalog_of_def l(5) record_artifact_def split: if_splits)
qed (simp add: catalog_step.idle)

lemma release_advance_step:
  assumes "release_of i t = Some l" and "forward (rl_status l) s"
    and "\<And>x. content (f x) = content x \<and> rl_status (f x) = s"
  shows "catalog_step (catalog_of t) (catalog_of (set_release i f t))"
  using catalog_step.advance [of i "releases t" l s f] assms by (simp add: catalog_simps)

lemma validate_release_step:
  assumes "validate_release e op i reason corr t = (r, t')"
  shows "catalog_step (catalog_of t) (catalog_of t')"
proof (cases "t' = t")
  case False
  define f :: "release_row \<Rightarrow> release_row" where "f = (\<lambda>r. r\<lparr>rl_status := ''validated'', rl_validated := coalesce (rl_validated r) (Some (e_now e))\<rparr>)"
  from False obtain l where l: "release_of i t = Some l" "forward (rl_status l) ''validated''"
    "catalog_of t' = catalog_of (set_release i f t)"
    using assms by (auto simp: validate_release_def lock_release_status_def shown_release_def one_of_def forward_def
        closed_status_def f_def split: option.splits if_splits)
  then show ?thesis using release_advance_step [of i t l "''validated''" f] by (simp add: f_def content_def)
qed (simp add: catalog_step.idle)

lemma publish_release_step:
  assumes "publish_release e op i reason corr t = (r, t')"
  shows "catalog_step (catalog_of t) (catalog_of t')"
proof (cases "t' = t")
  case False
  define f :: "release_row \<Rightarrow> release_row" where "f = (\<lambda>r. r\<lparr>rl_status := ''published'', rl_published := coalesce (rl_published r) (Some (e_now e))\<rparr>)"
  from False obtain l where l: "release_of i t = Some l" "forward (rl_status l) ''published''"
    "catalog_of t' = catalog_of (set_release i f t)"
    using assms by (auto simp: publish_release_def lock_release_status_def shown_release_def forward_def f_def
        split: option.splits if_splits)
  then show ?thesis using release_advance_step [of i t l "''published''" f] by (simp add: f_def content_def)
qed (simp add: catalog_step.idle)

lemma block_release_step:
  assumes "block_release op i reason corr t = (r, t')"
  shows "catalog_step (catalog_of t) (catalog_of t')"
proof (cases "t' = t")
  case False
  then obtain l where l: "release_of i t = Some l" "rl_status l \<noteq> ''retired''"
    "catalog_of t' = catalog_of (pause_campaigns i (set_release i (\<lambda>r. r\<lparr>rl_status := ''blocked''\<rparr>) t))"
    using assms by (auto simp: block_release_def lock_release_status_def shown_release_def
        split: option.splits if_splits)
  then show ?thesis using catalog_step.block [of i "releases t" l] by (simp add: catalog_simps)
qed (simp add: catalog_step.idle)

lemma create_campaign_step:
  assumes "create_campaign e inp t = (r, t')" and "e_id e 0 \<notin> ca_id ` set (campaigns t)"
  shows "catalog_step (catalog_of t) (catalog_of t')"
  using assms
  by (auto simp: create_campaign_def shown_campaign_def record_campaign_def Let_def catalog_of_def new_campaign_def
      intro!: catalog_step.idle catalog_step.new_campaign split: option.splits if_splits)

lemma campaign_status_step:
  assumes "campaign_status_mutation op i s ev reason corr t = (r, t')" and "one_of [''active'', ''paused'', ''revoked''] s"
  shows "catalog_step (catalog_of t) (catalog_of t')"
proof (cases "t' = t")
  case False
  then obtain c where c: "campaign_of i t = Some c" "ca_status c \<noteq> ''revoked''"
    "s = ''active'' \<Longrightarrow> published_in (ca_release c) (releases t)"
    "catalog_of t' = catalog_of (set_campaign i (\<lambda>c. c\<lparr>ca_status := s\<rparr>) t)"
    using assms(1) by (auto simp: campaign_status_mutation_def shown_campaign_def release_published_iff
        split: option.splits if_splits)
  then show ?thesis using catalog_step.move [of i "campaigns t" c s] assms(2) by (simp add: catalog_simps)
qed (simp add: catalog_step.idle)

lemma rollout_step:
  assumes "set_campaign_rollout op i pct reason corr t = (r, t')"
  shows "catalog_step (catalog_of t) (catalog_of t')"
proof (cases "t' = t")
  case False
  then obtain c where c: "campaign_of i t = Some c" "ca_status c \<noteq> ''revoked''" "0 \<le> pct" "pct \<le> 100"
    "catalog_of t' = catalog_of (set_campaign i (\<lambda>c. c\<lparr>ca_rollout := pct\<rparr>) t)"
    using assms by (auto simp: set_campaign_rollout_def shown_campaign_def split: option.splits if_splits)
  then show ?thesis using catalog_step.rollout [of i "campaigns t" c pct] by (simp add: catalog_simps)
qed (simp add: catalog_step.idle)

lemma quarantine_step:
  assumes "quarantine_artifact op i reason corr t = (r, t')"
  shows "catalog_step (catalog_of t) (catalog_of t')"
proof (cases "find (\<lambda>a. ar_id a = i) (artifacts t)")
  case None
  with assms show ?thesis by (auto simp: quarantine_artifact_def intro: catalog_step.idle)
next
  case (Some a)
  have "catalog_step (releases t, artifacts t, campaigns t)
      (releases t, if ar_status a = ''quarantined'' then artifacts t
         else upd (\<lambda>a. ar_id a = i) (\<lambda>a. a\<lparr>ar_status := ''quarantined''\<rparr>) (artifacts t),
       paused (ar_release a) (campaigns t))"
    by (rule catalog_step.quarantine [OF Some]) simp
  then show ?thesis
    using assms Some by (auto simp: quarantine_artifact_def Let_def catalog_simps split: if_splits)
qed

text \<open>Holds, receipts, tickets and the rest of the service leave the catalog alone.\<close>

lemma untouched:
  "catalog_of (t\<lparr>svc := d\<rparr>) = catalog_of t"
  "update_fleet_policy fin t = (r0, t') \<Longrightarrow> catalog_of t' = catalog_of t"
  "add_fleet_hold e op i fl reason corr t = (r1, t') \<Longrightarrow> catalog_of t' = catalog_of t"
  "remove_fleet_hold op i fl reason corr t = (r2, t') \<Longrightarrow> catalog_of t' = catalog_of t"
  "record_update_event e inp t = (r3, t') \<Longrightarrow> catalog_of t' = catalog_of t"
  by (auto simp: update_fleet_policy_def add_fleet_hold_def upsert_hold_def remove_fleet_hold_def
      record_update_event_def catalog_of_def Let_def split: option.splits if_splits sum.splits prod.splits)

lemma check_untouched:
  "authorforge_update_check up hmac rfc cfg e x hs path t = (r, t') \<Longrightarrow> catalog_of t' = catalog_of t"
  using update_check_effect issue_ticket_frame(1) by metis

lemma receipt_untouched:
  assumes "installation_update_event up rf e x hs p req t = (r, t')"
  shows "catalog_of t' = catalog_of t"
proof (cases "parse_update_event up rf e x hs p req")
  case (Inr inp)
  then obtain r' where "record_update_event e inp t = (r', t')"
    using assms by (auto simp: installation_update_event_def split: prod.splits)
  then show ?thesis by (rule untouched)
qed (use assms in \<open>simp add: installation_update_event_def\<close>)

lemma campaign_moves:
  "pause_campaign op i reason corr t = (r, t') \<Longrightarrow> catalog_step (catalog_of t) (catalog_of t')"
  "resume_campaign op i reason corr t = (r, t') \<Longrightarrow> catalog_step (catalog_of t) (catalog_of t')"
  "revoke_campaign op i reason corr t = (r, t') \<Longrightarrow> catalog_step (catalog_of t) (catalog_of t')"
  unfolding pause_campaign_def resume_campaign_def revoke_campaign_def
  by (erule campaign_status_step, simp add: one_of_def)+

lemma idle_eq: "catalog_of t' = catalog_of t \<Longrightarrow> catalog_step (catalog_of t) (catalog_of t')"
  by (simp add: catalog_step.idle)

lemmas rel_step_catalog_cases = create_release_step register_artifact_step validate_release_step
  publish_release_step block_release_step create_campaign_step campaign_moves rollout_step quarantine_step

lemma rel_step_catalog: "rel_step t t' \<Longrightarrow> catalog_step (catalog_of t) (catalog_of t')"
  by (induction rule: rel_step.induct)
    (erule (1) create_release_step register_artifact_step create_campaign_step
      | erule validate_release_step publish_release_step block_release_step campaign_moves rollout_step quarantine_step
      | rule idle_eq, (rule untouched(1) | erule untouched(2-4) check_untouched receipt_untouched))+

section \<open>What the machine keeps\<close>

lemma released_later: "forward s s' \<Longrightarrow> \<not> closed_status s"
  by (auto simp: forward_def closed_status_def one_of_def)

text \<open>Keys are unique, values are the declared ones, and an active campaign has a published target.\<close>

definition well_typed :: "catalog \<Rightarrow> bool" where
  "well_typed k = (case k of (rs, fs, cs) \<Rightarrow>
     list_all (\<lambda>r. one_of [''draft'', ''artifacts_pending'', ''validated'', ''published'', ''blocked'', ''retired'']
       (rl_status r)) rs
     \<and> list_all artifact_checks fs \<and> list_all campaign_checks cs)"

definition keyed :: "catalog \<Rightarrow> bool" where
  "keyed k = (case k of (rs, fs, cs) \<Rightarrow>
     distinct (map rl_id rs) \<and> distinct (map ar_id fs) \<and> distinct (map ca_id cs))"

definition targets_published :: "catalog \<Rightarrow> bool" where
  "targets_published k = (case k of (rs, fs, cs) \<Rightarrow>
     \<forall>c \<in> set cs. ca_status c = ''active'' \<longrightarrow> published_in (ca_release c) rs)"

definition catalog_inv :: "catalog \<Rightarrow> bool" where
  "catalog_inv k \<longleftrightarrow> well_typed k \<and> keyed k \<and> targets_published k"

lemma content_id: "content x = content y \<Longrightarrow> rl_id x = rl_id y"
  by (drule arg_cong [of _ _ rl_id]) (simp add: content_def)

lemma upd_key_image: "(\<And>r. k (f r) = k r) \<Longrightarrow> k ` set (upd P f rs) = k ` set rs"
  using map_upd_key [of P k f rs] by (metis set_map)

lemma paused_simps [simp]:
  "map ca_id (paused i cs) = map ca_id cs"
  "ca_id ` set (paused i cs) = ca_id ` set cs"
  unfolding paused_def by (simp_all add: map_upd_key upd_key_image)

lemma paused_active:
  "c \<in> set (paused i cs) \<Longrightarrow> ca_status c = ''active'' \<Longrightarrow> c \<in> set cs \<and> ca_release c \<noteq> i"
  by (auto simp: paused_def set_upd split: if_splits)

lemma advance_keys:
  assumes "\<And>x. content (f x) = content x \<and> rl_status (f x) = s"
  shows "map rl_id (upd P f rs) = map rl_id rs"
  by (rule map_upd_key) (rule content_id, simp add: assms)

lemma catalog_step_keyed: "catalog_step k k' \<Longrightarrow> keyed k \<Longrightarrow> keyed k'"
proof (induction rule: catalog_step.induct)
  case (advance i rs r s f fs cs)
  then show ?case by (simp add: keyed_def advance_keys [of f s])
qed (simp_all add: keyed_def map_upd_key)

lemma list_all_upd: "list_all P rs \<Longrightarrow> (\<And>r. Q r \<Longrightarrow> P r \<Longrightarrow> P (f r)) \<Longrightarrow> list_all P (upd Q f rs)"
  by (induction rs) auto

lemma typed_upd:
  assumes "well_typed (rs, fs, cs)"
  shows "one_of [''artifacts_pending'', ''blocked'', ''validated'', ''published''] s \<Longrightarrow> (\<And>x. rl_status (f x) = s) \<Longrightarrow>
      well_typed (upd P f rs, fs, cs)"
    and "one_of [''active'', ''paused'', ''revoked''] s \<Longrightarrow>
      well_typed (rs, fs, upd Q (\<lambda>c. c\<lparr>ca_status := s\<rparr>) cs)"
    and "0 \<le> pct \<Longrightarrow> pct \<le> 100 \<Longrightarrow> well_typed (rs, fs, upd Q (\<lambda>c. c\<lparr>ca_rollout := pct\<rparr>) cs)"
    and "well_typed (rs, upd R (\<lambda>a. a\<lparr>ar_status := ''quarantined''\<rparr>) fs, cs)"
  using assms
  by (auto simp: well_typed_def one_of_def campaign_checks_def artifact_checks_def intro!: list_all_upd)

lemma forward_to: "forward s s' \<Longrightarrow> one_of [''artifacts_pending'', ''blocked'', ''validated'', ''published''] s'"
  by (auto simp: forward_def one_of_def)

lemma paused_typed: "well_typed (rs, fs, cs) \<Longrightarrow> well_typed (rs, fs, paused i cs)"
  unfolding paused_def by (rule typed_upd(2)) (simp_all add: one_of_def)

lemma catalog_step_typed: "catalog_step k k' \<Longrightarrow> well_typed k \<Longrightarrow> well_typed k'"
proof (induction rule: catalog_step.induct)
  case (new_release r rs fs cs)
  then show ?case by (simp add: well_typed_def one_of_def)
next
  case (new_artifact a fs rs r rs' cs)
  have "well_typed (rs', fs, cs)"
    using typed_upd(1) [OF new_artifact.prems, of "''artifacts_pending''"] new_artifact by (simp add: one_of_def)
  then show ?case using new_artifact by (simp add: well_typed_def)
next
  case (advance i rs r s f fs cs)
  then show ?case using typed_upd(1) [OF advance.prems forward_to] by blast
next
  case (block i rs r fs cs)
  show ?case by (rule paused_typed, rule typed_upd(1) [OF block.prems, of "''blocked''"]) (simp_all add: one_of_def)
next
  case (new_campaign c cs rs fs)
  then show ?case by (simp add: well_typed_def)
next
  case (move i cs c s rs fs)
  then show ?case using typed_upd(2) by blast
next
  case (rollout i cs c pct rs fs)
  then show ?case using typed_upd(3) by blast
next
  case (quarantine i fs a fs' rs cs)
  have "well_typed (rs, fs', cs)" using typed_upd(4) quarantine by simp
  then show ?case by (rule paused_typed)
qed

lemma published_upd:
  assumes "published_in j rs" and "\<And>r. r \<in> set rs \<Longrightarrow> rl_id r = j \<Longrightarrow> rl_status r = ''published'' \<Longrightarrow> P r \<Longrightarrow>
    rl_id (f r) = j \<and> rl_status (f r) = ''published''"
  shows "published_in j (upd P f rs)"
proof -
  from assms(1) obtain r where r: "r \<in> set rs" "rl_id r = j" "rl_status r = ''published''"
    by (auto simp: published_in_def)
  then have "(if P r then f r else r) \<in> set (upd P f rs)" by (auto simp: set_upd)
  moreover have "rl_id (if P r then f r else r) = j \<and> rl_status (if P r then f r else r) = ''published''"
    using r assms(2) by simp
  ultimately show ?thesis unfolding published_in_def by blast
qed

text \<open>With unique keys the row an operation locks is the only one with its id.\<close>

lemma only_row: "distinct (map rl_id rs) \<Longrightarrow> with_id i rs = Some r \<Longrightarrow> x \<in> set rs \<Longrightarrow> rl_id x = i \<Longrightarrow> x = r"
  by (auto simp: with_id_def dest!: find_SomeD dest: distinct_key_eq)

lemma published_keep:
  assumes "published_in j rs" and "distinct (map rl_id rs)" and "with_id i rs = Some r" and "rl_status r \<noteq> ''published''"
  shows "published_in j (upd (\<lambda>x. rl_id x = i) f rs)"
  by (rule published_upd [OF assms(1)]) (use only_row [OF assms(2,3)] assms(4) in blast)

lemma catalog_step_targets:
  assumes "catalog_step k k'" and "keyed k" and "targets_published k"
  shows "targets_published k'"
  using assms
proof (induction rule: catalog_step.induct)
  case (new_release r rs fs cs)
  then show ?case by (fastforce simp: targets_published_def published_in_def)
next
  case (new_artifact a fs rs r rs' cs)
  have "rl_status r \<noteq> ''published''" using new_artifact by (auto simp: closed_status_def one_of_def)
  then show ?case using new_artifact published_keep [of _ rs "ar_release a" r]
    by (auto simp: targets_published_def keyed_def)
next
  case (advance i rs r s f fs cs)
  have "rl_status r \<noteq> ''published''" using released_later [OF advance(2)] by (auto simp: closed_status_def one_of_def)
  then show ?case using advance published_keep [of _ rs i r f] by (auto simp: targets_published_def keyed_def)
next
  case (block i rs r fs cs)
  have "published_in j (upd (\<lambda>x. rl_id x = i) (\<lambda>x. x\<lparr>rl_status := ''blocked''\<rparr>) rs)"
    if "published_in j rs" "j \<noteq> i" for j
    by (rule published_upd [OF that(1)]) (use that(2) in simp)
  then show ?case using block paused_active [of _ i cs] by (auto simp: targets_published_def)
next
  case (new_campaign c cs rs fs)
  then show ?case by (auto simp: targets_published_def)
next
  case (move i cs c s rs fs)
  have "x = c" if "x \<in> set cs" "ca_id x = i" for x
    using move that find_SomeD [OF move(1)] distinct_key_eq [of ca_id cs] by (auto simp: keyed_def)
  then show ?case using move by (auto simp: targets_published_def set_upd)
next
  case (rollout i cs c pct rs fs)
  then show ?case by (auto simp: targets_published_def set_upd)
next
  case (quarantine i fs a fs' rs cs)
  then show ?case using paused_active [of _ "ar_release a" cs] by (auto simp: targets_published_def)
qed simp

lemma catalog_step_inv: "catalog_step k k' \<Longrightarrow> catalog_inv k \<Longrightarrow> catalog_inv k'"
  by (simp add: catalog_inv_def catalog_step_typed catalog_step_keyed catalog_step_targets)

interpretation catalog_runs: simulated_keeping catalog_of rel_step catalog_step catalog_inv
  by unfold_locales (fact rel_step_catalog catalog_step_inv)+


section \<open>What stays\<close>

definition all_status :: "uuid \<Rightarrow> string \<Rightarrow> release_row list \<Rightarrow> bool" where
  "all_status i s rs \<longleftrightarrow> i \<in> rl_id ` set rs \<and> (\<forall>r \<in> set rs. rl_id r = i \<longrightarrow> rl_status r = s)"

lemma all_status_row: "all_status i s rs \<Longrightarrow> with_id i rs = Some r \<Longrightarrow> rl_status r = s"
  by (auto simp: all_status_def with_id_def dest!: find_SomeD)

text \<open>A blocked release stays blocked.\<close>

lemma all_status_upd:
  assumes "all_status i s rs" and "j \<noteq> i \<or> (\<forall>r. rl_status (f r) = s)" and "\<And>r. rl_id (f r) = rl_id r"
  shows "all_status i s (upd (\<lambda>x. rl_id x = j) f rs)"
  using assms upd_key_image [of rl_id f "\<lambda>x. rl_id x = j" rs] by (auto simp: all_status_def set_upd)

lemma blocked_stays:
  assumes "catalog_step k k'" and "all_status i ''blocked'' (fst k)"
  shows "all_status i ''blocked'' (fst k')"
  using assms
proof (induction rule: catalog_step.induct)
  case (new_artifact a fs rs r rs' cs)
  have "ar_release a \<noteq> i"
    using new_artifact all_status_row [of i "''blocked''" rs r] by (auto simp: closed_status_def one_of_def)
  then show ?case using new_artifact by (auto intro!: all_status_upd)
next
  case (advance j rs r s f fs cs)
  have "j \<noteq> i"
    using advance all_status_row [of i "''blocked''" rs r] released_later [of "rl_status r" s]
    by (auto simp: closed_status_def one_of_def)
  moreover have "rl_id (f x) = rl_id x" for x by (rule content_id) (simp add: advance(3))
  ultimately show ?case using advance.prems by (simp add: all_status_upd)
next
  case (block j rs r fs cs)
  then show ?case by (auto intro!: all_status_upd)
qed (auto simp: all_status_def)

interpretation blocked_runs: simulated_keeping catalog_of rel_step catalog_step "\<lambda>k. all_status i ''blocked'' (fst k)" for i
  by unfold_locales (rule blocked_stays)

text \<open>A quarantined artifact stays quarantined.\<close>

definition quarantined :: "uuid \<Rightarrow> catalog \<Rightarrow> bool" where
  "quarantined i k \<longleftrightarrow> i \<in> ar_id ` set (fst (snd k))
     \<and> (\<forall>a \<in> set (fst (snd k)). ar_id a = i \<longrightarrow> ar_status a = ''quarantined'')"

lemma quarantined_stays:
  assumes "catalog_step k k'" and "quarantined i k"
  shows "quarantined i k'"
  using assms
proof (induction rule: catalog_step.induct)
  case (quarantine j fs a fs' rs cs)
  have "ar_id ` set fs' = ar_id ` set fs" using quarantine(2) by (simp add: upd_key_image)
  then show ?case using quarantine by (auto simp: quarantined_def set_upd split: if_splits)
qed (auto simp: quarantined_def)

interpretation quarantined_runs: simulated_keeping catalog_of rel_step catalog_step "quarantined i" for i
  by unfold_locales (rule quarantined_stays)

text \<open>
  A release that was published keeps its content and its artifacts; a status changes only to
  blocked, an artifact's only to quarantined.
\<close>

definition frozen :: "uuid \<Rightarrow> release_row \<Rightarrow> artifact_row list \<Rightarrow> catalog \<Rightarrow> bool" where
  "frozen i r as k \<longleftrightarrow>
     (\<exists>x \<in> set (fst k). rl_id x = i)
     \<and> (\<forall>x \<in> set (fst k). rl_id x = i \<longrightarrow> content x = content r \<and> one_of [''published'', ''blocked''] (rl_status x))
     \<and> map (\<lambda>a. a\<lparr>ar_status := []\<rparr>) (filter (\<lambda>a. ar_release a = i) (fst (snd k))) = map (\<lambda>a. a\<lparr>ar_status := []\<rparr>) as"

lemma frozen_row: "frozen i r as k \<Longrightarrow> with_id i (fst k) = Some x \<Longrightarrow> closed_status (rl_status x)"
  by (auto simp: frozen_def with_id_def closed_status_def one_of_def dest!: find_SomeD)

lemma filter_map_upd:
  assumes "\<And>a. P a \<Longrightarrow> Q (f a) = Q a" and "\<And>a. P a \<Longrightarrow> g (f a) = g a"
  shows "map g (filter Q (upd P f rs)) = map g (filter Q rs)"
  using assms by (induction rs) auto

lemma frozen_upd:
  assumes "frozen i r as (rs, fs, cs)" and "\<And>x. content (f x) = content x"
    and "j \<noteq> i \<or> (\<forall>x. rl_status (f x) = ''blocked'')"
  shows "frozen i r as (upd (\<lambda>x. rl_id x = j) f rs, fs, cs')"
proof -
  have ids: "rl_id (f x) = rl_id x" for x using content_id [OF assms(2)] .
  have "rl_id ` set (upd (\<lambda>x. rl_id x = j) f rs) = rl_id ` set rs" by (rule upd_key_image) (rule ids)
  moreover have "i \<in> rl_id ` set rs" using assms(1) by (auto simp: frozen_def)
  ultimately have ex: "\<exists>x \<in> set (upd (\<lambda>x. rl_id x = j) f rs). rl_id x = i" by (metis imageE)
  have "content y = content r \<and> one_of [''published'', ''blocked''] (rl_status y)"
    if y: "y \<in> set (upd (\<lambda>x. rl_id x = j) f rs)" "rl_id y = i" for y
  proof -
    from y(1) obtain x where x: "x \<in> set rs" "y = (if rl_id x = j then f x else x)" by (auto simp: set_upd)
    then have "rl_id x = i" using y(2) ids by (auto split: if_splits)
    then have "content x = content r \<and> one_of [''published'', ''blocked''] (rl_status x)"
      using assms(1) x(1) by (auto simp: frozen_def)
    then show ?thesis using x(2) assms(2,3) \<open>rl_id x = i\<close> by (auto simp: one_of_def)
  qed
  with ex assms(1) show ?thesis by (simp add: frozen_def)
qed

lemma frozen_stays:
  assumes "catalog_step k k'" and "frozen i r as k"
  shows "frozen i r as k'"
  using assms
proof (induction rule: catalog_step.induct)
  case (new_release x rs fs cs)
  then show ?case by (auto simp: frozen_def)
next
  case (new_artifact a fs rs x rs' cs)
  have other: "ar_release a \<noteq> i" using new_artifact frozen_row [of i r as "(rs, fs, cs)" x] by auto
  have "frozen i r as (rs', fs, cs)"
    using new_artifact other by (auto intro!: frozen_upd simp: content_def)
  then show ?case using other by (simp add: frozen_def)
next
  case (advance j rs x s f fs cs)
  have "j \<noteq> i"
    using advance frozen_row [of i r as "(rs, fs, cs)" x] released_later [of "rl_status x" s] by auto
  then show ?case using advance by (intro frozen_upd) auto
next
  case (block j rs x fs cs)
  then show ?case by (intro frozen_upd) (auto simp: content_def)
next
  case (quarantine j fs a fs' rs cs)
  have "map (\<lambda>a. a\<lparr>ar_status := []\<rparr>) (filter (\<lambda>a. ar_release a = i) fs')
      = map (\<lambda>a. a\<lparr>ar_status := []\<rparr>) (filter (\<lambda>a. ar_release a = i) fs)"
    using quarantine(2) by (auto intro!: filter_map_upd)
  then show ?case using quarantine.prems by (simp add: frozen_def)
qed (simp_all add: frozen_def)

interpretation frozen_runs: simulated_keeping catalog_of rel_step catalog_step "frozen i r as" for i r as
  by unfold_locales (rule frozen_stays)

end
