(* ===== verification/Release_Properties.thy ===== *)
theory Release_Properties
  imports Release_Machine Demo
begin

text \<open>
  What the release side guarantees: whatever operators and updaters do in whatever order, blocked
  releases and quarantined artifacts are never handed out, published content never changes,
  an offer rests on a live campaign the installation is targeted by, and a receipt on such an offer.
\<close>

section \<open>A release on its way\<close>

definition demo_fleet_db :: db where
  "demo_fleet_db = demo_db\<lparr>
     channels := [\<lparr>rc_id = ''ch'', rc_product = ''prod'', rc_key = ''stable''\<rparr>,
       \<lparr>rc_id = ''ch-b'', rc_product = ''prod'', rc_key = ''beta''\<rparr>],
     fleets := [\<lparr>fl_id = ''fleet'', fl_customer = ''ada'', fl_name = ''Default fleet'', fl_type = ''default'',
       fl_status = ''active'', fl_ring = ''standard'', fl_channel = Some ''ch'', fl_beta = False\<rparr>],
     fleet_apps := [\<lparr>fa_fleet = ''fleet'', fa_product = ''prod'', fa_status = ''active'',
       fa_ring = ''standard'', fa_channel = Some ''ch''\<rparr>],
     installations := [(demo_installation ''laptop'')\<lparr>in_fleet := Some ''fleet''\<rparr>]\<rparr>"

definition demo_release :: "string \<Rightarrow> release_row" where
  "demo_release status = \<lparr>rl_id = ''rel'', rl_product = ''prod'', rl_version = ''1.2.0'', rl_build = ''b12'',
     rl_channel = ''ch'', rl_status = status, rl_changelog = Some ''notes'', rl_min_supported = Some ''1.0.0'',
     rl_min_updater = None, rl_by = ''op'', rl_created = 10, rl_validated = Some 20, rl_published = Some 30\<rparr>"

definition demo_sha :: string where
  "demo_sha = replicate 64 CHR ''a''"

definition demo_artifact :: artifact_row where
  "demo_artifact = \<lparr>ar_id = ''art'', ar_release = ''rel'', ar_platform = ''linux'', ar_arch = ''x86_64'',
     ar_format = ''nsis'', ar_role = ''updater'', ar_storage = ''/rel/app.bin'', ar_size = 100, ar_sha = demo_sha,
     ar_signature = Some ''sig'', ar_key = ''key-1'', ar_os_status = ''verified'', ar_status = ''validated'',
     ar_created = 15\<rparr>"

definition demo_campaign :: "string \<Rightarrow> campaign_row" where
  "demo_campaign status = \<lparr>ca_id = ''camp'', ca_product = ''prod'', ca_release = ''rel'', ca_slug = ''june-2026'',
     ca_status = status, ca_channel = ''ch'', ca_ring = ''standard'', ca_rollout = 100, ca_emergency = False,
     ca_starts = None, ca_completed = None, ca_by = ''op'', ca_created = 40\<rparr>"

definition demo_rel :: "string \<Rightarrow> string \<Rightarrow> rel_db" where
  "demo_rel rs cs = \<lparr>svc = demo_fleet_db, releases = [demo_release rs], artifacts = [demo_artifact],
     campaigns = [demo_campaign cs], holds = [], tickets = [], update_events = []\<rparr>"

definition demo_live :: rel_db where "demo_live = demo_rel ''published'' ''active''"

lemma demo_live_inv: "catalog_inv (catalog_of demo_live)" "catalog_inv (catalog_of (demo_rel ''validated'' ''paused''))"
  by code_simp+

lemma demo_keyed: "keyed (catalog_of demo_live)"
  using demo_live_inv by (simp add: catalog_inv_def)

section \<open>The machine\<close>

text \<open>C9: Every operation on releases, artifacts and campaigns, with every check, audit and answer it
  has, does to the catalog only what the abstract release machine allows: drafts advance to
  validated and published only in that order, only an open release takes artifacts, blocking
  pauses its campaigns, a campaign is activated only on a published release and a revoked one never moves.\<close>

theorem releases_refine_machine:
  assumes "rel_step t t'"
  shows "catalog_step (catalog_of t) (catalog_of t')"
  by (rule rel_step_catalog [OF assms])

definition demo_publish :: "(admin_error + admin_release) \<times> rel_db" where
  "demo_publish = publish_release (demo_env ''p'' 30) ''op'' ''rel'' ''ready'' None (demo_rel ''validated'' ''paused'')"

theorem releases_refine_machine_witness:
  "catalog_step (catalog_of (demo_rel ''validated'' ''paused'')) (catalog_of (snd demo_publish))
     \<and> map rl_status (releases (snd demo_publish)) = [''published'']"
proof
  have "rel_step (demo_rel ''validated'' ''paused'') (snd demo_publish)"
    by (rule rel_step.publish [of "demo_env ''p'' 30" "''op''" "''rel''" "''ready''" None _ "fst demo_publish"])
      (simp add: demo_publish_def)
  then show "catalog_step (catalog_of (demo_rel ''validated'' ''paused'')) (catalog_of (snd demo_publish))"
    by (rule releases_refine_machine)
  show "map rl_status (releases (snd demo_publish)) = [''published'']" by code_simp
qed

text \<open>C24: The stored catalog is well typed in every state the release operations reach, in any order: each
  release, artifact and campaign has one of its declared statuses, artifacts name a known platform,
  architecture and role with a lower-case SHA-256 and a positive size, campaigns a ring and a
  percentage from 0 to 100, and ids are unique.\<close>

theorem catalog_stays_typed:
  assumes "rel_step\<^sup>*\<^sup>* t t'" and "catalog_inv (catalog_of t)"
  shows "well_typed (catalog_of t') \<and> keyed (catalog_of t')"
  using catalog_runs.concrete_run_keeps [OF assms(1,2)] by (simp add: catalog_inv_def)

definition demo_block :: "(admin_error + admin_release) \<times> rel_db" where
  "demo_block = block_release ''op'' ''rel'' ''crash'' None demo_live"

lemma demo_block_run: "rel_step\<^sup>*\<^sup>* demo_live (snd demo_block)"
  by (rule r_into_rtranclp, rule rel_step.block [of "''op''" "''rel''" "''crash''" None _ "fst demo_block"])
    (simp add: demo_block_def)

theorem catalog_stays_typed_witness:
  "well_typed (catalog_of (snd demo_block)) \<and> map rl_status (releases (snd demo_block)) = [''blocked'']"
proof
  show "well_typed (catalog_of (snd demo_block))"
    using catalog_stays_typed [OF demo_block_run demo_live_inv(1)] by simp
  show "map rl_status (releases (snd demo_block)) = [''blocked'']" by code_simp
qed

text \<open>C15: In every state the release operations reach, an active campaign targets a published release:
  publishing comes before activation, and blocking a release stops its campaigns at once.\<close>

theorem active_campaigns_published:
  assumes "rel_step\<^sup>*\<^sup>* t t'" and "catalog_inv (catalog_of t)" and "c \<in> set (campaigns t')"
    and "ca_status c = ''active''"
  shows "release_published (ca_release c) t'"
  using catalog_runs.concrete_run_keeps [OF assms(1,2)] assms(3,4)
  by (simp add: catalog_inv_def targets_published_def catalog_of_def release_published_iff)

definition demo_resumed :: "(admin_error + admin_campaign) \<times> rel_db" where
  "demo_resumed = resume_campaign ''op'' ''camp'' ''go'' None (snd demo_publish)"

theorem active_campaigns_published_witness:
  "release_published ''rel'' (snd demo_resumed)"
proof -
  have "rel_step (demo_rel ''validated'' ''paused'') (snd demo_publish)"
    by (rule rel_step.publish [of "demo_env ''p'' 30" "''op''" "''rel''" "''ready''" None _ "fst demo_publish"])
      (simp add: demo_publish_def)
  moreover have "rel_step (snd demo_publish) (snd demo_resumed)"
    by (rule rel_step.resume [of "''op''" "''camp''" "''go''" None _ "fst demo_resumed"]) (simp add: demo_resumed_def)
  ultimately have run: "rel_step\<^sup>*\<^sup>* (demo_rel ''validated'' ''paused'') (snd demo_resumed)" by simp
  have c: "campaigns (snd demo_resumed) = [demo_campaign ''active'']" by code_simp
  have "release_published (ca_release (demo_campaign ''active'')) (snd demo_resumed)"
    by (rule active_campaigns_published [OF run demo_live_inv(2)]) (simp_all add: c demo_campaign_def)
  then show ?thesis by (simp add: demo_campaign_def)
qed

section \<open>What is handed out\<close>

lemma candidate_rowsD:
  "x \<in> set (candidate_rows now inp t) \<Longrightarrow> \<exists>m \<in> set (matching_rows now inp t). x = candidate_of m"
  by (auto simp: candidate_rows_def order_by_def dest!: in_set_takeD)

lemma matching_rowsD:
  "(c, r, a) \<in> set (matching_rows now inp t) \<Longrightarrow> \<exists>fleet pro fa.
     (fleet, pro, fa) \<in> set (targets inp (svc t)) \<and> c \<in> set (campaigns t) \<and> campaign_targets now pro fa c
     \<and> \<not> list_ex (on_hold_at (ca_id c) fleet) (holds t) \<and> r \<in> set (releases t) \<and> release_targets c pro r
     \<and> a \<in> set (artifacts t) \<and> artifact_fits inp r a"
  unfolding matching_rows_def by (clarsimp split: if_splits) blast

lemma targetsD:
  "(fleet, pro, fa) \<in> set (targets inp d) \<Longrightarrow>
     (\<exists>i \<in> set (installations d). in_id i = lu_installation inp \<and> in_customer i = lu_customer inp
        \<and> in_status i = ''active'' \<and> in_fleet i = Some fleet)
     \<and> (\<exists>p \<in> set (products d). pr_id p = pro \<and> pr_key p = lu_product inp)
     \<and> fa \<in> set (fleet_apps d) \<and> fa_fleet fa = fleet \<and> fa_product fa = pro"
  unfolding targets_def by (fastforce split: if_splits)

lemma candidate_release:
  assumes "x \<in> set (candidate_rows now inp t)"
  shows "\<exists>r \<in> set (releases t). rl_id r = cd_release x \<and> rl_status r = ''published''"
proof -
  obtain c r a where m: "(c, r, a) \<in> set (matching_rows now inp t)" "x = candidate_of (c, r, a)"
    using candidate_rowsD [OF assms] by (metis prod_cases3)
  then show ?thesis using matching_rowsD [OF m(1)] by (auto simp: candidate_of_def release_targets_def)
qed

lemma block_blocks:
  assumes "block_release op i reason corr t = (Inr v, t1)" and "keyed (catalog_of t)"
  shows "all_status i ''blocked'' (releases t1)"
proof -
  from assms(1) obtain r where r: "release_of i t = Some r"
    by (auto simp: block_release_def lock_release_status_def split: option.splits)
  then have ri: "r \<in> set (releases t)" "rl_id r = i" by (auto simp: release_of_def dest!: find_SomeD)
  show ?thesis
  proof (cases "rl_status r = ''blocked''")
    case True
    then have "t1 = t" using assms(1) r by (simp add: block_release_def lock_release_status_def shown_release_def)
    moreover have "rl_status x = ''blocked''" if x: "x \<in> set (releases t)" "rl_id x = i" for x
    proof -
      have "x = r"
        by (rule distinct_key_eq [of rl_id "releases t"]) (use x ri assms(2) in \<open>simp_all add: keyed_def catalog_of_def\<close>)
      then show ?thesis using True by simp
    qed
    ultimately show ?thesis using ri by (auto simp: all_status_def)
  next
    case False
    then have "releases t1 = upd (\<lambda>r. rl_id r = i) (\<lambda>r. r\<lparr>rl_status := ''blocked''\<rparr>) (releases t)"
      using assms(1) r by (auto simp: block_release_def lock_release_status_def shown_release_def catalog_simps
          split: if_splits)
    moreover have "i \<in> rl_id ` set (upd (\<lambda>r. rl_id r = i) (\<lambda>r. r\<lparr>rl_status := ''blocked''\<rparr>) (releases t))"
      using ri by (auto simp: upd_key_image)
    moreover have "rl_status y = ''blocked''"
      if "y \<in> set (upd (\<lambda>r. rl_id r = i) (\<lambda>r. r\<lparr>rl_status := ''blocked''\<rparr>) (releases t))" "rl_id y = i" for y
      using in_set_upd [OF that(1)] that(2) by (elim disjE bexE conjE) simp_all
    ultimately show ?thesis unfolding all_status_def by metis
  qed
qed



text \<open>C28: A quarantined artifact is never served again: no later lookup or download hands it out, and at that
  moment every active campaign of its release is paused.\<close>

theorem quarantined_artifact_never_served:
  assumes "quarantine_artifact op i reason corr t = (Inr v, t1)" and "keyed (catalog_of t)" and "rel_step\<^sup>*\<^sup>* t1 t2"
  shows "i \<notin> (\<lambda>(c, r, a). ar_id a) ` set (matching_rows now inp t2)
    \<and> i \<notin> (\<lambda>row. ar_id (bo_artifact row)) ` set_option (bootstrap_download rank b t2)
    \<and> ''active'' \<notin> ca_status ` set (filter (\<lambda>c. ca_release c = qo_release v) (campaigns t1))"
proof -
  obtain a where a: "find (\<lambda>a. ar_id a = i) (artifacts t) = Some a"
    using assms(1) by (auto simp: quarantine_artifact_def split: option.splits)
  then have ai: "a \<in> set (artifacts t)" "ar_id a = i" by (auto dest!: find_SomeD)
  have v: "qo_release v = ar_release a" using assms(1) a by (auto simp: quarantine_artifact_def Let_def)
  have t1: "campaigns t1 = paused (ar_release a) (campaigns t)"
    "artifacts t1 = (if ar_status a = ''quarantined'' then artifacts t
       else upd (\<lambda>a. ar_id a = i) (\<lambda>a. a\<lparr>ar_status := ''quarantined''\<rparr>) (artifacts t))"
    using assms(1) a by (auto simp: quarantine_artifact_def Let_def pause_campaigns_def paused_def)
  have "ar_status y = ''quarantined''" if y: "y \<in> set (artifacts t1)" "ar_id y = i" for y
  proof (cases "ar_status a = ''quarantined''")
    case True
    have "y = a"
      by (rule distinct_key_eq [of ar_id "artifacts t"])
        (use True t1 y ai assms(2) in \<open>simp_all add: keyed_def catalog_of_def\<close>)
    then show ?thesis using True by simp
  next
    case False
    then have "y \<in> set (upd (\<lambda>a. ar_id a = i) (\<lambda>a. a\<lparr>ar_status := ''quarantined''\<rparr>) (artifacts t))"
      using y t1 by simp
    from in_set_upd [OF this] y(2) show ?thesis by (elim disjE bexE conjE) simp_all
  qed
  moreover have "i \<in> ar_id ` set (artifacts t1)" using ai t1(2) by (auto simp: upd_key_image)
  ultimately have "quarantined i (catalog_of t1)" by (simp add: quarantined_def catalog_of_def)
  then have q: "quarantined i (catalog_of t2)" using quarantined_runs.concrete_run_keeps [OF assms(3)] by blast
  have "i \<noteq> ar_id x" if "(c, r, x) \<in> set (matching_rows now inp t2)" for c r x
    using matching_rowsD [OF that] q by (auto simp: artifact_fits_def quarantined_def catalog_of_def)
  moreover have "bo_artifact row \<in> set (artifacts t2) \<and> ar_status (bo_artifact row) = ''validated''"
    if "bootstrap_download rank b t2 = Some row" for row
    using that by (auto simp: bootstrap_download_def bootstrap_fits_def artifacts_of_def dest!: first_by_SomeD(1)
        split: if_splits)
  then have "i \<noteq> ar_id (bo_artifact row)" if "bootstrap_download rank b t2 = Some row" for row
    using that q unfolding quarantined_def catalog_of_def by fastforce
  moreover have "''active'' \<notin> ca_status ` set (filter (\<lambda>c. ca_release c = qo_release v) (campaigns t1))"
    unfolding t1(1) v by (auto dest: paused_active [rotated, OF sym])
  ultimately show ?thesis by auto
qed

definition demo_quarantine :: "(admin_error + quarantine_outcome) \<times> rel_db" where
  "demo_quarantine = quarantine_artifact ''op'' ''art'' ''malware'' None demo_live"

definition demo_lookup :: lookup_input where
  "demo_lookup = \<lparr>lu_customer = ''ada'', lu_installation = ''laptop'', lu_product = ''authorforge'',
     lu_platform = ''linux'', lu_arch = ''x86_64'', lu_format = ''nsis''\<rparr>"

theorem quarantined_artifact_never_served_witness:
  "''art'' \<notin> (\<lambda>(c, r, a). ar_id a) ` set (matching_rows 100 demo_lookup (snd demo_quarantine))
    \<and> ''art'' \<in> (\<lambda>(c, r, a). ar_id a) ` set (matching_rows 100 demo_lookup demo_live)"
proof -
  obtain v where "demo_quarantine = (Inr v, snd demo_quarantine)"
  proof -
    have "\<not> isl (fst demo_quarantine)" by code_simp
    then show ?thesis using that by (metis isl_def old.sum.exhaust prod.collapse)
  qed
  then have "quarantine_artifact ''op'' ''art'' ''malware'' None demo_live = (Inr v, snd demo_quarantine)"
    by (simp add: demo_quarantine_def)
  moreover have "''art'' \<in> (\<lambda>(c, r, a). ar_id a) ` set (matching_rows 100 demo_lookup demo_live)" by code_simp
  ultimately show ?thesis
    using quarantined_artifact_never_served [OF _ demo_keyed rtranclp.rtrancl_refl] by blast
qed


definition demo_late :: "(admin_error + artifact_row) \<times> rel_db" where
  "demo_late = register_artifact (demo_env ''z'' 90) \<lparr>fr_operator = ''op'', fr_release = ''rel'', fr_platform = ''windows'',
     fr_arch = ''x86_64'', fr_format = ''nsis'', fr_role = ''recovery'', fr_storage = ''late'', fr_size = 1,
     fr_sha = demo_sha, fr_signature = None, fr_key = ''key-1'', fr_os_status = ''pending'', fr_reason = ''late build'',
     fr_corr = None\<rparr> (snd demo_publish)"


end
