(* ===== verification/Offer_Properties.thy ===== *)
theory Offer_Properties
  imports Release_Properties Desk_Facts
begin

text \<open>
  What an update offer rests on, what a receipt says, and what an operator's fleet policy
  changes of either.
\<close>

section \<open>Offers\<close>

lemma offer_loop_SomeD:
  assumes "offer_loop hmac rfc cfg e q cs t = (Inr (Some resp), t')"
  shows "\<exists>c \<in> set cs. \<exists>sign pub url. offerable q c = Some (sign, pub)
     \<and> rollout_allows hmac (trim (uc_secret cfg)) (cd_campaign c) (lu_installation (qu_lookup q)) (cd_rollout c) = Inr True
     \<and> artifact_url (uc_base cfg) (cd_storage c) = Inr url
     \<and> issue_update_ticket e (lu_installation (qu_lookup q)) (cd_campaign c) (cd_release c) t = (tr_ticket resp, t')
     \<and> resp = tauri_of rfc c sign pub url (tr_ticket resp)"
  using assms
proof (induction cs)
  case (Cons c cs)
  let ?i = "lu_installation (qu_lookup q)"
  show ?case
  proof (cases "offerable q c")
    case None
    with Cons show ?thesis by simp
  next
    case (Some x)
    obtain sign pub where x: "x = (sign, pub)" by (cases x)
    obtain allowed where a: "rollout_allows hmac (trim (uc_secret cfg)) (cd_campaign c) ?i (cd_rollout c) = Inr allowed"
      using Cons.prems Some x by (auto simp: Let_def split: sum.splits)
    show ?thesis
    proof (cases allowed)
      case True
      obtain k t'' where i: "issue_update_ticket e ?i (cd_campaign c) (cd_release c) t = (k, t'')" by fastforce
      then obtain url where u: "artifact_url (uc_base cfg) (cd_storage c) = Inr url"
        "resp = tauri_of rfc c sign pub url k" "t'' = t'"
        using Cons.prems Some x a True by (auto simp: Let_def)
      then have "tr_ticket resp = k" by (simp add: tauri_of_def)
      then show ?thesis
        using Some x a True i u by (intro bexI [of _ c] exI [of _ sign] exI [of _ pub] exI [of _ url]) simp_all
    next
      case False
      with Cons Some x a show ?thesis by (simp add: Let_def)
    qed
  qed
qed simp

lemma offerableD:
  assumes "offerable q c = Some (sign, pub)"
  shows "version_greater (cd_version c) (qu_version q)"
    and "cd_min_supported c = Some m \<Longrightarrow> version_at_least (qu_version q) m"
    and "cd_min_updater c = Some m' \<Longrightarrow> \<exists>u. qu_updater q = Some u \<and> version_at_least u m'"
    and "trim_opt (cd_signature c) = Some sign" and "cd_published c = Some pub"
  using assms by (auto simp: offerable_def split: option.splits if_splits)

lemma parsed_check:
  assumes "parse_update_check up cfg now x hs path = Inr q"
  shows "require_active now x = Inr (lu_customer (qu_lookup q))"
    and "lu_product (qu_lookup q) = ''authorforge''"
    and "clean_app_version (Some (snd (snd path))) = Inr (Some (qu_version q))"
  using assms
  by (auto simp: parse_update_check_def clean_optional_update_version_def split: prod.splits if_splits)

lemma issued_ticket:
  assumes "issue_update_ticket e inst c r t = (k, t')"
  shows "\<exists>x \<in> set (tickets t'). ti_token x = k \<and> ti_installation x = inst \<and> ti_campaign x = c \<and> ti_release x = r
       \<and> ti_expires x = e_now e + secs 3600"
proof (cases "find (same_ticket inst c r) (tickets t)")
  case None
  with assms show ?thesis by (auto simp: issue_update_ticket_def Let_def)
next
  case (Some x)
  let ?f = "\<lambda>x. x\<lparr>ti_expires := e_now e + secs 3600, ti_issued := e_now e\<rparr>"
  from Some have x: "x \<in> set (tickets t)" "same_ticket inst c r x" by (auto dest!: find_SomeD)
  have "tickets t' = upd (same_ticket inst c r) ?f (tickets t)" "k = ti_token x"
    using assms Some by (auto simp: issue_update_ticket_def Let_def)
  moreover from this x have "?f x \<in> set (tickets t')" by (auto simp: set_upd)
  ultimately show ?thesis using x(2) by (intro bexI [of _ "?f x"]) (simp_all add: same_ticket_def)
qed


definition demo_cfg :: update_config where
  "demo_cfg = \<lparr>uc_secret = ''s3cret'', uc_base = ''https://cdn.example/''\<rparr>"

definition demo_ctx :: customer_context where
  "demo_ctx = \<lparr>cx_auth_user = ''auth-ada'', cx_customer = Some ''ada'', cx_status = Some ''active'', cx_aal = None,
     cx_mfa_required = False, cx_grace = None\<rparr>"

definition demo_headers :: headers where
  "demo_headers = (\<lambda>k. if k = ''x-forge-installation-id'' then Some ''laptop'' else None)"

definition demo_check :: "(app_error + tauri_response option) \<times> rel_db" where
  "demo_check = authorforge_update_check Some (\<lambda>_ _. None) (\<lambda>_. ''2026'') demo_cfg (demo_env ''k'' 100) demo_ctx demo_headers
     (''linux'', ''x86_64'', ''1.1.9'') demo_live"

definition demo_offer :: tauri_response where
  "demo_offer = \<lparr>tr_version = ''1.2.0'', tr_url = ''https://cdn.example/rel/app.bin'', tr_signature = ''sig'',
     tr_notes = Some ''notes'', tr_pub_date = ''2026'', tr_ticket = ''k0''\<rparr>"

lemma demo_check_offer: "fst demo_check = Inr (Some demo_offer)"
  by code_simp


section \<open>Fleet policy\<close>

lemma concat_map_upd:
  "(\<And>x. P x \<Longrightarrow> g (f x) = g x) \<Longrightarrow> concat (map g (upd P f xs)) = concat (map g xs)"
  by (induction xs) auto

lemma targets_same:
  assumes "\<And>x. fl_id (f x) = fl_id x \<and> fl_customer (f x) = fl_customer x \<and> fl_status (f x) = fl_status x"
  shows "targets inp (d\<lparr>fleets := upd P f (fleets d)\<rparr>) = targets inp d"
  by (simp add: targets_def concat_map_upd assms cong: if_cong)

lemma targets_cong:
  "installations d' = installations d \<Longrightarrow> fleets d' = fleets d \<Longrightarrow> products d' = products d \<Longrightarrow>
     fleet_apps d' = fleet_apps d \<Longrightarrow> targets inp d' = targets inp d"
  by (simp add: targets_def cong: if_cong)

lemma fleet_policy_effect:
  assumes "update_fleet_policy inp t = (res, t')"
  shows "t' = t \<or> (\<exists>ch. fleets (svc t') = upd (\<lambda>x. fl_id x = fi_fleet inp) (with_policy inp ch) (fleets (svc t))
     \<and> installations (svc t') = installations (svc t) \<and> products (svc t') = products (svc t)
     \<and> fleet_apps (svc t') = fleet_apps (svc t) \<and> campaigns t' = campaigns t \<and> releases t' = releases t
     \<and> artifacts t' = artifacts t \<and> holds t' = holds t)"
  using assms
  by (auto simp: update_fleet_policy_def Let_def release_audit_def split: option.splits sum.splits if_splits)

text \<open>An operator's fleet policy has no effect on updates: after any accepted change of a fleet's ring,
  channel, beta flag or name, every installation is offered exactly the candidates it was offered
  before, because the lookup reads ring and channel from the fleet's applications, which no operation updates.\<close>

theorem fleet_policy_has_no_effect:
  assumes "update_fleet_policy inp t = (res, t')"
  shows "candidate_rows now q t' = candidate_rows now q t"
  using fleet_policy_effect [OF assms]
proof (elim disjE exE conjE)
  fix ch
  assume a: "fleets (svc t') = upd (\<lambda>x. fl_id x = fi_fleet inp) (with_policy inp ch) (fleets (svc t))"
    "installations (svc t') = installations (svc t)" "products (svc t') = products (svc t)"
    "fleet_apps (svc t') = fleet_apps (svc t)"
    and t': "campaigns t' = campaigns t" "releases t' = releases t" "artifacts t' = artifacts t" "holds t' = holds t"
  have "targets q (svc t') = targets q ((svc t)\<lparr>fleets := fleets (svc t')\<rparr>)"
    by (rule targets_cong) (simp_all add: a)
  also have "\<dots> = targets q (svc t)" unfolding a(1) by (rule targets_same) (simp add: with_policy_def)
  finally show ?thesis using t' by (simp add: candidate_rows_def matching_rows_def cong: if_cong)
qed simp

definition demo_policy_change :: "(admin_error + admin_fleet) \<times> rel_db" where
  "demo_policy_change = update_fleet_policy \<lparr>fi_operator = ''op'', fi_fleet = ''fleet'', fi_name = None,
     fi_ring = Some ''delayed'', fi_channel_key = Some ''beta'', fi_beta = None, fi_reason = ''slow down'', fi_corr = None\<rparr>
     demo_live"

theorem fleet_policy_has_no_effect_witness:
  "map (\<lambda>f. (fl_ring f, fl_channel f)) (fleets (svc (snd demo_policy_change))) = [(''delayed'', Some ''ch-b'')]
    \<and> map cd_release (candidate_rows 100 demo_lookup (snd demo_policy_change)) = [''rel'']"
proof
  show "map (\<lambda>f. (fl_ring f, fl_channel f)) (fleets (svc (snd demo_policy_change))) = [(''delayed'', Some ''ch-b'')]"
    by code_simp
  have "map cd_release (candidate_rows 100 demo_lookup demo_live) = [''rel'']" by code_simp
  moreover have "candidate_rows 100 demo_lookup (snd demo_policy_change) = candidate_rows 100 demo_lookup demo_live"
    unfolding demo_policy_change_def by (rule fleet_policy_has_no_effect, rule prod.collapse [symmetric])
  ultimately show "map cd_release (candidate_rows 100 demo_lookup (snd demo_policy_change)) = [''rel'']" by simp
qed

section \<open>Receipts\<close>

text \<open>C36: A receipt is taken only on a live ticket of that installation, which belongs to the caller, and names the
  campaign and release the ticket was issued for, not anything the client says; reporting the
  same event again, while the ticket lives, is acknowledged as already received and changes nothing.\<close>

theorem receipts_name_the_offer:
  assumes "record_update_event e inp t = (Inr rc, t1)" and "ur_received rc"
    and "ei_event inp2 = ei_event inp" and "ei_installation inp2 = ei_installation inp"
    and "ei_customer inp2 = ei_customer inp" and "one_of UPDATE_EVENT_TYPES (ei_type inp2)"
    and "live_ticket e2 inp2 t1 \<noteq> None"
  shows "(\<exists>tk v. tk \<in> set (tickets t) \<and> ti_token tk = ei_ticket inp \<and> ti_installation tk = ei_installation inp
      \<and> e_now e < ti_expires tk \<and> update_events t1 = update_events t @ [v] \<and> uv_id v = ei_event inp
      \<and> uv_campaign v = Some (ti_campaign tk) \<and> uv_release v = Some (ti_release tk))
    \<and> (\<exists>i. i \<in> set (installations (svc t)) \<and> in_id i = ei_installation inp \<and> in_customer i = ei_customer inp)
    \<and> (\<exists>rc2. record_update_event e2 inp2 t1 = (Inr rc2, t1) \<and> \<not> ur_received rc2)"
proof -
  obtain x where x: "live_ticket e inp t = Some x"
    and i: "list_ex (\<lambda>i. in_id i = ei_installation inp \<and> in_customer i = ei_customer inp) (installations (svc t))"
    and t1: "t1 = t\<lparr>update_events := update_events t @ [update_event_of e inp x]\<rparr>"
    using assms(1,2) by (auto simp: record_update_event_def Let_def split: if_splits option.splits)
  from x have tk: "x \<in> set (tickets t)" "ti_token x = ei_ticket inp" "ti_installation x = ei_installation inp"
    "e_now e < ti_expires x" by (auto simp: live_ticket_def dest!: find_SomeD)
  have "\<exists>rc2. record_update_event e2 inp2 t1 = (Inr rc2, t1) \<and> \<not> ur_received rc2"
    using i assms(3-7) by (auto simp: record_update_event_def Let_def t1 update_event_of_def)
  moreover have "\<exists>i. i \<in> set (installations (svc t)) \<and> in_id i = ei_installation inp \<and> in_customer i = ei_customer inp"
    using i by (auto simp: list_ex_iff)
  ultimately show ?thesis using tk by (auto simp: t1 update_event_of_def)
qed

definition demo_event_input :: "string \<Rightarrow> update_event_input" where
  "demo_event_input ty = \<lparr>ei_event = ''ev'', ei_customer = ''ada'', ei_installation = ''laptop'', ei_ticket = ''k0'',
     ei_type = ty, ei_code = None, ei_class = None, ei_occurred = 101\<rparr>"

definition demo_receipt :: "(update_event_error + update_receipt) \<times> rel_db" where
  "demo_receipt = record_update_event (demo_env ''n'' 200) (demo_event_input ''downloaded'') (snd demo_check)"

theorem receipts_name_the_offer_witness:
  "\<exists>rc2. record_update_event (demo_env ''m'' 300) (demo_event_input ''failed'') (snd demo_receipt) = (Inr rc2, snd demo_receipt)
     \<and> \<not> ur_received rc2"
proof -
  have "fst demo_receipt = Inr \<lparr>ur_event = ''ev'', ur_type = ''downloaded'', ur_received = True\<rparr>" by code_simp
  then have r: "record_update_event (demo_env ''n'' 200) (demo_event_input ''downloaded'') (snd demo_check)
      = (Inr \<lparr>ur_event = ''ev'', ur_type = ''downloaded'', ur_received = True\<rparr>, snd demo_receipt)"
    by (simp add: demo_receipt_def prod_eq_iff)
  have "live_ticket (demo_env ''m'' 300) (demo_event_input ''failed'') (snd demo_receipt) \<noteq> None" by code_simp
  with receipts_name_the_offer [OF r, of "demo_event_input ''failed''" "demo_env ''m'' 300"] show ?thesis
    by (simp add: demo_event_input_def UPDATE_EVENT_TYPES_def one_of_def)
qed

end
