(* ===== verification/Customer_Routes.thy ===== *)
theory Customer_Routes
  imports Http_Util Customers Privacy
begin

text \<open>
  The customer handlers of \<^verbatim>\<open>routes/mod.rs\<close> over the account: profile, second factor, deletion,
  licences, devices and installations. \<open>x\<close> is the context the extractor resolved, \<open>e\<close> the
  surroundings of the request, \<open>corr\<close> its correlation id. An answer is the value the handler renders.
\<close>

section \<open>The account\<close>

record account_view =
  aw_customer :: uuid
  aw_auth_user :: string
  aw_mfa_required :: bool
  aw_grace :: "time option"

definition account_get :: "env \<Rightarrow> customer_context \<Rightarrow> app_error + account_view" where
  "account_get e x = bind_r (require_active (e_utc e 0) x) (\<lambda>i.
     Inr \<lparr>aw_customer = i, aw_auth_user = cx_auth_user x, aw_mfa_required = cx_mfa_required x,
          aw_grace = cx_grace x\<rparr>)"

text \<open>The outer \<open>None\<close> is the panic of the profile validation.\<close>

definition account_provision ::
    "env \<Rightarrow> auth_user_context \<Rightarrow> provision_profile_input \<Rightarrow> db
      \<Rightarrow> ((app_error + provisioned_customer) \<times> db) option" where
  "account_provision e ux req d =
     (case validate_provision_profile req of
        None \<Rightarrow> None
      | Some (Inl err) \<Rightarrow> Some (Inl (with_details (field_detail (fst err)) (validation (snd err))), d)
      | Some (Inr v) \<Rightarrow>
          (case provision_for_auth_user e (ux_auth_user ux) (normalize_email_claim (ux_email ux)) (vp_display_name v)
                  (vp_country_code v) (vp_timezone v) d of
             (p, d') \<Rightarrow> Some (Inr p, d')))"

definition account_mfa_status :: "env \<Rightarrow> customer_context \<Rightarrow> bool \<Rightarrow> db \<Rightarrow> (app_error + bool) \<times> db" where
  "account_mfa_status e x enabled =
     checked (require_active (e_utc e 0) x) (\<lambda>i.
     checked (require_aal2 x) (\<lambda>_ d.
       (Inr enabled, set_mfa_required i enabled d)))"

section \<open>Reads\<close>

definition subscriptions_get :: "env \<Rightarrow> customer_context \<Rightarrow> db \<Rightarrow> app_error + subscription_summary list" where
  "subscriptions_get e x d = bind_r (require_active (e_utc e 0) x) (\<lambda>i. Inr (list_customer_subscriptions i d))"

definition licenses_get :: "env \<Rightarrow> customer_context \<Rightarrow> db \<Rightarrow> app_error + (license_row \<times> string \<times> nat) list" where
  "licenses_get e x d = bind_r (require_active (e_utc e 0) x) (\<lambda>i. Inr (list_licenses i d))"

definition installations_list :: "env \<Rightarrow> customer_context \<Rightarrow> db \<Rightarrow> app_error + installation_view list" where
  "installations_list e x d = bind_r (require_active (e_utc e 0) x) (\<lambda>i. Inr (list_installations i d))"

definition devices_get :: "env \<Rightarrow> customer_context \<Rightarrow> db \<Rightarrow> app_error + device_row list" where
  "devices_get e x d = bind_r (require_active (e_utc e 0) x) (\<lambda>i. Inr (list_devices i d))"

section \<open>Deletion\<close>

definition deletion_request_create ::
    "env \<Rightarrow> customer_context \<Rightarrow> string option \<Rightarrow> string option \<Rightarrow> db
      \<Rightarrow> (app_error + deletion_row \<times> bool) \<times> db" where
  "deletion_request_create e x corr reason =
     checked (require_active (e_utc e 0) x) (\<lambda>i.
     checked (clean_opt (\<lambda>v. map_err admin_validation_error (clean_reason v)) (trim_opt reason)) (\<lambda>why d.
       (case request_deletion e i why corr d of (r, d') \<Rightarrow> (Inr r, d'))))"

definition deletion_request_get :: "env \<Rightarrow> customer_context \<Rightarrow> db \<Rightarrow> app_error + deletion_row" where
  "deletion_request_get e x d = bind_r (require_active (e_utc e 0) x) (\<lambda>i.
     ok_or (latest_request i d) (not_found ''No deletion request exists.''))"

definition deletion_request_cancel ::
    "env \<Rightarrow> customer_context \<Rightarrow> string option \<Rightarrow> db \<Rightarrow> (app_error + deletion_row) \<times> db" where
  "deletion_request_cancel e x corr =
     checked (require_active (e_utc e 0) x) (\<lambda>i d. answered deletion_app_error id (cancel_request i corr d))"

section \<open>Installations\<close>

definition installations_register ::
    "codec \<Rightarrow> env \<Rightarrow> customer_context \<Rightarrow> registration_input \<Rightarrow> db \<Rightarrow> (app_error + registered_installation) \<times> db" where
  "installations_register cd e x req =
     checked (require_active (e_utc e 0) x) (\<lambda>i.
     checked (map_err installation_validation_error (validate_registration cd req)) (\<lambda>v d.
       answered registration_app_error id (register_installation e i v d)))"

definition installation_activate ::
    "(string \<Rightarrow> uuid option) \<Rightarrow> env \<Rightarrow> customer_context \<Rightarrow> string option \<Rightarrow> string \<Rightarrow> uuid option \<Rightarrow> db
      \<Rightarrow> (app_error + activation_outcome) \<times> db" where
  "installation_activate up e x corr path license =
     checked (require_active (e_utc e 0) x) (\<lambda>i.
     checked (parse_path_id up path) (\<lambda>inst d.
       answered activation_app_error id (activate_installation e i inst license corr d)))"

text \<open>The body is optional, and so is the version in it.\<close>

definition installation_heartbeat ::
    "(string \<Rightarrow> uuid option) \<Rightarrow> env \<Rightarrow> customer_context \<Rightarrow> string \<Rightarrow> string option option \<Rightarrow> db
      \<Rightarrow> (app_error + installation_row) \<times> db" where
  "installation_heartbeat up e x path body =
     checked (require_active (e_utc e 0) x) (\<lambda>i.
     checked (parse_path_id up path) (\<lambda>inst.
     checked (map_err installation_validation_error (clean_app_version (Option.bind body id))) (\<lambda>version d.
       (case heartbeat_installation e i inst version d of
          (r, d') \<Rightarrow> (ok_or r (not_found ''Installation not found.''), d')))))"

definition installation_deactivate ::
    "(string \<Rightarrow> uuid option) \<Rightarrow> env \<Rightarrow> customer_context \<Rightarrow> string option \<Rightarrow> string \<Rightarrow> db
      \<Rightarrow> (app_error + deactivation_outcome) \<times> db" where
  "installation_deactivate up e x corr path =
     checked (require_active (e_utc e 0) x) (\<lambda>i.
     checked (parse_path_id up path) (\<lambda>inst d.
       answered activation_app_error id (deactivate_installation e i inst corr d)))"

section \<open>Public reads\<close>

definition route_list_products :: "(product_row \<Rightarrow> nat) \<Rightarrow> db \<Rightarrow> product_row list" where
  "route_list_products rank d = list_products rank d"

definition route_list_plans :: "(plan_row \<Rightarrow> nat) \<Rightarrow> db \<Rightarrow> plan_row list" where
  "route_list_plans rank d = list_plans rank d"

text \<open>The database answers a probe or not.\<close>

definition ready_status :: "bool \<Rightarrow> int \<times> json" where
  "ready_status ok =
     (if ok then (200, JObj [(''status'', JStr ''ready'')])
      else (503, JObj [(''status'', JStr ''not_ready'')]))"

section \<open>Entitlements\<close>

text \<open>
  \<^verbatim>\<open>routes/entitlements.rs\<close>. \<open>u\<close> is the reading of \<^verbatim>\<open>Utc::now()\<close> behind the month key, \<open>rfc\<close> the RFC 3339
  text in whole seconds, \<open>ser\<close> and \<open>enc\<close> the derived encodings of a document; \<open>ttl\<close> is a configured
  duration as chrono has it, \<open>None\<close> when out of its range.
\<close>

definition keys_route :: "codec \<Rightarrow> key_ring \<Rightarrow> json" where
  "keys_route cd ring = JObj [(''schema'', JStr ''forge.entitlements.v1''), (''keys'', JArr (map (\<lambda>(i, k).
     JObj [(''key_id'', JStr i), (''public_key'', JStr k), (''alg'', JStr ''Ed25519'')]) (published cd ring)))]"

definition load_for_route :: "env \<Rightarrow> utc_now \<Rightarrow> uuid \<Rightarrow> string \<Rightarrow> ent \<Rightarrow> app_error + loaded_entitlements" where
  "load_for_route e u customer product t =
     bind_r (map_err (\<lambda>_. db_app_error) (load_entitlement_inputs e (un_month_key u) customer product t)) (\<lambda>l.
       ok_or l (not_found ''Unknown or inactive product.''))"

definition owned_for_route ::
    "(string \<Rightarrow> uuid option) \<Rightarrow> uuid \<Rightarrow> string option \<Rightarrow> db \<Rightarrow> app_error + (uuid \<times> string) option" where
  "owned_for_route up customer raw d =
     (case trim_opt raw of
        None \<Rightarrow> Inr None
      | Some v \<Rightarrow> bind_r (parse_id up v ''installation_id'') (\<lambda>i.
          bind_r (ok_or (find_owned_installation customer i d) (not_found ''Installation not found.''))
            (\<lambda>x. Inr (Some x))))"

definition snapshot_for ::
    "env \<Rightarrow> (time \<Rightarrow> string) \<Rightarrow> time \<Rightarrow> uuid \<Rightarrow> uuid option \<Rightarrow> loaded_entitlements \<Rightarrow> snapshot" where
  "snapshot_for e rfc ttl customer inst l = (let r = evaluate (le_inputs l) in
     \<lparr>sn_schema = SCHEMA_VERSION, sn_customer = customer, sn_installation = inst, sn_product = le_product_key l,
      sn_issued = rfc (e_utc e 1), sn_expires = rfc (e_utc e 1 + ttl), sn_features = er_features r,
      sn_quotas = er_quotas r, sn_key = [], sn_signature = []\<rparr>)"

definition entitlements_current ::
    "codec \<Rightarrow> ed25519 \<Rightarrow> (snapshot \<Rightarrow> string) \<Rightarrow> (snapshot \<Rightarrow> json) \<Rightarrow> (time \<Rightarrow> string) \<Rightarrow> (string \<Rightarrow> uuid option) \<Rightarrow> signer
      \<Rightarrow> time option \<Rightarrow> env \<Rightarrow> utc_now \<Rightarrow> customer_context \<Rightarrow> string option \<Rightarrow> string option \<Rightarrow> ent
      \<Rightarrow> (app_error + snapshot) \<times> ent" where
  "entitlements_current cd ed ser enc rfc up sk ttl e u x product inst t =
     checked (require_active (e_utc e 0) x) (\<lambda>i.
     checked (clean_route_product product) (\<lambda>asked.
     checked (owned_for_route up i inst (acct t)) (\<lambda>owned.
     checked (load_for_route e u i (case owned of Some (_, p) \<Rightarrow> p | None \<Rightarrow> asked) t) (\<lambda>l.
     checked (ok_or ttl (internal ''Invalid snapshot TTL configuration.'')) (\<lambda>ttl t.
       (let s = sign_snapshot cd ed ser sk (snapshot_for e rfc ttl i (map_option fst owned) l)
        in (Inr s, snd (store_snapshot e i (map_option fst owned) (le_product l) s (enc s) (e_utc e 1 + ttl) t))))))))
     t"

datatype entitlement_check =
    FeatureCheck string bool "feature_value option" \<comment> \<open>key, allowed, value\<close>
  | QuotaCheck string quota_decision "f64 option" f64 f64 f64 \<comment> \<open>key, decision, limit, used, reserved, requested\<close>

definition one_key :: "string option \<Rightarrow> string option \<Rightarrow> app_error + bool \<times> string" where
  "one_key feature quota =
     (case (feature, quota) of
        (Some f, None) \<Rightarrow> Inr (True, f)
      | (None, Some q) \<Rightarrow> Inr (False, q)
      | _ \<Rightarrow> Inl (message_error ''feature_key'' ''Provide exactly one of feature_key or quota_key.''))"

fun feature_allowed :: "feature_value option \<Rightarrow> bool" where
  "feature_allowed (Some (FBool b)) = b"
| "feature_allowed (Some _) = True"
| "feature_allowed None = False"

definition entitlements_check ::
    "env \<Rightarrow> utc_now \<Rightarrow> customer_context \<Rightarrow> string option \<Rightarrow> string option \<Rightarrow> string option \<Rightarrow> f64 option \<Rightarrow> ent
      \<Rightarrow> app_error + entitlement_check" where
  "entitlements_check e u x product feature quota amount t =
     bind_r (require_active (e_utc e 0) x) (\<lambda>i.
     bind_r (clean_route_product product) (\<lambda>p.
     bind_r (one_key feature quota) (\<lambda>(is_feature, raw).
     bind_r (map_err (message_error (if is_feature then ''feature'' else ''quota'')) (clean_entitlement_key raw)) (\<lambda>key.
     bind_r (load_for_route e u i p t) (\<lambda>l.
       (let r = evaluate (le_inputs l)
        in if is_feature then Inr (FeatureCheck key (feature_allowed (er_features r key)) (er_features r key))
           else (let limit = er_quotas r key; (used, held) = meter_usage (un_month_key u) i key (acct t);
                     requested = unwrap_or amount (Fin 0)
             in Inr (QuotaCheck key (decide requested used held limit) limit used held requested))))))))"

definition offline_lease_route ::
    "codec \<Rightarrow> ed25519 \<Rightarrow> (offline_lease \<Rightarrow> string) \<Rightarrow> (time \<Rightarrow> string) \<Rightarrow> (string \<Rightarrow> uuid option) \<Rightarrow> signer \<Rightarrow> time option
      \<Rightarrow> env \<Rightarrow> customer_context \<Rightarrow> string option \<Rightarrow> string \<Rightarrow> ent \<Rightarrow> (app_error + offline_lease) \<times> ent" where
  "offline_lease_route cd ed ser rfc up sk ttl e x corr inst =
     checked (require_active (e_utc e 0) x) (\<lambda>i.
     checked (parse_id up inst ''installation_id'') (\<lambda>k.
     checked (ok_or ttl (internal ''Invalid offline grace configuration.'')) (\<lambda>ttl t.
       answered lease_app_error id (issue_offline_lease cd ed ser rfc e sk i k ttl corr t))))"

end
