(* ===== verification/Usage_Routes.thy ===== *)
theory Usage_Routes
  imports Customer_Routes
begin

text \<open>
  The usage handlers of \<^verbatim>\<open>routes/mod.rs\<close>: the limit of a meter comes from the entitlements of the
  product the caller names, the ledger decides and records. A handler's statements run one after
  another on one state; \<open>u\<close> is the reading of \<^verbatim>\<open>Utc::now()\<close> behind its period and month keys.
\<close>

definition on_acct :: "(db \<Rightarrow> 'r \<times> db) \<Rightarrow> ent \<Rightarrow> 'r \<times> ent" where
  "on_acct f t = (case f (acct t) of (r, d) \<Rightarrow> (r, t\<lparr>acct := d\<rparr>))"

text \<open>The cadence-qualified key wins over the bare one; \<open>None\<close> is no cap.\<close>

definition quota_of :: "quotas \<Rightarrow> string \<Rightarrow> string \<Rightarrow> f64 option" where
  "quota_of qs meter cadence =
     (case qs (quota_key_candidates meter cadence ! 0) of
        Some l \<Rightarrow> Some l
      | None \<Rightarrow> qs (quota_key_candidates meter cadence ! 1))"

definition meter_quota_limit ::
    "env \<Rightarrow> utc_now \<Rightarrow> uuid \<Rightarrow> string \<Rightarrow> meter_row \<Rightarrow> ent \<Rightarrow> app_error + f64 option" where
  "meter_quota_limit e u customer product m t =
     bind_r (load_for_route e u customer product t) (\<lambda>l.
       Inr (quota_of (er_quotas (evaluate (le_inputs l))) (me_key m) (me_cadence m)))"

definition known_meter :: "string \<Rightarrow> db \<Rightarrow> app_error + meter_row" where
  "known_meter key d = ok_or (find_meter key d) (not_found ''Unknown usage meter.'')"

record usage_check_view =
  vk_meter :: string
  vk_period :: string
  vk_requested :: f64
  vk_limit :: "f64 option"
  vk_used :: f64
  vk_reserved :: f64
  vk_decision :: quota_decision

definition usage_check ::
    "env \<Rightarrow> utc_now \<Rightarrow> customer_context \<Rightarrow> string \<Rightarrow> f64 option \<Rightarrow> string option \<Rightarrow> ent \<Rightarrow> app_error + usage_check_view" where
  "usage_check e u x meter amount product t =
     bind_r (require_active (e_utc e 0) x) (\<lambda>i.
     bind_r (clean_route_product product) (\<lambda>p.
     bind_r (clean_meter_key meter) (\<lambda>key.
     bind_r (case amount of Some a \<Rightarrow> clean_amount a | None \<Rightarrow> Inr (Fin 0)) (\<lambda>a.
     bind_r (known_meter key (acct t)) (\<lambda>m.
     bind_r (meter_quota_limit e u i p m t) (\<lambda>limit.
       (let period = period_key_for (me_cadence m) u; (used, held) = read_totals i key period (acct t)
        in Inr \<lparr>vk_meter = key, vk_period = period, vk_requested = a, vk_limit = limit, vk_used = used,
             vk_reserved = held, vk_decision = decide a used held limit\<rparr>)))))))"

section \<open>Reserve\<close>

text \<open>The reservation with its flag \<^verbatim>\<open>replayed\<close>.\<close>

definition reserve_answer ::
    "(quota_reason \<Rightarrow> string) \<Rightarrow> usage_error + reserve_outcome \<Rightarrow> app_error + reservation_row \<times> bool" where
  "reserve_answer why r = (case r of
     Inl err \<Rightarrow> Inl (usage_app_error err)
   | Inr (Reserved row) \<Rightarrow> Inr (row, False)
   | Inr (ReserveReplayed row) \<Rightarrow> Inr (row, True)
   | Inr (ReserveDenied dn) \<Rightarrow> Inl (quota_exceeded why dn))"

definition usage_reserve ::
    "(quota_reason \<Rightarrow> string) \<Rightarrow> time option \<Rightarrow> env \<Rightarrow> utc_now \<Rightarrow> customer_context \<Rightarrow> string option \<Rightarrow> headers \<Rightarrow> string
      \<Rightarrow> f64 \<Rightarrow> string option \<Rightarrow> ent \<Rightarrow> (app_error + reservation_row \<times> bool) \<times> ent" where
  "usage_reserve why ttl e u x corr hs meter amount product t =
     checked (require_active (e_utc e 0) x) (\<lambda>i.
     checked (ok_or (idempotency_key hs)
       (bad_request ''Usage reservations require an Idempotency-Key header.'')) (\<lambda>key.
     checked (clean_route_product product) (\<lambda>p.
     checked (clean_meter_key meter) (\<lambda>mk.
     checked (clean_amount amount) (\<lambda>a.
     checked (known_meter mk (acct t)) (\<lambda>m.
     checked (meter_quota_limit e u i p m t) (\<lambda>limit.
     checked (ok_or ttl (internal ''Invalid reservation TTL configuration.'')) (\<lambda>ttl t.
       (case on_acct (reserve e \<lparr>ri_customer = i, ri_meter = mk, ri_amount = a, ri_limit = limit,
                ri_period = period_key_for (me_cadence m) u, ri_ttl = ttl, ri_idem = key, ri_corr = corr\<rparr>) t of
          (r, t') \<Rightarrow> (reserve_answer why r, t'))))))))))
     t"

section \<open>Commit\<close>

record commit_request =
  cq_reservation :: "string option"
  cq_meter :: "string option"
  cq_amount :: "f64 option"
  cq_product :: "string option"

text \<open>The mode, meter and period a commit charges.\<close>

definition commit_target ::
    "(string \<Rightarrow> uuid option) \<Rightarrow> utc_now \<Rightarrow> uuid \<Rightarrow> commit_request \<Rightarrow> db
      \<Rightarrow> app_error + commit_mode \<times> meter_row \<times> string" where
  "commit_target up u customer req d =
     (case (cq_reservation req, cq_meter req) of
        (Some raw, None) \<Rightarrow>
          bind_r (parse_id up raw ''reservation_id'') (\<lambda>i.
          bind_r (ok_or (find_reservation customer i d) (not_found ''Reservation not found.'')) (\<lambda>r.
          bind_r (known_meter (re_meter r) d) (\<lambda>m.
            Inr (ByReservation i, m, re_period r))))
      | (None, Some raw) \<Rightarrow>
          bind_r (clean_meter_key raw) (\<lambda>key.
          bind_r (ok_or (cq_amount req) (message_error ''amount'' ''is required for direct commits'')) (\<lambda>raw_amount.
          bind_r (clean_amount raw_amount) (\<lambda>a.
          bind_r (known_meter key d) (\<lambda>m.
            Inr (Direct key a, m, period_key_for (me_cadence m) u)))))
      | _ \<Rightarrow> Inl (message_error ''reservation_id'' ''Provide reservation_id, or meter_key with amount.''))"

text \<open>The event, and unless replayed the amount used after it and the thresholds it crossed.\<close>

definition commit_answer ::
    "(quota_reason \<Rightarrow> string) \<Rightarrow> usage_error + commit_outcome
      \<Rightarrow> app_error + usage_event_row \<times> (f64 \<times> int list) option" where
  "commit_answer why r = (case r of
     Inl err \<Rightarrow> Inl (usage_app_error err)
   | Inr (Committed ev after crossed) \<Rightarrow> Inr (ev, Some (after, crossed))
   | Inr (CommitReplayed ev) \<Rightarrow> Inr (ev, None)
   | Inr (CommitDenied dn) \<Rightarrow> Inl (quota_exceeded why dn))"

definition usage_commit ::
    "(string \<Rightarrow> uuid option) \<Rightarrow> (quota_reason \<Rightarrow> string) \<Rightarrow> int list \<Rightarrow> env \<Rightarrow> utc_now \<Rightarrow> customer_context
      \<Rightarrow> string option \<Rightarrow> headers \<Rightarrow> commit_request \<Rightarrow> ent
      \<Rightarrow> (app_error + usage_event_row \<times> (f64 \<times> int list) option) \<times> ent" where
  "usage_commit up why percents e u x corr hs req t =
     checked (require_active (e_utc e 0) x) (\<lambda>i.
     checked (ok_or (idempotency_key hs) (bad_request ''Usage commits require an Idempotency-Key header.'')) (\<lambda>key.
     checked (clean_route_product (cq_product req)) (\<lambda>p.
     checked (commit_target up u i req (acct t)) (\<lambda>(mode, m, period).
     checked (meter_quota_limit e u i p m t) (\<lambda>limit t.
       (case on_acct (commit e \<lparr>ci_customer = i, ci_mode = mode, ci_limit = limit, ci_period = period,
                ci_percents = percents, ci_idem = key, ci_corr = corr\<rparr>) t of
          (r, t') \<Rightarrow> (commit_answer why r, t')))))))
     t"

section \<open>Release and current usage\<close>

record release_view =
  rw_reservation :: uuid
  rw_status :: string
  rw_amount :: "f64 option"
  rw_changed :: bool

definition release_answer :: "uuid \<Rightarrow> release_outcome \<Rightarrow> release_view" where
  "release_answer i r = (case r of
     Released a \<Rightarrow> \<lparr>rw_reservation = i, rw_status = ''released'', rw_amount = Some a, rw_changed = True\<rparr>
   | AlreadyTerminal s \<Rightarrow> \<lparr>rw_reservation = i, rw_status = s, rw_amount = None, rw_changed = False\<rparr>)"

definition usage_release ::
    "(string \<Rightarrow> uuid option) \<Rightarrow> env \<Rightarrow> customer_context \<Rightarrow> string \<Rightarrow> db \<Rightarrow> (app_error + release_view) \<times> db" where
  "usage_release up e x raw =
     checked (require_active (e_utc e 0) x) (\<lambda>c.
     checked (parse_id up raw ''reservation_id'') (\<lambda>i d.
       (case release e c i d of
          (r, d') \<Rightarrow> (bind_r (ok_or r (not_found ''Reservation not found.'')) (\<lambda>out. Inr (release_answer i out)), d'))))"

record current_usage_view =
  cw_row :: current_usage_row
  cw_limit :: "f64 option"
  cw_remaining :: "f64 option"

definition current_view :: "quotas \<Rightarrow> current_usage_row \<Rightarrow> current_usage_view" where
  "current_view qs r = (let limit = quota_of qs (cr_meter r) (cr_cadence r) in
     \<lparr>cw_row = r, cw_limit = limit,
      cw_remaining = map_option (\<lambda>l. f64_sub (f64_sub l (cr_used r)) (cr_reserved r)) limit\<rparr>)"

definition usage_current ::
    "env \<Rightarrow> utc_now \<Rightarrow> customer_context \<Rightarrow> string option \<Rightarrow> ent \<Rightarrow> app_error + string \<times> current_usage_view list" where
  "usage_current e u x product t =
     bind_r (require_active (e_utc e 0) x) (\<lambda>i.
     bind_r (clean_route_product product) (\<lambda>p.
     bind_r (load_for_route e u i p t) (\<lambda>l.
       Inr (p, map (current_view (er_quotas (evaluate (le_inputs l)))) (current_usage e i (acct t))))))"

end
