(* ===== verification/Tenancy.thy ===== *)
theory Tenancy
  imports Usage_Routes Access_Properties
begin

text \<open>
  The customer handlers together: what one request may change. A handler passes the gate on the
  context first, and the repository it calls works on rows of that customer.
\<close>

section \<open>Everyone else's rows\<close>

text \<open>
  The database without the rows of customer \<open>c\<close>. A fleet's applications and an
  installation's activations belong to its owner. The outbox, which is delivered elsewhere, is left out.
\<close>

definition foreign :: "uuid \<Rightarrow> db \<Rightarrow> db" where
  "foreign c d = d\<lparr>
     customers := filter (\<lambda>r. cu_id r \<noteq> c) (customers d),
     devices := filter (\<lambda>r. dv_customer r \<noteq> c) (devices d),
     fleets := filter (\<lambda>r. fl_customer r \<noteq> c) (fleets d),
     fleet_apps := filter (\<lambda>a. \<exists>f \<in> set (fleets d). fl_id f = fa_fleet a \<and> fl_customer f \<noteq> c) (fleet_apps d),
     installations := filter (\<lambda>r. in_customer r \<noteq> c) (installations d),
     activations := filter (\<lambda>a. \<exists>i \<in> set (installations d). in_id i = ac_installation a \<and> in_customer i \<noteq> c)
       (activations d),
     reservations := filter (\<lambda>r. re_customer r \<noteq> c) (reservations d),
     usage_events := filter (\<lambda>r. ue_customer r \<noteq> c) (usage_events d),
     totals := filter (\<lambda>r. to_customer r \<noteq> c) (totals d),
     decisions := filter (\<lambda>r. qd_customer r \<noteq> c) (decisions d),
     deletions := filter (\<lambda>r. dr_customer r \<noteq> c) (deletions d),
     audits := filter (\<lambda>r. au_customer r \<noteq> Some c) (audits d),
     outbox := []\<rparr>"

text \<open>The primary keys of the tables updated by id.\<close>

definition primary_keys :: "db \<Rightarrow> bool" where
  "primary_keys d \<longleftrightarrow> distinct (map in_id (installations d)) \<and> distinct (map re_id (reservations d))
     \<and> distinct (map dr_id (deletions d)) \<and> distinct (map fl_id (fleets d))"

lemma filter_upd_own:
  "(\<And>r. r \<in> set rs \<Longrightarrow> P r \<Longrightarrow> \<not> Q r \<and> \<not> Q (f r)) \<Longrightarrow> filter Q (upd P f rs) = filter Q rs"
  by (induction rs) auto

lemma key_row: "distinct (map k rs) \<Longrightarrow> r \<in> set rs \<Longrightarrow> x \<in> set rs \<Longrightarrow> k x = k r \<Longrightarrow> x = r"
  by (auto simp: distinct_map inj_on_def)

lemma foreign_audit [simp]: "a_actor r = c \<Longrightarrow> foreign c (write_customer_audit r d) = foreign c d"
  by (simp add: foreign_def write_customer_audit_def write_audit_def)

lemma foreign_outbox [simp]: "foreign c (write_outbox e n ev k p d) = foreign c d"
  by (simp add: foreign_def write_outbox_def)

lemma foreign_devices:
  "filter (\<lambda>r. dv_customer r \<noteq> c) v = filter (\<lambda>r. dv_customer r \<noteq> c) (devices d) \<Longrightarrow>
     foreign c (d\<lparr>devices := v\<rparr>) = foreign c d"
  by (simp add: foreign_def)

lemma foreign_installations:
  assumes "filter (\<lambda>r. in_customer r \<noteq> c) v = filter (\<lambda>r. in_customer r \<noteq> c) (installations d)"
  shows "foreign c (d\<lparr>installations := v\<rparr>) = foreign c d"
proof -
  have "set (filter (\<lambda>r. in_customer r \<noteq> c) v) = set (filter (\<lambda>r. in_customer r \<noteq> c) (installations d))"
    using assms by simp
  then have "(\<exists>i \<in> set v. in_id i = x \<and> in_customer i \<noteq> c)
      \<longleftrightarrow> (\<exists>i \<in> set (installations d). in_id i = x \<and> in_customer i \<noteq> c)" for x
    by auto
  then show ?thesis using assms by (simp add: foreign_def)
qed

lemma foreign_activations:
  assumes "filter (\<lambda>a. \<exists>i \<in> set (installations d). in_id i = ac_installation a \<and> in_customer i \<noteq> c) v
    = filter (\<lambda>a. \<exists>i \<in> set (installations d). in_id i = ac_installation a \<and> in_customer i \<noteq> c) (activations d)"
  shows "foreign c (d\<lparr>activations := v\<rparr>) = foreign c d"
  using assms by (simp add: foreign_def)

section \<open>The ledger\<close>

lemma foreign_totals_upd [simp]: "foreign c (d\<lparr>totals := upd (totals_for c m p) f (totals d)\<rparr>) = foreign c d"
  if "\<And>t. to_customer (f t) = to_customer t"
proof -
  have "filter (\<lambda>r. to_customer r \<noteq> c) (upd (totals_for c m p) f (totals d)) = filter (\<lambda>r. to_customer r \<noteq> c) (totals d)"
    by (rule filter_upd_own) (auto simp: totals_for_def that)
  then show ?thesis by (simp add: foreign_def)
qed

lemma foreign_free_hold [simp]: "foreign c (free_hold e c m p a d) = foreign c d"
  by (simp add: free_hold_def)

lemma foreign_ensure_total [simp]: "foreign c (ensure_total c m p d) = foreign c d"
  by (simp add: foreign_def ensure_total_def)

lemma foreign_set_reservation:
  "(\<And>r. r \<in> set (reservations d) \<Longrightarrow> P r \<Longrightarrow> re_customer r = c) \<Longrightarrow> foreign c (set_reservation P s d) = foreign c d"
proof -
  assume "\<And>r. r \<in> set (reservations d) \<Longrightarrow> P r \<Longrightarrow> re_customer r = c"
  then have "filter (\<lambda>r. re_customer r \<noteq> c) (upd P (\<lambda>r. r\<lparr>re_status := s\<rparr>) (reservations d))
      = filter (\<lambda>r. re_customer r \<noteq> c) (reservations d)"
    by (intro filter_upd_own) auto
  then show ?thesis by (simp add: foreign_def set_reservation_def)
qed

lemma foreign_expire [simp]: "foreign c (snd (expire_stale_reservations e c m p d)) = foreign c d"
proof -
  have "foreign c (set_reservation (stale_for e c m p) ''expired'' d) = foreign c d"
    by (rule foreign_set_reservation) (simp add: stale_for_def)
  then show ?thesis by (simp add: expire_stale_reservations_def Let_def)
qed

lemma foreign_decision [simp]: "foreign c (record_decision e c m r l u s dec corr d) = foreign c d"
  by (simp add: record_decision_def foreign_def)

lemma foreign_gate: "gate e c m p a l corr d = Inr (x, d') \<Longrightarrow> foreign c d' = foreign c d"
  by (auto simp: gate_def lock_totals_def Let_def)

lemma foreign_reserve: "foreign (ri_customer inp) (snd (reserve e inp d)) = foreign (ri_customer inp) d"
proof -
  have hold: "foreign (ri_customer inp) (d1\<lparr>reservations := reservations d1 @ [row], totals := upd
      (totals_for (ri_customer inp) m p) (\<lambda>t. t\<lparr>to_reserved := g t\<rparr>) (totals d1)\<rparr>) = foreign (ri_customer inp) d1"
    if "re_customer row = ri_customer inp" for d1 row m p g
  proof -
    let ?d = "d1\<lparr>reservations := reservations d1 @ [row]\<rparr>"
    have "foreign (ri_customer inp) (?d\<lparr>totals := upd
        (totals_for (ri_customer inp) m p) (\<lambda>t. t\<lparr>to_reserved := g t\<rparr>) (totals ?d)\<rparr>) = foreign (ri_customer inp) ?d"
      by (rule foreign_totals_upd) simp
    also have "\<dots> = foreign (ri_customer inp) d1" using that by (simp add: foreign_def)
    finally show ?thesis by simp
  qed
  show ?thesis
    by (auto simp: reserve_def Let_def hold dest!: foreign_gate split: option.split sum.split prod.split)
qed

lemma foreign_write_thresholds [simp]: "foreign c (fold (write_threshold e c' m p u l) xs d) = foreign c d"
  by (induction xs arbitrary: d) (simp_all add: write_threshold_def split: prod.split)

lemma set_reservation_own:
  assumes "find_reservation c i d = Some r" and "distinct (map re_id (reservations d))"
  shows "foreign c (set_reservation (\<lambda>r. re_id r = i) s d) = foreign c d"
proof (rule foreign_set_reservation)
  fix x assume "x \<in> set (reservations d)" "re_id x = i"
  then show "re_customer x = c"
    using find_SomeD [OF assms(1) [unfolded find_reservation_def]] key_row [OF assms(2), of r x] by auto
qed

definition owned_charge :: "uuid \<Rightarrow> charge \<Rightarrow> db \<Rightarrow> bool" where
  "owned_charge c x d \<longleftrightarrow> (\<forall>r \<in> set (reservations d). snd (snd (snd x)) = Some (re_id r) \<longrightarrow> re_customer r = c)"

lemma foreign_post_charge:
  assumes "owned_charge c x d" and "ue_customer ev = c"
  shows "foreign c (post_charge e c ev x d) = foreign c d"
proof -
  obtain m a p rid where x: "x = (m, a, p, rid)" by (cases x)
  let ?d1 = "d\<lparr>usage_events := usage_events d @ [ev]\<rparr>"
  let ?d2 = "case rid of None \<Rightarrow> ?d1 | Some i \<Rightarrow> set_reservation (\<lambda>r. re_id r = i) ''committed'' ?d1"
  have 1: "foreign c ?d1 = foreign c d" using assms(2) by (simp add: foreign_def)
  have 2: "foreign c ?d2 = foreign c ?d1"
  proof (cases rid)
    case (Some i)
    have "foreign c (set_reservation (\<lambda>r. re_id r = i) ''committed'' ?d1) = foreign c ?d1"
      by (rule foreign_set_reservation) (use assms(1) Some in \<open>auto simp: owned_charge_def x\<close>)
    then show ?thesis using Some by simp
  qed simp
  have "foreign c (post_charge e c ev x d) = foreign c ?d2"
    unfolding post_charge_def x prod.case Let_def by (rule foreign_totals_upd) simp
  with 1 2 show ?thesis by simp
qed

lemma foreign_apply_charge:
  assumes "apply_charge e inp x d = (res, d')" and "owned_charge (ci_customer inp) x d"
  shows "foreign (ci_customer inp) d' = foreign (ci_customer inp) d"
proof -
  obtain m a p rid where x: "x = (m, a, p, rid)" by (cases x)
  from assms show ?thesis
    by (auto simp: apply_charge_def x Let_def foreign_post_charge split: option.splits)
qed

lemma foreign_resolve:
  assumes "distinct (map re_id (reservations d))"
    and "(case ci_mode inp of ByReservation i \<Rightarrow> resolve_reservation e inp i d
      | Direct m amount \<Rightarrow> resolve_direct e inp m amount d) = (res, d')"
  shows "foreign (ci_customer inp) d' = foreign (ci_customer inp) d"
    and "res = Inr x \<Longrightarrow> owned_charge (ci_customer inp) x d'"
proof -
  let ?c = "ci_customer inp"
  have "foreign ?c d' = foreign ?c d \<and> (res = Inr x \<longrightarrow> owned_charge ?c x d')"
  proof (cases "ci_mode inp")
    case (ByReservation i)
    then have r: "resolve_reservation e inp i d = (res, d')" using assms(2) by simp
    show ?thesis
    proof (cases "find_reservation ?c i d")
      case (Some r)
      have own: "owned_charge ?c (m, a, p, Some i) d" for m a p
        using find_SomeD [OF Some [unfolded find_reservation_def]] key_row [OF assms(1), of r]
        by (auto simp: owned_charge_def)
      show ?thesis
        using r Some own set_reservation_own [OF Some assms(1)]
        by (auto simp: resolve_reservation_def split: if_splits)
    qed (use r in \<open>auto simp: resolve_reservation_def\<close>)
  next
    case (Direct m a)
    then show ?thesis
      using assms(2)
      by (auto simp: resolve_direct_def Let_def owned_charge_def dest!: foreign_gate split: if_splits sum.splits)
  qed
  then show "foreign ?c d' = foreign ?c d" and "res = Inr x \<Longrightarrow> owned_charge ?c x d'" by simp_all
qed

lemma foreign_commit:
  assumes "distinct (map re_id (reservations d))" and co: "commit e inp d = (res, d')"
  shows "foreign (ci_customer inp) d' = foreign (ci_customer inp) d"
proof (cases "event_of (ci_customer inp) (ci_idem inp) d")
  case (Some ev)
  with co show ?thesis by (simp add: commit_def)
next
  case None
  obtain res1 d1 where r: "(case ci_mode inp of ByReservation i \<Rightarrow> resolve_reservation e inp i d
      | Direct m amount \<Rightarrow> resolve_direct e inp m amount d) = (res1, d1)" by (meson surj_pair)
  note f = foreign_resolve [OF assms(1) r]
  show ?thesis
  proof (cases res1)
    case (Inl y)
    with co None r f(1) show ?thesis by (simp add: commit_def)
  next
    case (Inr x)
    obtain res2 d2 where ch: "apply_charge e inp x d1 = (res2, d2)" by (meson surj_pair)
    have "d' = d \<or> d' = d2" using co None r Inr ch by (auto simp: commit_def split: sum.splits)
    then show ?thesis using foreign_apply_charge [OF ch f(2) [OF Inr]] f(1) by auto
  qed
qed

lemma foreign_release:
  assumes "distinct (map re_id (reservations d))" and "release e c i d = (res, d')"
  shows "foreign c d' = foreign c d"
  using assms(2) set_reservation_own [OF _ assms(1)]
  by (auto simp: release_def split: option.splits if_splits)

section \<open>The account\<close>

lemma foreign_customers_upd: "foreign c (set_mfa_required c q d) = foreign c d"
proof -
  have "filter (\<lambda>r. cu_id r \<noteq> c) (upd (\<lambda>r. cu_id r = c) (\<lambda>r. r\<lparr>cu_mfa_required := q\<rparr>) (customers d))
      = filter (\<lambda>r. cu_id r \<noteq> c) (customers d)"
    by (rule filter_upd_own) simp
  then show ?thesis by (simp add: set_mfa_required_def foreign_def)
qed

lemma foreign_upsert_device: "foreign c (snd (upsert_device e c dev d)) = foreign c d"
proof -
  have "filter (\<lambda>r. dv_customer r \<noteq> c) (upd (same_device c k) (\<lambda>r. r\<lparr>dv_label := f r\<rparr>) (devices d))
      = filter (\<lambda>r. dv_customer r \<noteq> c) (devices d)" for k f
    by (rule filter_upd_own) (simp add: same_device_def)
  then show ?thesis by (auto simp: upsert_device_def intro!: foreign_devices split: option.split)
qed

lemma foreign_ensure_fleet:
  assumes "ensure_fleet e c key d = (f, d')"
  shows "foreign c d' = foreign c d" "\<exists>r \<in> set (fleets d'). fl_id r = f \<and> fl_customer r = c"
    "fleets d' = fleets d \<or> (\<exists>r. fleets d' = fleets d @ [r] \<and> fl_customer r = c \<and> fl_id r = e_id e 1)"
  using assms by (auto simp: ensure_fleet_def foreign_def default_fleet_of_def dest!: find_SomeD
      cong: rev_conj_cong split: option.splits)

lemma foreign_ensure_fleet_app:
  assumes "\<forall>r \<in> set (fleets d). fl_id r = f \<longrightarrow> fl_customer r = c"
  shows "foreign c (ensure_fleet_app f p d) = foreign c d"
  using assms by (auto simp: ensure_fleet_app_def foreign_def)

lemma foreign_prepared:
  assumes "prepared e c inp p d = (device, fleet, d')" and "distinct (map fl_id (fleets d))"
    and "e_id e 1 \<notin> fl_id ` set (fleets d)"
  shows "foreign c d' = foreign c d"
proof -
  define d1 where "d1 = (case vr_device inp of None \<Rightarrow> d | Some dev \<Rightarrow> snd (upsert_device e c dev d))"
  have 1: "foreign c d1 = foreign c d" by (simp add: d1_def foreign_upsert_device split: option.split)
  have 2: "fleets d1 = fleets d" by (simp add: d1_def upsert_device_def split: option.split)
  obtain f d2 where 3: "ensure_fleet e c (pr_key p) d1 = (f, d2)" by fastforce
  have d': "d' = ensure_fleet_app f (pr_id p) d2"
    using assms(1) 3 by (auto simp: prepared_def d1_def Let_def split: option.splits prod.splits)
  note F = foreign_ensure_fleet [OF 3]
  have "distinct (map fl_id (fleets d2))" using F(3) assms(2,3) 2 by auto
  then have "\<forall>r \<in> set (fleets d2). fl_id r = f \<longrightarrow> fl_customer r = c"
    using F(2) key_row by metis
  then show ?thesis using foreign_ensure_fleet_app F(1) 1 by (simp add: d')
qed

lemma foreign_register:
  assumes "register_installation e c inp d = (res, d')" and "primary_keys d" and "e_id e 1 \<notin> fl_id ` set (fleets d)"
  shows "foreign c d' = foreign c d"
proof (cases "find (\<lambda>p. pr_key p = vr_product_key inp \<and> pr_status p = ''active'') (products d)")
  case None
  with assms show ?thesis by (simp add: register_installation_prepared)
next
  case (Some p)
  obtain device fleet d3 where prep: "prepared e c inp p d = (device, fleet, d3)"
    by (cases "prepared e c inp p d")
  have 3: "foreign c d3 = foreign c d" "installations d3 = installations d"
    using foreign_prepared [OF prep] prepared_tables(1) [OF prep] assms(2,3) by (auto simp: primary_keys_def)
  have "foreign c (d3\<lparr>installations := installations d3 @ [new_installation e c device fleet (pr_id p) inp]\<rparr>) = foreign c d3"
    by (rule foreign_installations) (simp add: new_installation_def)
  moreover have "foreign c (d3\<lparr>installations := upd (\<lambda>r. in_id r = in_id i) (refresh_installation device fleet inp)
      (installations d3)\<rparr>) = foreign c d3" if "find (has_key c (vr_install_key inp)) (installations d3) = Some i" for i
  proof (rule foreign_installations, rule filter_upd_own)
    fix r assume "r \<in> set (installations d3)" "in_id r = in_id i"
    then have "r = i" using key_row [of in_id "installations d3" i r] find_SomeD [OF that] 3(2) assms(2)
      by (auto simp: primary_keys_def)
    then show "\<not> in_customer r \<noteq> c \<and> \<not> in_customer (refresh_installation device fleet inp r) \<noteq> c"
      using find_SomeD [OF that] by (simp add: has_key_def refresh_installation_def)
  qed
  ultimately show ?thesis
    using assms(1) 3(1) by (auto simp: register_installation_prepared Some prep Let_def split: option.splits if_splits)
qed

lemma own_installation:
  assumes "find (\<lambda>i. in_id i = k \<and> in_customer i = c) (installations d) = Some inst" and "distinct (map in_id (installations d))"
    and "r \<in> set (installations d)" and "in_id r = k"
  shows "in_customer r = c"
  using find_SomeD [OF assms(1)] key_row [OF assms(2), of inst r] assms(3,4) by auto

lemma foreign_activate:
  assumes "activate_installation e c i w corr d = (res, d')" and "distinct (map in_id (installations d))"
  shows "foreign c d' = foreign c d"
proof -
  have new: "foreign c (d\<lparr>activations := activations d @ [a]\<rparr>) = foreign c d"
    if "find (\<lambda>j. in_id j = i \<and> in_customer j = c) (installations d) = Some inst" "ac_installation a = in_id inst" for inst a
    by (rule foreign_activations)
      (use own_installation [OF that(1) assms(2)] find_SomeD [OF that(1)] that(2) in auto)
  show ?thesis
    using assms(1) new
    by (auto simp: activate_installation_def record_activation_def activation_audit_def Let_def
        simp del: bind_r_eq_Inr split: option.splits if_splits sum.splits)
qed

lemma foreign_heartbeat: "heartbeat_installation e c i v d = (res, d') \<Longrightarrow> foreign c d' = foreign c d"
  unfolding heartbeat_installation_def Let_def
  by (auto intro!: foreign_installations filter_upd_own)

lemma foreign_deactivate:
  assumes "deactivate_installation e c i corr d = (res, d')" and "distinct (map in_id (installations d))"
  shows "foreign c d' = foreign c d"
proof (cases "find (\<lambda>j. in_id j = i \<and> in_customer j = c) (installations d)")
  case (Some inst)
  let ?d1 = "d\<lparr>installations := upd (\<lambda>j. in_id j = i) (\<lambda>j. j\<lparr>in_status := ''deactivated''\<rparr>) (installations d)\<rparr>"
  note own = own_installation [OF Some assms(2)]
  have 1: "foreign c ?d1 = foreign c d"
    by (rule foreign_installations, rule filter_upd_own) (use own in auto)
  have "foreign c (?d1\<lparr>activations := upd (\<lambda>a. ac_installation a = i \<and> ac_status a = ''active'')
      (\<lambda>a. a\<lparr>ac_status := ''deactivated'', ac_deactivated := Some (e_now e)\<rparr>) (activations ?d1)\<rparr>) = foreign c ?d1"
    by (rule foreign_activations, rule filter_upd_own) (use own in \<open>auto simp: set_upd\<close>)
  with 1 show ?thesis using assms(1) Some by (auto simp: deactivate_installation_def Let_def split: if_splits)
qed (use assms in \<open>simp add: deactivate_installation_def\<close>)

lemma foreign_request: "request_deletion e c reason corr d = (res, d') \<Longrightarrow> foreign c d' = foreign c d"
proof -
  have "foreign c (d\<lparr>deletions := deletions d @ [r]\<rparr>) = foreign c d" if "dr_customer r = c" for r
    using that by (simp add: foreign_def)
  then show "request_deletion e c reason corr d = (res, d') \<Longrightarrow> foreign c d' = foreign c d"
    by (auto simp: request_deletion_def Let_def split: option.splits)
qed

lemma foreign_cancel:
  assumes "cancel_request c corr d = (res, d')" and "distinct (map dr_id (deletions d))"
  shows "foreign c d' = foreign c d"
proof -
  have "foreign c d1 = foreign c d"
    if "open_request c d = Some r" "set_request_status (dr_id r) s t d = Inr (r', d1)" for r s t r' d1
  proof -
    have own: "r \<in> set (deletions d)" "dr_customer r = c"
      using first_by_SomeD(1) [OF that(1) [unfolded open_request_def]] by (auto simp: open_for_def)
    have "filter (\<lambda>x. dr_customer x \<noteq> c) (upd (\<lambda>x. dr_id x = dr_id r) (with_status s t) (deletions d))
        = filter (\<lambda>x. dr_customer x \<noteq> c) (deletions d)"
      by (rule filter_upd_own) (use own key_row [OF assms(2) own(1)] in \<open>auto simp: with_status_def\<close>)
    then show ?thesis using that(2) by (auto simp: set_request_status_def foreign_def)
  qed
  then show ?thesis
    using assms(1) by (auto simp: cancel_request_def transact_def split: sum.splits if_splits)
qed

section \<open>One request\<close>

text \<open>A customer's request that may write: its effect on the account database.\<close>

inductive customer_request :: "env \<Rightarrow> customer_context \<Rightarrow> db \<Rightarrow> db \<Rightarrow> bool" for e x where
  mfa: "account_mfa_status e x q d = (r1, d') \<Longrightarrow> customer_request e x d d'"
| deletion: "deletion_request_create e x corr why d = (r2, d') \<Longrightarrow> customer_request e x d d'"
| cancel: "deletion_request_cancel e x corr d = (r3, d') \<Longrightarrow> customer_request e x d d'"
| register: "e_id e 1 \<notin> fl_id ` set (fleets d) \<Longrightarrow> installations_register cd e x req d = (r4, d') \<Longrightarrow>
    customer_request e x d d'"
| activate: "installation_activate up e x corr path lic d = (r5, d') \<Longrightarrow> customer_request e x d d'"
| heartbeat: "installation_heartbeat up e x path body d = (r6, d') \<Longrightarrow> customer_request e x d d'"
| deactivate: "installation_deactivate up e x corr path d = (r7, d') \<Longrightarrow> customer_request e x d d'"
| reserve: "usage_reserve why' ttl e u x corr hs meter amount product t = (r8, t') \<Longrightarrow>
    customer_request e x (acct t) (acct t')"
| commit: "usage_commit up why' percents e u x corr hs creq t = (r9, t') \<Longrightarrow>
    customer_request e x (acct t) (acct t')"
| release: "usage_release up e x raw d = (r10, d') \<Longrightarrow> customer_request e x d d'"
| snapshot: "entitlements_current cd ed ser enc rfc up sk ttl e u x product inst t = (r11, t') \<Longrightarrow>
    customer_request e x (acct t) (acct t')"
| lease: "offline_lease_route cd ed ser' rfc up sk ttl e x corr inst' t = (r12, t') \<Longrightarrow>
    customer_request e x (acct t) (acct t')"

lemma foreign_lease:
  "issue_offline_lease cd ed ser rfc e sk c i ttl corr t = (res, t') \<Longrightarrow> foreign c (acct t') = foreign c (acct t)"
  by (auto simp: issue_offline_lease_def Let_def split: sum.splits prod.splits)

text \<open>A check either ends the handler where it started or lets it go on.\<close>

lemma checked_cases:
  assumes "checked r f s = (res, s')"
  obtains (stop) err where "res = Inl err" "s' = s" | (go) a where "r = Inr a" "f a s = (res, s')"
  using assms by (cases r) auto

text \<open>What the usage handlers come down to.\<close>

lemma usage_reserve_effect:
  assumes "usage_reserve why ttl e u x corr hs meter amount product t = (r, t')"
  obtains (stop) err where "r = Inl err" "t' = t"
  | (go) i key p mk a m limit life res d where "require_active (e_utc e 0) x = Inr i" "idempotency_key hs = Some key"
      "clean_route_product product = Inr p" "clean_meter_key meter = Inr mk" "clean_amount amount = Inr a"
      "known_meter mk (acct t) = Inr m" "meter_quota_limit e u i p m t = Inr limit" "ttl = Some life"
      "reserve e \<lparr>ri_customer = i, ri_meter = mk, ri_amount = a, ri_limit = limit,
         ri_period = period_key_for (me_cadence m) u, ri_ttl = life, ri_idem = key, ri_corr = corr\<rparr> (acct t) = (res, d)"
      "t' = t\<lparr>acct := d\<rparr>" "r = reserve_answer why res"
proof (cases "(\<exists>err. r = Inl err) \<and> t' = t")
  case False
  with assms show ?thesis
    by (auto simp: usage_reserve_def on_acct_def elim!: checked_cases split: prod.splits intro: go)
qed (use stop in blast)

lemma usage_commit_effect:
  assumes "usage_commit up why percents e u x corr hs req t = (r, t')"
  obtains (stop) err where "r = Inl err" "t' = t"
  | (go) i key p mode m period limit res d where "require_active (e_utc e 0) x = Inr i" "idempotency_key hs = Some key"
      "clean_route_product (cq_product req) = Inr p" "commit_target up u i req (acct t) = Inr (mode, m, period)"
      "meter_quota_limit e u i p m t = Inr limit"
      "commit e \<lparr>ci_customer = i, ci_mode = mode, ci_limit = limit, ci_period = period, ci_percents = percents,
         ci_idem = key, ci_corr = corr\<rparr> (acct t) = (res, d)"
      "t' = t\<lparr>acct := d\<rparr>" "r = commit_answer why res"
proof (cases "(\<exists>err. r = Inl err) \<and> t' = t")
  case False
  with assms show ?thesis
    by (auto simp: usage_commit_def on_acct_def elim!: checked_cases split: prod.splits intro: go)
qed (use stop in blast)

lemma customer_request_isolated:
  assumes "customer_request e x d d'" and "primary_keys d"
  shows "d' = d \<or> (\<exists>c. require_active (e_utc e 0) x = Inr c \<and> foreign c d' = foreign c d)"
  using assms
proof (induction rule: customer_request.induct)
  case (mfa q d r1 d')
  then show ?case
    by (auto simp: account_mfa_status_def foreign_customers_upd elim!: checked_cases)
next
  case (deletion corr why d r2 d')
  then show ?case
    by (auto simp: deletion_request_create_def foreign_request elim!: checked_cases split: prod.splits)
next
  case (cancel corr d r3 d')
  then show ?case
    using foreign_cancel
    by (fastforce simp: deletion_request_cancel_def primary_keys_def answered_def elim!: checked_cases split: prod.splits)
next
  case (register d cd req r4 d')
  then show ?case
    using foreign_register
    by (fastforce simp: installations_register_def answered_def elim!: checked_cases split: prod.splits)
next
  case (activate up corr path lic d r5 d')
  then show ?case
    using foreign_activate
    by (fastforce simp: installation_activate_def primary_keys_def answered_def elim!: checked_cases split: prod.splits)
next
  case (heartbeat up path body d r6 d')
  then show ?case
    using foreign_heartbeat
    by (fastforce simp: installation_heartbeat_def elim!: checked_cases split: prod.splits)
next
  case (deactivate up corr path d r7 d')
  then show ?case
    using foreign_deactivate
    by (fastforce simp: installation_deactivate_def primary_keys_def answered_def elim!: checked_cases split: prod.splits)
next
  case (reserve why' ttl u corr hs meter amount product t r8 t')
  from reserve(1) show ?case
  proof (cases rule: usage_reserve_effect)
    case (go i key p mk a m limit life res d)
    then show ?thesis using foreign_reserve [of "\<lparr>ri_customer = i, ri_meter = mk, ri_amount = a, ri_limit = limit,
         ri_period = period_key_for (me_cadence m) u, ri_ttl = life, ri_idem = key, ri_corr = corr\<rparr>" e "acct t"]
      by simp
  qed simp
next
  case (commit up why' percents u corr hs creq t r9 t')
  from commit(1) show ?case
  proof (cases rule: usage_commit_effect)
    case (go i key p mode m period limit res d)
    then show ?thesis using foreign_commit [OF _ go(6)] commit.prems by (simp add: primary_keys_def)
  qed simp
next
  case (release up raw d r10 d')
  then show ?case
    using foreign_release
    by (fastforce simp: usage_release_def primary_keys_def elim!: checked_cases split: prod.splits)
next
  case (snapshot cd ed ser enc rfc up sk ttl u product inst t r11 t')
  then show ?case
    by (auto simp: entitlements_current_def store_snapshot_def Let_def elim!: checked_cases)
next
  case (lease cd ed ser' rfc up sk ttl corr inst' t r12 t')
  then show ?case
    using foreign_lease
    by (fastforce simp: offline_lease_route_def answered_def elim!: checked_cases split: prod.splits)
qed

end
