(* ===== verification/Admin_Routes.thy ===== *)
theory Admin_Routes
  imports Http_Util Releases Privacy Auth
begin

text \<open>
  The operator handlers of \<^verbatim>\<open>routes/mod.rs\<close> over customers, policies, deletions and the audit trail. A read needs any valid operator token,
  which the extractor of the context has checked; a mutation needs the \<^verbatim>\<open>admin\<close> role and a written
  reason, and on the release side an \<^verbatim>\<open>Idempotency-Key\<close>. \<open>up\<close> is \<^verbatim>\<open>Uuid::parse_str\<close>, \<open>rfc\<close> the RFC 3339 parser.
\<close>

section \<open>Shared checks\<close>

definition vetted :: "verr + 'a \<Rightarrow> app_error + 'a" where
  "vetted r = map_err admin_validation_error r"

definition vetted_opt :: "(string \<Rightarrow> verr + 'a) \<Rightarrow> string option \<Rightarrow> app_error + 'a option" where
  "vetted_opt f = clean_opt (\<lambda>v. vetted (f v))"

definition admin_keyed :: "admin_context \<Rightarrow> headers \<Rightarrow> string \<Rightarrow> app_error + string" where
  "admin_keyed op hs msg = bind_r (require_role ''admin'' op) (\<lambda>_. ok_or (idempotency_key hs) (bad_request msg))"

definition one_of_opt :: "string list \<Rightarrow> app_error \<Rightarrow> string option \<Rightarrow> app_error + string option" where
  "one_of_opt allowed err value = clean_opt (\<lambda>v. if one_of allowed v then Inr v else Inl err) (trim_opt value)"

text \<open>A mutation of one row by path id and reason.\<close>

definition reasoned ::
    "(string \<Rightarrow> uuid option) \<Rightarrow> string \<Rightarrow> string \<Rightarrow> (uuid \<Rightarrow> string \<Rightarrow> 's \<Rightarrow> (app_error + 'b) \<times> 's) \<Rightarrow> 's
      \<Rightarrow> (app_error + 'b) \<times> 's" where
  "reasoned up path reason f =
     checked (parse_path_id up path) (\<lambda>i. checked (vetted (clean_reason reason)) (\<lambda>why. f i why))"

section \<open>Customers\<close>

definition customers_filter ::
    "string option \<Rightarrow> string option \<Rightarrow> int option \<Rightarrow> int option \<Rightarrow> app_error + customer_filter" where
  "customers_filter email status limit offset =
     bind_r (clean_opt (\<lambda>v. if 320 < length v \<or> CHR ''@'' \<notin> set v
         then Inl (message_error ''email'' ''must be an email address'') else Inr v) (trim_opt email)) (\<lambda>m.
     bind_r (one_of_opt [''pending'', ''active'', ''suspended'', ''closed'', ''anonymized'']
         (message_error ''status'' ''unknown customer status'') status) (\<lambda>s.
       Inr \<lparr>cf_email = m, cf_status = s, cf_limit = clamp (unwrap_or limit 25) 1 100,
            cf_offset = clamp (unwrap_or offset 0) 0 100000\<rparr>))"

definition admin_customers ::
    "(uuid \<Rightarrow> int) \<Rightarrow> string option \<Rightarrow> string option \<Rightarrow> int option \<Rightarrow> int option \<Rightarrow> db \<Rightarrow> app_error + admin_customer list" where
  "admin_customers rank email status limit offset d =
     bind_r (customers_filter email status limit offset) (\<lambda>f. Inr (list_customers rank f d))"

definition admin_suspend ::
    "(string \<Rightarrow> uuid option) \<Rightarrow> env \<Rightarrow> admin_context \<Rightarrow> string option \<Rightarrow> string \<Rightarrow> string \<Rightarrow> db
      \<Rightarrow> (app_error + status_change_outcome) \<times> db" where
  "admin_suspend up e op corr path reason =
     checked (require_role ''admin'' op) (\<lambda>_. reasoned up path reason (\<lambda>i why d.
       answered admin_app_error id (suspend_customer e (ax_operator op) i why corr d)))"

definition admin_restore ::
    "(string \<Rightarrow> uuid option) \<Rightarrow> env \<Rightarrow> admin_context \<Rightarrow> string option \<Rightarrow> string \<Rightarrow> string \<Rightarrow> db
      \<Rightarrow> (app_error + status_change_outcome) \<times> db" where
  "admin_restore up e op corr path reason =
     checked (require_role ''admin'' op) (\<lambda>_. reasoned up path reason (\<lambda>i why d.
       answered admin_app_error id (restore_customer e (ax_operator op) i why corr d)))"

definition admin_set_mfa_required ::
    "(string \<Rightarrow> uuid option) \<Rightarrow> env \<Rightarrow> admin_context \<Rightarrow> string option \<Rightarrow> string \<Rightarrow> bool \<Rightarrow> string \<Rightarrow> db
      \<Rightarrow> (app_error + mfa_outcome) \<times> db" where
  "admin_set_mfa_required up e op corr path required reason =
     checked (require_role ''admin'' op) (\<lambda>_. reasoned up path reason (\<lambda>i why d.
       answered admin_app_error id (set_customer_mfa_requirement e (ax_operator op) i required why corr d)))"

section \<open>Licences, overrides, usage\<close>

record issue_request =
  is_customer :: string
  is_product :: "string option"
  is_devices :: "int option"
  is_expires :: "string option"
  is_reason :: string

definition admin_issue_license ::
    "(string \<Rightarrow> uuid option) \<Rightarrow> (string \<Rightarrow> time option) \<Rightarrow> env \<Rightarrow> admin_context \<Rightarrow> string option \<Rightarrow> issue_request \<Rightarrow> db
      \<Rightarrow> (app_error + license_row \<times> string) \<times> db" where
  "admin_issue_license up rfc e op corr req =
     checked (require_role ''admin'' op) (\<lambda>_.
     checked (parse_id up (is_customer req) ''customer_id'') (\<lambda>c.
     checked (clean_route_product (is_product req)) (\<lambda>p.
     checked (vetted (clean_device_limit (is_devices req))) (\<lambda>n.
     checked (parse_rfc3339 rfc (is_expires req) ''expires_at'') (\<lambda>t.
     checked (vetted (clean_reason (is_reason req))) (\<lambda>why d.
       answered admin_app_error id (issue_license e \<lparr>il_operator = ax_operator op, il_customer = c, il_product_key = p,
         il_device_limit = n, il_expires = t, il_reason = why, il_corr = corr\<rparr> d)))))))"

definition admin_revoke_license ::
    "(string \<Rightarrow> uuid option) \<Rightarrow> env \<Rightarrow> admin_context \<Rightarrow> string option \<Rightarrow> string \<Rightarrow> string \<Rightarrow> db
      \<Rightarrow> (app_error + revocation_outcome) \<times> db" where
  "admin_revoke_license up e op corr path reason =
     checked (require_role ''admin'' op) (\<lambda>_. reasoned up path reason (\<lambda>i why d.
       answered admin_app_error id (revoke_license e (ax_operator op) i why corr d)))"

record override_request =
  or_customer :: string
  or_product :: "string option"
  or_feature :: "string option"
  or_quota :: "string option"
  or_value :: "json option"
  or_expires :: "string option"
  or_reason :: string

definition override_key :: "string option \<Rightarrow> string option \<Rightarrow> app_error + bool \<times> string" where
  "override_key feature quota =
     bind_r (case (feature, quota) of
        (Some f, None) \<Rightarrow> Inr (True, f)
      | (None, Some q) \<Rightarrow> Inr (False, q)
      | _ \<Rightarrow> Inl (message_error ''feature_key'' ''Provide exactly one of feature_key or quota_key.'')) (\<lambda>(is_feature, raw).
     bind_r (map_err (message_error (if is_feature then ''feature_key'' else ''quota_key'')) (clean_entitlement_key raw))
       (\<lambda>key. Inr (is_feature, key)))"

definition override_value_of :: "json option \<Rightarrow> app_error + override_value option" where
  "override_value_of v = (case v of None \<Rightarrow> Inr None
     | Some j \<Rightarrow> (if j = JNull then Inr None
         else bind_r (vetted (clean_override_value j)) (\<lambda>x. Inr (Some x))))"

definition admin_override ::
    "(string \<Rightarrow> uuid option) \<Rightarrow> (string \<Rightarrow> time option) \<Rightarrow> (f64 \<Rightarrow> rat) \<Rightarrow> env \<Rightarrow> admin_context \<Rightarrow> string option
      \<Rightarrow> override_request \<Rightarrow> db \<Rightarrow> (app_error + override_outcome \<times> string) \<times> db" where
  "admin_override up rfc num e op corr req =
     checked (require_role ''admin'' op) (\<lambda>_.
     checked (parse_id up (or_customer req) ''customer_id'') (\<lambda>c.
     checked (clean_route_product (or_product req)) (\<lambda>p.
     checked (override_key (or_feature req) (or_quota req)) (\<lambda>(is_feature, key).
     checked (override_value_of (or_value req)) (\<lambda>v.
     checked (parse_rfc3339 rfc (or_expires req) ''expires_at'') (\<lambda>t.
     checked (vetted (clean_reason (or_reason req))) (\<lambda>why d.
       answered admin_app_error (\<lambda>out. (out, key)) (set_entitlement_override num e (ax_operator op)
         \<lparr>oi_customer = c, oi_product_key = p, oi_feature = (if is_feature then Some key else None),
          oi_quota = (if is_feature then None else Some key), oi_value = v, oi_expires = t, oi_reason = why\<rparr> corr d))))))))"

record adjust_request =
  ju_customer :: string
  ju_meter :: string
  ju_amount :: f64
  ju_period :: "string option"
  ju_reason :: string

definition admin_usage_adjust ::
    "(string \<Rightarrow> uuid option) \<Rightarrow> env \<Rightarrow> utc_now \<Rightarrow> admin_context \<Rightarrow> string option \<Rightarrow> headers \<Rightarrow> adjust_request \<Rightarrow> db
      \<Rightarrow> (app_error + adjustment_outcome) \<times> db" where
  "admin_usage_adjust up e u op corr hs req =
     checked (admin_keyed op hs ''Usage adjustments require an Idempotency-Key header.'') (\<lambda>key.
     checked (parse_id up (ju_customer req) ''customer_id'') (\<lambda>c.
     checked (map_err (message_error ''meter_key'') (clean_entitlement_key (ju_meter req))) (\<lambda>m.
     checked (vetted (clean_adjustment_amount (ju_amount req))) (\<lambda>a.
     checked (vetted (clean_period_key u (ju_period req))) (\<lambda>p.
     checked (vetted (clean_reason (ju_reason req))) (\<lambda>why d.
       answered admin_app_error id (adjust_usage e \<lparr>ai_operator = ax_operator op, ai_customer = c, ai_meter = m,
         ai_amount = a, ai_period = p, ai_idem = key, ai_reason = why, ai_corr = corr\<rparr> d)))))))"

section \<open>Commercial policy\<close>

definition admin_authorforge_commercial_policy :: "env \<Rightarrow> db \<Rightarrow> app_error + policy_version" where
  "admin_authorforge_commercial_policy e d =
     ok_or (read_active e d) (not_found ''No active AuthorForge commercial policy exists.'')"

record policy_request =
  py_base :: string
  py_effective :: string
  py_policy :: policy_document
  py_reason :: string

definition admin_authorforge_commercial_policy_publish ::
    "(string \<Rightarrow> time option) \<Rightarrow> env \<Rightarrow> admin_context \<Rightarrow> string option \<Rightarrow> headers \<Rightarrow> policy_request \<Rightarrow> db
      \<Rightarrow> (app_error + policy_version) \<times> db" where
  "admin_authorforge_commercial_policy_publish rfc e op corr hs req =
     checked (admin_keyed op hs ''Commercial policy publishing requires an Idempotency-Key header.'') (\<lambda>key.
     checked (if trim (py_base req) = [] then Inl (message_error ''base_plan_version'' ''must not be empty'')
       else Inr (trim (py_base req))) (\<lambda>base.
     checked (ok_or (rfc (trim (py_effective req)))
       (message_error ''effective_at'' ''must be an RFC 3339 timestamp'')) (\<lambda>t.
     checked (vetted (clean_reason (py_reason req))) (\<lambda>why d.
       answered policy_app_error id (publish_policy e \<lparr>pi_operator = ax_operator op, pi_base = base, pi_effective = t,
         pi_policy = py_policy req, pi_reason = why, pi_idem = key, pi_corr = corr\<rparr> d)))))"

section \<open>Deletion requests and the audit trail\<close>

definition deletion_statuses :: "string list" where
  "deletion_statuses = [''requested'', ''verified'', ''cooling_off'', ''processing'', ''completed'', ''rejected'', ''canceled'']"

definition admin_deletion_list :: "string option \<Rightarrow> int option \<Rightarrow> db \<Rightarrow> app_error + deletion_row list" where
  "admin_deletion_list status limit d =
     bind_r (one_of_opt deletion_statuses (message_error ''status'' ''unknown deletion request status'') status) (\<lambda>s.
       Inr (list_requests s (nat (clamp (unwrap_or limit 50) 1 200)) d))"

text \<open>\<open>cooling\<close> is the configured cooling-off as chrono has it, \<open>None\<close> when out of its range.\<close>

definition admin_deletion_advance ::
    "(string \<Rightarrow> uuid option) \<Rightarrow> time option \<Rightarrow> env \<Rightarrow> admin_context \<Rightarrow> string option \<Rightarrow> string \<Rightarrow> string \<Rightarrow> db
      \<Rightarrow> (app_error + deletion_row) \<times> db" where
  "admin_deletion_advance up cooling e op corr path reason =
     checked (require_role ''admin'' op) (\<lambda>_. reasoned up path reason (\<lambda>i why.
     checked (ok_or cooling (internal ''Invalid cooling-off configuration.'')) (\<lambda>co d.
       answered deletion_app_error id (advance_request e (ax_operator op) i co why corr d))))"

definition admin_deletion_reject ::
    "(string \<Rightarrow> uuid option) \<Rightarrow> admin_context \<Rightarrow> string option \<Rightarrow> string \<Rightarrow> string \<Rightarrow> db
      \<Rightarrow> (app_error + deletion_row) \<times> db" where
  "admin_deletion_reject up op corr path reason =
     checked (require_role ''admin'' op) (\<lambda>_. reasoned up path reason (\<lambda>i why d.
       answered deletion_app_error id (reject_request (ax_operator op) i why corr d)))"

definition admin_deletion_execute ::
    "(string \<Rightarrow> uuid option) \<Rightarrow> env \<Rightarrow> admin_context \<Rightarrow> string option \<Rightarrow> string \<Rightarrow> string \<Rightarrow> db
      \<Rightarrow> (app_error + deletion_row) \<times> db" where
  "admin_deletion_execute up e op corr path reason =
     checked (require_role ''admin'' op) (\<lambda>_. reasoned up path reason (\<lambda>i why d.
       answered deletion_app_error id (execute_deletion e (ax_operator op) i why corr d)))"

definition admin_audit ::
    "(string \<Rightarrow> uuid option) \<Rightarrow> string option \<Rightarrow> string option \<Rightarrow> int option \<Rightarrow> db \<Rightarrow> app_error + audit_row list" where
  "admin_audit up customer event limit d =
     bind_r (clean_opt (\<lambda>v. ok_or (up v) (message_error ''customer_id'' ''must be a UUID'')) (trim_opt customer)) (\<lambda>c.
     bind_r (clean_opt (\<lambda>v. map_err (message_error ''event_type'') (clean_entitlement_key v)) (trim_opt event)) (\<lambda>ev.
       Inr (list_audit_events \<lparr>xf_customer = c, xf_event = ev, xf_limit = clamp (unwrap_or limit 50) 1 200\<rparr> d)))"

end
