(* ===== verification/Release_Routes.thy ===== *)
theory Release_Routes
  imports Admin_Routes Update_Lookup
begin

text \<open>
  The operator handlers of \<^verbatim>\<open>routes/mod.rs\<close> over fleets, releases, artifacts and campaigns, and the posture
  reader of \<^verbatim>\<open>routes/posture.rs\<close>. Every mutation passes role, idempotency header, ids and field
  validation, in the order of the code, before it reaches the repository.
\<close>

definition route_admin :: "(admin_error + 'a) \<times> 's \<Rightarrow> (app_error + 'a) \<times> 's" where
  "route_admin = answered admin_app_error id"

lemma route_admin_snd [simp]: "snd (route_admin x) = snd x"
  by (simp add: route_admin_def)

section \<open>Fleets\<close>

definition admin_fleets :: "(fleet_row \<Rightarrow> time \<times> time) \<Rightarrow> rel_db \<Rightarrow> admin_fleet list" where
  "admin_fleets stamp t = list_fleets stamp t"

definition admin_fleet_get :: "(string \<Rightarrow> uuid option) \<Rightarrow> string \<Rightarrow> rel_db \<Rightarrow> app_error + admin_fleet" where
  "admin_fleet_get up path t =
     bind_r (parse_path_id up path) (\<lambda>i. ok_or (read_fleet i t) (not_found ''Fleet not found.''))"

record fleet_request =
  fq_name :: "string option"
  fq_ring :: "string option"
  fq_channel :: "string option"
  fq_channel_key :: "string option"
  fq_beta :: "bool option"
  fq_reason :: string

definition admin_fleet_policy ::
    "(string \<Rightarrow> uuid option) \<Rightarrow> admin_context \<Rightarrow> string option \<Rightarrow> headers \<Rightarrow> string \<Rightarrow> fleet_request \<Rightarrow> rel_db
      \<Rightarrow> (app_error + admin_fleet) \<times> rel_db" where
  "admin_fleet_policy up op corr hs path req =
     checked (admin_keyed op hs ''Fleet policy updates require an Idempotency-Key header.'') (\<lambda>_.
     checked (parse_path_id up path) (\<lambda>i.
     checked (vetted (clean_optional_display_name (fq_name req))) (\<lambda>name.
     checked (vetted_opt clean_update_ring (fq_ring req)) (\<lambda>ring.
     checked (vetted_opt clean_release_channel_key (coalesce (fq_channel req) (fq_channel_key req))) (\<lambda>ch.
     checked (vetted (clean_reason (fq_reason req))) (\<lambda>why t.
       route_admin (update_fleet_policy \<lparr>fi_operator = ax_operator op, fi_fleet = i, fi_name = name, fi_ring = ring,
         fi_channel_key = ch, fi_beta = fq_beta req, fi_reason = why, fi_corr = corr\<rparr> t)))))))"

section \<open>Releases\<close>

definition admin_releases :: "rel_db \<Rightarrow> admin_release list" where
  "admin_releases t = list_releases t"

definition admin_release_get :: "(string \<Rightarrow> uuid option) \<Rightarrow> string \<Rightarrow> rel_db \<Rightarrow> app_error + admin_release" where
  "admin_release_get up path t =
     bind_r (parse_path_id up path) (\<lambda>i. ok_or (read_release i t) (not_found ''Release not found.''))"

record release_request =
  lq_product :: string
  lq_version :: string
  lq_build :: string
  lq_channel :: "string option"
  lq_channel_key :: "string option"
  lq_changelog :: "string option"
  lq_notes :: "string option"
  lq_min_supported :: "string option"
  lq_min_updater :: "string option"
  lq_reason :: string

definition admin_release_create ::
    "env \<Rightarrow> admin_context \<Rightarrow> string option \<Rightarrow> headers \<Rightarrow> release_request \<Rightarrow> rel_db
      \<Rightarrow> (app_error + admin_release) \<times> rel_db" where
  "admin_release_create e op corr hs req =
     checked (admin_keyed op hs ''Release registration requires an Idempotency-Key header.'') (\<lambda>_.
     checked (clean_route_product (Some (lq_product req))) (\<lambda>p.
     checked (vetted (clean_release_version (lq_version req))) (\<lambda>v.
     checked (vetted (clean_build_id_admin (lq_build req))) (\<lambda>b.
     checked (vetted (clean_release_channel_key
       (unwrap_or (coalesce (lq_channel req) (lq_channel_key req)) ''stable''))) (\<lambda>ch.
     checked (vetted (clean_optional_markdown (coalesce (lq_changelog req) (lq_notes req))
       ''changelog_markdown'' 16000)) (\<lambda>notes.
     checked (vetted_opt clean_release_version (lq_min_supported req)) (\<lambda>ms.
     checked (vetted_opt clean_release_version (lq_min_updater req)) (\<lambda>mu.
     checked (vetted (clean_reason (lq_reason req))) (\<lambda>why t.
       route_admin (create_release e \<lparr>nr_operator = ax_operator op, nr_product_key = p, nr_version = v, nr_build = b,
         nr_channel_key = ch, nr_changelog = notes, nr_min_supported = ms, nr_min_updater = mu, nr_reason = why,
         nr_corr = corr\<rparr> t))))))))))"

record artifact_request =
  xq_platform :: string
  xq_arch :: string
  xq_format :: string
  xq_role :: string
  xq_storage :: string
  xq_size :: int
  xq_sha :: string
  xq_signature :: "string option"
  xq_key :: string
  xq_os_status :: string
  xq_reason :: string

definition admin_release_artifact_register ::
    "(string \<Rightarrow> uuid option) \<Rightarrow> env \<Rightarrow> admin_context \<Rightarrow> string option \<Rightarrow> headers \<Rightarrow> string \<Rightarrow> artifact_request \<Rightarrow> rel_db
      \<Rightarrow> (app_error + artifact_row) \<times> rel_db" where
  "admin_release_artifact_register up e op corr hs path req =
     checked (admin_keyed op hs ''Artifact registration requires an Idempotency-Key header.'') (\<lambda>_.
     checked (parse_path_id up path) (\<lambda>i.
     checked (vetted (clean_artifact_platform (xq_platform req))) (\<lambda>pf.
     checked (vetted (clean_artifact_architecture (xq_arch req))) (\<lambda>ar.
     checked (vetted (clean_package_format_admin (xq_format req))) (\<lambda>fm.
     checked (vetted (clean_artifact_role (xq_role req))) (\<lambda>rl.
     checked (vetted (clean_storage_key (xq_storage req))) (\<lambda>st.
     checked (vetted (clean_size_bytes (xq_size req))) (\<lambda>sz.
     checked (vetted (clean_sha256 (xq_sha req))) (\<lambda>sha.
     checked (vetted (clean_tauri_signature (xq_signature req))) (\<lambda>sg.
     checked (vetted (clean_signing_key_id (xq_key req))) (\<lambda>k.
     checked (vetted (clean_os_signature_status (xq_os_status req))) (\<lambda>os.
     checked (vetted (clean_reason (xq_reason req))) (\<lambda>why t.
       route_admin (register_artifact e \<lparr>fr_operator = ax_operator op, fr_release = i, fr_platform = pf, fr_arch = ar,
         fr_format = fm, fr_role = rl, fr_storage = st, fr_size = sz, fr_sha = sha, fr_signature = sg, fr_key = k,
         fr_os_status = os, fr_reason = why, fr_corr = corr\<rparr> t))))))))))))))"

definition admin_release_validate ::
    "(string \<Rightarrow> uuid option) \<Rightarrow> env \<Rightarrow> admin_context \<Rightarrow> string option \<Rightarrow> headers \<Rightarrow> string \<Rightarrow> string \<Rightarrow> rel_db
      \<Rightarrow> (app_error + admin_release) \<times> rel_db" where
  "admin_release_validate up e op corr hs path reason =
     checked (admin_keyed op hs ''Release validation requires an Idempotency-Key header.'') (\<lambda>_.
     reasoned up path reason (\<lambda>i why t. route_admin (validate_release e (ax_operator op) i why corr t)))"

definition admin_release_publish ::
    "(string \<Rightarrow> uuid option) \<Rightarrow> env \<Rightarrow> admin_context \<Rightarrow> string option \<Rightarrow> headers \<Rightarrow> string \<Rightarrow> string \<Rightarrow> rel_db
      \<Rightarrow> (app_error + admin_release) \<times> rel_db" where
  "admin_release_publish up e op corr hs path reason =
     checked (admin_keyed op hs ''Release publication requires an Idempotency-Key header.'') (\<lambda>_.
     reasoned up path reason (\<lambda>i why t. route_admin (publish_release e (ax_operator op) i why corr t)))"

definition admin_release_block ::
    "(string \<Rightarrow> uuid option) \<Rightarrow> admin_context \<Rightarrow> string option \<Rightarrow> headers \<Rightarrow> string \<Rightarrow> string \<Rightarrow> rel_db
      \<Rightarrow> (app_error + admin_release) \<times> rel_db" where
  "admin_release_block up op corr hs path reason =
     checked (admin_keyed op hs ''Release block requires an Idempotency-Key header.'') (\<lambda>_.
     reasoned up path reason (\<lambda>i why t. route_admin (block_release (ax_operator op) i why corr t)))"

definition admin_release_artifact_quarantine ::
    "(string \<Rightarrow> uuid option) \<Rightarrow> admin_context \<Rightarrow> string option \<Rightarrow> headers \<Rightarrow> string \<Rightarrow> string \<Rightarrow> rel_db
      \<Rightarrow> (app_error + quarantine_outcome) \<times> rel_db" where
  "admin_release_artifact_quarantine up op corr hs path reason =
     checked (admin_keyed op hs ''Artifact quarantine requires an Idempotency-Key header.'') (\<lambda>_.
     reasoned up path reason (\<lambda>i why t. route_admin (quarantine_artifact (ax_operator op) i why corr t)))"

section \<open>Campaigns\<close>

definition admin_update_campaign :: "(string \<Rightarrow> uuid option) \<Rightarrow> string \<Rightarrow> rel_db \<Rightarrow> app_error + admin_campaign" where
  "admin_update_campaign up path t =
     bind_r (parse_path_id up path) (\<lambda>i. ok_or (read_campaign i t) (not_found ''Update campaign not found.''))"

record campaign_request =
  kq_product :: string
  kq_release :: uuid
  kq_slug :: string
  kq_channel :: "string option"
  kq_channel_key :: "string option"
  kq_ring :: "string option"
  kq_rollout :: "int option"
  kq_starts :: "string option"
  kq_emergency :: "bool option"
  kq_reason :: string

definition starts_at_zero :: "int option \<Rightarrow> app_error + unit" where
  "starts_at_zero pct = bind_r (vetted (clean_rollout_percentage (unwrap_or pct 0))) (\<lambda>n.
     if n \<noteq> 0 then Inl (message_error ''rollout_percentage'' ''campaign creation starts at 0% rollout'') else Inr ())"

definition admin_update_campaign_create ::
    "(string \<Rightarrow> time option) \<Rightarrow> env \<Rightarrow> admin_context \<Rightarrow> string option \<Rightarrow> headers \<Rightarrow> campaign_request \<Rightarrow> rel_db
      \<Rightarrow> (app_error + admin_campaign) \<times> rel_db" where
  "admin_update_campaign_create rfc e op corr hs req =
     checked (admin_keyed op hs ''Campaign creation requires an Idempotency-Key header.'') (\<lambda>_.
     checked (clean_route_product (Some (kq_product req))) (\<lambda>p.
     checked (vetted (clean_campaign_slug (kq_slug req))) (\<lambda>slug.
     checked (vetted (clean_release_channel_key
       (unwrap_or (coalesce (kq_channel req) (kq_channel_key req)) ''stable''))) (\<lambda>ch.
     checked (vetted (clean_update_ring (unwrap_or (kq_ring req) ''standard''))) (\<lambda>ring.
     checked (starts_at_zero (kq_rollout req)) (\<lambda>_.
     checked (parse_rfc3339 rfc (kq_starts req) ''starts_at'') (\<lambda>starts.
     checked (vetted (clean_reason (kq_reason req))) (\<lambda>why t.
       route_admin (create_campaign e \<lparr>ki_operator = ax_operator op, ki_product_key = p, ki_release = kq_release req,
         ki_slug = slug, ki_channel_key = ch, ki_ring = ring, ki_starts = starts,
         ki_emergency = unwrap_or (kq_emergency req) False, ki_reason = why, ki_corr = corr\<rparr> t)))))))))"

definition campaign_reason_mutation ::
    "(string \<Rightarrow> uuid \<Rightarrow> string \<Rightarrow> string option \<Rightarrow> rel_db \<Rightarrow> (admin_error + admin_campaign) \<times> rel_db)
      \<Rightarrow> (string \<Rightarrow> uuid option) \<Rightarrow> admin_context \<Rightarrow> string option \<Rightarrow> headers \<Rightarrow> string \<Rightarrow> string \<Rightarrow> rel_db
      \<Rightarrow> (app_error + admin_campaign) \<times> rel_db" where
  "campaign_reason_mutation mutate up op corr hs path reason =
     checked (admin_keyed op hs ''Campaign mutation requires an Idempotency-Key header.'') (\<lambda>_.
     reasoned up path reason (\<lambda>i why t. route_admin (mutate (ax_operator op) i why corr t)))"

definition admin_update_campaign_pause where
  "admin_update_campaign_pause = campaign_reason_mutation pause_campaign"

definition admin_update_campaign_resume where
  "admin_update_campaign_resume = campaign_reason_mutation resume_campaign"

definition admin_update_campaign_revoke where
  "admin_update_campaign_revoke = campaign_reason_mutation revoke_campaign"

definition admin_update_campaign_rollout ::
    "(string \<Rightarrow> uuid option) \<Rightarrow> admin_context \<Rightarrow> string option \<Rightarrow> headers \<Rightarrow> string \<Rightarrow> int \<Rightarrow> string \<Rightarrow> rel_db
      \<Rightarrow> (app_error + admin_campaign) \<times> rel_db" where
  "admin_update_campaign_rollout up op corr hs path pct reason =
     checked (admin_keyed op hs ''Rollout changes require an Idempotency-Key header.'') (\<lambda>_.
     checked (parse_path_id up path) (\<lambda>i.
     checked (vetted (clean_rollout_percentage pct)) (\<lambda>n.
     checked (vetted (clean_reason reason)) (\<lambda>why t.
       route_admin (set_campaign_rollout (ax_operator op) i n why corr t)))))"

definition admin_update_campaign_hold_add ::
    "(string \<Rightarrow> uuid option) \<Rightarrow> env \<Rightarrow> admin_context \<Rightarrow> string option \<Rightarrow> headers \<Rightarrow> string \<Rightarrow> uuid \<Rightarrow> string \<Rightarrow> rel_db
      \<Rightarrow> (app_error + hold_row) \<times> rel_db" where
  "admin_update_campaign_hold_add up e op corr hs path fleet reason =
     checked (admin_keyed op hs ''Fleet holds require an Idempotency-Key header.'') (\<lambda>_.
     reasoned up path reason (\<lambda>i why t. route_admin (add_fleet_hold e (ax_operator op) i fleet why corr t)))"

definition admin_update_campaign_hold_remove ::
    "(string \<Rightarrow> uuid option) \<Rightarrow> admin_context \<Rightarrow> string option \<Rightarrow> headers \<Rightarrow> string \<Rightarrow> string \<Rightarrow> string \<Rightarrow> rel_db
      \<Rightarrow> (app_error + hold_row) \<times> rel_db" where
  "admin_update_campaign_hold_remove up op corr hs path fleet_path reason =
     checked (admin_keyed op hs ''Fleet hold removal requires an Idempotency-Key header.'') (\<lambda>_.
     checked (parse_path_id up path) (\<lambda>i.
     reasoned up fleet_path reason (\<lambda>fleet why t.
       route_admin (remove_fleet_hold (ax_operator op) i fleet why corr t))))"

definition admin_update_failures :: "rel_db \<Rightarrow> (update_event_row \<times> uuid option) list" where
  "admin_update_failures t = list_update_failures t"

section \<open>Posture\<close>

definition posture_reader :: "jwt_decode \<Rightarrow> jwt_validator \<Rightarrow> string option \<Rightarrow> app_error + unit" where
  "posture_reader decode v header =
     bind_r (bearer_token header) (\<lambda>token.
     bind_r (validate_jwt decode v token) (\<lambda>c.
       if trim (cl_sub c) = [] \<or> cl_scope c \<noteq> Some ''posture:read''
       then Inl (app_err Forbidden ''Customer posture read scope required.'')
       else Inr ()))"

record posture_view =
  po_observed :: time
  po_customers :: "admin_customer list"
  po_next :: "int option"

definition posture_customers :: "(uuid \<Rightarrow> int) \<Rightarrow> time \<Rightarrow> int \<Rightarrow> db \<Rightarrow> app_error + posture_view" where
  "posture_customers rank now offset d =
     (if 100000 < offset then Inl (app_err BadRequest ''Page offset exceeds supported range.'')
      else let rows = list_customers rank \<lparr>cf_email = None, cf_status = None, cf_limit = 26, cf_offset = offset\<rparr> d
        in Inr \<lparr>po_observed = now, po_customers = take 25 rows,
             po_next = (if 25 < length rows \<and> offset \<le> 99975 then Some (offset + 25) else None)\<rparr>)"

end
