(* ===== verification/Billing_Routes.thy ===== *)
theory Billing_Routes
  imports Http_Util
begin

text \<open>
  The handlers of \<^verbatim>\<open>routes/mod.rs\<close> over commerce: checkout, billing portal, the Stripe webhook and the
  operator's resync. Stripe's side of an exchange is \<open>http\<close>, with \<open>bad\<close> serde's message for
  a body of another shape.
\<close>

record stripe_config =
  st_api_base :: string
  st_secret :: string
  st_webhook_secret :: string

record checkout_view =
  hv_session :: uuid
  hv_stripe :: string
  hv_url :: string
  hv_status :: string

definition checkout_plan_for ::
    "validated_checkout_input \<Rightarrow> db \<Rightarrow> app_error + uuid \<times> string" where
  "checkout_plan_for v d =
     bind_r (ok_or (find_active_checkout_plan (vc_product_key v) (vc_plan_key v) d)
       (not_found ''No active checkout plan matched the request.'')) (\<lambda>plan.
     bind_r (ok_or (cp_price plan)
       (message_error ''plan_key'' ''Selected plan is not available for Stripe Checkout.'')) (\<lambda>price.
       Inr (cp_plan_version plan, price)))"

definition checkout_create ::
    "string \<Rightarrow> http \<Rightarrow> stripe_config \<Rightarrow> env \<Rightarrow> customer_context \<Rightarrow> headers \<Rightarrow> checkout_input \<Rightarrow> shop
      \<Rightarrow> (app_error + checkout_view) \<times> shop" where
  "checkout_create bad http cfg e x hs req s =
     checked (require_active (e_utc e 0) x) (\<lambda>i.
     checked (map_err (\<lambda>err. with_details (field_detail (fst err)) (validation (snd err)))
       (validate_checkout_input req)) (\<lambda>v.
     checked (checkout_plan_for v (core s)) (\<lambda>(version, price).
     checked (map_err checkout_app_error (create_checkout_session bad http (st_api_base cfg) (st_secret cfg)
       \<lparr>cs_price = price, cs_customer = i, cs_plan_version = version, cs_success_url = vc_success_url v,
        cs_cancel_url = vc_cancel_url v\<rparr> (idempotency_key hs))) (\<lambda>session s.
       (case record_checkout_session e i version (ss_id session) s of
          Inl err \<Rightarrow> (Inl db_app_error, s)
        | Inr (r, s') \<Rightarrow> (Inr \<lparr>hv_session = ck_id r, hv_stripe = ck_stripe r, hv_url = ss_url session,
            hv_status = ck_status r\<rparr>, s'))))))
     s"

definition billing_portal_create ::
    "string \<Rightarrow> http \<Rightarrow> stripe_config \<Rightarrow> env \<Rightarrow> customer_context \<Rightarrow> headers \<Rightarrow> string \<Rightarrow> shop \<Rightarrow> app_error + string" where
  "billing_portal_create bad http cfg e x hs return_url s =
     bind_r (require_active (e_utc e 0) x) (\<lambda>i.
     bind_r (map_err (\<lambda>err. with_details (field_detail (fst err)) (validation (snd err)))
       (validate_return_url return_url)) (\<lambda>url.
     bind_r (ok_or (find_stripe_customer_id i s)
       (app_err NoBillingAccount ''No billing account yet. Subscribe before managing billing.'')) (\<lambda>customer.
       map_err checkout_app_error (create_billing_portal_session bad http (st_api_base cfg) (st_secret cfg) customer url
         (idempotency_key hs)))))"

section \<open>The webhook\<close>

record webhook_view =
  wv_received :: bool
  wv_duplicate :: bool
  wv_event :: string
  wv_type :: string
  wv_status :: string

text \<open>\<open>now\<close> is \<^verbatim>\<open>Utc::now().timestamp()\<close>; the tolerance is 300 seconds.\<close>

definition stripe_webhook ::
    "(string \<Rightarrow> string \<Rightarrow> string option) \<Rightarrow> (string \<Rightarrow> json option) \<Rightarrow> uuid_parser \<Rightarrow> stripe_config \<Rightarrow> int \<Rightarrow> env
      \<Rightarrow> headers \<Rightarrow> string \<Rightarrow> shop \<Rightarrow> (app_error + webhook_view) \<times> shop" where
  "stripe_webhook hmac decode up cfg now e hs body =
     checked (ok_or (hs ''stripe-signature'') (bad_request ''Missing Stripe-Signature header.'')) (\<lambda>sig.
     checked (map_err stripe_webhook_app_error
       (verify_signature hmac body sig (st_webhook_secret cfg) now 300)) (\<lambda>_.
     checked (map_err stripe_event_app_error (parse_event decode body)) (\<lambda>ev s.
       answered stripe_apply_app_error (\<lambda>w. \<lparr>wv_received = wk_outcome w \<noteq> Duplicate,
           wv_duplicate = (wk_outcome w = Duplicate), wv_event = ev_id ev, wv_type = ev_type ev,
           wv_status = wk_status w\<rparr>)
         (process_stripe_webhook_event e up ev s))))"

section \<open>Resync\<close>

definition admin_resync ::
    "uuid_parser \<Rightarrow> http \<Rightarrow> stripe_config \<Rightarrow> env \<Rightarrow> uuid \<Rightarrow> admin_context \<Rightarrow> string option \<Rightarrow> string \<Rightarrow> string \<Rightarrow> shop
      \<Rightarrow> (app_error + resync_outcome) \<times> shop" where
  "admin_resync up http cfg e nonce op corr path reason s =
     checked (require_role ''admin'' op) (\<lambda>_.
     checked (parse_path_id up path) (\<lambda>i.
     checked (map_err admin_validation_error (clean_reason reason)) (\<lambda>why.
     checked (map_err (\<lambda>_. db_app_error) (find_subscription_for_resync i (core s))) (\<lambda>found.
     checked (ok_or found (not_found ''Subscription not found.'')) (\<lambda>(sub, stripe).
     checked (map_err fetch_app_error (fetch_subscription up http (st_api_base cfg) (st_secret cfg) stripe)) (\<lambda>change s.
       (case apply_admin_resync e nonce sub change (ax_operator op) why corr s of
          (r, s') \<Rightarrow> (bind_r (map_err stripe_apply_app_error r) (\<lambda>out.
              ok_or out (not_found ''Subscription not found.'')), s'))))))))
     s"

end
