(* ===== verification/Operator_Audit.thy ===== *)
theory Operator_Audit
  imports Release_Routes Billing_Routes Commerce_Facts
begin

text \<open>
  The operator handlers together: whatever one of them changes, it is an administrator who does it, and
  the audit trail grows by rows that name the operator and the written reason.
\<close>

section \<open>Signed changes\<close>

text \<open>Rows an operator adds to the audit trail, each with the reason.\<close>

definition signed_by :: "string \<Rightarrow> string \<Rightarrow> audit_row \<Rightarrow> bool" where
  "signed_by op why r \<longleftrightarrow> au_actor_type r = ''operator'' \<and> au_actor r = Some op \<and> au_reason r = why"

definition signs :: "string \<Rightarrow> string \<Rightarrow> audit_row list \<Rightarrow> audit_row list \<Rightarrow> bool" where
  "signs op why before after \<longleftrightarrow> (\<exists>rs. rs \<noteq> [] \<and> after = before @ rs \<and> list_all (signed_by op why) rs)"

definition signed_db :: "string \<Rightarrow> string \<Rightarrow> db \<Rightarrow> db \<Rightarrow> bool" where
  "signed_db op why d d' \<longleftrightarrow> d' = d \<or> signs op why (audits d) (audits d')"

definition signed_rel :: "string \<Rightarrow> string \<Rightarrow> rel_db \<Rightarrow> rel_db \<Rightarrow> bool" where
  "signed_rel op why t t' \<longleftrightarrow> t' = t \<or> signs op why (audits (svc t)) (audits (svc t'))"

lemma signs_one: "signs op why xs (xs @ [r]) \<longleftrightarrow> signed_by op why r"
  by (simp add: signs_def)

lemma audits_write_outbox [simp]: "audits (write_outbox e n ev k p d) = audits d"
  by (simp add: write_outbox_def)

lemma signs_write [simp]:
  assumes "audits d = xs" and "a_actor r = op" and "a_reason r = why"
  shows "signs op why xs (audits (write_operator_audit r d))"
  using assms by (simp add: write_operator_audit_def write_audit_def signs_one signed_by_def)

lemma signs_audit [simp]:
  "audits d = xs \<Longrightarrow> signs op why xs (audits (operator_audit ev op c tt tg why b a corr d))"
  by (simp add: operator_audit_def)

lemma signs_release_audit [simp]:
  "audits (svc t) = xs \<Longrightarrow> signs op why xs (audits (svc (release_audit ev op c tt tg why b a corr t)))"
  by (simp add: release_audit_def)

lemmas signed_defs = signed_db_def signed_rel_def

section \<open>The desk\<close>

lemma status_signed:
  "set_customer_status e x d = (res, d') \<Longrightarrow> signed_db (ch_operator x) (ch_reason x) d d'"
  by (auto simp: set_customer_status_def record_status_def signed_db_def split: option.splits if_splits)

lemma suspend_signed: "suspend_customer e op c why corr d = (res, d') \<Longrightarrow> signed_db op why d d'"
  and restore_signed: "restore_customer e op c why corr d = (res, d') \<Longrightarrow> signed_db op why d d'"
  using status_signed by (fastforce simp: suspend_customer_def restore_customer_def)+

lemma mfa_signed: "set_customer_mfa_requirement e op c q why corr d = (res, d') \<Longrightarrow> signed_db op why d d'"
  by (auto simp: set_customer_mfa_requirement_def record_mfa_def signed_db_def split: option.splits if_splits)

lemma issue_signed: "issue_license e inp d = (res, d') \<Longrightarrow> signed_db (il_operator inp) (il_reason inp) d d'"
  by (auto simp: issue_license_def Let_def signed_db_def split: option.splits if_splits)

lemma revoke_signed: "revoke_license e op i why corr d = (res, d') \<Longrightarrow> signed_db op why d d'"
  by (auto simp: revoke_license_def record_revocation_def signed_db_def split: option.splits if_splits)

lemma override_signed:
  "set_entitlement_override num e op inp corr d = (res, d') \<Longrightarrow> signed_db op (oi_reason inp) d d'"
  by (auto simp: set_entitlement_override_def audit_override_def Let_def signed_db_def split: option.splits if_splits)

lemma adjust_signed: "adjust_usage e inp d = (res, d') \<Longrightarrow> signed_db (ai_operator inp) (ai_reason inp) d d'"
  by (auto simp: adjust_usage_def add_used_def Let_def signed_db_def split: option.splits if_splits)

lemma publish_signed: "publish_policy e inp d = (res, d') \<Longrightarrow> signed_db (pi_operator inp) (pi_reason inp) d d'"
  by (auto simp: publish_policy_def record_policy_def Let_def signed_db_def split: option.splits if_splits sum.splits)

lemma set_status_audits: "set_request_status i s t d = Inr (r, d') \<Longrightarrow> audits d' = audits d"
  by (auto simp: set_request_status_def)

lemma advance_signed: "advance_request e op i co why corr d = (res, d') \<Longrightarrow> signed_db op why d d'"
  by (auto simp: advance_request_def transact_def signed_db_def dest!: set_status_audits split: sum.splits)

lemma reject_signed: "reject_request op i why corr d = (res, d') \<Longrightarrow> signed_db op why d d'"
  by (auto simp: reject_request_def transact_def signed_db_def dest!: set_status_audits split: sum.splits if_splits)

lemma execute_signed:
  assumes "execute_deletion e op i why corr d = (res, d')"
  shows "signed_db op why d d'"
proof -
  have "audits d1 = audits d" if "freeze_customer e op c p d = (x, d1)" for c p x d1
    using freeze_customer_tables(12) [OF that] by simp
  then show ?thesis
    using assms by (auto simp: execute_deletion_def transact_def Let_def signed_db_def
        split: sum.splits if_splits prod.splits)
qed

section \<open>The catalog\<close>

lemma shown_rel [simp]: "snd (shown_release i t) = t" "snd (shown_campaign i t) = t"
  by (simp_all add: shown_release_def shown_campaign_def)

lemma shown_eq: "shown_release i t = (res, t') \<Longrightarrow> t' = t" "shown_campaign i t = (res', t') \<Longrightarrow> t' = t"
  by (simp_all add: shown_release_def shown_campaign_def)

lemma fleet_policy_signed: "update_fleet_policy inp t = (res, t') \<Longrightarrow> signed_rel (fi_operator inp) (fi_reason inp) t t'"
  by (auto simp: update_fleet_policy_def Let_def signed_rel_def split: option.splits if_splits sum.splits)

lemma create_release_signed: "create_release e inp t = (res, t') \<Longrightarrow> signed_rel (nr_operator inp) (nr_reason inp) t t'"
  by (auto simp: create_release_def record_release_def Let_def signed_rel_def dest!: shown_eq
      split: option.splits if_splits)

lemma artifact_signed: "register_artifact e inp t = (res, t') \<Longrightarrow> signed_rel (fr_operator inp) (fr_reason inp) t t'"
  by (auto simp: register_artifact_def record_artifact_def Let_def signed_rel_def split: option.splits if_splits)

lemma svc_frames [simp]:
  "svc (set_release i f t) = svc t" "svc (pause_campaigns i t) = svc t" "svc (set_campaign i g t) = svc t"
  by (simp_all add: set_release_def pause_campaigns_def set_campaign_def)

lemma validate_signed: "validate_release e op i why corr t = (res, t') \<Longrightarrow> signed_rel op why t t'"
  by (auto simp: validate_release_def release_status_audit_def Let_def signed_rel_def dest!: shown_eq
      split: sum.splits if_splits prod.splits)

lemma publish_release_signed: "publish_release e op i why corr t = (res, t') \<Longrightarrow> signed_rel op why t t'"
  by (auto simp: publish_release_def release_status_audit_def Let_def signed_rel_def dest!: shown_eq
      split: sum.splits if_splits prod.splits)

lemma block_signed: "block_release op i why corr t = (res, t') \<Longrightarrow> signed_rel op why t t'"
  by (auto simp: block_release_def release_status_audit_def Let_def signed_rel_def dest!: shown_eq
      split: sum.splits if_splits prod.splits)

lemma quarantine_signed: "quarantine_artifact op i why corr t = (res, t') \<Longrightarrow> signed_rel op why t t'"
  by (auto simp: quarantine_artifact_def Let_def signed_rel_def split: option.splits if_splits)

lemma create_campaign_signed: "create_campaign e inp t = (res, t') \<Longrightarrow> signed_rel (ki_operator inp) (ki_reason inp) t t'"
  by (auto simp: create_campaign_def record_campaign_def Let_def signed_rel_def dest!: shown_eq
      split: option.splits if_splits)

lemma campaign_signed: "campaign_status_mutation op i s ev why corr t = (res, t') \<Longrightarrow> signed_rel op why t t'"
  by (auto simp: campaign_status_mutation_def signed_rel_def dest!: shown_eq split: option.splits if_splits)

lemma rollout_signed: "set_campaign_rollout op i n why corr t = (res, t') \<Longrightarrow> signed_rel op why t t'"
  by (auto simp: set_campaign_rollout_def signed_rel_def dest!: shown_eq split: option.splits if_splits)

lemma hold_signed: "add_fleet_hold e op i f why corr t = (res, t') \<Longrightarrow> signed_rel op why t t'"
  by (auto simp: add_fleet_hold_def upsert_hold_def Let_def signed_rel_def split: option.splits if_splits)

lemma unhold_signed: "remove_fleet_hold op i f why corr t = (res, t') \<Longrightarrow> signed_rel op why t t'"
  by (auto simp: remove_fleet_hold_def signed_rel_def split: option.splits)

section \<open>Handlers\<close>

text \<open>A change by operator \<open>op\<close>: he is an administrator and signs for a reason that passed the reason check.\<close>

definition vouched :: "admin_context \<Rightarrow> audit_row list \<Rightarrow> audit_row list \<Rightarrow> bool" where
  "vouched op before after \<longleftrightarrow> has_role ''admin'' op
     \<and> (\<exists>text why. clean_reason text = Inr why \<and> signs (ax_operator op) why before after)"

lemma vouchedI:
  "\<not> vouched op (audits d) (audits d') \<Longrightarrow> has_role ''admin'' op \<Longrightarrow> clean_reason text = Inr why \<Longrightarrow>
     signed_db (ax_operator op) why d d' \<Longrightarrow> d' = d"
  "\<not> vouched op (audits (svc t)) (audits (svc t')) \<Longrightarrow> has_role ''admin'' op \<Longrightarrow> clean_reason text = Inr why \<Longrightarrow>
     signed_rel (ax_operator op) why t t' \<Longrightarrow> t' = t"
  by (auto simp: vouched_def signed_defs)

lemma require_role_Inr [simp]: "require_role role op = Inr u \<longleftrightarrow> has_role role op"
  by (simp add: require_role_def)

lemma admin_keyed_Inr [simp]:
  "admin_keyed op hs msg = Inr k \<longleftrightarrow> has_role ''admin'' op \<and> idempotency_key hs = Some k"
  by (auto simp: admin_keyed_def)

lemma vetted_Inr [simp]: "vetted r = Inr a \<longleftrightarrow> r = Inr a"
  by (simp add: vetted_def)

lemma checked_handler:
  assumes "checked r f s = (res, s')"
  obtains (stop) "s' = s" | (go) a where "r = Inr a" "f a s = (res, s')"
  using assms by (cases r) auto

lemma reasoned_handler:
  assumes "reasoned up path reason f s = (res, s')"
  obtains (stop) "s' = s" | (go) i why where "clean_reason reason = Inr why" "f i why s = (res, s')"
  using assms by (auto simp: reasoned_def elim!: checked_handler)

lemma answered_state: "answered err ok x = (res, s') \<Longrightarrow> \<exists>r. x = (r, s')"
  by (cases x) (auto simp: answered_def split: sum.splits)

lemma route_state: "route_admin x = (res, s') \<Longrightarrow> \<exists>r. x = (r, s')"
  by (simp add: route_admin_def answered_state)

lemmas handler_elims = checked_handler reasoned_handler

inductive desk_request :: "admin_context \<Rightarrow> db \<Rightarrow> db \<Rightarrow> bool" for op where
  suspend: "admin_suspend up e op corr path reason d = (r1, d') \<Longrightarrow> desk_request op d d'"
| restore: "admin_restore up e op corr path reason d = (r2, d') \<Longrightarrow> desk_request op d d'"
| mfa: "admin_set_mfa_required up e op corr path q reason d = (r3, d') \<Longrightarrow> desk_request op d d'"
| issue: "admin_issue_license up rfc e op corr ireq d = (r4, d') \<Longrightarrow> desk_request op d d'"
| revoke: "admin_revoke_license up e op corr path reason d = (r5, d') \<Longrightarrow> desk_request op d d'"
| override: "admin_override up rfc num e op corr oreq d = (r6, d') \<Longrightarrow> desk_request op d d'"
| adjust: "admin_usage_adjust up e u op corr hs areq d = (r7, d') \<Longrightarrow> desk_request op d d'"
| policy: "admin_authorforge_commercial_policy_publish rfc e op corr hs preq d = (r8, d') \<Longrightarrow> desk_request op d d'"
| advance: "admin_deletion_advance up cooling e op corr path reason d = (r9, d') \<Longrightarrow> desk_request op d d'"
| reject: "admin_deletion_reject up op corr path reason d = (r10, d') \<Longrightarrow> desk_request op d d'"
| execute: "admin_deletion_execute up e op corr path reason d = (r11, d') \<Longrightarrow> desk_request op d d'"

inductive catalog_request :: "admin_context \<Rightarrow> rel_db \<Rightarrow> rel_db \<Rightarrow> bool" for op where
  fleet: "admin_fleet_policy up op corr hs path freq t = (r1, t') \<Longrightarrow> catalog_request op t t'"
| create: "admin_release_create e op corr hs rreq t = (r2, t') \<Longrightarrow> catalog_request op t t'"
| artifact: "admin_release_artifact_register up e op corr hs path xreq t = (r3, t') \<Longrightarrow> catalog_request op t t'"
| validate: "admin_release_validate up e op corr hs path reason t = (r4, t') \<Longrightarrow> catalog_request op t t'"
| publish: "admin_release_publish up e op corr hs path reason t = (r5, t') \<Longrightarrow> catalog_request op t t'"
| block: "admin_release_block up op corr hs path reason t = (r6, t') \<Longrightarrow> catalog_request op t t'"
| quarantine: "admin_release_artifact_quarantine up op corr hs path reason t = (r7, t') \<Longrightarrow> catalog_request op t t'"
| campaign: "admin_update_campaign_create rfc e op corr hs creq t = (r8, t') \<Longrightarrow> catalog_request op t t'"
| pause: "admin_update_campaign_pause up op corr hs path reason t = (r9, t') \<Longrightarrow> catalog_request op t t'"
| resume: "admin_update_campaign_resume up op corr hs path reason t = (r10, t') \<Longrightarrow> catalog_request op t t'"
| revoke: "admin_update_campaign_revoke up op corr hs path reason t = (r11, t') \<Longrightarrow> catalog_request op t t'"
| rollout: "admin_update_campaign_rollout up op corr hs path n reason t = (r12, t') \<Longrightarrow> catalog_request op t t'"
| hold: "admin_update_campaign_hold_add up e op corr hs path fl reason t = (r13, t') \<Longrightarrow> catalog_request op t t'"
| unhold: "admin_update_campaign_hold_remove up op corr hs path fpath reason t = (r14, t') \<Longrightarrow> catalog_request op t t'"

lemmas desk_handlers = admin_suspend_def admin_restore_def admin_set_mfa_required_def admin_issue_license_def
  admin_revoke_license_def admin_override_def admin_usage_adjust_def
  admin_authorforge_commercial_policy_publish_def admin_deletion_advance_def admin_deletion_reject_def
  admin_deletion_execute_def

lemmas desk_signed = suspend_signed restore_signed mfa_signed issue_signed revoke_signed override_signed
  adjust_signed publish_signed advance_signed reject_signed execute_signed

lemma desk_request_vouched: "desk_request op d d' \<Longrightarrow> d' = d \<or> vouched op (audits d) (audits d')"
  by (erule desk_request.cases; unfold desk_handlers; elim handler_elims;
      (blast | (auto elim!: handler_elims dest!: answered_state desk_signed split: prod.splits intro: vouchedI)))

lemmas catalog_handlers = admin_fleet_policy_def admin_release_create_def admin_release_artifact_register_def
  admin_release_validate_def admin_release_publish_def admin_release_block_def
  admin_release_artifact_quarantine_def admin_update_campaign_create_def admin_update_campaign_pause_def
  admin_update_campaign_resume_def admin_update_campaign_revoke_def campaign_reason_mutation_def
  pause_campaign_def resume_campaign_def revoke_campaign_def admin_update_campaign_rollout_def
  admin_update_campaign_hold_add_def admin_update_campaign_hold_remove_def

lemmas catalog_signed = fleet_policy_signed create_release_signed artifact_signed validate_signed
  publish_release_signed block_signed quarantine_signed create_campaign_signed campaign_signed rollout_signed
  hold_signed unhold_signed

lemma catalog_request_vouched:
  "catalog_request op t t' \<Longrightarrow> t' = t \<or> vouched op (audits (svc t)) (audits (svc t'))"
  by (erule catalog_request.cases; unfold catalog_handlers; elim handler_elims;
      (blast | (auto elim!: handler_elims dest!: route_state catalog_signed intro: vouchedI)))

section \<open>The resync\<close>

lemma audits_on_sync: "sync_license_for_subscription e n c sub ver st d = Inr (out, d') \<Longrightarrow> audits d' = audits d"
  by (erule sync_cases) (simp_all add: set_license_def)

lemma resync_core_audits:
  "ensure_billing_account e c s = Inr (b, s1) \<Longrightarrow> core s1 = core s"
  "core (link_stripe_customer b sc s) = core s"
  "upsert_subscription_projection e x c b v ch t s = Inr (r, s2) \<Longrightarrow> audits (core s2) = audits (core s)"
  by (auto simp: ensure_billing_account_def link_stripe_customer_def upsert_subscription_projection_def
      on_core_def Let_def split: option.splits if_splits)

lemma record_resync_signs:
  "signs op why (audits (core s)) (audits (core (record_resync e nonce op why corr x r s)))"
  by (simp add: record_resync_def write_subscription_outbox_def on_core_def operator_change_def Let_def)

lemma audit_resync_signs:
  "signs op why xs (audits d) \<Longrightarrow> signs op why xs (audits (audit_resync_license op why corr c out d))"
  by (auto simp: audit_resync_license_def operator_change_def write_operator_audit_def write_audit_def signs_def
      signed_by_def split: option.split)

lemma resync_signed:
  assumes "apply_admin_resync e nonce i ch op why corr s = (res, s')"
  shows "s' = s \<or> signs op why (audits (core s)) (audits (core s'))"
proof -
  have "signs op why (audits (core s)) (audits (audit_resync_license op why corr c out d))"
    if "ensure_billing_account e c0 s = Inr (b, s1)"
      and "upsert_subscription_projection e x0 c1 b1 v ch1 t (link_stripe_customer b2 sc s1) = Inr (r, s2)"
      and "sync_license_for_subscription e n c2 sub ver st (core (record_resync e nonce op why corr x r s2)) = Inr (out, d)"
    for c0 b s1 x0 c1 b1 v ch1 t b2 sc r s2 n c2 sub ver st x out d c
    using resync_core_audits(1) [OF that(1)] resync_core_audits(3) [OF that(2)] audits_on_sync [OF that(3)]
      record_resync_signs [of op why s2 e nonce corr x r]
    by (auto simp: resync_core_audits(2) intro!: audit_resync_signs)
  then show ?thesis
    using assms by (auto simp: apply_admin_resync_def Let_def split: option.splits sum.splits prod.splits)
qed

lemma resync_vouched:
  assumes "admin_resync up http cfg e nonce op corr path reason s = (res, s')"
  shows "s' = s \<or> vouched op (audits (core s)) (audits (core s'))"
  using assms unfolding admin_resync_def
  by (elim checked_handler) (auto dest!: resync_signed simp: vouched_def elim!: checked_handler split: prod.splits)

end
