(* ===== verification/Rate_Limit.thy ===== *)
theory Rate_Limit
  imports App_Error
begin

text \<open>
  \<^verbatim>\<open>api/src/middleware\<close> and the layers of the router: the fixed-window budget of each client, the
  correlation id every request carries, the security headers, and the answer they make of a handler's.
  A \<^verbatim>\<open>HashMap\<close> is a table with one row per key; the mutex makes a check one step. Seconds
  are a \<^verbatim>\<open>u64\<close>, of which the clock stays more than a window away from the end.
\<close>

section \<open>Budgets\<close>

definition WINDOW_SECS :: int where "WINDOW_SECS = 60"
definition SWEEP_MIN_ENTRIES :: nat where "SWEEP_MIN_ENTRIES = 1024"
definition MAX_TRACKED_CLIENTS :: nat where "MAX_TRACKED_CLIENTS = 100000"

record rate_window =
  rw_key :: string
  rw_started :: int
  rw_count :: int

record rate_limiter =
  windows :: "rate_window list"
  swept_window :: int

definition new_limiter :: rate_limiter where
  "new_limiter = \<lparr>windows = [], swept_window = 0\<rparr>"

datatype rate_decision = AllowRate | DenyRate int \<comment> \<open>seconds until the window ends\<close>

definition window_of :: "int \<Rightarrow> int" where
  "window_of now = now - now mod WINDOW_SECS"

definition retry_after :: "int \<Rightarrow> int" where
  "retry_after now = max (max (window_of now + WINDOW_SECS - now) 0) 1"

definition sweep_windows :: "int \<Rightarrow> rate_limiter \<Rightarrow> rate_limiter" where
  "sweep_windows w s =
     (if swept_window s \<noteq> w \<and> SWEEP_MIN_ENTRIES \<le> length (windows s)
      then \<lparr>windows = filter (\<lambda>x. rw_started x = w) (windows s), swept_window = w\<rparr>
      else s)"

definition window_entry :: "string \<Rightarrow> rate_window list \<Rightarrow> rate_window option" where
  "window_entry key ws = find (\<lambda>x. rw_key x = key) ws"

text \<open>The entry after \<^verbatim>\<open>or_insert\<close> and the reset of a stale window.\<close>

definition current_entry :: "string \<Rightarrow> int \<Rightarrow> rate_window list \<Rightarrow> rate_window" where
  "current_entry key w ws =
     (case window_entry key ws of
        Some x \<Rightarrow> (if rw_started x = w then x else x\<lparr>rw_started := w, rw_count := 0\<rparr>)
      | None \<Rightarrow> \<lparr>rw_key = key, rw_started = w, rw_count = 0\<rparr>)"

definition put_entry :: "rate_window \<Rightarrow> rate_window list \<Rightarrow> rate_window list" where
  "put_entry x ws = (if window_entry (rw_key x) ws = None then ws @ [x]
     else upd (\<lambda>y. rw_key y = rw_key x) (\<lambda>_. x) ws)"

definition check_rate :: "string \<Rightarrow> int \<Rightarrow> int \<Rightarrow> rate_limiter \<Rightarrow> rate_decision \<times> rate_limiter" where
  "check_rate key limit now s0 =
     (let w = window_of now; s = sweep_windows w s0 in
      if MAX_TRACKED_CLIENTS \<le> length (windows s) \<and> window_entry key (windows s) = None
      then (DenyRate (retry_after now), s)
      else let x = current_entry key w (windows s) in
        if limit \<le> rw_count x
        then (DenyRate (retry_after now), s\<lparr>windows := put_entry x (windows s)\<rparr>)
        else (AllowRate, s\<lparr>windows := put_entry (x\<lparr>rw_count := rw_count x + 1\<rparr>) (windows s)\<rparr>))"

text \<open>
  \<open>ip\<close> is \<^verbatim>\<open>IpAddr\<close>'s parser followed by its text, \<open>peer\<close> the address of the socket. The last hop is the
  one the platform's proxy appended.
\<close>

definition client_key :: "(string \<Rightarrow> string option) \<Rightarrow> string option \<Rightarrow> string option \<Rightarrow> string" where
  "client_key ip forwarded peer =
     (case Option.bind forwarded (\<lambda>v. ip (trim (last (split_on (CHR '','') v)))) of
        Some a \<Rightarrow> a
      | None \<Rightarrow> unwrap_or peer ''unknown'')"

datatype enforced = Next | Limited app_error int \<comment> \<open>the error and its \<^verbatim>\<open>retry-after\<close>\<close>

definition too_many_requests :: app_error where
  "too_many_requests = app_err RateLimited ''Too many requests from this client; retry after the indicated delay.''"

definition enforce :: "int \<Rightarrow> int \<Rightarrow> string \<Rightarrow> string option \<Rightarrow> rate_limiter \<Rightarrow> enforced \<times> rate_limiter" where
  "enforce limit now key corr s =
     (if limit = 0 then (Next, s)
      else case check_rate key limit now s of
        (AllowRate, s') \<Rightarrow> (Next, s')
      | (DenyRate n, s') \<Rightarrow>
          (Limited (case corr of Some i \<Rightarrow> with_correlation i too_many_requests | None \<Rightarrow> too_many_requests) n, s'))"

section \<open>Correlation ids\<close>

definition MAX_CORRELATION_ID_LEN :: nat where "MAX_CORRELATION_ID_LEN = 128"

definition acceptable_correlation_id :: "string \<Rightarrow> bool" where
  "acceptable_correlation_id v \<longleftrightarrow> 1 \<le> length v \<and> length v \<le> MAX_CORRELATION_ID_LEN
     \<and> list_all (\<lambda>c. is_alnum c \<or> c \<in> set ''-_.'') v"

record response =
  rp_status :: int
  rp_content_type :: "string option"
  rp_correlation :: "string option"
  rp_length :: "int option"
  rp_body :: string
  rp_headers :: "(string \<times> string) list" \<comment> \<open>the headers without a field of their own\<close>

text \<open>\<^verbatim>\<open>Map::insert\<close> and \<^verbatim>\<open>HeaderMap::insert\<close>.\<close>

definition put_field :: "string \<Rightarrow> 'v \<Rightarrow> (string \<times> 'v) list \<Rightarrow> (string \<times> 'v) list" where
  "put_field k v fs = (if k \<in> fst ` set fs then map (\<lambda>(k', x). (k', if k' = k then v else x)) fs else fs @ [(k, v)])"

definition needs_backfill :: "json \<Rightarrow> bool" where
  "needs_backfill v = (case Option.bind (jget ''error'' v) (jget ''correlation_id'') of
     None \<Rightarrow> True | Some x \<Rightarrow> x = JNull)"

fun with_error_id :: "string \<Rightarrow> json \<Rightarrow> json" where
  "with_error_id i (JObj fs) = (case map_of fs ''error'' of
     Some (JObj es) \<Rightarrow> JObj (put_field ''error'' (JObj (put_field ''correlation_id'' (JStr i) es)) fs)
   | _ \<Rightarrow> JObj fs)"
| "with_error_id i v = v"

text \<open>\<open>decode\<close> and \<open>encode\<close> are \<^verbatim>\<open>serde_json\<close> on bytes; a body over one mebibyte is dropped.\<close>

definition backfill_body_correlation_id ::
    "(string \<Rightarrow> json option) \<Rightarrow> (json \<Rightarrow> string) \<Rightarrow> string \<Rightarrow> response \<Rightarrow> response" where
  "backfill_body_correlation_id decode encode i res =
     (if rp_status res < 400 \<or> 600 \<le> rp_status res then res
      else if \<not> (case rp_content_type res of None \<Rightarrow> False | Some ct \<Rightarrow> starts_with ''application/json'' ct) then res
      else if 1048576 < length (rp_body res) then res\<lparr>rp_body := []\<rparr>
      else case decode (rp_body res) of
        None \<Rightarrow> res
      | Some v \<Rightarrow> res\<lparr>rp_length := None,
          rp_body := encode (if needs_backfill v then with_error_id i v else v)\<rparr>)"

text \<open>
  \<open>header\<close> is the request's \<^verbatim>\<open>x-correlation-id\<close>, \<open>nonce\<close> the 32 hexadecimal digits of a new uuid, \<open>handler\<close> the
  rest of the service.
\<close>

definition correlation_of :: "string option \<Rightarrow> string \<Rightarrow> string" where
  "correlation_of header nonce = (case header of
     Some v \<Rightarrow> (if acceptable_correlation_id v then v else ''corr_'' @ nonce)
   | None \<Rightarrow> ''corr_'' @ nonce)"

definition correlation_id ::
    "(string \<Rightarrow> json option) \<Rightarrow> (json \<Rightarrow> string) \<Rightarrow> string option \<Rightarrow> string \<Rightarrow> (string \<Rightarrow> response) \<Rightarrow> response" where
  "correlation_id decode encode header nonce handler =
     (let i = correlation_of header nonce
      in backfill_body_correlation_id decode encode i ((handler i)\<lparr>rp_correlation := Some i\<rparr>))"

section \<open>The layers\<close>

definition SECURITY_HEADERS :: "(string \<times> string) list" where
  "SECURITY_HEADERS = [(''x-content-type-options'', ''nosniff''), (''x-frame-options'', ''DENY''),
     (''referrer-policy'', ''no-referrer''),
     (''strict-transport-security'', ''max-age=31536000; includeSubDomains'')]"

definition security_headers :: "response \<Rightarrow> response" where
  "security_headers res = res\<lparr>rp_headers := fold (\<lambda>(k, v). put_field k v) SECURITY_HEADERS (rp_headers res)\<rparr>"

text \<open>An error as \<^verbatim>\<open>Json\<close> renders it, and the rejection of the limiter.\<close>

definition error_response :: "(json \<Rightarrow> string) \<Rightarrow> app_error \<Rightarrow> response" where
  "error_response encode err = \<lparr>rp_status = fst (into_response err), rp_content_type = Some ''application/json'',
     rp_correlation = None, rp_length = None, rp_body = encode (snd (into_response err)), rp_headers = []\<rparr>"

definition limited_response :: "(json \<Rightarrow> string) \<Rightarrow> app_error \<Rightarrow> int \<Rightarrow> response" where
  "limited_response encode err n = (error_response encode err)\<lparr>rp_headers := [(''retry-after'', show_int n)]\<rparr>"

text \<open>
  The limiter runs inside the security headers, which run inside the correlation id; \<open>handler\<close> is the rest:
  body limit, timeout, routing and the handlers.
\<close>

definition respond ::
    "(string \<Rightarrow> json option) \<Rightarrow> (json \<Rightarrow> string) \<Rightarrow> int \<Rightarrow> int \<Rightarrow> string \<Rightarrow> string option \<Rightarrow> string
      \<Rightarrow> (string \<Rightarrow> response) \<Rightarrow> rate_limiter \<Rightarrow> response \<times> rate_limiter" where
  "respond decode encode limit now key header nonce handler s =
     (case enforce limit now key (Some (correlation_of header nonce)) s of (verdict, s') \<Rightarrow>
        (correlation_id decode encode header nonce (\<lambda>i. security_headers
           (case verdict of Next \<Rightarrow> handler i | Limited err n \<Rightarrow> limited_response encode err n)), s'))"

lemma put_field_mem: "(k, v) \<in> set (put_field k v fs)"
  by (force simp: put_field_def)

lemma put_field_other: "k \<noteq> k' \<Longrightarrow> (k, w) \<in> set fs \<Longrightarrow> (k, w) \<in> set (put_field k' v fs)"
  by (force simp: put_field_def)

lemma security_headers_present: "set SECURITY_HEADERS \<subseteq> set (rp_headers (security_headers res))"
  by (simp add: security_headers_def SECURITY_HEADERS_def put_field_mem put_field_other)

lemma security_headers_keeps [simp]:
  "rp_status (security_headers res) = rp_status res" "rp_content_type (security_headers res) = rp_content_type res"
  "rp_body (security_headers res) = rp_body res"
  by (simp_all add: security_headers_def)

lemma backfill_headers [simp]: "rp_headers (backfill_body_correlation_id decode encode i res) = rp_headers res"
  by (simp add: backfill_body_correlation_id_def split: option.split)

lemma enforce_verdict:
  "enforce limit now key (Some i) s = (verdict, s') \<Longrightarrow>
     verdict = Next \<or> (\<exists>n. verdict = Limited (with_correlation i too_many_requests) n)"
  by (auto simp: enforce_def split: prod.splits rate_decision.splits if_splits)

end
