(* ===== verification/Config.thy ===== *)
theory Config
  imports Rust_Str
begin

text \<open>
  \<^verbatim>\<open>api/src/config.rs\<close>: the configuration read from the environment \<open>var\<close>. A missing required
  variable or a value that does not parse ends the start-up. \<open>entries\<close> is serde's reading of a
  JSON object of strings, in document order with repeated keys.
\<close>

datatype config_error = Missing string | InvalidVar string string

type_synonym environment = "string \<Rightarrow> string option"

definition require_var :: "string \<Rightarrow> environment \<Rightarrow> config_error + string" where
  "require_var key var = ok_or (var key) (Missing key)"

definition optional_var :: "string \<Rightarrow> string \<Rightarrow> environment \<Rightarrow> string" where
  "optional_var key dflt var = unwrap_or (var key) dflt"

text \<open>The texts of the standard library's parse errors are left out.\<close>

definition parse_u64_var :: "string \<Rightarrow> int \<Rightarrow> environment \<Rightarrow> config_error + int" where
  "parse_u64_var key dflt var = (case var key of
     Some v \<Rightarrow> ok_or (parse_u64 v) (InvalidVar key [])
   | None \<Rightarrow> Inr dflt)"

definition parse_u8 :: "string \<Rightarrow> int option" where
  "parse_u8 s = (case parse_u64 s of Some n \<Rightarrow> (if n \<le> 255 then Some n else None) | None \<Rightarrow> None)"

definition percent_message :: string where
  "percent_message = ''must be comma-separated percentages between 1 and 100''"

fun parse_percents :: "string \<Rightarrow> string list \<Rightarrow> config_error + int list" where
  "parse_percents key [] = Inr []"
| "parse_percents key (p # ps) =
     bind_r (ok_or (case parse_u8 p of Some n \<Rightarrow> (if 1 \<le> n \<and> n \<le> 100 then Some n else None) | None \<Rightarrow> None)
       (InvalidVar key percent_message)) (\<lambda>n.
     bind_r (parse_percents key ps) (\<lambda>ns. Inr (n # ns)))"

definition parse_percent_list :: "string \<Rightarrow> int list \<Rightarrow> environment \<Rightarrow> config_error + int list" where
  "parse_percent_list key dflt var = (case var key of
     None \<Rightarrow> Inr dflt
   | Some raw \<Rightarrow> bind_r (parse_percents key (filter (\<lambda>p. p \<noteq> []) (map trim (split_on (CHR '','') raw)))) (\<lambda>ns.
       Inr (remdups_adj (sort ns))))"

definition VERIFY_PUBLIC_KEYS_VAR :: string where
  "VERIFY_PUBLIC_KEYS_VAR = ''ENTITLEMENT_VERIFY_PUBLIC_KEYS''"

fun visit_keys :: "(string \<times> string) list \<Rightarrow> (string \<times> string) list \<Rightarrow> string + (string \<times> string) list" where
  "visit_keys seen [] = Inr seen"
| "visit_keys seen ((i, k) # es) =
     (if trim i = [] then Inl ''empty key_id''
      else if list_ex (\<lambda>(j, _). j = i) seen then Inl (''duplicate key_id '' @ i)
      else visit_keys (seen @ [(i, k)]) es)"

definition parse_verify_public_keys ::
    "(string \<Rightarrow> string + (string \<times> string) list) \<Rightarrow> string option \<Rightarrow> config_error + (string \<times> string) list" where
  "parse_verify_public_keys entries raw = (case trim_opt raw of
     None \<Rightarrow> Inr []
   | Some v \<Rightarrow> (case bind_r (entries v) (visit_keys []) of
       Inr ks \<Rightarrow> Inr ks
     | Inl msg \<Rightarrow> Inl (InvalidVar VERIFY_PUBLIC_KEYS_VAR
         (''must be a JSON object of key_id to base64 public key: '' @ msg))))"

text \<open>Durations are in seconds; a product is taken in \<^verbatim>\<open>u64\<close>, which wraps in a release build.\<close>

definition u64_mul :: "int \<Rightarrow> int \<Rightarrow> int" where
  "u64_mul m n = (m * n) mod 2 ^ 64"

record config =
  cg_app_env :: string
  cg_host :: string
  cg_port :: int
  cg_database_url :: string
  cg_acquire_timeout :: int
  cg_jwt_issuer :: string
  cg_jwt_audience :: string
  cg_jwt_secret :: string
  cg_admin_issuer :: string
  cg_admin_audience :: string
  cg_admin_key :: string
  cg_stripe_secret :: string
  cg_stripe_webhook :: string
  cg_stripe_base :: string
  cg_signing_key :: string
  cg_signing_key_id :: string
  cg_verify_keys :: "(string \<times> string) list"
  cg_dataforge_url :: string
  cg_dataforge_token :: string
  cg_rollout_secret :: string
  cg_artifact_base :: string
  cg_snapshot_ttl :: int
  cg_offline_grace :: int
  cg_cooling_off :: int
  cg_reservation_ttl :: int
  cg_percents :: "int list"
  cg_request_timeout :: int
  cg_max_body :: int
  cg_rate_limit :: int

definition from_env ::
    "(string \<Rightarrow> string + (string \<times> string) list) \<Rightarrow> environment \<Rightarrow> config_error + config" where
  "from_env entries var =
     bind_r (ok_or (case parse_u64 (optional_var ''PORT'' ''8090'' var) of
         Some n \<Rightarrow> (if n \<le> 65535 then Some n else None) | None \<Rightarrow> None) (InvalidVar ''PORT'' [])) (\<lambda>port.
     bind_r (parse_u64_var ''ENTITLEMENT_SNAPSHOT_TTL_HOURS'' 24 var) (\<lambda>hours.
     bind_r (parse_u64_var ''OFFLINE_GRACE_DAYS'' 14 var) (\<lambda>days.
     bind_r (require_var ''DATABASE_URL'' var) (\<lambda>db.
     bind_r (parse_u64_var ''DATABASE_ACQUIRE_TIMEOUT_SECS'' 30 var) (\<lambda>acquire.
     bind_r (require_var ''SUPABASE_JWT_ISSUER'' var) (\<lambda>issuer.
     bind_r (require_var ''ADMIN_JWT_ISSUER'' var) (\<lambda>admin_issuer.
     bind_r (require_var ''ADMIN_JWT_AUDIENCE'' var) (\<lambda>admin_audience.
     bind_r (require_var ''ENTITLEMENT_SIGNING_PRIVATE_KEY'' var) (\<lambda>signing.
     bind_r (parse_verify_public_keys entries (var VERIFY_PUBLIC_KEYS_VAR)) (\<lambda>verify.
     bind_r (parse_u64_var ''DELETION_COOLING_OFF_DAYS'' 14 var) (\<lambda>cooling.
     bind_r (parse_u64_var ''USAGE_RESERVATION_TTL_SECS'' 900 var) (\<lambda>reservation.
     bind_r (parse_percent_list ''USAGE_THRESHOLD_PERCENTS'' [80, 100] var) (\<lambda>percents.
     bind_r (parse_u64_var ''REQUEST_TIMEOUT_SECS'' 30 var) (\<lambda>request.
     bind_r (parse_u64_var ''MAX_BODY_BYTES'' 1048576 var) (\<lambda>body.
     bind_r (parse_u64_var ''RATE_LIMIT_PER_MINUTE'' 300 var) (\<lambda>rate.
     bind_r (ok_or (u32_try_from rate) (InvalidVar ''RATE_LIMIT_PER_MINUTE'' ''value too large'')) (\<lambda>limit.
       Inr \<lparr>cg_app_env = optional_var ''APP_ENV'' ''development'' var, cg_host = optional_var ''HOST'' ''0.0.0.0'' var,
         cg_port = port, cg_database_url = db, cg_acquire_timeout = acquire, cg_jwt_issuer = issuer,
         cg_jwt_audience = optional_var ''SUPABASE_JWT_AUDIENCE'' ''authenticated'' var,
         cg_jwt_secret = optional_var ''SUPABASE_JWT_SECRET'' [] var, cg_admin_issuer = admin_issuer,
         cg_admin_audience = admin_audience, cg_admin_key = optional_var ''ADMIN_JWT_PUBLIC_KEY'' [] var,
         cg_stripe_secret = optional_var ''STRIPE_SECRET_KEY'' [] var,
         cg_stripe_webhook = optional_var ''STRIPE_WEBHOOK_SECRET'' [] var,
         cg_stripe_base = optional_var ''STRIPE_API_BASE'' ''https://api.stripe.com'' var, cg_signing_key = signing,
         cg_signing_key_id = optional_var ''ENTITLEMENT_SIGNING_KEY_ID'' ''entitlement-key-1'' var,
         cg_verify_keys = verify, cg_dataforge_url = optional_var ''DATAFORGE_API_URL'' [] var,
         cg_dataforge_token = optional_var ''DATAFORGE_SERVICE_TOKEN'' [] var,
         cg_rollout_secret = optional_var ''UPDATE_ROLLOUT_SECRET'' [] var,
         cg_artifact_base = optional_var ''RELEASE_ARTIFACT_BASE_URL'' [] var,
         cg_snapshot_ttl = u64_mul hours 3600, cg_offline_grace = u64_mul days 86400,
         cg_cooling_off = u64_mul cooling 86400, cg_reservation_ttl = reservation, cg_percents = percents,
         cg_request_timeout = request, cg_max_body = body, cg_rate_limit = limit\<rparr>)))))))))))))))))"

section \<open>What a configuration satisfies\<close>

lemma parse_percents_range: "parse_percents key ps = Inr ns \<Longrightarrow> n \<in> set ns \<Longrightarrow> 1 \<le> n \<and> n \<le> 100"
  by (induction ps arbitrary: ns) (auto split: option.splits if_splits)

lemma strict_remdups_adj: "sorted xs \<Longrightarrow> sorted_wrt (<) (remdups_adj (xs :: int list))"
  by (induction xs rule: remdups_adj.induct) force+

lemma percent_list_ok:
  assumes "parse_percent_list key dflt var = Inr ns" and "var key \<noteq> None"
  shows "sorted_wrt (<) ns" and "n \<in> set ns \<Longrightarrow> 1 \<le> n \<and> n \<le> 100"
proof -
  from assms obtain ms ps where "parse_percents key ps = Inr ms" "ns = remdups_adj (sort ms)"
    by (auto simp: parse_percent_list_def)
  moreover have "sorted_wrt (<) (remdups_adj (sort ms))"
    by (rule strict_remdups_adj) simp
  ultimately show "sorted_wrt (<) ns" and "n \<in> set ns \<Longrightarrow> 1 \<le> n \<and> n \<le> 100"
    using parse_percents_range by auto
qed

lemma visit_keys_ok:
  "visit_keys seen es = Inr ks \<Longrightarrow> distinct (map fst seen) \<Longrightarrow> (\<forall>(i, _) \<in> set seen. trim i \<noteq> []) \<Longrightarrow>
     ks = seen @ es \<and> distinct (map fst ks) \<and> (\<forall>(i, _) \<in> set ks. trim i \<noteq> [])"
proof (induction seen es arbitrary: ks rule: visit_keys.induct)
  case (2 seen i k es)
  have new: "i \<notin> fst ` set seen" "trim i \<noteq> []"
    using 2(2) by (auto simp: list_ex_iff split: if_splits)
  then have step: "visit_keys (seen @ [(i, k)]) es = Inr ks" using 2(2) by (simp split: if_splits)
  have unseen: "\<not> list_ex (\<lambda>(j, _). j = i) seen" using new(1) by (force simp: list_ex_iff)
  have "distinct (map fst (seen @ [(i, k)]))" using 2(3) new(1) by simp
  moreover have "\<forall>(i, _) \<in> set (seen @ [(i, k)]). trim i \<noteq> []" using 2(4) new(2) by simp
  ultimately have "ks = (seen @ [(i, k)]) @ es \<and> distinct (map fst ks) \<and> (\<forall>(i, _) \<in> set ks. trim i \<noteq> [])"
    by (rule 2(1) [OF new(2) unseen step])
  then show ?case by (metis append_assoc append_Cons append_Nil)
qed simp

end
