(* ===== verification/Edge_Properties.thy ===== *)
theory Edge_Properties
  imports Rate_Limit Config
begin

text \<open>
  The properties of the edge of the service: the budget of a client, the correlation id of an
  error, and what a configuration that was accepted satisfies.
\<close>

section \<open>Budgets\<close>

fun run_rate :: "int \<Rightarrow> (string \<times> int) list \<Rightarrow> rate_limiter \<Rightarrow> (string \<times> int \<times> rate_decision) list \<times> rate_limiter" where
  "run_rate limit [] s = ([], s)"
| "run_rate limit ((key, now) # cs) s =
     (let (d, s1) = check_rate key limit now s; (ds, s2) = run_rate limit cs s1
      in ((key, window_of now, d) # ds, s2))"

definition allowed :: "string \<Rightarrow> int \<Rightarrow> (string \<times> int \<times> rate_decision) list \<Rightarrow> int" where
  "allowed key w ds = int (length (filter (\<lambda>x. x = (key, w, AllowRate)) ds))"

text \<open>What a client has spent of a window.\<close>

definition spent :: "string \<Rightarrow> int \<Rightarrow> rate_limiter \<Rightarrow> int" where
  "spent key w s = (case window_entry key (windows s) of
     Some x \<Rightarrow> (if rw_started x = w then rw_count x else 0) | None \<Rightarrow> 0)"

definition no_later :: "int \<Rightarrow> rate_limiter \<Rightarrow> bool" where
  "no_later w s \<longleftrightarrow> (\<forall>x \<in> set (windows s). rw_started x \<le> w)"

lemma find_filter: "find P (filter Q xs) = find (\<lambda>x. Q x \<and> P x) xs"
  by (induction xs) auto

lemma window_entry_put [simp]:
  "window_entry key (put_entry x ws) = (if key = rw_key x then Some x else window_entry key ws)"
proof (cases "key = rw_key x")
  case True
  have "find (\<lambda>y. rw_key y = rw_key x) ws \<noteq> None \<Longrightarrow>
      find (\<lambda>y. rw_key y = rw_key x) (upd (\<lambda>y. rw_key y = rw_key x) (\<lambda>_. x) ws) = Some x"
    by (induction ws) auto
  then show ?thesis using True by (auto simp: put_entry_def window_entry_def find_append)
next
  case False
  have "find (\<lambda>y. rw_key y = key) (upd (\<lambda>y. rw_key y = rw_key x) (\<lambda>_. x) ws) = find (\<lambda>y. rw_key y = key) ws"
    using False by (induction ws) auto
  then show ?thesis using False by (auto simp: put_entry_def window_entry_def find_append split: option.split)
qed

lemma window_entry_SomeD: "window_entry key ws = Some x \<Longrightarrow> x \<in> set ws \<and> rw_key x = key"
  by (auto simp: window_entry_def dest: find_SomeD)

lemma current_entry_simps [simp]:
  "rw_key (current_entry key w ws) = key" "rw_started (current_entry key w ws) = w"
  by (auto simp: current_entry_def dest!: window_entry_SomeD split: option.split)

lemma current_count: "rw_count (current_entry key w (windows s)) = spent key w s"
  by (simp add: current_entry_def spent_def split: option.split)

text \<open>A sweep in window \<open>w\<close> keeps what was spent of \<open>w\<close>, when a client has one row.\<close>

definition rate_keys :: "rate_limiter \<Rightarrow> bool" where
  "rate_keys s \<longleftrightarrow> distinct (map rw_key (windows s))"

lemma find_started:
  "distinct (map rw_key ws) \<Longrightarrow> find (\<lambda>x. rw_started x = w \<and> rw_key x = key) ws =
     (case find (\<lambda>x. rw_key x = key) ws of Some x \<Rightarrow> (if rw_started x = w then Some x else None) | None \<Rightarrow> None)"
proof (induction ws)
  case (Cons a ws)
  show ?case
  proof (cases "rw_key a = key")
    case True
    then have "key \<notin> rw_key ` set ws" using Cons.prems by simp
    then have "find (\<lambda>x. rw_key x = key) ws = None" unfolding find_None_iff by blast
    moreover from this have "find (\<lambda>x. rw_started x = w \<and> rw_key x = key) ws = None" by (auto simp: find_None_iff)
    ultimately show ?thesis using True by simp
  qed (use Cons in simp)
qed simp

lemma spent_sweep:
  assumes "rate_keys s"
  shows "spent key w (sweep_windows w s) = spent key w s"
  using assms
  by (auto simp: sweep_windows_def spent_def window_entry_def find_filter find_started rate_keys_def split: option.splits)

lemma sweep_sub: "set (windows (sweep_windows w s)) \<subseteq> set (windows s)"
  "length (windows (sweep_windows w s)) \<le> length (windows s)"
  by (auto simp: sweep_windows_def)

lemma put_entry_keys:
  "map rw_key (put_entry x ws) = map rw_key ws @ (if window_entry (rw_key x) ws = None then [rw_key x] else [])"
  by (auto simp: put_entry_def intro!: map_upd_key)

lemma set_put_entry: "set (put_entry x ws) \<subseteq> insert x (set ws)"
  by (auto simp: put_entry_def set_upd)

lemma entry_keys: "window_entry key ws = None \<longleftrightarrow> key \<notin> rw_key ` set ws"
  by (auto simp: window_entry_def find_None_iff)

text \<open>One check: what it leaves of the table, and what it spends.\<close>

definition rate_ok :: "int \<Rightarrow> rate_limiter \<Rightarrow> bool" where
  "rate_ok w s \<longleftrightarrow> rate_keys s \<and> no_later w s \<and> length (windows s) \<le> MAX_TRACKED_CLIENTS"

lemma check_rate_ok:
  assumes "check_rate key limit now s = (d, s')" and "rate_ok w s" and "w \<le> window_of now"
  shows "rate_ok (window_of now) s'"
proof -
  let ?w = "window_of now" and ?s = "sweep_windows (window_of now) s"
  have k: "rate_keys ?s" "no_later ?w ?s" "length (windows ?s) \<le> MAX_TRACKED_CLIENTS"
    using assms(2,3) sweep_sub [of ?w s]
    by (auto simp: rate_ok_def no_later_def rate_keys_def sweep_windows_def distinct_map_filter)
  have put: "rate_ok ?w (?s\<lparr>windows := put_entry x (windows ?s)\<rparr>)"
    if "rw_key x = key" "rw_started x = ?w"
      "\<not> (MAX_TRACKED_CLIENTS \<le> length (windows ?s) \<and> window_entry key (windows ?s) = None)" for x
  proof -
    have "length (put_entry x (windows ?s)) \<le> MAX_TRACKED_CLIENTS"
      using that k(3) by (auto simp: put_entry_def)
    moreover have "distinct (map rw_key (put_entry x (windows ?s)))"
      using k(1) by (simp add: put_entry_keys rate_keys_def entry_keys)
    moreover have "no_later ?w (?s\<lparr>windows := put_entry x (windows ?s)\<rparr>)"
      using k(2) set_put_entry [of x "windows ?s"] that(2) by (auto simp: no_later_def)
    ultimately show ?thesis by (simp add: rate_ok_def rate_keys_def)
  qed
  show ?thesis
    using assms(1) k put
    by (auto simp: check_rate_def Let_def rate_ok_def split: if_splits)
qed

lemma check_rate_spent:
  assumes "check_rate key limit now s = (d, s')" and "rate_keys s"
  shows "spent k (window_of now) s' = spent k (window_of now) s + (if k = key \<and> d = AllowRate then 1 else 0)"
    and "d = AllowRate \<Longrightarrow> spent key (window_of now) s < limit"
proof -
  let ?w = "window_of now" and ?s = "sweep_windows (window_of now) s"
  have sp: "spent j ?w ?s = spent j ?w s" for j by (rule spent_sweep [OF assms(2)])
  have put: "spent j ?w (?s\<lparr>windows := put_entry x (windows ?s)\<rparr>) = (if j = key then rw_count x else spent j ?w ?s)"
    if "rw_key x = key" "rw_started x = ?w" for x j
    using that by (simp add: spent_def)
  show "spent k ?w s' = spent k ?w s + (if k = key \<and> d = AllowRate then 1 else 0)"
    and "d = AllowRate \<Longrightarrow> spent key ?w s < limit"
    using assms(1) by (auto simp: check_rate_def Let_def put sp current_count split: if_splits)
qed

lemma allowed_Cons:
  "allowed key w ((k, v, d) # ds) = (if k = key \<and> v = w \<and> d = AllowRate then 1 else 0) + allowed key w ds"
  by (simp add: allowed_def)

lemma window_of_mono: "m \<le> n \<Longrightarrow> window_of m \<le> window_of n"
proof -
  assume "m \<le> n"
  have "window_of k = 60 * (k div 60)" for k
    using minus_mod_eq_mult_div [of k 60] by (simp add: window_of_def WINDOW_SECS_def)
  then show ?thesis using \<open>m \<le> n\<close> by (simp add: zdiv_mono1)
qed

lemma allowed_past:
  "\<forall>t \<in> snd ` set cs. w < window_of t \<Longrightarrow> allowed key w (fst (run_rate limit cs s)) = 0"
proof (induction limit cs s rule: run_rate.induct)
  case (2 limit k now cs s)
  then show ?case by (auto simp: allowed_Cons split: prod.splits)
qed (simp add: allowed_def)

lemma run_rate_length:
  assumes "rate_ok v s" and "sorted (map snd cs)" and "\<forall>t \<in> snd ` set cs. v \<le> window_of t"
  shows "length (windows (snd (run_rate limit cs s))) \<le> MAX_TRACKED_CLIENTS"
  using assms
proof (induction limit cs s arbitrary: v rule: run_rate.induct)
  case (2 limit k now cs s)
  obtain d s1 where d: "check_rate k limit now s = (d, s1)" by fastforce
  have "rate_ok (window_of now) s1" by (rule check_rate_ok [OF d 2(2)]) (use 2(4) in simp)
  with 2(1) [OF refl d [symmetric]] 2(3) show ?case by (force simp: d window_of_mono split: prod.splits)
qed (simp add: rate_ok_def)

lemma spent_later: "no_later v s \<Longrightarrow> v < w \<Longrightarrow> spent key w s = 0"
  by (auto simp: spent_def no_later_def dest!: window_entry_SomeD split: option.split)

lemma run_rate_bound:
  assumes "rate_ok v s" and "sorted (map snd cs)" and "\<forall>t \<in> snd ` set cs. v \<le> window_of t"
    and "spent key w s \<le> limit"
  shows "allowed key w (fst (run_rate limit cs s)) + spent key w s \<le> limit"
  using assms
proof (induction limit cs s arbitrary: v rule: run_rate.induct)
  case (1 limit s)
  then show ?case by (simp add: allowed_def)
next
  case (2 limit k now cs s)
  obtain d s1 where d: "check_rate k limit now s = (d, s1)" by fastforce
  obtain ds s2 where r: "run_rate limit cs s1 = (ds, s2)" by fastforce
  let ?u = "window_of now"
  have u: "v \<le> ?u" "rate_keys s" "no_later v s" using 2(2,4) by (auto simp: rate_ok_def)
  have ok: "rate_ok ?u s1" by (rule check_rate_ok [OF d 2(2) u(1)])
  have later: "\<forall>t \<in> snd ` set cs. ?u \<le> window_of t" "sorted (map snd cs)"
    using 2(3) window_of_mono by auto
  have IH: "spent key w s1 \<le> limit \<Longrightarrow> allowed key w ds + spent key w s1 \<le> limit"
    using 2(1) [OF refl d [symmetric] ok later(2,1)] r by simp
  have all: "allowed key w (fst (run_rate limit ((k, now) # cs) s))
      = (if k = key \<and> ?u = w \<and> d = AllowRate then 1 else 0) + allowed key w ds"
    by (simp add: d r allowed_Cons)
  note sp = check_rate_spent [OF d u(2)]
  consider "w < ?u" | "?u = w" | "?u < w" by linarith
  then show ?case
  proof cases
    case 1
    have "\<forall>t \<in> snd ` set ((k, now) # cs). w < window_of t" using later(1) 1 by auto
    then show ?thesis using allowed_past [of "(k, now) # cs" w key limit s] 2(5) by simp
  next
    case 2
    have "spent key w s1 \<le> limit" using sp(1) [of key] sp(2) \<open>spent key w s \<le> limit\<close> 2 by (auto split: if_splits)
    then show ?thesis unfolding all using IH sp(1) [of key] 2 by (auto split: if_splits)
  next
    case 3
    then have "spent key w s = 0" "spent key w s1 = 0"
      using spent_later [of v s w] spent_later [of ?u s1 w] u ok by (auto simp: rate_ok_def)
    then show ?thesis unfolding all using IH \<open>spent key w s \<le> limit\<close> 3 by simp
  qed
qed

text \<open>C26: No client gets past its budget: whatever requests arrive, by whichever clients, while the clock does
  not run backwards, the requests let through for a client within one minute window are at most the
  limit, sweeps and floods of other addresses notwithstanding, and the table never holds more than a
  hundred thousand clients.\<close>

theorem rate_budget_kept:
  assumes "sorted (map snd calls)" and "0 \<le> limit" and "\<forall>t \<in> snd ` set calls. 0 \<le> t"
  shows "allowed key w (fst (run_rate limit calls new_limiter)) \<le> limit
    \<and> length (windows (snd (run_rate limit calls new_limiter))) \<le> MAX_TRACKED_CLIENTS"
proof -
  have "rate_ok 0 new_limiter" by (simp add: rate_ok_def rate_keys_def no_later_def new_limiter_def)
  moreover have "0 \<le> window_of t" if "0 \<le> t" for t using window_of_mono [OF that] by (simp add: window_of_def)
  then have "\<forall>t \<in> snd ` set calls. 0 \<le> window_of t" using assms(3) by simp
  moreover have "spent key w new_limiter = 0" by (simp add: spent_def window_entry_def new_limiter_def)
  ultimately show ?thesis
    using run_rate_bound [of 0 new_limiter calls key w limit] run_rate_length [of 0 new_limiter calls limit] assms(1,2)
    by simp
qed

theorem rate_budget_kept_witness:
  "map (\<lambda>(_, _, d). d) (fst (run_rate 2 [(''a'', 70), (''a'', 71), (''b'', 71), (''a'', 110), (''a'', 125)] new_limiter))
     = [AllowRate, AllowRate, AllowRate, DenyRate 10, AllowRate]
   \<and> allowed ''a'' 60 (fst (run_rate 2 [(''a'', 70), (''a'', 71), (''b'', 71), (''a'', 110), (''a'', 125)] new_limiter)) \<le> 2"
proof
  show "map (\<lambda>(_, _, d). d) (fst (run_rate 2 [(''a'', 70), (''a'', 71), (''b'', 71), (''a'', 110), (''a'', 125)] new_limiter))
     = [AllowRate, AllowRate, AllowRate, DenyRate 10, AllowRate]"
    by (simp add: check_rate_def Let_def window_of_def WINDOW_SECS_def sweep_windows_def SWEEP_MIN_ENTRIES_def
        MAX_TRACKED_CLIENTS_def current_entry_def put_entry_def window_entry_def new_limiter_def retry_after_def)
  show "allowed ''a'' 60 (fst (run_rate 2 [(''a'', 70), (''a'', 71), (''b'', 71), (''a'', 110), (''a'', 125)] new_limiter)) \<le> 2"
    using rate_budget_kept [of "[(''a'', 70), (''a'', 71), (''b'', 71), (''a'', 110), (''a'', 125)]" 2 "''a''" 60] by simp
qed

section \<open>Correlation\<close>

lemma correlation_of_acceptable:
  assumes "length nonce = 32" and "list_all is_hexdigit nonce"
  shows "acceptable_correlation_id (correlation_of header nonce)"
proof -
  have "is_alnum c" if "is_hexdigit c" for c
    using that by (auto simp: is_hexdigit_def is_alnum_def is_digit_def is_lower_def is_upper_def)
  then have "list_all is_alnum nonce" using assms(2) by (auto simp: list_all_iff)
  moreover have "list_all is_alnum ''corr''" by code_simp
  ultimately have "acceptable_correlation_id (''corr_'' @ nonce)"
    using assms(1) by (auto simp: acceptable_correlation_id_def MAX_CORRELATION_ID_LEN_def list_all_iff)
  then show ?thesis by (simp add: correlation_of_def split: option.split)
qed

lemma rendered_error:
  assumes "i = correlation_of header nonce" and "rp_status (handler i) = fst (into_response e)"
    and "rp_content_type (handler i) = Some ''application/json''"
    and "rp_body (handler i) = encode (snd (into_response e))" and "length (encode (snd (into_response e))) \<le> 1048576"
    and "decode (encode (snd (into_response e))) = Some (snd (into_response e))"
    and "v = (if needs_backfill (snd (into_response e)) then with_error_id i (snd (into_response e)) else snd (into_response e))"
  shows "correlation_id decode encode header nonce handler
      = (handler i)\<lparr>rp_correlation := Some i, rp_length := None, rp_body := encode v\<rparr>"
    and "Option.bind (jget ''error'' v) (jget ''correlation_id'') = Some (JStr (unwrap_or (ae_correlation e) i))"
proof -
  have ok: "starts_with ''application/json'' ''application/json''" by code_simp
  show "correlation_id decode encode header nonce handler
      = (handler i)\<lparr>rp_correlation := Some i, rp_length := None, rp_body := encode v\<rparr>"
    using assms(2-7) ok status_is_error [of "ae_code e"]
    by (simp add: correlation_id_def Let_def backfill_body_correlation_id_def flip: assms(1)) (simp add: into_response_def)
  show "Option.bind (jget ''error'' v) (jget ''correlation_id'') = Some (JStr (unwrap_or (ae_correlation e) i))"
    by (cases "ae_correlation e") (simp_all add: assms(7) into_response_def needs_backfill_def put_field_def)
qed

text \<open>C38: Every error names its request: whether it comes from a handler or from the limiter, its response has
  the status of its code, the security headers and an id that is short and safe to log, and its
  body carries the id attached to the error, or else that of the header.\<close>

theorem errors_carry_correlation:
  assumes "length nonce = 32" and "list_all is_hexdigit nonce" and "i = correlation_of header nonce"
    and "rp_status (handler i) = fst (into_response err)" and "rp_content_type (handler i) = Some ''application/json''"
    and "rp_body (handler i) = encode (snd (into_response err))"
    and "e = (case fst (enforce limit now key (Some i) s) of Next \<Rightarrow> err | Limited e' n \<Rightarrow> e')"
    and "length (encode (snd (into_response e))) \<le> 1048576"
    and "decode (encode (snd (into_response e))) = Some (snd (into_response e))"
    and "decode (encode (with_error_id i (snd (into_response e)))) = Some (with_error_id i (snd (into_response e)))"
    and "respond decode encode limit now key header nonce handler s = (res, s')"
  shows "rp_status res = http_status (ae_code e) \<and> set SECURITY_HEADERS \<subseteq> set (rp_headers res)
    \<and> rp_correlation res = Some i \<and> acceptable_correlation_id i
    \<and> (\<exists>v. decode (rp_body res) = Some v
      \<and> Option.bind (jget ''error'' v) (jget ''correlation_id'') = Some (JStr (unwrap_or (ae_correlation e) i)))"
proof -
  obtain verdict where v: "enforce limit now key (Some i) s = (verdict, s')"
    using assms(11) by (auto simp: respond_def simp flip: assms(3) split: prod.splits)
  define inner where "inner = (\<lambda>i. security_headers
    (case verdict of Next \<Rightarrow> handler i | Limited e n \<Rightarrow> limited_response encode e n))"
  have res: "res = correlation_id decode encode header nonce inner"
    using assms(11) v by (simp add: respond_def inner_def flip: assms(3))
  have "rp_status (inner i) = fst (into_response e)" "rp_content_type (inner i) = Some ''application/json''"
    "rp_body (inner i) = encode (snd (into_response e))"
    using assms(4-7) v by (simp_all add: inner_def limited_response_def error_response_def split: enforced.split)
  note r = rendered_error [where handler = inner and encode = encode and decode = decode and e = e and i = i, OF assms(3) this assms(8,9) refl]
  have "set SECURITY_HEADERS \<subseteq> set (rp_headers res)"
    using r(1) security_headers_present by (simp add: res inner_def)
  moreover have "decode (rp_body res) = Some (if needs_backfill (snd (into_response e))
      then with_error_id i (snd (into_response e)) else snd (into_response e))"
    using r(1) assms(9,10) by (simp add: res)
  ultimately show ?thesis
    using r \<open>rp_status (inner i) = _\<close> correlation_of_acceptable [OF assms(1,2), of header] assms(3)
    by (simp add: res) (simp add: into_response_def)
qed

definition demo_err :: app_error where "demo_err = not_found ''Release not found.''"

definition demo_enc :: "json \<Rightarrow> string" where
  "demo_enc v = (if needs_backfill v then ''1'' else ''2'')"

definition demo_dec :: "string \<Rightarrow> string \<Rightarrow> json option" where
  "demo_dec i s = Some (if s = ''1'' then snd (into_response demo_err) else with_error_id i (snd (into_response demo_err)))"

definition demo_handler :: "string \<Rightarrow> response" where
  "demo_handler _ = error_response demo_enc demo_err"

theorem errors_carry_correlation_witness:
  "\<exists>v. demo_dec ''trace-7'' (rp_body (fst (respond (demo_dec ''trace-7'') demo_enc 2 70 ''a'' (Some ''trace-7'')
      (replicate 32 CHR ''0'') demo_handler new_limiter))) = Some v
    \<and> Option.bind (jget ''error'' v) (jget ''correlation_id'') = Some (JStr ''trace-7'')"
proof -
  let ?nonce = "replicate 32 CHR ''0''"
  have i: "''trace-7'' = correlation_of (Some ''trace-7'') ?nonce" "length ?nonce = 32" "list_all is_hexdigit ?nonce"
    by code_simp+
  have e: "demo_err = (case fst (enforce 2 70 ''a'' (Some ''trace-7'') new_limiter) of Next \<Rightarrow> demo_err | Limited e' n \<Rightarrow> e')"
    by (simp add: enforce_def check_rate_def new_limiter_def sweep_windows_def MAX_TRACKED_CLIENTS_def
        SWEEP_MIN_ENTRIES_def current_entry_def window_entry_def)
  have u: "unwrap_or (ae_correlation demo_err) ''trace-7'' = ''trace-7''" by code_simp
  have d: "demo_enc (snd (into_response demo_err)) = ''1''"
    "demo_enc (with_error_id ''trace-7'' (snd (into_response demo_err))) = ''2''" by code_simp+
  then have c: "length (demo_enc (snd (into_response demo_err))) \<le> 1048576"
    "demo_dec ''trace-7'' (demo_enc (snd (into_response demo_err))) = Some (snd (into_response demo_err))"
    "demo_dec ''trace-7'' (demo_enc (with_error_id ''trace-7'' (snd (into_response demo_err))))
      = Some (with_error_id ''trace-7'' (snd (into_response demo_err)))"
    unfolding d by (simp_all add: demo_dec_def)
  have h: "rp_status (demo_handler ''trace-7'') = fst (into_response demo_err)"
    "rp_content_type (demo_handler ''trace-7'') = Some ''application/json''"
    "rp_body (demo_handler ''trace-7'') = demo_enc (snd (into_response demo_err))"
    unfolding demo_handler_def error_response_def by simp_all
  from errors_carry_correlation [where handler = demo_handler and encode = demo_enc and decode = "demo_dec ''trace-7''"
      and err = demo_err and e = demo_err and i = "''trace-7''", OF i(2,3,1) h e c surjective_pairing]
  show ?thesis unfolding u by blast
qed

section \<open>Configuration\<close>


definition demo_var :: environment where
  "demo_var = map_of [(''DATABASE_URL'', ''postgres://db''), (''SUPABASE_JWT_ISSUER'', ''iss''), (''ADMIN_JWT_ISSUER'', ''forge''),
     (''ADMIN_JWT_AUDIENCE'', ''admin''), (''ENTITLEMENT_SIGNING_PRIVATE_KEY'', ''seed''),
     (''USAGE_THRESHOLD_PERCENTS'', ''100, 80,+50,80''), (''ENTITLEMENT_VERIFY_PUBLIC_KEYS'', ''{...}'')]"

definition demo_config :: "config_error + config" where
  "demo_config = from_env (\<lambda>_. Inr [(''key-b'', ''BBBB''), (''key-a'', ''AAAA'')]) demo_var"


text \<open>A lifetime in hours or days is multiplied in \<^verbatim>\<open>u64\<close> without a check: a large one wraps to a short one.\<close>

lemma lifetime_wraps: "u64_mul 5124095576030432 3600 < 3600" "u64_mul 24 3600 = 86400"
  by (simp_all add: u64_mul_def)

end
