(* ===== verification/Spec2Isabelle.thy ===== *)
theory Spec2Isabelle
  imports Deletion_Properties Usage_Properties Rule_Properties Commerce_Properties Resync Stripe_Properties
    Outbox_Properties Entitlement_Properties Access_Properties Release_Properties Offer_Properties
    Route_Properties Edge_Properties
begin

text \<open>
  A verification development of the ForgeCustomer API server (\<^verbatim>\<open>src/api/src\<close>, Rust and Axum over
  PostgreSQL), the service that owns customers, subscriptions, licences, entitlements, metered usage,
  software releases and account deletion for the Forge products. Paths below are under
  \<^verbatim>\<open>src/api/src\<close>.

  \<^bold>\<open>The program and how its parts interact.\<close> A request passes the middleware (a correlation id, the
  security headers, the budget of its client), an extractor that turns the bearer token into a
  customer, user or operator context, and a handler. The handler checks its inputs with the rules of \<^verbatim>\<open>domain\<close> and calls
  a repository, which runs one transaction. Stripe's webhook moves commerce: an event is recorded
  once, the subscription projection follows the newest event, and the licence follows the
  projection. Entitlements are evaluated from the plan, the licence, grants, overrides and the
  commercial policy in force; they set the limits the usage ledger enforces and fill the signed
  snapshots and offline leases clients verify. Releases reach installations through campaigns.
  Every mutation of an operator is audited, every change worth telling is queued in the outbox,
  and a worker delivers the queue to DataForge.

  \<^bold>\<open>The model.\<close> The state is the record \<open>db\<close> of tables (theory \<open>Database\<close>; a table is the list of its
  rows), wrapped by \<open>shop\<close> for commerce, \<open>ent\<close> for entitlements and \<open>rel_db\<close> for releases. An
  operation is a function from its inputs and the state to an answer and the next state; a
  \<^verbatim>\<open>Result\<close> is a sum with the error on the left; a panic is \<open>None\<close>. The record \<open>env\<close> holds what an
  operation takes from its surroundings: the readings of the clocks, the uuids it draws, and how
  PostgreSQL keeps and adds numeric columns. A run is any sequence of operations in any order, given
  by step relations (\<open>account_step\<close>, \<open>ledger_step\<close>, \<open>shop_step\<close>, \<open>desk_step\<close>, \<open>rel_step\<close>,
  \<open>catalog_step\<close>) and their closures.

  \<^bold>\<open>Theories, bottom up.\<close>
  \<^item> \<open>Prelude\<close>: \<^verbatim>\<open>Result\<close> and its \<^verbatim>\<open>?\<close>, updates of lists, integer ranges, time; the locales
    \<open>idempotent_op\<close> and \<open>status_machine\<close>. \<open>Rust_Str\<close>: strings as bytes, trim, split, parsing of integers.
    \<open>F64\<close>: IEEE doubles, and the locale \<open>numeric_column\<close> for what the code relies on in PostgreSQL.
    \<open>Json\<close>: \<^verbatim>\<open>serde_json::Value\<close>. \<open>Cleaning\<close>: the locales \<open>cleaner\<close> and \<open>opt_cleaner\<close>, the contract
    that thirty validators interpret.
  \<^item> \<^verbatim>\<open>domain\<close>: \<open>Validation\<close> (installation.rs, checkout.rs, customer.rs), \<open>Admin_Validation\<close> (admin.rs),
    \<open>Update_Rules\<close> (updates.rs), \<open>License_Rules\<close> (subscription.rs, license.rs), \<open>Usage_Rules\<close> (usage.rs),
    \<open>Entitlement_Rules\<close> (entitlement.rs), \<open>Deletion_Rules\<close> (deletion.rs), \<open>Redaction\<close> (redaction.rs and
    the guard of integrations/dataforge.rs), \<open>Signing\<close> (services/signing.rs, snapshot.rs, lease.rs, the
    key ring of state.rs).
  \<^item> \<^verbatim>\<open>integrations\<close> and \<^verbatim>\<open>repositories\<close>: \<open>Stripe_Events\<close>, \<open>Licensing\<close>, \<open>Usage_Ledger\<close>, \<open>Privacy\<close>,
    \<open>Commerce\<close>, \<open>Commercial_Policy\<close>, \<open>Entitlements\<close>, \<open>Customers\<close> (customers.rs, catalog.rs),
    \<open>Customer_Admin\<close> and \<open>Releases\<close> (the two halves of admin.rs), \<open>Update_Lookup\<close> (updates.rs and the
    update handlers); \<open>Outbox_Worker\<close> (workers/outbox.rs).
  \<^item> The edge: \<open>App_Error\<close> (error.rs), \<open>Auth\<close> (auth/mod.rs, auth/extract.rs), \<open>Customer_Jwt\<close>
    (auth/customer.rs), \<open>Http_Util\<close>, \<open>Customer_Routes\<close>, \<open>Usage_Routes\<close>, \<open>Billing_Routes\<close>, \<open>Admin_Routes\<close>,
    \<open>Release_Routes\<close> (routes), \<open>Rate_Limit\<close> (middleware), \<open>Config\<close> (config.rs).
  \<^item> Facts: \<open>Licensing_Facts\<close>, \<open>Usage_Facts\<close>, \<open>Privacy_Facts\<close>, \<open>Commerce_Facts\<close>, \<open>Desk_Facts\<close> say what
    the operations change, keep and answer on their branches; \<open>System\<close>, \<open>Commerce_System\<close> and
    \<open>Desk_Facts\<close> compose them to the invariant of every reachable state; \<open>Release_Machine\<close> is the
    abstract machine the release operations refine; \<open>Tenancy\<close> and \<open>Operator_Audit\<close> quantify over all
    customer and all operator handlers. \<open>Demo\<close> is the small account the witnesses evaluate on.
  \<^item> Properties: \<open>Account_Properties\<close>, \<open>Usage_Properties\<close>, \<open>Commerce_Properties\<close>, \<open>Resync\<close>,
    \<open>Stripe_Properties\<close>, \<open>Deletion_Properties\<close>, \<open>Entitlement_Properties\<close>, \<open>Outbox_Properties\<close>,
    \<open>Rule_Properties\<close>, \<open>Access_Properties\<close>, \<open>Release_Properties\<close>, \<open>Offer_Properties\<close>,
    \<open>Route_Properties\<close>, \<open>Edge_Properties\<close>, and the first one here.

  \<^bold>\<open>What the theorems show.\<close> Whatever happens in whatever order, the tables stay sound. A
  customer's request changes nothing of another customer, an operator's request changes nothing
  without the role and a signed audit row, and nothing moves through the webhook without Stripe's
  signature. The device limit, the quota and the request budget are never exceeded,
  no activation passes a denial, the totals equal the ledger, and a reservation stays within what the
  customer is entitled to. Stripe events take effect once and in the order they were created; the
  licence is active exactly when its history says so; cloud features need a live subscription
  and a lease a usable licence. Deletion follows its state machine, waits for the
  cooling-off window, closes the account and keeps it closed to its owner.
  Releases refine an abstract machine, stay well typed, and blocked, quarantined or unpublished
  content is never offered. Tokens are accepted only under keys the
  issuer published, which it is asked for at most once a minute. The outbox drains, and every
  event comes to an end. The pure rules equal their specifications, their failures included.

  \<^bold>\<open>Parameters.\<close> Code that is not part of the repository is an argument: HMAC-SHA256, SHA-256, base64,
  Ed25519, the JWT and JWKS decoders, \<^verbatim>\<open>Uuid::parse_str\<close>, the RFC 3339 parser and printer, serde's
  encoding of a document, HTTP exchanges, the database's collation, and PostgreSQL's
  \<^verbatim>\<open>numeric\<close>. Where a theorem needs a law of one (\<open>ed_ok\<close>, \<open>codec_ok\<close>, \<open>numeric_column\<close>, a decoder that
  reads back what the encoder wrote) it is a hypothesis, and the witness instantiates it.

  \<^bold>\<open>Abstractions and bounds.\<close> A uuid is its canonical text and the two zeros of a double are one
  value. A transaction that locks the rows it reads is one step; the statements of a handler run on
  one state. Columns no modelled statement reads (\<^verbatim>\<open>updated_at\<close>, most \<^verbatim>\<open>created_at\<close>) are left out, and
  so are violations of foreign keys that no caller can cause, text with NUL bytes, and amounts beyond
  a double. Amounts of the exact ledger theorems are whole and below \<open>10 ^ 15\<close>, which a double
  represents exactly; machine integers are \<open>int\<close> with their ranges and wrap-around written out
  (\<open>in_i64\<close>, \<open>skew\<close>, \<open>u64_mul\<close>), seconds of the rate limiter stay away from the end of \<^verbatim>\<open>u64\<close>. Loops
  are structural recursions, so no operation needs fuel; the outbox needs at most \<open>MAX_ATTEMPTS\<close>
  deliveries of an event.

  \<^bold>\<open>Not modelled.\<close> The router table, serde's decoding of bodies and the JSON of successful answers, the
  constant health answers, axum's timeout and body limit, logging and the wiring of clients, the endless loops
  around the workers and the process entry (main.rs, lib.rs), and the test-only module
  auth/customer/local_commerce.rs: none of them computes anything of its own. Two statements that
  read a row without a lock and could interleave with another transaction are recorded as findings
  instead of steps.
\<close>

section \<open>The whole system\<close>



end
